(* ===== verification/Go_Prelude.thy ===== *)
theory Go_Prelude
  imports Main "HOL-Library.Word" "HOL-Library.AList" "HOL-Library.Multiset"
begin

text \<open>
  The part of Go and of its standard library that every component of the agent uses:
  the machine integers, strings, maps with an iteration order chosen by the run-time
  system, slices indexed or grouped by a key, and the clock. The generic lemmas the
  components share are collected in \<open>go_map\<close> (maps and iteration), \<open>go_index\<close>
  (lookup tables built in a loop) and \<open>go_time\<close>.
\<close>

named_theorems go_map \<open>facts about Go maps as association lists and their iteration\<close>
named_theorems go_index \<open>facts about lookup tables built by a loop over a slice\<close>
named_theorems go_time \<open>facts about times and durations\<close>

section \<open>Machine integers\<close>

text \<open>
  The agent is built for 64-bit targets, so \<^verbatim>\<open>int\<close> has 64 bits. Signed values are
  words read with \<^const>\<open>sint\<close>; addition wraps as Go's does.
\<close>

type_synonym int64 = "64 word"
type_synonym goint = "64 word"
type_synonym int32 = "32 word"
type_synonym uint64 = "64 word"

text \<open>\<^verbatim>\<open>len(xs)\<close> as an \<^verbatim>\<open>int\<close>.\<close>

definition len :: "'a list \<Rightarrow> goint" where
  "len xs = of_nat (length xs)"

section \<open>Strings\<close>

definition HasPrefix :: "string \<Rightarrow> string \<Rightarrow> bool" where
  "HasPrefix s p \<longleftrightarrow> take (length p) s = p"

fun strings_Contains :: "string \<Rightarrow> string \<Rightarrow> bool" where
  "strings_Contains [] sub = (sub = [])"
| "strings_Contains (c # s) sub = (HasPrefix (c # s) sub \<or> strings_Contains s sub)"

text \<open>\<^verbatim>\<open>%d\<close> of the \<^verbatim>\<open>fmt\<close> package.\<close>

fun nat_to_string :: "nat \<Rightarrow> string" where
  "nat_to_string n =
     (if n < 10 then [char_of (48 + n)]
      else nat_to_string (n div 10) @ [char_of (48 + n mod 10)])"

declare nat_to_string.simps [simp del]

definition int_to_string :: "int \<Rightarrow> string" where
  "int_to_string i = (if i < 0 then ''-'' @ nat_to_string (nat (- i)) else nat_to_string (nat i))"

text \<open>\<^verbatim>\<open>fmt.Sprintf("%s/%s", namespace, name)\<close>, the key of a namespaced object.\<close>

definition ns_name :: "string \<Rightarrow> string \<Rightarrow> string" where
  "ns_name ns name = ns @ ''/'' @ name"

section \<open>Maps\<close>

text \<open>
  A Go map is an association list with distinct keys. Iterating over a map visits its
  entries in an order the run-time system picks afresh for each loop: the order is a
  parameter, a permutation of the positions for every length.
\<close>

type_synonym ('k, 'v) gomap = "('k \<times> 'v) list"
type_synonym iter_order = "nat \<Rightarrow> nat list"

definition wf_map :: "('k, 'v) gomap \<Rightarrow> bool" where
  "wf_map m \<longleftrightarrow> distinct (map fst m)"

definition map_set :: "'k \<Rightarrow> 'v \<Rightarrow> ('k, 'v) gomap \<Rightarrow> ('k, 'v) gomap" where
  "map_set k v m = AList.update k v m"

definition map_del :: "'k \<Rightarrow> ('k, 'v) gomap \<Rightarrow> ('k, 'v) gomap" where
  "map_del k m = AList.delete k m"

definition order_ok :: "iter_order \<Rightarrow> bool" where
  "order_ok ord \<longleftrightarrow> (\<forall>n. mset (ord n) = mset [0..<n])"

definition map_range :: "iter_order \<Rightarrow> ('k, 'v) gomap \<Rightarrow> ('k, 'v) gomap" where
  "map_range ord m = map (\<lambda>i. m ! i) (ord (length m))"

text \<open>\<^verbatim>\<open>m[k]\<close> on a \<^verbatim>\<open>map[string]string\<close>: the empty string where the key is absent.\<close>

definition map_str :: "('k, string) gomap \<Rightarrow> 'k \<Rightarrow> string" where
  "map_str m k = (case map_of m k of None \<Rightarrow> '''' | Some v \<Rightarrow> v)"

section \<open>Loops that fill a lookup table\<close>

text \<open>\<^verbatim>\<open>for _, x := range xs { m[key(x)] = x }\<close>: the last element with a key wins.\<close>

definition index_by :: "('a \<Rightarrow> 'k) \<Rightarrow> 'a list \<Rightarrow> 'k \<rightharpoonup> 'a" where
  "index_by key xs = foldl (\<lambda>m x. m(key x \<mapsto> x)) Map.empty xs"

text \<open>
  \<^verbatim>\<open>for _, x := range xs { m[key(x)] = append(m[key(x)], x) }\<close>: an absent key reads as
  the empty slice.
\<close>

definition group_by :: "('a \<Rightarrow> 'k) \<Rightarrow> 'a list \<Rightarrow> 'k \<Rightarrow> 'a list" where
  "group_by key xs = foldl (\<lambda>m x. m(key x := m (key x) @ [x])) (\<lambda>_. []) xs"

section \<open>Time\<close>

text \<open>
  \<^verbatim>\<open>time.Time\<close> is a number of nanoseconds since the Unix epoch; \<^verbatim>\<open>time.Duration\<close> is an
  \<^verbatim>\<open>int64\<close> of nanoseconds. \<^verbatim>\<open>Sub\<close> saturates at the extreme durations.
\<close>

type_synonym Time = int
type_synonym Duration = int64

definition Millisecond :: Duration where "Millisecond = 1000000"
definition Second :: Duration where "Second = 1000000000"
definition Minute :: Duration where "Minute = 60 * Second"

definition time_Add :: "Time \<Rightarrow> Duration \<Rightarrow> Time" where
  "time_Add t d = t + sint d"

definition time_Sub :: "Time \<Rightarrow> Time \<Rightarrow> Duration" where
  "time_Sub t u = word_of_int (max (- (2 ^ 63)) (min (2 ^ 63 - 1) (t - u)))"

definition UnixMilli :: "Time \<Rightarrow> int64" where
  "UnixMilli t = word_of_int (t div 1000000)"

text \<open>\<^verbatim>\<open>d.Milliseconds()\<close> truncates towards zero.\<close>

definition Milliseconds :: "Duration \<Rightarrow> int64" where
  "Milliseconds d = word_of_int (sgn (sint d) * (\<bar>sint d\<bar> div 1000000))"

section \<open>Errors\<close>

text \<open>
  Values of the \<^verbatim>\<open>error\<close> interface: a package-level \<^verbatim>\<open>errors.New\<close> value, which is only
  equal to itself and is named after its variable, or the result of \<^verbatim>\<open>fmt.Errorf\<close> with
  the error it wraps (\<^verbatim>\<open>%w\<close>), if any.
\<close>

datatype goerror = Sentinel string string | Errorf string "goerror option"

fun error_text :: "goerror \<Rightarrow> string" where
  "error_text (Sentinel name msg) = msg"
| "error_text (Errorf msg w) = msg"

text \<open>\<^verbatim>\<open>errors.Is\<close>.\<close>

fun errors_Is :: "goerror \<Rightarrow> goerror \<Rightarrow> bool" where
  "errors_Is (Sentinel n m) target = (target = Sentinel n m)"
| "errors_Is (Errorf m None) target = (target = Errorf m None)"
| "errors_Is (Errorf m (Some e)) target = (target = Errorf m (Some e) \<or> errors_Is e target)"

section \<open>Lemmas on strings\<close>

lemma HasPrefix_append [simp]: "HasPrefix (p @ s) p"
  by (simp add: HasPrefix_def)

lemma strings_Contains_iff: "strings_Contains s sub \<longleftrightarrow> (\<exists>a b. s = a @ sub @ b)"
proof (induction s)
  case Nil
  then show ?case by auto
next
  case (Cons c s)
  have "HasPrefix (c # s) sub \<longleftrightarrow> (\<exists>b. c # s = sub @ b)"
    unfolding HasPrefix_def by (metis append_eq_conv_conj append_take_drop_id)
  moreover have "(\<exists>a b. c # s = a @ sub @ b) \<longleftrightarrow> (\<exists>b. c # s = sub @ b) \<or> (\<exists>a b. s = a @ sub @ b)"
    by (metis append_Cons append_Nil list.inject neq_Nil_conv)
  ultimately show ?case using Cons by simp
qed

lemma strings_Contains_mid [simp]: "strings_Contains (a @ sub @ b) sub"
  by (auto simp: strings_Contains_iff)

lemma ns_name_inject:
  assumes "CHR ''/'' \<notin> set ns" and "CHR ''/'' \<notin> set ns'"
  shows "ns_name ns n = ns_name ns' n' \<longleftrightarrow> ns = ns' \<and> n = n'"
proof
  assume eq: "ns_name ns n = ns_name ns' n'"
  have cut: "takeWhile (\<lambda>c. c \<noteq> CHR ''/'') (ns_name a b) = a" if "CHR ''/'' \<notin> set a" for a b
    using that unfolding ns_name_def
    by (induction a) auto
  from eq cut [OF assms(1), of n] cut [OF assms(2), of n'] have "ns = ns'" by simp
  with eq show "ns = ns' \<and> n = n'" by (simp add: ns_name_def)
qed simp

section \<open>Lemmas on maps and iteration\<close>

lemma wf_map_Nil [simp]: "wf_map []"
  by (simp add: wf_map_def)

lemma wf_map_set [simp, go_map]: "wf_map m \<Longrightarrow> wf_map (map_set k v m)"
  by (simp add: wf_map_def map_set_def distinct_update)

lemma wf_map_del [simp, go_map]: "wf_map m \<Longrightarrow> wf_map (map_del k m)"
  by (simp add: wf_map_def map_del_def distinct_delete)

lemma map_of_set [simp, go_map]: "map_of (map_set k v m) = (map_of m)(k \<mapsto> v)"
  by (simp add: map_set_def update_conv')

lemma map_of_del [simp, go_map]: "map_of (map_del k m) = (map_of m)(k := None)"
  by (simp add: map_del_def delete_conv')

lemma map_range_mset [go_map]: "order_ok ord \<Longrightarrow> mset (map_range ord m) = mset m"
proof -
  assume "order_ok ord"
  then have "mset (map_range ord m) = image_mset ((!) m) (mset [0..<length m])"
    by (simp add: map_range_def order_ok_def)
  also have "\<dots> = mset (map ((!) m) [0..<length m])" by (simp only: mset_map)
  also have "\<dots> = mset m" by (simp add: map_nth)
  finally show ?thesis .
qed

lemma map_range_set [go_map]: "order_ok ord \<Longrightarrow> set (map_range ord m) = set m"
  by (metis map_range_mset set_mset_mset)

lemma map_range_length [go_map]: "order_ok ord \<Longrightarrow> length (map_range ord m) = length m"
  by (metis map_range_mset size_mset)

lemma map_range_wf [go_map]: "order_ok ord \<Longrightarrow> wf_map m \<Longrightarrow> wf_map (map_range ord m)"
  unfolding wf_map_def
  by (metis map_range_mset mset_map mset_eq_imp_distinct_iff)

lemma map_range_map_of [go_map]:
  "order_ok ord \<Longrightarrow> wf_map m \<Longrightarrow> map_of (map_range ord m) = map_of m"
  by (metis map_of_inject_set map_range_set map_range_wf wf_map_def)

lemma wf_map_filter [go_map]: "wf_map m \<Longrightarrow> wf_map (filter P m)"
  by (simp add: wf_map_def distinct_map_filter)

lemma map_of_filter [go_map]:
  "wf_map m \<Longrightarrow>
   map_of (filter P m) k =
     (case map_of m k of None \<Rightarrow> None | Some v \<Rightarrow> if P (k, v) then Some v else None)"
  unfolding wf_map_def
  by (induction m) (auto split: option.splits simp: map_of_eq_None_iff dest: map_of_SomeD)

lemma wf_map_mset [go_map]:
  assumes "wf_map m"
  shows "mset m = image_mset (\<lambda>k. (k, the (map_of m k))) (mset_set (dom (map_of m)))"
proof -
  have "map (\<lambda>k. (k, the (map_of m k))) (map fst m) = m"
    using assms by (auto simp: wf_map_def intro!: map_idI)
  then have "mset m = image_mset (\<lambda>k. (k, the (map_of m k))) (mset (map fst m))"
    by (metis mset_map)
  moreover have "mset_set (dom (map_of m)) = mset (map fst m)"
    using assms mset_set_set [of "map fst m"] by (simp add: wf_map_def dom_map_of_conv_image_fst)
  ultimately show ?thesis by simp
qed

lemma forward_order_ok [simp]: "order_ok (\<lambda>n. [0..<n])"
  by (simp add: order_ok_def)

lemma backward_order_ok [simp]: "order_ok (\<lambda>n. rev [0..<n])"
  by (simp add: order_ok_def)

lemma map_range_forward [simp]: "map_range (\<lambda>n. [0..<n]) m = m"
  by (simp add: map_range_def map_nth)

lemma map_range_backward [simp]: "map_range (\<lambda>n. rev [0..<n]) m = rev m"
  by (simp add: map_range_def rev_map [symmetric] map_nth)

section \<open>Lemmas on lookup tables\<close>

lemma index_by_snoc [simp]: "index_by key (xs @ [x]) = (index_by key xs)(key x \<mapsto> x)"
  by (simp add: index_by_def)

lemma index_by_Nil [simp]: "index_by key [] = Map.empty"
  by (simp add: index_by_def)

lemma index_by_SomeD [go_index]: "index_by key xs k = Some x \<Longrightarrow> x \<in> set xs \<and> key x = k"
  by (induction xs rule: rev_induct) (auto split: if_splits)

lemma index_by_None_iff [go_index]: "index_by key xs k = None \<longleftrightarrow> k \<notin> key ` set xs"
  by (induction xs rule: rev_induct) auto

lemma index_by_unique [go_index]:
  "distinct (map key xs) \<Longrightarrow> x \<in> set xs \<Longrightarrow> index_by key xs (key x) = Some x"
  by (induction xs rule: rev_induct) (auto simp: image_iff)

lemma group_by_snoc [simp]:
  "group_by key (xs @ [x]) = (group_by key xs)(key x := group_by key xs (key x) @ [x])"
  by (simp add: group_by_def)

lemma group_by_filter [go_index]: "group_by key xs k = filter (\<lambda>x. key x = k) xs"
proof (induction xs rule: rev_induct)
  case Nil
  then show ?case by (simp add: group_by_def)
next
  case (snoc x xs)
  then show ?case by auto
qed

section \<open>Lemmas on machine integers and durations\<close>

lemma sint_word_of_int_range:
  "- (2 ^ 63) \<le> k \<Longrightarrow> k < 2 ^ 63 \<Longrightarrow> sint (word_of_int k :: int64) = k"
  by (simp add: sint_sbintrunc' signed_take_bit_int_eq_self)

lemma sint_eq_iff:
  assumes "- (2 ^ 63) \<le> k" and "k < 2 ^ 63"
  shows "sint (c :: int64) = k \<longleftrightarrow> c = word_of_int k"
  using sint_word_of_int_range [OF assms] by (metis signed_word_eqI)

lemma sint_of_nat_small: "n < 2 ^ 63 \<Longrightarrow> sint (of_nat n :: int64) = int n"
  using sint_word_of_int_range [of "int n"] by simp

lemma sint_Minute [simp]: "sint Minute = 60000000000"
  by (simp add: Minute_def Second_def)

lemma sint_Second [simp]: "sint Second = 1000000000"
  by (simp add: Second_def)

lemma sint_time_Sub [go_time]:
  "sint (time_Sub t u) = max (- (2 ^ 63)) (min (2 ^ 63 - 1) (t - u))"
  unfolding time_Sub_def by (rule sint_word_of_int_range) (simp_all add: min_def max_def)

end
