(* ===== verification/Float64.thy ===== *)
theory Float64
  imports Complex_Main Go_Prelude "HOL-Library.Log_Nat"
begin

text \<open>
  Go's \<^verbatim>\<open>float64\<close>: IEEE 754 binary64 with round-to-nearest-even. A finite non-zero value
  is its exact rational; every operation computes the exact rational result and rounds
  it once, so that sums have the rounding and the overflow the agent's totals have
  (addition is commutative, not associative). The theory also holds the few facts the
  components need: what is representable is not changed by rounding, small integers
  are exact, and sums of non-negative values stay non-negative.
\<close>

named_theorems f64_intros \<open>closure of the non-negative values under the operations\<close>

section \<open>Values\<close>

text \<open>The flag of \<open>Infinity\<close> and \<open>Zero\<close> is the sign bit.\<close>

datatype float64 = NaN | Infinity bool | Zero bool | Fin rat

section \<open>Rounding\<close>

definition floor_log2 :: "rat \<Rightarrow> int" where
  "floor_log2 q =
     (let (n, d) = quotient_of q; k = bitlen n - bitlen d
      in if 2 powi k \<le> q then k else k - 1)"

text \<open>The exponent of the last place: 52 bits below the leading one, or the subnormal limit.\<close>

definition ulp_exp :: "rat \<Rightarrow> int" where
  "ulp_exp q = max (floor_log2 \<bar>q\<bar> - 52) (- 1074)"

definition round_half_even :: "rat \<Rightarrow> int" where
  "round_half_even q =
     (let f = \<lfloor>q\<rfloor>; d = q - of_int f
      in if d < 1 / 2 then f else if 1 / 2 < d then f + 1 else if even f then f else f + 1)"

definition f64_round :: "rat \<Rightarrow> float64" where
  "f64_round q =
     (if q = 0 then Zero False
      else let u = 2 powi (ulp_exp q); r = of_int (round_half_even (q / u)) * u
           in if r = 0 then Zero (q < 0)
              else if 2 ^ 1024 \<le> \<bar>r\<bar> then Infinity (q < 0)
              else Fin r)"

section \<open>Operations\<close>

abbreviation f64_zero :: float64 where "f64_zero \<equiv> Zero False"

fun f64_val :: "float64 \<Rightarrow> rat" where
  "f64_val (Fin q) = q"
| "f64_val _ = 0"

fun f64_sign :: "float64 \<Rightarrow> bool" where
  "f64_sign NaN = False"
| "f64_sign (Infinity s) = s"
| "f64_sign (Zero s) = s"
| "f64_sign (Fin q) = (q < 0)"

fun f64_add :: "float64 \<Rightarrow> float64 \<Rightarrow> float64" where
  "f64_add NaN _ = NaN"
| "f64_add _ NaN = NaN"
| "f64_add (Infinity s) (Infinity t) = (if s = t then Infinity s else NaN)"
| "f64_add (Infinity s) _ = Infinity s"
| "f64_add _ (Infinity t) = Infinity t"
| "f64_add (Zero s) (Zero t) = Zero (s \<and> t)"
| "f64_add x y = f64_round (f64_val x + f64_val y)"

fun f64_mul :: "float64 \<Rightarrow> float64 \<Rightarrow> float64" where
  "f64_mul NaN _ = NaN"
| "f64_mul _ NaN = NaN"
| "f64_mul (Infinity s) (Zero t) = NaN"
| "f64_mul (Zero s) (Infinity t) = NaN"
| "f64_mul (Fin p) (Fin q) = f64_round (p * q)"
| "f64_mul (Infinity s) y = Infinity (s \<noteq> f64_sign y)"
| "f64_mul x (Infinity t) = Infinity (f64_sign x \<noteq> t)"
| "f64_mul x y = Zero (f64_sign x \<noteq> f64_sign y)"

fun f64_div :: "float64 \<Rightarrow> float64 \<Rightarrow> float64" where
  "f64_div NaN _ = NaN"
| "f64_div _ NaN = NaN"
| "f64_div (Infinity s) (Infinity t) = NaN"
| "f64_div (Zero s) (Zero t) = NaN"
| "f64_div (Fin p) (Fin q) = f64_round (p / q)"
| "f64_div (Infinity s) y = Infinity (s \<noteq> f64_sign y)"
| "f64_div x (Infinity t) = Zero (f64_sign x \<noteq> t)"
| "f64_div x (Zero t) = Infinity (f64_sign x \<noteq> t)"
| "f64_div x y = Zero (f64_sign x \<noteq> f64_sign y)"

text \<open>Comparison: every comparison with \<open>NaN\<close> is false, and the two zeros are equal.\<close>

fun f64_less :: "float64 \<Rightarrow> float64 \<Rightarrow> bool" where
  "f64_less NaN _ = False"
| "f64_less _ NaN = False"
| "f64_less (Infinity s) (Infinity t) = (s \<and> \<not> t)"
| "f64_less (Infinity s) _ = s"
| "f64_less _ (Infinity t) = (\<not> t)"
| "f64_less x y = (f64_val x < f64_val y)"

fun f64_eq :: "float64 \<Rightarrow> float64 \<Rightarrow> bool" where
  "f64_eq NaN _ = False"
| "f64_eq _ NaN = False"
| "f64_eq (Infinity s) (Infinity t) = (s = t)"
| "f64_eq (Infinity s) _ = False"
| "f64_eq _ (Infinity t) = False"
| "f64_eq x y = (f64_val x = f64_val y)"

text \<open>\<^verbatim>\<open>float64(n)\<close> of an integer.\<close>

definition f64_of_int :: "int \<Rightarrow> float64" where
  "f64_of_int n = f64_round (of_int n)"

text \<open>
  \<^verbatim>\<open>int64(x)\<close>: the value without its fraction. Where that does not fit, Go leaves the result to
  the platform: it is given by the parameter \<open>wide\<close>.
\<close>

definition f64_trunc :: "rat \<Rightarrow> int" where
  "f64_trunc q = (if q < 0 then - \<lfloor>- q\<rfloor> else \<lfloor>q\<rfloor>)"

definition f64_to_int64 :: "(float64 \<Rightarrow> int64) \<Rightarrow> float64 \<Rightarrow> int64" where
  "f64_to_int64 wide x =
     (case x of
        Zero _ \<Rightarrow> 0
      | Fin q \<Rightarrow> if - (2 ^ 63) \<le> f64_trunc q \<and> f64_trunc q < 2 ^ 63 then word_of_int (f64_trunc q) else wide x
      | _ \<Rightarrow> wide x)"

text \<open>A running total, added up in the order of the slice.\<close>

definition f64_sum :: "float64 list \<Rightarrow> float64" where
  "f64_sum xs = foldl f64_add (Zero False) xs"

text \<open>Not negative and not \<open>NaN\<close>: what a resource amount is.\<close>

fun f64_nonneg :: "float64 \<Rightarrow> bool" where
  "f64_nonneg NaN = False"
| "f64_nonneg (Infinity s) = (\<not> s)"
| "f64_nonneg (Zero s) = True"
| "f64_nonneg (Fin q) = (0 \<le> q)"

definition representable :: "rat \<Rightarrow> bool" where
  "representable q \<longleftrightarrow>
     (\<exists>m e. q = of_int m * 2 powi e \<and> \<bar>m\<bar> < 2 ^ 53 \<and> - 1074 \<le> e \<and> \<bar>q\<bar> < 2 ^ 1024)"

section \<open>Rounding keeps what is representable\<close>

lemma powi2_less_imp_less: "(2::rat) powi a < 2 powi b \<Longrightarrow> a < b"
  by (metis linorder_not_le one_le_numeral power_int_increasing)

lemma floor_log2_upper:
  assumes "0 < q" and "q < 2 powi k"
  shows "floor_log2 q < k"
proof -
  obtain n d where nd: "quotient_of q = (n, d)" by (cases "quotient_of q")
  let ?k = "bitlen n - bitlen d"
  have d: "0 < d" using nd by (simp add: quotient_of_denom_pos)
  have q: "q = of_int n / of_int d" using nd by (simp add: quotient_of_div)
  with d assms(1) have n: "0 < n" by (simp add: zero_less_divide_iff)
  have nlow: "2 ^ nat (bitlen n - 1) \<le> n" and dup: "d < 2 ^ nat (bitlen d)"
    using bitlen_bounds [OF n] bitlen_bounds [OF d] by auto
  have bn: "0 < bitlen n" and bd: "0 < bitlen d"
    using n d bitlen_eq_zero_iff [of n] bitlen_eq_zero_iff [of d] bitlen_nonneg [of n] bitlen_nonneg [of d]
    by linarith+
  have low: "2 powi (?k - 1) < q"
  proof -
    have "(2::rat) powi (?k - 1) = 2 powi (bitlen n - 1) / 2 powi (bitlen d)"
      by (simp add: power_int_diff [symmetric] algebra_simps)
    also have "\<dots> = 2 ^ nat (bitlen n - 1) / 2 ^ nat (bitlen d)"
      using bn bd by (simp add: power_int_def)
    also have "\<dots> < of_int n / of_int d"
    proof -
      have a: "(2::rat) ^ nat (bitlen n - 1) \<le> of_int n"
        using nlow by (metis of_int_le_iff of_int_numeral of_int_power)
      have b: "of_int d < (2::rat) ^ nat (bitlen d)"
        using dup by (metis of_int_less_iff of_int_numeral of_int_power)
      have "(2::rat) ^ nat (bitlen n - 1) * of_int d < of_int n * 2 ^ nat (bitlen d)"
        using a b d by (intro mult_le_less_imp_less) auto
      then show ?thesis using d by (simp add: field_simps)
    qed
    finally show ?thesis using q by simp
  qed
  show ?thesis
  proof (cases "2 powi ?k \<le> q")
    case True
    with assms(2) have "(2::rat) powi ?k < 2 powi k" by simp
    then have "?k < k" by (rule powi2_less_imp_less)
    with True nd show ?thesis by (simp add: floor_log2_def)
  next
    case False
    from low assms(2) have "(2::rat) powi (?k - 1) < 2 powi k" by simp
    then have "?k - 1 < k" by (rule powi2_less_imp_less)
    with False nd show ?thesis by (simp add: floor_log2_def)
  qed
qed

lemma f64_round_0 [simp]: "f64_round 0 = Zero False"
  by (simp add: f64_round_def)

lemma round_half_even_of_int [simp]: "round_half_even (of_int n) = n"
  by (simp add: round_half_even_def)

lemma round_half_even_nonneg: "0 \<le> q \<Longrightarrow> 0 \<le> round_half_even q"
  by (auto simp: round_half_even_def Let_def)

lemma f64_round_representable:
  assumes "representable q" and "q \<noteq> 0"
  shows "f64_round q = Fin q"
proof -
  from assms(1) obtain m e where q: "q = of_int m * 2 powi e" and m: "\<bar>m\<bar> < 2 ^ 53"
    and e: "- 1074 \<le> e" and big: "\<bar>q\<bar> < 2 ^ 1024"
    by (auto simp: representable_def)
  let ?E = "ulp_exp q"
  have "\<bar>q\<bar> = of_int \<bar>m\<bar> * 2 powi e" using q by (simp add: abs_mult)
  also have "\<dots> < 2 ^ 53 * 2 powi e"
  proof (rule mult_strict_right_mono)
    show "of_int \<bar>m\<bar> < (2 ^ 53 :: rat)"
      using m by (metis of_int_less_iff of_int_numeral of_int_power)
  qed simp
  also have "\<dots> = 2 powi (53 + e)" by (simp add: power_int_add)
  finally have "floor_log2 \<bar>q\<bar> < 53 + e" using assms(2) by (intro floor_log2_upper) auto
  then have Ee: "?E \<le> e" using e by (simp add: ulp_exp_def)
  have "q / 2 powi ?E = of_int m * 2 powi (e - ?E)"
    using q by (simp add: power_int_diff)
  also have "\<dots> = of_int (m * 2 ^ nat (e - ?E))"
    using Ee by (simp add: power_int_def)
  finally have "q / 2 powi ?E = of_int (m * 2 ^ nat (e - ?E))" .
  then have "of_int (round_half_even (q / 2 powi ?E)) * 2 powi ?E = q"
    by (metis nonzero_divide_eq_eq power_int_eq_0_iff round_half_even_of_int zero_neq_numeral)
  then have "f64_round q = (if q = 0 then Zero (q < 0) else if 2 ^ 1024 \<le> \<bar>q\<bar> then Infinity (q < 0) else Fin q)"
    using assms(2) unfolding f64_round_def Let_def by simp
  with assms(2) big show ?thesis by simp
qed

lemma representable_of_int: "\<bar>n\<bar> < 2 ^ 53 \<Longrightarrow> representable (of_int n)"
proof -
  assume n: "\<bar>n\<bar> < 2 ^ 53"
  then have "of_int \<bar>n\<bar> < (2 ^ 53 :: rat)"
    by (metis of_int_less_iff of_int_numeral of_int_power)
  also have "\<dots> \<le> 2 ^ 1024" by (rule power_increasing) auto
  finally have "\<bar>of_int n\<bar> < (2 ^ 1024 :: rat)" by simp
  moreover have "(of_int n :: rat) = of_int n * 2 powi 0" by simp
  ultimately show ?thesis unfolding representable_def using n by (intro exI [of _ n] exI [of _ 0]) auto
qed

lemma f64_of_int_exact: "\<bar>n\<bar> < 2 ^ 53 \<Longrightarrow> f64_val (f64_of_int n) = of_int n"
  by (cases "n = 0") (simp_all add: f64_of_int_def f64_round_representable representable_of_int)

section \<open>Sums\<close>

lemma f64_add_commute: "f64_add x y = f64_add y x"
  by (cases x; cases y) (auto simp: add.commute)

lemma f64_round_nonneg [f64_intros]: "0 \<le> q \<Longrightarrow> f64_nonneg (f64_round q)"
  by (auto simp: f64_round_def Let_def round_half_even_nonneg zero_le_mult_iff)

lemma f64_val_nonneg: "f64_nonneg x \<Longrightarrow> 0 \<le> f64_val x"
  by (cases x) auto

lemma f64_add_nonneg [f64_intros]: "f64_nonneg x \<Longrightarrow> f64_nonneg y \<Longrightarrow> f64_nonneg (f64_add x y)"
  by (cases x; cases y) (auto simp: f64_round_nonneg)

lemma foldl_f64_add_nonneg:
  "f64_nonneg a \<Longrightarrow> list_all f64_nonneg xs \<Longrightarrow> f64_nonneg (foldl f64_add a xs)"
  by (induction xs arbitrary: a) (auto intro: f64_add_nonneg)

lemma f64_sum_nonneg [f64_intros]: "list_all f64_nonneg xs \<Longrightarrow> f64_nonneg (f64_sum xs)"
  unfolding f64_sum_def by (rule foldl_f64_add_nonneg) simp

end
