(* ===== verification/Model_Node.thy ===== *)
theory Model_Node
  imports Float64
begin

text \<open>
  Nodes, their devices and the metrics-server data of a node.
\<close>

text \<open>GPUDeviceInfo holds information about a single GPU device on a node. (\<^verbatim>\<open>pkg/model/gpu.go\<close>)\<close>

record GPUDeviceInfo =
  UUID :: string
  DeviceIndex :: string
  ModelName :: string
  UtilizationPercent :: "float64 option"
  TensorActivePercent :: "float64 option"
  MemoryUtilPercent :: "float64 option"
  MemoryUsedBytes :: "int64 option"
  MemoryTotalBytes :: "int64 option"
  TemperatureCelsius :: "float64 option"
  PowerWatts :: "float64 option"
  MIGProfile :: string
  MIGInstanceID :: string

definition zero_GPUDeviceInfo :: GPUDeviceInfo where
  "zero_GPUDeviceInfo =
    \<lparr>GPUDeviceInfo.UUID = '''',
     GPUDeviceInfo.DeviceIndex = '''',
     GPUDeviceInfo.ModelName = '''',
     GPUDeviceInfo.UtilizationPercent = None,
     GPUDeviceInfo.TensorActivePercent = None,
     GPUDeviceInfo.MemoryUtilPercent = None,
     GPUDeviceInfo.MemoryUsedBytes = None,
     GPUDeviceInfo.MemoryTotalBytes = None,
     GPUDeviceInfo.TemperatureCelsius = None,
     GPUDeviceInfo.PowerWatts = None,
     GPUDeviceInfo.MIGProfile = '''',
     GPUDeviceInfo.MIGInstanceID = ''''\<rparr>"

text \<open>TaintInfo represents a Kubernetes node taint. (\<^verbatim>\<open>pkg/model/node.go\<close>)\<close>

record TaintInfo =
  Key :: string
  Value :: string
  Effect :: string

text \<open>NodeConditionInfo represents a node condition (Ready, MemoryPressure, etc.). (\<^verbatim>\<open>pkg/model/node.go\<close>)\<close>

record NodeConditionInfo =
  Type :: string
  Status :: string
  Reason :: string
  Message :: string

text \<open>NodeInfo represents a Kubernetes node with capacity, allocatable resources, usage metrics, and cloud provider metadata. (\<^verbatim>\<open>pkg/model/node.go\<close>)\<close>

record NodeInfo =
  Name :: string
  UID :: string
  ProviderID :: string
  InstanceID :: string
  InstanceType :: string
  Region :: string
  Zone :: string
  CapacityType :: string
  NodeGroup :: string
  Architecture :: string
  OS :: string
  KubeletVersion :: string
  ContainerRuntime :: string
  PodCIDR :: string
  PodCIDRs :: "string list"
  OSImage :: string
  KernelVersion :: string
  KubeProxyVersion :: string
  CPUCapacityCores :: float64
  MemoryCapacityBytes :: int64
  EphemeralStorageBytes :: int64
  EphemeralStorageAllocatable :: int64
  PodCapacity :: goint
  GPUCapacity :: goint
  CPUAllocatable :: float64
  MemoryAllocatable :: int64
  PodAllocatable :: goint
  GPUAllocatable :: goint
  GPUModel :: string
  GPUDriverVersion :: string
  MIGEnabled :: bool
  MIGDevices :: "(string, goint) gomap"
  GPUUtilizationPercent :: "float64 option"
  GPUTensorActivePercent :: "float64 option"
  GPUMemoryUtilPercent :: "float64 option"
  GPUMemoryUsedBytes :: "int64 option"
  GPUMemoryTotalBytes :: "int64 option"
  GPUTemperatureCelsius :: "float64 option"
  GPUPowerWatts :: "float64 option"
  GPUDevices :: "GPUDeviceInfo list"
  CPUUsageCores :: "float64 option"
  MemoryUsageBytes :: "int64 option"
  Ready :: bool
  Unschedulable :: bool
  Taints :: "TaintInfo list"
  Conditions :: "NodeConditionInfo list"
  Labels :: "(string, string) gomap"
  Annotations :: "(string, string) gomap"
  CreationTimestamp :: int64

definition zero_NodeInfo :: NodeInfo where
  "zero_NodeInfo =
    \<lparr>NodeInfo.Name = '''',
     NodeInfo.UID = '''',
     NodeInfo.ProviderID = '''',
     NodeInfo.InstanceID = '''',
     NodeInfo.InstanceType = '''',
     NodeInfo.Region = '''',
     NodeInfo.Zone = '''',
     NodeInfo.CapacityType = '''',
     NodeInfo.NodeGroup = '''',
     NodeInfo.Architecture = '''',
     NodeInfo.OS = '''',
     NodeInfo.KubeletVersion = '''',
     NodeInfo.ContainerRuntime = '''',
     NodeInfo.PodCIDR = '''',
     NodeInfo.PodCIDRs = [],
     NodeInfo.OSImage = '''',
     NodeInfo.KernelVersion = '''',
     NodeInfo.KubeProxyVersion = '''',
     NodeInfo.CPUCapacityCores = f64_zero,
     NodeInfo.MemoryCapacityBytes = 0,
     NodeInfo.EphemeralStorageBytes = 0,
     NodeInfo.EphemeralStorageAllocatable = 0,
     NodeInfo.PodCapacity = 0,
     NodeInfo.GPUCapacity = 0,
     NodeInfo.CPUAllocatable = f64_zero,
     NodeInfo.MemoryAllocatable = 0,
     NodeInfo.PodAllocatable = 0,
     NodeInfo.GPUAllocatable = 0,
     NodeInfo.GPUModel = '''',
     NodeInfo.GPUDriverVersion = '''',
     NodeInfo.MIGEnabled = False,
     NodeInfo.MIGDevices = [],
     NodeInfo.GPUUtilizationPercent = None,
     NodeInfo.GPUTensorActivePercent = None,
     NodeInfo.GPUMemoryUtilPercent = None,
     NodeInfo.GPUMemoryUsedBytes = None,
     NodeInfo.GPUMemoryTotalBytes = None,
     NodeInfo.GPUTemperatureCelsius = None,
     NodeInfo.GPUPowerWatts = None,
     NodeInfo.GPUDevices = [],
     NodeInfo.CPUUsageCores = None,
     NodeInfo.MemoryUsageBytes = None,
     NodeInfo.Ready = False,
     NodeInfo.Unschedulable = False,
     NodeInfo.Taints = [],
     NodeInfo.Conditions = [],
     NodeInfo.Labels = [],
     NodeInfo.Annotations = [],
     NodeInfo.CreationTimestamp = 0\<rparr>"

text \<open>NodeMetrics represents metrics-server data for a node. (\<^verbatim>\<open>pkg/model/node.go\<close>)\<close>

record NodeMetrics =
  Name :: string
  CPUUsageCores :: float64
  MemoryUsageBytes :: int64
  Timestamp :: int64

definition zero_NodeMetrics :: NodeMetrics where
  "zero_NodeMetrics =
    \<lparr>NodeMetrics.Name = '''',
     NodeMetrics.CPUUsageCores = f64_zero,
     NodeMetrics.MemoryUsageBytes = 0,
     NodeMetrics.Timestamp = 0\<rparr>"

end
