(* ===== verification/Model_Pod.thy ===== *)
theory Model_Pod
  imports Float64
begin

text \<open>
  Pods, containers and the metrics-server data of a pod.
\<close>

text \<open>ContainerPortInfo represents a port exposed by a container. (\<^verbatim>\<open>pkg/model/pod.go\<close>)\<close>

record ContainerPortInfo =
  Name :: string
  ContainerPort :: int32
  Protocol :: string

text \<open>ContainerInfo represents a container within a pod including spec, status, and metrics. (\<^verbatim>\<open>pkg/model/pod.go\<close>)\<close>

record ContainerInfo =
  Name :: string
  Image :: string
  ImageID :: string
  CPURequestCores :: float64
  MemoryRequestBytes :: int64
  CPULimitCores :: float64
  MemoryLimitBytes :: int64
  EphemeralStorageRequest :: int64
  EphemeralStorageLimit :: int64
  GPURequest :: goint
  GPULimit :: goint
  CPUUsageCores :: "float64 option"
  MemoryUsageBytes :: "int64 option"
  GPUUtilizationPercent :: "float64 option"
  GPUMemoryUsedBytes :: "int64 option"
  Ready :: bool
  Started :: "bool option"
  RestartCount :: int32
  State :: string
  StateReason :: string
  StateMessage :: string
  LastTerminationReason :: string
  ExitCode :: "int32 option"
  Ports :: "ContainerPortInfo list"

definition zero_ContainerInfo :: ContainerInfo where
  "zero_ContainerInfo =
    \<lparr>ContainerInfo.Name = '''',
     ContainerInfo.Image = '''',
     ContainerInfo.ImageID = '''',
     ContainerInfo.CPURequestCores = f64_zero,
     ContainerInfo.MemoryRequestBytes = 0,
     ContainerInfo.CPULimitCores = f64_zero,
     ContainerInfo.MemoryLimitBytes = 0,
     ContainerInfo.EphemeralStorageRequest = 0,
     ContainerInfo.EphemeralStorageLimit = 0,
     ContainerInfo.GPURequest = 0,
     ContainerInfo.GPULimit = 0,
     ContainerInfo.CPUUsageCores = None,
     ContainerInfo.MemoryUsageBytes = None,
     ContainerInfo.GPUUtilizationPercent = None,
     ContainerInfo.GPUMemoryUsedBytes = None,
     ContainerInfo.Ready = False,
     ContainerInfo.Started = None,
     ContainerInfo.RestartCount = 0,
     ContainerInfo.State = '''',
     ContainerInfo.StateReason = '''',
     ContainerInfo.StateMessage = '''',
     ContainerInfo.LastTerminationReason = '''',
     ContainerInfo.ExitCode = None,
     ContainerInfo.Ports = []\<rparr>"

text \<open>PodConditionInfo represents a pod condition (Ready, PodScheduled, etc.). (\<^verbatim>\<open>pkg/model/pod.go\<close>)\<close>

record PodConditionInfo =
  Type :: string
  Status :: string
  Reason :: string
  Message :: string

text \<open>PodInfo represents a Kubernetes pod with ownership, containers, and scheduling info. (\<^verbatim>\<open>pkg/model/pod.go\<close>)\<close>

record PodInfo =
  Name :: string
  UID :: string
  Namespace :: string
  NodeName :: string
  Phase :: string
  Reason :: string
  QoSClass :: string
  OwnerKind :: string
  OwnerName :: string
  OwnerUID :: string
  Containers :: "ContainerInfo list"
  InitContainers :: "ContainerInfo list"
  Labels :: "(string, string) gomap"
  Annotations :: "(string, string) gomap"
  CreationTimestamp :: int64
  PriorityClassName :: string
  Priority :: "int32 option"
  SchedulerName :: string
  ServiceAccountName :: string
  PodIP :: string
  HostIP :: string
  HostNetwork :: bool
  HasHostPath :: bool
  HasEmptyDir :: bool
  Conditions :: "PodConditionInfo list"

definition zero_PodInfo :: PodInfo where
  "zero_PodInfo =
    \<lparr>PodInfo.Name = '''',
     PodInfo.UID = '''',
     PodInfo.Namespace = '''',
     PodInfo.NodeName = '''',
     PodInfo.Phase = '''',
     PodInfo.Reason = '''',
     PodInfo.QoSClass = '''',
     PodInfo.OwnerKind = '''',
     PodInfo.OwnerName = '''',
     PodInfo.OwnerUID = '''',
     PodInfo.Containers = [],
     PodInfo.InitContainers = [],
     PodInfo.Labels = [],
     PodInfo.Annotations = [],
     PodInfo.CreationTimestamp = 0,
     PodInfo.PriorityClassName = '''',
     PodInfo.Priority = None,
     PodInfo.SchedulerName = '''',
     PodInfo.ServiceAccountName = '''',
     PodInfo.PodIP = '''',
     PodInfo.HostIP = '''',
     PodInfo.HostNetwork = False,
     PodInfo.HasHostPath = False,
     PodInfo.HasEmptyDir = False,
     PodInfo.Conditions = []\<rparr>"

text \<open>ContainerMetrics represents metrics-server data for a single container. (\<^verbatim>\<open>pkg/model/pod.go\<close>)\<close>

record ContainerMetrics =
  Name :: string
  CPUUsageCores :: float64
  MemoryUsageBytes :: int64

text \<open>PodMetrics represents metrics-server data for a pod. (\<^verbatim>\<open>pkg/model/pod.go\<close>)\<close>

record PodMetrics =
  Name :: string
  Namespace :: string
  Containers :: "ContainerMetrics list"
  Timestamp :: int64

definition zero_PodMetrics :: PodMetrics where
  "zero_PodMetrics =
    \<lparr>PodMetrics.Name = '''',
     PodMetrics.Namespace = '''',
     PodMetrics.Containers = [],
     PodMetrics.Timestamp = 0\<rparr>"

end
