(* ===== verification/Model_Workload.thy ===== *)
theory Model_Workload
  imports Float64
begin

text \<open>
  Workload controllers: Deployment, StatefulSet, DaemonSet, ReplicaSet, Job, CronJob.
\<close>

text \<open>ContainerSpecInfo represents a container spec from a workload's pod template. (\<^verbatim>\<open>pkg/model/workload.go\<close>)\<close>

record ContainerSpecInfo =
  Name :: string
  Image :: string
  CPURequestCores :: float64
  MemoryRequestBytes :: int64
  CPULimitCores :: float64
  MemoryLimitBytes :: int64
  GPURequest :: goint
  GPULimit :: goint

text \<open>WorkloadConditionInfo represents a workload condition (Available, Progressing, etc.). (\<^verbatim>\<open>pkg/model/workload.go\<close>)\<close>

record WorkloadConditionInfo =
  Type :: string
  Status :: string
  Reason :: string
  Message :: string

text \<open>DeploymentInfo represents a Kubernetes Deployment. (\<^verbatim>\<open>pkg/model/workload.go\<close>)\<close>

record DeploymentInfo =
  Name :: string
  UID :: string
  Namespace :: string
  Replicas :: int32
  ReadyReplicas :: int32
  AvailableReplicas :: int32
  UnavailableReplicas :: int32
  UpdatedReplicas :: int32
  Strategy :: string
  MaxSurge :: string
  MaxUnavailable :: string
  TotalCPURequest :: float64
  TotalMemoryRequest :: int64
  TotalCPULimit :: float64
  TotalMemoryLimit :: int64
  TotalCPUUsage :: "float64 option"
  TotalMemoryUsage :: "int64 option"
  ContainerSpecs :: "ContainerSpecInfo list"
  Selector :: "(string, string) gomap"
  Labels :: "(string, string) gomap"
  Annotations :: "(string, string) gomap"
  CreationTimestamp :: int64
  Conditions :: "WorkloadConditionInfo list"
  Paused :: bool

definition zero_DeploymentInfo :: DeploymentInfo where
  "zero_DeploymentInfo =
    \<lparr>DeploymentInfo.Name = '''',
     DeploymentInfo.UID = '''',
     DeploymentInfo.Namespace = '''',
     DeploymentInfo.Replicas = 0,
     DeploymentInfo.ReadyReplicas = 0,
     DeploymentInfo.AvailableReplicas = 0,
     DeploymentInfo.UnavailableReplicas = 0,
     DeploymentInfo.UpdatedReplicas = 0,
     DeploymentInfo.Strategy = '''',
     DeploymentInfo.MaxSurge = '''',
     DeploymentInfo.MaxUnavailable = '''',
     DeploymentInfo.TotalCPURequest = f64_zero,
     DeploymentInfo.TotalMemoryRequest = 0,
     DeploymentInfo.TotalCPULimit = f64_zero,
     DeploymentInfo.TotalMemoryLimit = 0,
     DeploymentInfo.TotalCPUUsage = None,
     DeploymentInfo.TotalMemoryUsage = None,
     DeploymentInfo.ContainerSpecs = [],
     DeploymentInfo.Selector = [],
     DeploymentInfo.Labels = [],
     DeploymentInfo.Annotations = [],
     DeploymentInfo.CreationTimestamp = 0,
     DeploymentInfo.Conditions = [],
     DeploymentInfo.Paused = False\<rparr>"

text \<open>StatefulSetInfo represents a Kubernetes StatefulSet. (\<^verbatim>\<open>pkg/model/workload.go\<close>)\<close>

record StatefulSetInfo =
  Name :: string
  UID :: string
  Namespace :: string
  Replicas :: int32
  ReadyReplicas :: int32
  AvailableReplicas :: int32
  UpdatedReplicas :: int32
  Strategy :: string
  ServiceName :: string
  PodManagementPolicy :: string
  VolumeClaimTemplates :: "string list"
  TotalCPURequest :: float64
  TotalMemoryRequest :: int64
  TotalCPULimit :: float64
  TotalMemoryLimit :: int64
  TotalCPUUsage :: "float64 option"
  TotalMemoryUsage :: "int64 option"
  ContainerSpecs :: "ContainerSpecInfo list"
  Selector :: "(string, string) gomap"
  Labels :: "(string, string) gomap"
  Annotations :: "(string, string) gomap"
  CreationTimestamp :: int64
  Partition :: "int32 option"
  Conditions :: "WorkloadConditionInfo list"

definition zero_StatefulSetInfo :: StatefulSetInfo where
  "zero_StatefulSetInfo =
    \<lparr>StatefulSetInfo.Name = '''',
     StatefulSetInfo.UID = '''',
     StatefulSetInfo.Namespace = '''',
     StatefulSetInfo.Replicas = 0,
     StatefulSetInfo.ReadyReplicas = 0,
     StatefulSetInfo.AvailableReplicas = 0,
     StatefulSetInfo.UpdatedReplicas = 0,
     StatefulSetInfo.Strategy = '''',
     StatefulSetInfo.ServiceName = '''',
     StatefulSetInfo.PodManagementPolicy = '''',
     StatefulSetInfo.VolumeClaimTemplates = [],
     StatefulSetInfo.TotalCPURequest = f64_zero,
     StatefulSetInfo.TotalMemoryRequest = 0,
     StatefulSetInfo.TotalCPULimit = f64_zero,
     StatefulSetInfo.TotalMemoryLimit = 0,
     StatefulSetInfo.TotalCPUUsage = None,
     StatefulSetInfo.TotalMemoryUsage = None,
     StatefulSetInfo.ContainerSpecs = [],
     StatefulSetInfo.Selector = [],
     StatefulSetInfo.Labels = [],
     StatefulSetInfo.Annotations = [],
     StatefulSetInfo.CreationTimestamp = 0,
     StatefulSetInfo.Partition = None,
     StatefulSetInfo.Conditions = []\<rparr>"

text \<open>DaemonSetInfo represents a Kubernetes DaemonSet. (\<^verbatim>\<open>pkg/model/workload.go\<close>)\<close>

record DaemonSetInfo =
  Name :: string
  UID :: string
  Namespace :: string
  DesiredNumberScheduled :: int32
  CurrentNumberScheduled :: int32
  NumberReady :: int32
  NumberMisscheduled :: int32
  UpdatedNumberScheduled :: int32
  NumberUnavailable :: int32
  NumberAvailable :: int32
  Strategy :: string
  TotalCPURequest :: float64
  TotalMemoryRequest :: int64
  TotalCPULimit :: float64
  TotalMemoryLimit :: int64
  TotalCPUUsage :: "float64 option"
  TotalMemoryUsage :: "int64 option"
  ContainerSpecs :: "ContainerSpecInfo list"
  Selector :: "(string, string) gomap"
  Labels :: "(string, string) gomap"
  Annotations :: "(string, string) gomap"
  CreationTimestamp :: int64
  Conditions :: "WorkloadConditionInfo list"

definition zero_DaemonSetInfo :: DaemonSetInfo where
  "zero_DaemonSetInfo =
    \<lparr>DaemonSetInfo.Name = '''',
     DaemonSetInfo.UID = '''',
     DaemonSetInfo.Namespace = '''',
     DaemonSetInfo.DesiredNumberScheduled = 0,
     DaemonSetInfo.CurrentNumberScheduled = 0,
     DaemonSetInfo.NumberReady = 0,
     DaemonSetInfo.NumberMisscheduled = 0,
     DaemonSetInfo.UpdatedNumberScheduled = 0,
     DaemonSetInfo.NumberUnavailable = 0,
     DaemonSetInfo.NumberAvailable = 0,
     DaemonSetInfo.Strategy = '''',
     DaemonSetInfo.TotalCPURequest = f64_zero,
     DaemonSetInfo.TotalMemoryRequest = 0,
     DaemonSetInfo.TotalCPULimit = f64_zero,
     DaemonSetInfo.TotalMemoryLimit = 0,
     DaemonSetInfo.TotalCPUUsage = None,
     DaemonSetInfo.TotalMemoryUsage = None,
     DaemonSetInfo.ContainerSpecs = [],
     DaemonSetInfo.Selector = [],
     DaemonSetInfo.Labels = [],
     DaemonSetInfo.Annotations = [],
     DaemonSetInfo.CreationTimestamp = 0,
     DaemonSetInfo.Conditions = []\<rparr>"

text \<open>ReplicaSetInfo represents a Kubernetes ReplicaSet (used internally for ownership resolution). (\<^verbatim>\<open>pkg/model/workload.go\<close>)\<close>

record ReplicaSetInfo =
  Name :: string
  Namespace :: string
  Replicas :: int32
  ReadyReplicas :: int32
  OwnerKind :: string
  OwnerName :: string
  OwnerUID :: string
  Selector :: "(string, string) gomap"
  Labels :: "(string, string) gomap"
  CreationTimestamp :: int64

definition zero_ReplicaSetInfo :: ReplicaSetInfo where
  "zero_ReplicaSetInfo =
    \<lparr>ReplicaSetInfo.Name = '''',
     ReplicaSetInfo.Namespace = '''',
     ReplicaSetInfo.Replicas = 0,
     ReplicaSetInfo.ReadyReplicas = 0,
     ReplicaSetInfo.OwnerKind = '''',
     ReplicaSetInfo.OwnerName = '''',
     ReplicaSetInfo.OwnerUID = '''',
     ReplicaSetInfo.Selector = [],
     ReplicaSetInfo.Labels = [],
     ReplicaSetInfo.CreationTimestamp = 0\<rparr>"

text \<open>JobConditionInfo represents a job condition (Complete, Failed, etc.). (\<^verbatim>\<open>pkg/model/job.go\<close>)\<close>

record JobConditionInfo =
  Type :: string
  Status :: string
  Reason :: string
  Message :: string

text \<open>JobInfo represents a Kubernetes Job. (\<^verbatim>\<open>pkg/model/job.go\<close>)\<close>

record JobInfo =
  Name :: string
  UID :: string
  Namespace :: string
  OwnerCronJob :: string
  Completions :: "int32 option"
  Parallelism :: "int32 option"
  BackoffLimit :: "int32 option"
  ActiveDeadlineSeconds :: "int64 option"
  TTLSecondsAfterFinished :: "int32 option"
  Active :: int32
  Succeeded :: int32
  Failed :: int32
  StartTime :: "int64 option"
  CompletionTime :: "int64 option"
  DurationSeconds :: "float64 option"
  TotalCPURequest :: float64
  TotalMemoryRequest :: int64
  TotalCPUUsage :: "float64 option"
  TotalMemoryUsage :: "int64 option"
  ContainerSpecs :: "ContainerSpecInfo list"
  Labels :: "(string, string) gomap"
  Annotations :: "(string, string) gomap"
  CreationTimestamp :: int64
  Conditions :: "JobConditionInfo list"

definition zero_JobInfo :: JobInfo where
  "zero_JobInfo =
    \<lparr>JobInfo.Name = '''',
     JobInfo.UID = '''',
     JobInfo.Namespace = '''',
     JobInfo.OwnerCronJob = '''',
     JobInfo.Completions = None,
     JobInfo.Parallelism = None,
     JobInfo.BackoffLimit = None,
     JobInfo.ActiveDeadlineSeconds = None,
     JobInfo.TTLSecondsAfterFinished = None,
     JobInfo.Active = 0,
     JobInfo.Succeeded = 0,
     JobInfo.Failed = 0,
     JobInfo.StartTime = None,
     JobInfo.CompletionTime = None,
     JobInfo.DurationSeconds = None,
     JobInfo.TotalCPURequest = f64_zero,
     JobInfo.TotalMemoryRequest = 0,
     JobInfo.TotalCPUUsage = None,
     JobInfo.TotalMemoryUsage = None,
     JobInfo.ContainerSpecs = [],
     JobInfo.Labels = [],
     JobInfo.Annotations = [],
     JobInfo.CreationTimestamp = 0,
     JobInfo.Conditions = []\<rparr>"

text \<open>CronJobInfo represents a Kubernetes CronJob. (\<^verbatim>\<open>pkg/model/job.go\<close>)\<close>

record CronJobInfo =
  Name :: string
  UID :: string
  Namespace :: string
  Schedule :: string
  Suspend :: bool
  ConcurrencyPolicy :: string
  LastScheduleTime :: "int64 option"
  LastSuccessfulTime :: "int64 option"
  ActiveJobs :: "string list"
  ContainerSpecs :: "ContainerSpecInfo list"
  Labels :: "(string, string) gomap"
  Annotations :: "(string, string) gomap"
  CreationTimestamp :: int64

definition zero_CronJobInfo :: CronJobInfo where
  "zero_CronJobInfo =
    \<lparr>CronJobInfo.Name = '''',
     CronJobInfo.UID = '''',
     CronJobInfo.Namespace = '''',
     CronJobInfo.Schedule = '''',
     CronJobInfo.Suspend = False,
     CronJobInfo.ConcurrencyPolicy = '''',
     CronJobInfo.LastScheduleTime = None,
     CronJobInfo.LastSuccessfulTime = None,
     CronJobInfo.ActiveJobs = [],
     CronJobInfo.ContainerSpecs = [],
     CronJobInfo.Labels = [],
     CronJobInfo.Annotations = [],
     CronJobInfo.CreationTimestamp = 0\<rparr>"

end
