(* ===== verification/Model_Policy.thy ===== *)
theory Model_Policy
  imports Float64
begin

text \<open>
  Autoscalers, disruption budgets, services and ingresses.
\<close>

text \<open>HPAMetricInfo describes a metric that the HPA watches. (\<^verbatim>\<open>pkg/model/autoscaling.go\<close>)\<close>

record HPAMetricInfo =
  Type :: string
  ResourceName :: string
  ContainerName :: string
  MetricName :: string
  TargetType :: string
  TargetValue :: string

text \<open>HPACurrentMetricInfo describes the current value of a metric. (\<^verbatim>\<open>pkg/model/autoscaling.go\<close>)\<close>

record HPACurrentMetricInfo =
  Type :: string
  ResourceName :: string
  CurrentValue :: string
  CurrentAverageValue :: string
  CurrentUtilization :: "int32 option"

text \<open>HPAScalingPolicy defines a single scaling policy. (\<^verbatim>\<open>pkg/model/autoscaling.go\<close>)\<close>

record HPAScalingPolicy =
  Type :: string
  Value :: int32
  PeriodSeconds :: int32

text \<open>HPAScalingBehavior defines the scaling behavior for scale up or scale down. (\<^verbatim>\<open>pkg/model/autoscaling.go\<close>)\<close>

record HPAScalingBehavior =
  StabilizationWindowSeconds :: "int32 option"
  Policies :: "HPAScalingPolicy list"
  SelectPolicy :: string

text \<open>HPAConditionInfo represents an HPA condition. (\<^verbatim>\<open>pkg/model/autoscaling.go\<close>)\<close>

record HPAConditionInfo =
  Type :: string
  Status :: string
  Reason :: string
  Message :: string

text \<open>HPAInfo represents a Kubernetes HorizontalPodAutoscaler (v2). (\<^verbatim>\<open>pkg/model/autoscaling.go\<close>)\<close>

record HPAInfo =
  Name :: string
  UID :: string
  Namespace :: string
  TargetKind :: string
  TargetName :: string
  TargetAPIVersion :: string
  MinReplicas :: "int32 option"
  MaxReplicas :: int32
  CurrentReplicas :: int32
  DesiredReplicas :: int32
  Metrics :: "HPAMetricInfo list"
  CurrentMetrics :: "HPACurrentMetricInfo list"
  ScaleUpBehavior :: "HPAScalingBehavior option"
  ScaleDownBehavior :: "HPAScalingBehavior option"
  Conditions :: "HPAConditionInfo list"
  Labels :: "(string, string) gomap"
  Annotations :: "(string, string) gomap"
  CreationTimestamp :: int64
  LastScaleTime :: "int64 option"

text \<open>LabelSelectorRequirement is a selector requirement with key, operator, and values. (\<^verbatim>\<open>pkg/model/autoscaling.go\<close>)\<close>

record LabelSelectorRequirement =
  Key :: string
  Operator :: string
  Values :: "string list"

text \<open>WorkloadReference identifies a workload by kind, name, and namespace. (\<^verbatim>\<open>pkg/model/autoscaling.go\<close>)\<close>

record WorkloadReference =
  Kind :: string
  Name :: string
  Namespace :: string

text \<open>PDBConditionInfo represents a PDB condition. (\<^verbatim>\<open>pkg/model/autoscaling.go\<close>)\<close>

record PDBConditionInfo =
  Type :: string
  Status :: string
  Reason :: string
  Message :: string

text \<open>PDBInfo represents a Kubernetes PodDisruptionBudget. (\<^verbatim>\<open>pkg/model/autoscaling.go\<close>)\<close>

record PDBInfo =
  Name :: string
  UID :: string
  Namespace :: string
  MatchLabels :: "(string, string) gomap"
  MatchExpressions :: "LabelSelectorRequirement list"
  TargetWorkloads :: "WorkloadReference list"
  MinAvailable :: string
  MaxUnavailable :: string
  CurrentHealthy :: int32
  DesiredHealthy :: int32
  DisruptionsAllowed :: int32
  ExpectedPods :: int32
  Conditions :: "PDBConditionInfo list"
  Labels :: "(string, string) gomap"
  Annotations :: "(string, string) gomap"
  CreationTimestamp :: int64

definition zero_PDBInfo :: PDBInfo where
  "zero_PDBInfo =
    \<lparr>PDBInfo.Name = '''',
     PDBInfo.UID = '''',
     PDBInfo.Namespace = '''',
     PDBInfo.MatchLabels = [],
     PDBInfo.MatchExpressions = [],
     PDBInfo.TargetWorkloads = [],
     PDBInfo.MinAvailable = '''',
     PDBInfo.MaxUnavailable = '''',
     PDBInfo.CurrentHealthy = 0,
     PDBInfo.DesiredHealthy = 0,
     PDBInfo.DisruptionsAllowed = 0,
     PDBInfo.ExpectedPods = 0,
     PDBInfo.Conditions = [],
     PDBInfo.Labels = [],
     PDBInfo.Annotations = [],
     PDBInfo.CreationTimestamp = 0\<rparr>"

text \<open>ResourceValues holds CPU and memory resource values. (\<^verbatim>\<open>pkg/model/autoscaling.go\<close>)\<close>

record ResourceValues =
  CPUCores :: float64
  MemoryBytes :: int64

text \<open>VPAContainerRecommendation holds resource recommendations for a single container. (\<^verbatim>\<open>pkg/model/autoscaling.go\<close>)\<close>

record VPAContainerRecommendation =
  ContainerName :: string
  LowerBound :: ResourceValues
  Target :: ResourceValues
  UncappedTarget :: ResourceValues
  UpperBound :: ResourceValues

text \<open>VPAConditionInfo represents a VPA condition. (\<^verbatim>\<open>pkg/model/autoscaling.go\<close>)\<close>

record VPAConditionInfo =
  Type :: string
  Status :: string
  Reason :: string
  Message :: string

text \<open>VPAInfo represents a Kubernetes VerticalPodAutoscaler. (\<^verbatim>\<open>pkg/model/autoscaling.go\<close>)\<close>

record VPAInfo =
  Name :: string
  Namespace :: string
  TargetKind :: string
  TargetName :: string
  TargetAPIVersion :: string
  UpdateMode :: string
  ContainerRecommendations :: "VPAContainerRecommendation list"
  Conditions :: "VPAConditionInfo list"
  Labels :: "(string, string) gomap"
  CreationTimestamp :: int64

text \<open>LoadBalancerIngress represents a single load balancer ingress point. (\<^verbatim>\<open>pkg/model/network.go\<close>)\<close>

record LoadBalancerIngress =
  IP :: string
  Hostname :: string

text \<open>LoadBalancerInfo holds load balancer details for LoadBalancer-type services. (\<^verbatim>\<open>pkg/model/network.go\<close>)\<close>

record LoadBalancerInfo =
  Ingress :: "LoadBalancerIngress list"
  Class :: string
  AWSLoadBalancerType :: string
  AWSScheme :: string
  AWSARNAnnotation :: string

text \<open>ServicePortInfo represents a port on a service. (\<^verbatim>\<open>pkg/model/network.go\<close>)\<close>

record ServicePortInfo =
  Name :: string
  Protocol :: string
  Port :: int32
  TargetPort :: string
  NodePort :: int32

text \<open>ServiceInfo represents a Kubernetes Service. (\<^verbatim>\<open>pkg/model/network.go\<close>)\<close>

record ServiceInfo =
  Name :: string
  Namespace :: string
  Type :: string
  ClusterIP :: string
  ClusterIPs :: "string list"
  ExternalIPs :: "string list"
  LoadBalancer :: "LoadBalancerInfo option"
  Ports :: "ServicePortInfo list"
  Selector :: "(string, string) gomap"
  TargetWorkloads :: "WorkloadReference list"
  Labels :: "(string, string) gomap"
  Annotations :: "(string, string) gomap"
  CreationTimestamp :: int64
  SessionAffinity :: string

definition zero_ServiceInfo :: ServiceInfo where
  "zero_ServiceInfo =
    \<lparr>ServiceInfo.Name = '''',
     ServiceInfo.Namespace = '''',
     ServiceInfo.Type = '''',
     ServiceInfo.ClusterIP = '''',
     ServiceInfo.ClusterIPs = [],
     ServiceInfo.ExternalIPs = [],
     ServiceInfo.LoadBalancer = None,
     ServiceInfo.Ports = [],
     ServiceInfo.Selector = [],
     ServiceInfo.TargetWorkloads = [],
     ServiceInfo.Labels = [],
     ServiceInfo.Annotations = [],
     ServiceInfo.CreationTimestamp = 0,
     ServiceInfo.SessionAffinity = ''''\<rparr>"

text \<open>IngressPathInfo represents a single path within an ingress rule. (\<^verbatim>\<open>pkg/model/network.go\<close>)\<close>

record IngressPathInfo =
  Path :: string
  PathType :: string
  BackendService :: string
  BackendPort :: string

text \<open>IngressRuleInfo represents a single ingress rule. (\<^verbatim>\<open>pkg/model/network.go\<close>)\<close>

record IngressRuleInfo =
  Host :: string
  Paths :: "IngressPathInfo list"

text \<open>IngressTLSInfo represents TLS configuration for an ingress. (\<^verbatim>\<open>pkg/model/network.go\<close>)\<close>

record IngressTLSInfo =
  Hosts :: "string list"
  SecretName :: string

text \<open>IngressBackendInfo represents a default backend for an ingress. (\<^verbatim>\<open>pkg/model/network.go\<close>)\<close>

record IngressBackendInfo =
  ServiceName :: string
  ServicePort :: string

text \<open>IngressInfo represents a Kubernetes Ingress. (\<^verbatim>\<open>pkg/model/network.go\<close>)\<close>

record IngressInfo =
  Name :: string
  Namespace :: string
  IngressClassName :: string
  Rules :: "IngressRuleInfo list"
  TLS :: "IngressTLSInfo list"
  DefaultBackend :: "IngressBackendInfo option"
  Labels :: "(string, string) gomap"
  Annotations :: "(string, string) gomap"
  CreationTimestamp :: int64
  LoadBalancerHostnames :: "string list"

end
