(* ===== verification/Model_Storage.thy ===== *)
theory Model_Storage
  imports Float64
begin

text \<open>
  Volumes, claims, storage classes and the scheduling policies.
\<close>

text \<open>PVSourceInfo describes the storage source of a PV. (\<^verbatim>\<open>pkg/model/storage.go\<close>)\<close>

record PVSourceInfo =
  Type :: string
  CSIDriver :: string
  CSIVolumeHandle :: string
  CSIFSType :: string
  AWSVolumeID :: string
  AWSPartition :: goint
  NFSServer :: string
  NFSPath :: string

text \<open>PVClaimRefInfo identifies the PVC a PV is bound to. (\<^verbatim>\<open>pkg/model/storage.go\<close>)\<close>

record PVClaimRefInfo =
  Namespace :: string
  Name :: string
  UID :: string

text \<open>PVInfo represents a Kubernetes PersistentVolume. (\<^verbatim>\<open>pkg/model/storage.go\<close>)\<close>

record PVInfo =
  Name :: string
  Capacity :: int64
  AccessModes :: "string list"
  ReclaimPolicy :: string
  StorageClassName :: string
  VolumeMode :: string
  Phase :: string
  MountOptions :: "string list"
  Source :: PVSourceInfo
  ClaimRef :: "PVClaimRefInfo option"
  Labels :: "(string, string) gomap"
  Annotations :: "(string, string) gomap"
  CreationTimestamp :: int64

text \<open>PVCConditionInfo represents a PVC condition. (\<^verbatim>\<open>pkg/model/storage.go\<close>)\<close>

record PVCConditionInfo =
  Type :: string
  Status :: string
  Reason :: string
  Message :: string

text \<open>PVCInfo represents a Kubernetes PersistentVolumeClaim. (\<^verbatim>\<open>pkg/model/storage.go\<close>)\<close>

record PVCInfo =
  Name :: string
  Namespace :: string
  Phase :: string
  AccessModes :: "string list"
  StorageClassName :: string
  VolumeMode :: string
  VolumeName :: string
  RequestedBytes :: int64
  CapacityBytes :: int64
  MountedByPods :: "string list"
  Labels :: "(string, string) gomap"
  Annotations :: "(string, string) gomap"
  CreationTimestamp :: int64
  Conditions :: "PVCConditionInfo list"

text \<open>StorageClassInfo represents a Kubernetes StorageClass. (\<^verbatim>\<open>pkg/model/storage.go\<close>)\<close>

record StorageClassInfo =
  Name :: string
  Provisioner :: string
  ReclaimPolicy :: string
  VolumeBindingMode :: string
  AllowVolumeExpansion :: bool
  Parameters :: "(string, string) gomap"
  MountOptions :: "string list"
  Labels :: "(string, string) gomap"
  Annotations :: "(string, string) gomap"
  IsDefault :: bool

text \<open>NamespaceInfo represents a Kubernetes Namespace. (\<^verbatim>\<open>pkg/model/scheduling.go\<close>)\<close>

record NamespaceInfo =
  Name :: string
  Phase :: string
  Labels :: "(string, string) gomap"
  Annotations :: "(string, string) gomap"
  CreationTimestamp :: int64

text \<open>PriorityClassInfo represents a Kubernetes PriorityClass. (\<^verbatim>\<open>pkg/model/scheduling.go\<close>)\<close>

record PriorityClassInfo =
  Name :: string
  Value :: int32
  GlobalDefault :: bool
  PreemptionPolicy :: string
  Description :: string

text \<open>LimitRangeItemInfo represents a single limit within a LimitRange. (\<^verbatim>\<open>pkg/model/scheduling.go\<close>)\<close>

record LimitRangeItemInfo =
  Type :: string
  DefaultL :: "(string, string) gomap"
  DefaultRequest :: "(string, string) gomap"
  MaxL :: "(string, string) gomap"
  MinL :: "(string, string) gomap"
  MaxLimitRequestRatio :: "(string, string) gomap"

text \<open>LimitRangeInfo represents a Kubernetes LimitRange. (\<^verbatim>\<open>pkg/model/scheduling.go\<close>)\<close>

record LimitRangeInfo =
  Name :: string
  Namespace :: string
  Limits :: "LimitRangeItemInfo list"

text \<open>ResourceQuotaInfo represents a Kubernetes ResourceQuota. (\<^verbatim>\<open>pkg/model/scheduling.go\<close>)\<close>

record ResourceQuotaInfo =
  Name :: string
  Namespace :: string
  Hard :: "(string, string) gomap"
  Used :: "(string, string) gomap"
  Labels :: "(string, string) gomap"

end
