(* ===== verification/Model_Health.thy ===== *)
theory Model_Health
  imports Float64
begin

text \<open>
  The summary, the health report and the response of the backend.
\<close>

text \<open>ClusterSummary holds computed counts and resource totals. (\<^verbatim>\<open>pkg/model/snapshot.go\<close>)\<close>

record ClusterSummary =
  NodeCount :: goint
  PodCount :: goint
  RunningPodCount :: goint
  PendingPodCount :: goint
  FailedPodCount :: goint
  SucceededPodCount :: goint
  NamespaceCount :: goint
  DeploymentCount :: goint
  StatefulSetCount :: goint
  DaemonSetCount :: goint
  JobCount :: goint
  CronJobCount :: goint
  CustomWorkloadCount :: goint
  HPACount :: goint
  ServiceCount :: goint
  IngressCount :: goint
  PVCount :: goint
  PVCCount :: goint
  ContainerCount :: goint
  TotalCPUCapacity :: float64
  TotalCPUAllocatable :: float64
  TotalCPURequested :: float64
  TotalCPUUsage :: "float64 option"
  TotalMemoryCapacity :: int64
  TotalMemoryAllocatable :: int64
  TotalMemoryRequested :: int64
  TotalMemoryUsage :: "int64 option"
  TotalGPUCapacity :: goint
  TotalGPURequested :: goint
  TotalGPUUsage :: "float64 option"
  TotalGPUTensorActive :: "float64 option"
  TotalGPUMemoryUtil :: "float64 option"
  TotalGPUMemoryUsed :: "int64 option"
  TotalGPUMemoryTotal :: "int64 option"
  GPUMetricsAvailable :: bool
  TotalStorageCapacity :: int64
  TotalStorageRequested :: int64
  MetricsAvailable :: bool

definition zero_ClusterSummary :: ClusterSummary where
  "zero_ClusterSummary =
    \<lparr>ClusterSummary.NodeCount = 0,
     ClusterSummary.PodCount = 0,
     ClusterSummary.RunningPodCount = 0,
     ClusterSummary.PendingPodCount = 0,
     ClusterSummary.FailedPodCount = 0,
     ClusterSummary.SucceededPodCount = 0,
     ClusterSummary.NamespaceCount = 0,
     ClusterSummary.DeploymentCount = 0,
     ClusterSummary.StatefulSetCount = 0,
     ClusterSummary.DaemonSetCount = 0,
     ClusterSummary.JobCount = 0,
     ClusterSummary.CronJobCount = 0,
     ClusterSummary.CustomWorkloadCount = 0,
     ClusterSummary.HPACount = 0,
     ClusterSummary.ServiceCount = 0,
     ClusterSummary.IngressCount = 0,
     ClusterSummary.PVCount = 0,
     ClusterSummary.PVCCount = 0,
     ClusterSummary.ContainerCount = 0,
     ClusterSummary.TotalCPUCapacity = f64_zero,
     ClusterSummary.TotalCPUAllocatable = f64_zero,
     ClusterSummary.TotalCPURequested = f64_zero,
     ClusterSummary.TotalCPUUsage = None,
     ClusterSummary.TotalMemoryCapacity = 0,
     ClusterSummary.TotalMemoryAllocatable = 0,
     ClusterSummary.TotalMemoryRequested = 0,
     ClusterSummary.TotalMemoryUsage = None,
     ClusterSummary.TotalGPUCapacity = 0,
     ClusterSummary.TotalGPURequested = 0,
     ClusterSummary.TotalGPUUsage = None,
     ClusterSummary.TotalGPUTensorActive = None,
     ClusterSummary.TotalGPUMemoryUtil = None,
     ClusterSummary.TotalGPUMemoryUsed = None,
     ClusterSummary.TotalGPUMemoryTotal = None,
     ClusterSummary.GPUMetricsAvailable = False,
     ClusterSummary.TotalStorageCapacity = 0,
     ClusterSummary.TotalStorageRequested = 0,
     ClusterSummary.MetricsAvailable = False\<rparr>"

text \<open>AgentHealth is sent with every snapshot for ClickHouse storage. (\<^verbatim>\<open>pkg/model/snapshot.go\<close>)\<close>

record AgentHealth =
  SnapshotsSentTotal :: uint64
  SnapshotsFailedTotal :: uint64
  SnapshotsTotalCount :: uint64
  SnapshotsSentDelta :: uint64
  SnapshotsFailedDelta :: uint64
  State :: string
  StateReason :: string
  LastBuildDurationMs :: int64
  LastMetricsCollectDurationMs :: int64
  LastSendDurationMs :: int64
  EncodeDurationMs :: int64
  OriginalSizeBytes :: int64
  CompressedSizeBytes :: int64
  CompressionFactor :: float64
  NodeCount :: goint
  PodCount :: goint
  ContainerCount :: goint
  WorkloadCount :: goint
  ServiceCount :: goint
  HPACount :: goint
  PDBCount :: goint
  PVCount :: goint
  MetricsServerAvailable :: bool
  VPAAvailable :: bool
  KarpenterAvailable :: bool
  GPUMetricsAvailable :: bool
  DCGMExporterTargets :: goint
  DCGMExporterUpTargets :: goint
  InformersSynced :: bool
  InformersHealthy :: goint
  InformersTotal :: goint
  StaleResources :: "string list"
  APICallsTotal :: goint
  APICallsFailedCount :: goint
  ActiveErrorsCount :: goint
  ErrorCodes :: "string list"
  UptimeSeconds :: int64
  StartedAt :: int64
  CollectedAt :: int64
  ChartVersion :: string
  HelmReleaseName :: string
  PodName :: string
  PodNamespace :: string
  NodeName :: string

definition zero_AgentHealth :: AgentHealth where
  "zero_AgentHealth =
    \<lparr>AgentHealth.SnapshotsSentTotal = 0,
     AgentHealth.SnapshotsFailedTotal = 0,
     AgentHealth.SnapshotsTotalCount = 0,
     AgentHealth.SnapshotsSentDelta = 0,
     AgentHealth.SnapshotsFailedDelta = 0,
     AgentHealth.State = '''',
     AgentHealth.StateReason = '''',
     AgentHealth.LastBuildDurationMs = 0,
     AgentHealth.LastMetricsCollectDurationMs = 0,
     AgentHealth.LastSendDurationMs = 0,
     AgentHealth.EncodeDurationMs = 0,
     AgentHealth.OriginalSizeBytes = 0,
     AgentHealth.CompressedSizeBytes = 0,
     AgentHealth.CompressionFactor = f64_zero,
     AgentHealth.NodeCount = 0,
     AgentHealth.PodCount = 0,
     AgentHealth.ContainerCount = 0,
     AgentHealth.WorkloadCount = 0,
     AgentHealth.ServiceCount = 0,
     AgentHealth.HPACount = 0,
     AgentHealth.PDBCount = 0,
     AgentHealth.PVCount = 0,
     AgentHealth.MetricsServerAvailable = False,
     AgentHealth.VPAAvailable = False,
     AgentHealth.KarpenterAvailable = False,
     AgentHealth.GPUMetricsAvailable = False,
     AgentHealth.DCGMExporterTargets = 0,
     AgentHealth.DCGMExporterUpTargets = 0,
     AgentHealth.InformersSynced = False,
     AgentHealth.InformersHealthy = 0,
     AgentHealth.InformersTotal = 0,
     AgentHealth.StaleResources = [],
     AgentHealth.APICallsTotal = 0,
     AgentHealth.APICallsFailedCount = 0,
     AgentHealth.ActiveErrorsCount = 0,
     AgentHealth.ErrorCodes = [],
     AgentHealth.UptimeSeconds = 0,
     AgentHealth.StartedAt = 0,
     AgentHealth.CollectedAt = 0,
     AgentHealth.ChartVersion = '''',
     AgentHealth.HelmReleaseName = '''',
     AgentHealth.PodName = '''',
     AgentHealth.PodNamespace = '''',
     AgentHealth.NodeName = ''''\<rparr>"

text \<open>QuotaStatus represents the organization's quota state. (\<^verbatim>\<open>pkg/model/response.go\<close>)\<close>

record QuotaStatus =
  PlanType :: string
  CPULimit :: float64
  CurrentCPUUsage :: float64
  RemainingCPU :: float64
  IsWithinQuota :: bool
  ClusterCPU :: float64
  GracePeriodActive :: bool
  GracePeriodEndsAt :: "int64 option"
  MetricsBlocked :: bool

definition zero_QuotaStatus :: QuotaStatus where
  "zero_QuotaStatus =
    \<lparr>QuotaStatus.PlanType = '''',
     QuotaStatus.CPULimit = f64_zero,
     QuotaStatus.CurrentCPUUsage = f64_zero,
     QuotaStatus.RemainingCPU = f64_zero,
     QuotaStatus.IsWithinQuota = False,
     QuotaStatus.ClusterCPU = f64_zero,
     QuotaStatus.GracePeriodActive = False,
     QuotaStatus.GracePeriodEndsAt = None,
     QuotaStatus.MetricsBlocked = False\<rparr>"

text \<open>Directives tell the agent what to do next. (\<^verbatim>\<open>pkg/model/response.go\<close>)\<close>

record Directives =
  NextSnapshotInSeconds :: goint
  RetryAfterSeconds :: "goint option"
  CollectVPAs :: bool
  CollectKarpenter :: bool

definition zero_Directives :: Directives where
  "zero_Directives =
    \<lparr>Directives.NextSnapshotInSeconds = 0,
     Directives.RetryAfterSeconds = None,
     Directives.CollectVPAs = False,
     Directives.CollectKarpenter = False\<rparr>"

text \<open>IngestStats returned after successful processing. (\<^verbatim>\<open>pkg/model/response.go\<close>)\<close>

record IngestStats =
  NodesProcessed :: goint
  PodsProcessed :: goint
  WorkloadsProcessed :: goint
  ProcessingTimeMs :: int64

definition zero_IngestStats :: IngestStats where
  "zero_IngestStats =
    \<lparr>IngestStats.NodesProcessed = 0,
     IngestStats.PodsProcessed = 0,
     IngestStats.WorkloadsProcessed = 0,
     IngestStats.ProcessingTimeMs = 0\<rparr>"

text \<open>SnapshotResponse is returned by backend on successful snapshot ingestion. (\<^verbatim>\<open>pkg/model/response.go\<close>)\<close>

record SnapshotResponse =
  Success :: bool
  Message :: string
  ClusterID :: string
  ReceivedAt :: int64
  ProcessedAt :: int64
  Quota :: QuotaStatus
  Directives :: Directives
  Stats :: IngestStats

definition zero_SnapshotResponse :: SnapshotResponse where
  "zero_SnapshotResponse =
    \<lparr>SnapshotResponse.Success = False,
     SnapshotResponse.Message = '''',
     SnapshotResponse.ClusterID = '''',
     SnapshotResponse.ReceivedAt = 0,
     SnapshotResponse.ProcessedAt = 0,
     SnapshotResponse.Quota = zero_QuotaStatus,
     SnapshotResponse.Directives = zero_Directives,
     SnapshotResponse.Stats = zero_IngestStats\<rparr>"

text \<open>SnapshotErrorResponse is returned on rejection (4xx errors). (\<^verbatim>\<open>pkg/model/response.go\<close>)\<close>

record SnapshotErrorResponse =
  Success :: bool
  Error :: string
  Message :: string
  Quota :: "QuotaStatus option"
  RetryAfterSeconds :: "goint option"

definition zero_SnapshotErrorResponse :: SnapshotErrorResponse where
  "zero_SnapshotErrorResponse =
    \<lparr>SnapshotErrorResponse.Success = False,
     SnapshotErrorResponse.Error = '''',
     SnapshotErrorResponse.Message = '''',
     SnapshotErrorResponse.Quota = None,
     SnapshotErrorResponse.RetryAfterSeconds = None\<rparr>"

end
