(* ===== verification/Model.thy ===== *)
theory Model
  imports Model_Node Model_Pod Model_Workload Model_Policy Model_Storage Model_Health
begin

text \<open>
  The payload model of \<^verbatim>\<open>pkg/model\<close>: one record per struct, with the source's field names
  (read as \<open>NodeInfo.Name n\<close>) and the source's field types. A pointer field is an
  \<open>option\<close>, a slice a list, a map an association list; the difference between a nil and
  an empty slice or map shows only in the JSON text and is not kept. \<open>zero_T\<close> is Go's
  zero value \<^verbatim>\<open>T{}\<close> of a struct that the code builds field by field. The records are
  spread over the theories \<open>Model_*\<close> by resource family; this one holds the custom
  resources and the snapshot itself.
\<close>

text \<open>A value of type \<^verbatim>\<open>interface{}\<close>, as decoded from JSON by the Kubernetes client.\<close>

datatype goval =
    VNil
  | VBool bool
  | VInt64 int64
  | VInt goint
  | VFloat float64
  | VString string
  | VList "goval list"
  | VMap "(string \<times> goval) list"


text \<open>CustomWorkloadInfo represents a CRD-based workload that owns pods. (\<^verbatim>\<open>pkg/model/custom.go\<close>)\<close>

record CustomWorkloadInfo =
  APIVersion :: string
  Kind :: string
  Name :: string
  Namespace :: string
  Replicas :: "int32 option"
  ReadyReplicas :: "int32 option"
  Status :: "(string, goval) gomap"
  PodCount :: goint
  TotalCPURequest :: float64
  TotalMemoryRequest :: int64
  TotalCPUUsage :: "float64 option"
  TotalMemoryUsage :: "int64 option"
  Labels :: "(string, string) gomap"
  Annotations :: "(string, string) gomap"
  CreationTimestamp :: int64

text \<open>NodeSelectorRequirement is a selector requirement with key, operator, and values. (\<^verbatim>\<open>pkg/model/custom.go\<close>)\<close>

record NodeSelectorRequirement =
  Key :: string
  Operator :: string
  Values :: "string list"

text \<open>NodePoolInfo represents a Karpenter NodePool. (\<^verbatim>\<open>pkg/model/custom.go\<close>)\<close>

record NodePoolInfo =
  Name :: string
  UID :: string
  MinReplicas :: "goint option"
  MaxReplicas :: "goint option"
  NodeClassName :: string
  Labels :: "(string, string) gomap"
  Annotations :: "(string, string) gomap"
  Taints :: "TaintInfo list"
  Requirements :: "NodeSelectorRequirement list"
  CreationTimestamp :: int64

text \<open>ClusterSnapshot is the complete payload sent to the backend every 60 seconds. (\<^verbatim>\<open>pkg/model/snapshot.go\<close>)\<close>

record ClusterSnapshot =
  SnapshotID :: string
  ClusterID :: string
  Timestamp :: int64
  AgentVersion :: string
  Provider :: string
  Region :: string
  CloudAccountID :: string
  KubernetesVersion :: string
  Nodes :: "NodeInfo list"
  Pods :: "PodInfo list"
  Namespaces :: "NamespaceInfo list"
  Deployments :: "DeploymentInfo list"
  StatefulSets :: "StatefulSetInfo list"
  DaemonSets :: "DaemonSetInfo list"
  Jobs :: "JobInfo list"
  CronJobs :: "CronJobInfo list"
  CustomWorkloads :: "CustomWorkloadInfo list"
  HPAs :: "HPAInfo list"
  VPAs :: "VPAInfo list"
  PDBs :: "PDBInfo list"
  Services :: "ServiceInfo list"
  Ingresses :: "IngressInfo list"
  PVs :: "PVInfo list"
  PVCs :: "PVCInfo list"
  StorageClasses :: "StorageClassInfo list"
  PriorityClasses :: "PriorityClassInfo list"
  LimitRanges :: "LimitRangeInfo list"
  ResourceQuotas :: "ResourceQuotaInfo list"
  NodePools :: "NodePoolInfo list"
  Summary :: ClusterSummary
  Health :: AgentHealth

definition zero_ClusterSnapshot :: ClusterSnapshot where
  "zero_ClusterSnapshot =
    \<lparr>ClusterSnapshot.SnapshotID = '''',
     ClusterSnapshot.ClusterID = '''',
     ClusterSnapshot.Timestamp = 0,
     ClusterSnapshot.AgentVersion = '''',
     ClusterSnapshot.Provider = '''',
     ClusterSnapshot.Region = '''',
     ClusterSnapshot.CloudAccountID = '''',
     ClusterSnapshot.KubernetesVersion = '''',
     ClusterSnapshot.Nodes = [],
     ClusterSnapshot.Pods = [],
     ClusterSnapshot.Namespaces = [],
     ClusterSnapshot.Deployments = [],
     ClusterSnapshot.StatefulSets = [],
     ClusterSnapshot.DaemonSets = [],
     ClusterSnapshot.Jobs = [],
     ClusterSnapshot.CronJobs = [],
     ClusterSnapshot.CustomWorkloads = [],
     ClusterSnapshot.HPAs = [],
     ClusterSnapshot.VPAs = [],
     ClusterSnapshot.PDBs = [],
     ClusterSnapshot.Services = [],
     ClusterSnapshot.Ingresses = [],
     ClusterSnapshot.PVs = [],
     ClusterSnapshot.PVCs = [],
     ClusterSnapshot.StorageClasses = [],
     ClusterSnapshot.PriorityClasses = [],
     ClusterSnapshot.LimitRanges = [],
     ClusterSnapshot.ResourceQuotas = [],
     ClusterSnapshot.NodePools = [],
     ClusterSnapshot.Summary = zero_ClusterSummary,
     ClusterSnapshot.Health = zero_AgentHealth\<rparr>"

end
