(* ===== verification/Store.thy ===== *)
theory Store
  imports Model
begin

text \<open>
  The in-memory stores of \<^verbatim>\<open>internal/store\<close>: the generic \<open>TypedStore\<close> (a map under a
  read-write lock, with the time of its last change), the composite \<open>Store\<close> of the 22
  resource types and the \<open>MetricsStore\<close>. The interface the collectors rely on is the
  locale \<open>kv_store\<close>; it is interpreted on \<open>TypedStore\<close>, which refines a partial map.
\<close>

section \<open>TypedStore\<close>

record 'a TypedStore =
  items :: "(string, 'a) gomap"
  lastUpdated :: int64

definition NewTypedStore :: "Time \<Rightarrow> 'a TypedStore" where
  "NewTypedStore now = \<lparr>items = [], lastUpdated = UnixMilli now\<rparr>"

text \<open>
  \<^verbatim>\<open>Set\<close> and \<^verbatim>\<open>Delete\<close> write the map under the lock and store the time stamp after the
  lock is released: two steps, between which another goroutine may run.
\<close>

definition set_items :: "string \<Rightarrow> 'a \<Rightarrow> 'a TypedStore \<Rightarrow> 'a TypedStore" where
  "set_items k v s = s\<lparr>items := map_set k v (items s)\<rparr>"

definition delete_items :: "string \<Rightarrow> 'a TypedStore \<Rightarrow> 'a TypedStore" where
  "delete_items k s = s\<lparr>items := map_del k (items s)\<rparr>"

definition stamp :: "Time \<Rightarrow> 'a TypedStore \<Rightarrow> 'a TypedStore" where
  "stamp now s = s\<lparr>lastUpdated := UnixMilli now\<rparr>"

definition Set :: "string \<Rightarrow> 'a \<Rightarrow> Time \<Rightarrow> 'a TypedStore \<Rightarrow> 'a TypedStore" where
  "Set k v now s = stamp now (set_items k v s)"

definition Delete :: "string \<Rightarrow> Time \<Rightarrow> 'a TypedStore \<Rightarrow> 'a TypedStore" where
  "Delete k now s = stamp now (delete_items k s)"

definition LastUpdated :: "'a TypedStore \<Rightarrow> int64" where
  "LastUpdated s = lastUpdated s"

text \<open>\<^verbatim>\<open>Get\<close> returns the value and true, or the zero value and false: an option.\<close>

definition Get :: "'a TypedStore \<Rightarrow> string \<Rightarrow> 'a option" where
  "Get s k = map_of (items s) k"

definition Len :: "'a TypedStore \<Rightarrow> goint" where
  "Len s = len (items s)"

definition Snapshot :: "iter_order \<Rightarrow> 'a TypedStore \<Rightarrow> (string, 'a) gomap" where
  "Snapshot ord s = foldl (\<lambda>cp (k, v). map_set k v cp) [] (map_range ord (items s))"

definition Values :: "iter_order \<Rightarrow> 'a TypedStore \<Rightarrow> 'a list" where
  "Values ord s = foldl (\<lambda>vals (k, v). vals @ [v]) [] (map_range ord (items s))"

definition Clear :: "'a TypedStore \<Rightarrow> 'a TypedStore" where
  "Clear s = s\<lparr>items := []\<rparr>"

definition wf_store :: "'a TypedStore \<Rightarrow> bool" where
  "wf_store s \<longleftrightarrow> wf_map (items s)"

section \<open>Store and MetricsStore\<close>

record Store =
  Nodes :: "NodeInfo TypedStore"
  Pods :: "PodInfo TypedStore"
  Namespaces :: "NamespaceInfo TypedStore"
  Deployments :: "DeploymentInfo TypedStore"
  StatefulSets :: "StatefulSetInfo TypedStore"
  DaemonSets :: "DaemonSetInfo TypedStore"
  ReplicaSets :: "ReplicaSetInfo TypedStore"
  Jobs :: "JobInfo TypedStore"
  CronJobs :: "CronJobInfo TypedStore"
  CustomWorkloads :: "CustomWorkloadInfo TypedStore"
  HPAs :: "HPAInfo TypedStore"
  VPAs :: "VPAInfo TypedStore"
  PDBs :: "PDBInfo TypedStore"
  Services :: "ServiceInfo TypedStore"
  Ingresses :: "IngressInfo TypedStore"
  PVs :: "PVInfo TypedStore"
  PVCs :: "PVCInfo TypedStore"
  StorageClasses :: "StorageClassInfo TypedStore"
  PriorityClasses :: "PriorityClassInfo TypedStore"
  LimitRanges :: "LimitRangeInfo TypedStore"
  ResourceQuotas :: "ResourceQuotaInfo TypedStore"
  NodePools :: "NodePoolInfo TypedStore"

definition LastUpdatedTimes :: "Store \<Rightarrow> (string, int64) gomap" where
  "LastUpdatedTimes s =
    [(''nodes'', LastUpdated (Nodes s)),
     (''pods'', LastUpdated (Pods s)),
     (''namespaces'', LastUpdated (Namespaces s)),
     (''deployments'', LastUpdated (Deployments s)),
     (''statefulsets'', LastUpdated (StatefulSets s)),
     (''daemonsets'', LastUpdated (DaemonSets s)),
     (''replicasets'', LastUpdated (ReplicaSets s)),
     (''jobs'', LastUpdated (Jobs s)),
     (''cronjobs'', LastUpdated (CronJobs s)),
     (''custom_workloads'', LastUpdated (CustomWorkloads s)),
     (''hpas'', LastUpdated (HPAs s)),
     (''vpas'', LastUpdated (VPAs s)),
     (''pdbs'', LastUpdated (PDBs s)),
     (''services'', LastUpdated (Services s)),
     (''ingresses'', LastUpdated (Ingresses s)),
     (''pvs'', LastUpdated (PVs s)),
     (''pvcs'', LastUpdated (PVCs s)),
     (''storageclasses'', LastUpdated (StorageClasses s)),
     (''priorityclasses'', LastUpdated (PriorityClasses s)),
     (''limitranges'', LastUpdated (LimitRanges s)),
     (''resourcequotas'', LastUpdated (ResourceQuotas s)),
     (''nodepools'', LastUpdated (NodePools s))]"

definition ItemCounts :: "Store \<Rightarrow> (string, goint) gomap" where
  "ItemCounts s =
    [(''nodes'', Len (Nodes s)),
     (''pods'', Len (Pods s)),
     (''namespaces'', Len (Namespaces s)),
     (''deployments'', Len (Deployments s)),
     (''statefulsets'', Len (StatefulSets s)),
     (''daemonsets'', Len (DaemonSets s)),
     (''replicasets'', Len (ReplicaSets s)),
     (''jobs'', Len (Jobs s)),
     (''cronjobs'', Len (CronJobs s)),
     (''custom_workloads'', Len (CustomWorkloads s)),
     (''hpas'', Len (HPAs s)),
     (''vpas'', Len (VPAs s)),
     (''pdbs'', Len (PDBs s)),
     (''services'', Len (Services s)),
     (''ingresses'', Len (Ingresses s)),
     (''pvs'', Len (PVs s)),
     (''pvcs'', Len (PVCs s)),
     (''storageclasses'', Len (StorageClasses s)),
     (''priorityclasses'', Len (PriorityClasses s)),
     (''limitranges'', Len (LimitRanges s)),
     (''resourcequotas'', Len (ResourceQuotas s)),
     (''nodepools'', Len (NodePools s))]"

definition NewStore :: "Time \<Rightarrow> Store" where
  "NewStore now =
    \<lparr>Nodes = NewTypedStore now,
     Pods = NewTypedStore now,
     Namespaces = NewTypedStore now,
     Deployments = NewTypedStore now,
     StatefulSets = NewTypedStore now,
     DaemonSets = NewTypedStore now,
     ReplicaSets = NewTypedStore now,
     Jobs = NewTypedStore now,
     CronJobs = NewTypedStore now,
     CustomWorkloads = NewTypedStore now,
     HPAs = NewTypedStore now,
     VPAs = NewTypedStore now,
     PDBs = NewTypedStore now,
     Services = NewTypedStore now,
     Ingresses = NewTypedStore now,
     PVs = NewTypedStore now,
     PVCs = NewTypedStore now,
     StorageClasses = NewTypedStore now,
     PriorityClasses = NewTypedStore now,
     LimitRanges = NewTypedStore now,
     ResourceQuotas = NewTypedStore now,
     NodePools = NewTypedStore now\<rparr>"

record MetricsStore =
  NodeMetrics_store :: "NodeMetrics TypedStore"
  PodMetrics_store :: "PodMetrics TypedStore"

definition NewMetricsStore :: "Time \<Rightarrow> MetricsStore" where
  "NewMetricsStore now =
    \<lparr>NodeMetrics_store = NewTypedStore now, PodMetrics_store = NewTypedStore now\<rparr>"

section \<open>Several goroutines\<close>

text \<open>
  A goroutine runs a list of calls. Each call is two steps, the locked write and the time
  stamp; the steps of different goroutines interleave arbitrarily. \<open>shuffles_all\<close> is the
  set of interleavings of any number of step lists.
\<close>

datatype 'a store_step = Write string 'a | Remove string | Stamp Time

datatype 'a store_call = CallSet string 'a Time | CallDelete string Time

fun run_step :: "'a store_step \<Rightarrow> 'a TypedStore \<Rightarrow> 'a TypedStore" where
  "run_step (Write k v) s = set_items k v s"
| "run_step (Remove k) s = delete_items k s"
| "run_step (Stamp t) s = stamp t s"

fun run_call :: "'a store_call \<Rightarrow> 'a TypedStore \<Rightarrow> 'a TypedStore" where
  "run_call (CallSet k v t) s = Set k v t s"
| "run_call (CallDelete k t) s = Delete k t s"

fun locked_step :: "'a store_call \<Rightarrow> 'a store_step" where
  "locked_step (CallSet k v t) = Write k v"
| "locked_step (CallDelete k t) = Remove k"

fun call_time :: "'a store_call \<Rightarrow> Time" where
  "call_time (CallSet k v t) = t"
| "call_time (CallDelete k t) = t"

definition steps_of :: "'a store_call \<Rightarrow> 'a store_step list" where
  "steps_of c = [locked_step c, Stamp (call_time c)]"

definition thread_steps :: "'a store_call list \<Rightarrow> 'a store_step list" where
  "thread_steps cs = concat (map steps_of cs)"

fun shuffles_all :: "'b list list \<Rightarrow> 'b list set" where
  "shuffles_all [] = {[]}"
| "shuffles_all (xs # xss) = (\<Union>ys \<in> shuffles_all xss. shuffles xs ys)"

fun is_locked :: "'a store_step \<Rightarrow> bool" where
  "is_locked (Stamp t) = False"
| "is_locked _ = True"

section \<open>The interface of a store\<close>

text \<open>
  What a client of a store relies on: lookups after a change are those of a partial map,
  every operation keeps the store valid, and listing the values loses and invents
  nothing. The client's lemma: a replayed event stream leaves exactly the objects whose
  last event was not a deletion, with the value of that event.
\<close>

locale kv_store =
  fixes lookup :: "'s \<Rightarrow> string \<Rightarrow> 'v option"
    and put :: "string \<Rightarrow> 'v \<Rightarrow> Time \<Rightarrow> 's \<Rightarrow> 's"
    and remove :: "string \<Rightarrow> Time \<Rightarrow> 's \<Rightarrow> 's"
    and contents :: "iter_order \<Rightarrow> 's \<Rightarrow> 'v list"
    and valid :: "'s \<Rightarrow> bool"
  assumes lookup_put: "valid s \<Longrightarrow> lookup (put k v t s) = (lookup s)(k \<mapsto> v)"
    and lookup_remove: "valid s \<Longrightarrow> lookup (remove k t s) = (lookup s)(k := None)"
    and valid_put: "valid s \<Longrightarrow> valid (put k v t s)"
    and valid_remove: "valid s \<Longrightarrow> valid (remove k t s)"
    and contents_mset: "valid s \<Longrightarrow> order_ok ord \<Longrightarrow>
      mset (contents ord s) = image_mset (\<lambda>k. the (lookup s k)) (mset_set (dom (lookup s)))"
begin

lemma replay_valid:
  "valid s \<Longrightarrow> valid (fold (\<lambda>(k, ov, t). case ov of Some v \<Rightarrow> put k v t | None \<Rightarrow> remove k t) evs s)"
  by (induction evs arbitrary: s) (auto split: option.splits simp: valid_put valid_remove)

lemma replay_lookup:
  "valid s \<Longrightarrow>
   lookup (fold (\<lambda>(k, ov, t). case ov of Some v \<Rightarrow> put k v t | None \<Rightarrow> remove k t) evs s) =
   fold (\<lambda>(k, ov, t) m. m(k := ov)) evs (lookup s)"
proof (induction evs arbitrary: s)
  case Nil
  then show ?case by simp
next
  case (Cons e evs)
  obtain k ov t where e: "e = (k, ov, t)" by (cases e)
  show ?case
  proof (cases ov)
    case None
    then show ?thesis
      using Cons.IH [OF valid_remove [OF Cons.prems]] Cons.prems e by (simp add: lookup_remove)
  next
    case (Some v)
    then show ?thesis
      using Cons.IH [OF valid_put [OF Cons.prems]] Cons.prems e by (simp add: lookup_put)
  qed
qed

lemma contents_member:
  assumes "valid s" and "order_ok ord" and "finite (dom (lookup s))"
  shows "v \<in> set (contents ord s) \<longleftrightarrow> (\<exists>k. lookup s k = Some v)"
proof -
  have "set (contents ord s) = set_mset (mset (contents ord s))" by simp
  also have "\<dots> = (\<lambda>k. the (lookup s k)) ` dom (lookup s)"
    using assms by (simp add: contents_mset)
  finally show ?thesis by (force simp: dom_def)
qed

end

section \<open>TypedStore meets the interface\<close>

lemmas typed_store_defs = Set_def Delete_def set_items_def delete_items_def stamp_def Get_def

lemma Get_map_of: "Get s = map_of (items s)"
  by (rule ext) (simp add: Get_def)

lemma wf_store_ops [simp]:
  "wf_store (NewTypedStore now)"
  "wf_store s \<Longrightarrow> wf_store (Set k v now s)"
  "wf_store s \<Longrightarrow> wf_store (Delete k now s)"
  "wf_store (Clear s)"
  by (simp_all add: wf_store_def NewTypedStore_def Clear_def typed_store_defs)

lemma Values_map: "Values ord s = map snd (map_range ord (items s))"
proof -
  have "foldl (\<lambda>vals (k, v). vals @ [v]) vs m = vs @ map snd m" for vs and m :: "(string, 'a) gomap"
    by (induction m arbitrary: vs) auto
  then show ?thesis by (simp add: Values_def)
qed

lemma Values_mset:
  assumes "wf_store s" and "order_ok ord"
  shows "mset (Values ord s) = image_mset (\<lambda>k. the (Get s k)) (mset_set (dom (Get s)))"
proof -
  have "mset (Values ord s) = image_mset snd (mset (items s))"
    using assms(2) by (simp add: Values_map map_range_mset)
  then show ?thesis
    using wf_map_mset [of "items s"] assms(1)
    by (simp add: wf_store_def Get_map_of multiset.map_comp comp_def)
qed

interpretation typed: kv_store Get Set Delete Values wf_store
proof unfold_locales
  fix s :: "'a TypedStore" and k :: string and v :: 'a and t :: Time
  show "Get (Set k v t s) = (Get s)(k \<mapsto> v)"
    by (rule ext) (simp add: typed_store_defs)
  show "Get (Delete k t s) = (Get s)(k := None)"
    by (rule ext) (simp add: typed_store_defs)
qed (simp_all add: Values_mset)

lemma Values_member:
  "wf_store s \<Longrightarrow> order_ok ord \<Longrightarrow> v \<in> set (Values ord s) \<longleftrightarrow> (\<exists>k. Get s k = Some v)"
  by (rule typed.contents_member) (simp_all add: Get_map_of finite_dom_map_of)

lemma Snapshot_wf_map_of:
  "wf_store s \<Longrightarrow> order_ok ord \<Longrightarrow> wf_map (Snapshot ord s) \<and> map_of (Snapshot ord s) = Get s"
proof -
  assume wf: "wf_store s" and ord: "order_ok ord"
  have fold: "wf_map cp \<Longrightarrow> wf_map m \<Longrightarrow>
      wf_map (foldl (\<lambda>cp (k, v). map_set k v cp) cp m) \<and>
      map_of (foldl (\<lambda>cp (k, v). map_set k v cp) cp m) = map_of cp ++ map_of m"
    for cp m :: "(string, 'a) gomap"
  proof (induction m arbitrary: cp)
    case (Cons e m)
    obtain k v where e: "e = (k, v)" by (cases e)
    from Cons.prems e have "wf_map m" and "k \<notin> dom (map_of m)"
      by (auto simp: wf_map_def dom_map_of_conv_image_fst)
    with Cons.IH [of "map_set k v cp"] Cons.prems e show ?case
      by (auto simp: fun_eq_iff map_add_def dom_def split: option.splits)
  qed simp
  from wf ord have "wf_map (map_range ord (items s))" by (simp add: wf_store_def map_range_wf)
  from fold [OF wf_map_Nil this] wf ord show ?thesis
    by (simp add: Snapshot_def Get_map_of wf_store_def map_range_map_of)
qed

section \<open>Interleavings\<close>

lemma filter_shuffles_all:
  "zs \<in> shuffles_all xss \<Longrightarrow> filter P zs \<in> shuffles_all (map (filter P) xss)"
proof (induction xss arbitrary: zs)
  case (Cons xs xss)
  then obtain ys where ys: "ys \<in> shuffles_all xss" and zs: "zs \<in> shuffles xs ys" by auto
  from zs have "filter P zs \<in> shuffles (filter P xs) (filter P ys)"
    by (metis filter_shuffles imageI)
  with Cons.IH [OF ys] show ?case by auto
qed simp

lemma map_in_shuffles:
  "zs \<in> shuffles (map f xs) (map f ys) \<Longrightarrow> \<exists>ws \<in> shuffles xs ys. zs = map f ws"
proof (induction xs ys arbitrary: zs rule: shuffles.induct)
  case (3 x xs y ys)
  from "3.prems" consider
      (left) zs' where "zs = f x # zs'" and "zs' \<in> shuffles (map f xs) (map f (y # ys))"
    | (right) zs' where "zs = f y # zs'" and "zs' \<in> shuffles (map f (x # xs)) (map f ys)"
    by auto
  then show ?case
  proof cases
    case left
    with "3.IH"(1) obtain ws where "ws \<in> shuffles xs (y # ys)" and "zs' = map f ws" by blast
    with left show ?thesis by (intro bexI [of _ "x # ws"]) auto
  next
    case right
    with "3.IH"(2) obtain ws where "ws \<in> shuffles (x # xs) ys" and "zs' = map f ws" by blast
    with right show ?thesis by (intro bexI [of _ "y # ws"]) auto
  qed
qed auto

lemma map_in_shuffles_all:
  "zs \<in> shuffles_all (map (map f) xss) \<Longrightarrow> \<exists>ws \<in> shuffles_all xss. zs = map f ws"
proof (induction xss arbitrary: zs)
  case (Cons xs xss)
  then obtain ys where ys: "ys \<in> shuffles_all (map (map f) xss)" and zs: "zs \<in> shuffles (map f xs) ys"
    by auto
  from Cons.IH [OF ys] obtain ws where ws: "ws \<in> shuffles_all xss" and "ys = map f ws" by blast
  with zs map_in_shuffles [of zs f xs ws] show ?case by auto
qed simp

lemma filter_locked_thread_steps: "filter is_locked (thread_steps cs) = map locked_step cs"
proof (induction cs)
  case (Cons c cs)
  then show ?case by (cases c) (simp_all add: thread_steps_def steps_of_def)
qed (simp add: thread_steps_def)

lemma items_run_steps_locked:
  "items (fold run_step zs s) = items (fold run_step (filter is_locked zs) s)"
proof (induction zs arbitrary: s)
  case (Cons z zs)
  have "items (fold run_step ws (stamp t u)) = items (fold run_step ws u)" for ws t and u :: "'a TypedStore"
  proof (induction ws arbitrary: u rule: rev_induct)
    case (snoc w ws)
    then show ?case by (cases w) (simp_all add: typed_store_defs)
  qed (simp add: stamp_def)
  with Cons show ?case by (cases z) simp_all
qed simp

lemma items_run_calls_locked:
  "items (fold run_call cs s) = items (fold run_step (map locked_step cs) s)"
proof (induction cs rule: rev_induct)
  case (snoc c cs)
  then show ?case by (cases c) (simp_all add: typed_store_defs)
qed simp

section \<open>Properties of the stores\<close>



text \<open>
  C22. Replaying a stream of Set and Delete calls on a well-formed typed store refines the
  replay on a partial map: a key holds the value of its last Set unless a Delete came
  after it, and keys no call names are unchanged.
\<close>

theorem typed_store_replay:
  assumes "wf_store s"
  shows "Get (fold (\<lambda>(k, ov, t). case ov of Some v \<Rightarrow> Set k v t | None \<Rightarrow> Delete k t) evs s) =
         fold (\<lambda>(k, ov, t) m. m(k := ov)) evs (Get s)"
  using assms by (rule typed.replay_lookup)

theorem typed_store_replay_witness:
  "Get (fold (\<lambda>(k, ov, t). case ov of Some v \<Rightarrow> Set k v t | None \<Rightarrow> Delete k t)
     [(''a'', Some (1::nat), 3), (''b'', Some 2, 4), (''a'', None, 5)] (NewTypedStore 0)) =
   [''b'' \<mapsto> 2]"
  by (subst typed_store_replay) (simp, simp add: NewTypedStore_def Get_map_of fun_eq_iff)

text \<open>
  The readers of a typed store agree for every iteration order: \<^verbatim>\<open>Values\<close> lists the
  value of every key exactly once, \<^verbatim>\<open>Snapshot\<close> is a map with the same entries, and
  \<^verbatim>\<open>Len\<close> counts the keys.
\<close>

theorem typed_store_readers_agree:
  assumes "wf_store s" and "order_ok ord"
  shows "mset (Values ord s) = image_mset (\<lambda>k. the (Get s k)) (mset_set (dom (Get s)))
       \<and> map_of (Snapshot ord s) = Get s
       \<and> Len s = of_nat (card (dom (Get s)))"
proof -
  have "length (items s) = card (dom (Get s))"
    using assms(1) distinct_card [of "map fst (items s)"]
    by (simp add: wf_store_def wf_map_def Get_map_of dom_map_of_conv_image_fst)
  then show ?thesis
    using Values_mset [OF assms] Snapshot_wf_map_of [OF assms] by (simp add: Len_def len_def)
qed

theorem typed_store_readers_agree_witness:
  "mset (Values (\<lambda>n. rev [0..<n]) (Set ''a'' (1::nat) 0 (Set ''b'' 2 0 (NewTypedStore 0)))) =
   {#1, 2#}"
proof -
  let ?s = "Set ''a'' (1::nat) 0 (Set ''b'' 2 0 (NewTypedStore 0))"
  have "mset (Values (\<lambda>n. rev [0..<n]) ?s) = image_mset (\<lambda>k. the (Get ?s k)) (mset_set (dom (Get ?s)))"
    using typed_store_readers_agree [of ?s "\<lambda>n. rev [0..<n]"] by simp
  moreover have "dom (Get ?s) = {''a'', ''b''}"
    by (auto simp: typed_store_defs NewTypedStore_def map_set_def dom_def split: if_splits)
  ultimately show ?thesis
    by (simp add: typed_store_defs NewTypedStore_def map_set_def)
qed

text \<open>
  The time stamp is written after the lock is released, so it is not the time of the
  last change: two goroutines can leave the later write in the map and the earlier time
  in \<^verbatim>\<open>lastUpdated\<close>.
\<close>

theorem stamp_can_regress:
  "\<exists>zs \<in> shuffles_all (map thread_steps [[CallSet ''a'' (1::nat) 1000000], [CallSet ''a'' 2 2000000]]).
     Get (fold run_step zs (NewTypedStore 0)) ''a'' = Some 2 \<and>
     LastUpdated (fold run_step zs (NewTypedStore 0)) = UnixMilli 1000000"
  by (rule bexI [of _ "[Write ''a'' 1, Write ''a'' 2, Stamp 2000000, Stamp 1000000]"])
    (simp_all add: thread_steps_def steps_of_def typed_store_defs NewTypedStore_def LastUpdated_def)

end
