(* ===== verification/Agent_Errors.thy ===== *)
theory Agent_Errors
  imports Go_Prelude
begin

text \<open>
  \<^verbatim>\<open>internal/errors\<close>: typed agent errors and the \<open>ErrorCollector\<close>, which keeps the last
  report per code and component and forgets it five minutes after the last report. The
  clock is a parameter: each operation takes the time it reads. Both readers drop the
  expired entries while they iterate. The collector is related to the history of
  reports by \<open>latest\<close>, which knows nothing of keys, maps or expiry.
\<close>

section \<open>Codes and errors\<close>

type_synonym Code = string

definition ErrMetricsUnavailable :: Code where "ErrMetricsUnavailable = ''METRICS_UNAVAILABLE''"
definition ErrInformerSyncFailed :: Code where "ErrInformerSyncFailed = ''INFORMER_SYNC_FAILED''"
definition ErrInformerSyncTimeout :: Code where "ErrInformerSyncTimeout = ''INFORMER_SYNC_TIMEOUT''"
definition ErrBackendUnreachable :: Code where "ErrBackendUnreachable = ''BACKEND_UNREACHABLE''"
definition ErrSnapshotBuildFailed :: Code where "ErrSnapshotBuildFailed = ''SNAPSHOT_BUILD_FAILED''"
definition ErrCompressionFailed :: Code where "ErrCompressionFailed = ''COMPRESSION_FAILED''"
definition ErrAuthFailed :: Code where "ErrAuthFailed = ''AUTH_FAILED''"
definition ErrBufferFull :: Code where "ErrBufferFull = ''BUFFER_FULL''"
definition ErrCRDNotFound :: Code where "ErrCRDNotFound = ''CRD_NOT_FOUND''"
definition ErrDiscoveryFailed :: Code where "ErrDiscoveryFailed = ''DISCOVERY_FAILED''"
definition ErrTimeout :: Code where "ErrTimeout = ''TIMEOUT''"
definition ErrPartialData :: Code where "ErrPartialData = ''PARTIAL_DATA''"

definition defaultTTL :: Duration where "defaultTTL = 5 * Minute"

record AgentError =
  Code :: string
  Message :: string
  Component :: string
  Timestamp :: int64
  Err :: "goerror option"

definition Error :: "AgentError \<Rightarrow> string" where
  "Error e = Message e"

definition Unwrap :: "AgentError \<Rightarrow> goerror option" where
  "Unwrap e = Err e"

section \<open>ErrorCollector\<close>

record entry =
  entry_err :: AgentError
  lastReport :: Time

record ErrorCollector =
  entries :: "(string, entry) gomap"

definition NewErrorCollector :: ErrorCollector where
  "NewErrorCollector = \<lparr>entries = []\<rparr>"

definition error_key :: "string \<Rightarrow> string \<Rightarrow> string" where
  "error_key code component = code @ ''|'' @ component"

definition Report :: "AgentError \<Rightarrow> Time \<Rightarrow> ErrorCollector \<Rightarrow> ErrorCollector" where
  "Report err now ec =
     (let k = error_key (Code err) (Component err)
      in ec\<lparr>entries := map_set k \<lparr>entry_err = err, lastReport = now\<rparr> (entries ec)\<rparr>)"

text \<open>\<^verbatim>\<open>now.Sub(e.lastReport) > defaultTTL\<close>\<close>

definition expired :: "Time \<Rightarrow> entry \<Rightarrow> bool" where
  "expired now e \<longleftrightarrow> sint defaultTTL < sint (time_Sub now (lastReport e))"

definition GetActiveErrors :: "iter_order \<Rightarrow> Time \<Rightarrow> ErrorCollector \<Rightarrow> AgentError list \<times> ErrorCollector" where
  "GetActiveErrors ord now ec =
     (let (m, result) =
        foldl (\<lambda>(m, result) (k, e).
            if expired now e then (map_del k m, result)
            else (m, result @ [entry_err e]))
          (entries ec, []) (map_range ord (entries ec))
      in (result, ec\<lparr>entries := m\<rparr>))"

definition GetActiveErrorCodes :: "iter_order \<Rightarrow> Time \<Rightarrow> ErrorCollector \<Rightarrow> string list \<times> ErrorCollector" where
  "GetActiveErrorCodes ord now ec =
     (let (m, seen, codes) =
        foldl (\<lambda>(m, seen, codes) (k, e).
            if expired now e then (map_del k m, seen, codes)
            else if Code (entry_err e) \<in> seen then (m, seen, codes)
            else (m, insert (Code (entry_err e)) seen, codes @ [Code (entry_err e)]))
          (entries ec, {}, []) (map_range ord (entries ec))
      in (codes, ec\<lparr>entries := m\<rparr>))"

definition ErrorCollector_Clear :: "ErrorCollector \<Rightarrow> ErrorCollector" where
  "ErrorCollector_Clear ec = ec\<lparr>entries := []\<rparr>"

text \<open>The operations as values, for sequences of calls.\<close>

datatype ec_op =
    OpReport AgentError Time
  | OpGetErrors iter_order Time
  | OpGetCodes iter_order Time
  | OpClear

fun run_ec_op :: "ec_op \<Rightarrow> ErrorCollector \<Rightarrow> ErrorCollector" where
  "run_ec_op (OpReport e t) ec = Report e t ec"
| "run_ec_op (OpGetErrors ord t) ec = snd (GetActiveErrors ord t ec)"
| "run_ec_op (OpGetCodes ord t) ec = snd (GetActiveErrorCodes ord t ec)"
| "run_ec_op OpClear ec = ErrorCollector_Clear ec"

section \<open>The history of reports\<close>

text \<open>
  The abstract view: for each key, the last report since the last clearing. An operation
  runs at a time; a history is timely when its times do not decrease.
\<close>

fun latest_step :: "ec_op \<Rightarrow> (string \<rightharpoonup> entry) \<Rightarrow> (string \<rightharpoonup> entry)" where
  "latest_step (OpReport e t) m = m(error_key (Code e) (Component e) \<mapsto> \<lparr>entry_err = e, lastReport = t\<rparr>)"
| "latest_step OpClear m = Map.empty"
| "latest_step _ m = m"

definition latest :: "ec_op list \<Rightarrow> string \<rightharpoonup> entry" where
  "latest ops = fold latest_step ops Map.empty"

fun op_time :: "ec_op \<Rightarrow> Time option" where
  "op_time (OpReport e t) = Some t"
| "op_time (OpGetErrors ord t) = Some t"
| "op_time (OpGetCodes ord t) = Some t"
| "op_time OpClear = None"

fun op_ok :: "ec_op \<Rightarrow> bool" where
  "op_ok (OpGetErrors ord t) = order_ok ord"
| "op_ok (OpGetCodes ord t) = order_ok ord"
| "op_ok _ = True"

fun timely :: "Time \<Rightarrow> ec_op list \<Rightarrow> bool" where
  "timely t [] = True"
| "timely t (a # ops) = (case op_time a of None \<Rightarrow> timely t ops | Some u \<Rightarrow> t \<le> u \<and> timely u ops)"

fun end_time :: "Time \<Rightarrow> ec_op list \<Rightarrow> Time" where
  "end_time t [] = t"
| "end_time t (a # ops) = end_time (case op_time a of None \<Rightarrow> t | Some u \<Rightarrow> u) ops"

text \<open>Keys are distinct, and every entry is stored under its own key.\<close>

definition ec_inv :: "ErrorCollector \<Rightarrow> bool" where
  "ec_inv ec \<longleftrightarrow> wf_map (entries ec) \<and>
     (\<forall>(k, e) \<in> set (entries ec). k = error_key (Code (entry_err e)) (Component (entry_err e)))"

section \<open>Both readers purge exactly the expired entries\<close>

lemma expired_iff: "expired now e \<longleftrightarrow> 300000000000 < now - lastReport e"
proof -
  have "sint defaultTTL = 300000000000"
    by (simp add: defaultTTL_def Minute_def Second_def)
  then show ?thesis by (auto simp: expired_def sint_time_Sub)
qed

lemma map_del_foldl:
  "foldl (\<lambda>m (k, e). if P e then map_del k m else m) m0 xs =
   filter (\<lambda>(k, _). \<forall>(k', e) \<in> set xs. k' = k \<longrightarrow> \<not> P e) m0"
proof (induction xs arbitrary: m0)
  case (Cons x xs)
  have "map_del k m = filter (\<lambda>(k', _). k' \<noteq> k) m" for k and m :: "('a, 'b) gomap"
    by (auto simp: map_del_def AList.delete_eq intro!: filter_cong)
  with Cons show ?case
    by (cases x) (auto simp: filter_filter intro!: filter_cong)
qed (simp add: case_prod_unfold)

lemma purge_eq_filter:
  assumes "wf_map m" and "order_ok ord"
  shows "foldl (\<lambda>m (k, e). if P e then map_del k m else m) m (map_range ord m) =
         filter (\<lambda>(k, e). \<not> P e) m"
  unfolding map_del_foldl map_range_set [OF assms(2)]
  using assms(1) by (auto simp: wf_map_def intro!: filter_cong dest: eq_key_imp_eq_value)

lemma GetActiveErrors_fold:
  "foldl (\<lambda>(m, result) (k, e). if expired now e then (map_del k m, result) else (m, result @ [entry_err e]))
     (m, rs) xs =
   (foldl (\<lambda>m (k, e). if expired now e then map_del k m else m) m xs,
    rs @ map (entry_err \<circ> snd) (filter (\<lambda>(k, e). \<not> expired now e) xs))"
  by (induction xs arbitrary: m rs) auto

lemma GetActiveErrors_eq:
  assumes "wf_map (entries ec)" and "order_ok ord"
  shows "GetActiveErrors ord now ec =
    (map (entry_err \<circ> snd) (filter (\<lambda>(k, e). \<not> expired now e) (map_range ord (entries ec))),
     ec\<lparr>entries := filter (\<lambda>(k, e). \<not> expired now e) (entries ec)\<rparr>)"
  by (simp add: GetActiveErrors_def GetActiveErrors_fold purge_eq_filter [OF assms])

lemma GetActiveErrorCodes_fold:
  "distinct cs \<Longrightarrow>
   \<exists>cs'. foldl (\<lambda>(m, seen, codes) (k, e).
            if expired now e then (map_del k m, seen, codes)
            else if Code (entry_err e) \<in> seen then (m, seen, codes)
            else (m, insert (Code (entry_err e)) seen, codes @ [Code (entry_err e)]))
     (m, set cs, cs) xs =
   (foldl (\<lambda>m (k, e). if expired now e then map_del k m else m) m xs, set cs', cs') \<and>
   distinct cs' \<and>
   set cs' = set cs \<union> (\<lambda>(k, e). Code (entry_err e)) ` set (filter (\<lambda>(k, e). \<not> expired now e) xs)"
proof (induction xs arbitrary: m cs)
  case (Cons x xs)
  obtain k e where x: "x = (k, e)" by (cases x)
  consider "expired now e" | "\<not> expired now e" "Code (entry_err e) \<in> set cs"
    | "\<not> expired now e" "Code (entry_err e) \<notin> set cs" by blast
  then show ?case
  proof cases
    case 2
    with Cons.IH [of cs m] Cons.prems x show ?thesis by (simp add: insert_absorb)
  next
    case 3
    with Cons.IH [of "cs @ [Code (entry_err e)]" m] Cons.prems x show ?thesis by auto
  qed (use Cons.IH [of cs] Cons.prems x in auto)
qed simp

lemma GetActiveErrorCodes_spec:
  assumes "wf_map (entries ec)" and "order_ok ord"
  shows "snd (GetActiveErrorCodes ord now ec) = ec\<lparr>entries := filter (\<lambda>(k, e). \<not> expired now e) (entries ec)\<rparr>"
    and "distinct (fst (GetActiveErrorCodes ord now ec))"
    and "set (fst (GetActiveErrorCodes ord now ec)) =
      (\<lambda>(k, e). Code (entry_err e)) ` set (filter (\<lambda>(k, e). \<not> expired now e) (entries ec))"
  using GetActiveErrorCodes_fold [of "[]" now "entries ec" "map_range ord (entries ec)"]
  by (auto simp: GetActiveErrorCodes_def purge_eq_filter [OF assms] map_range_set [OF assms(2)])

section \<open>The invariant and the refinement\<close>

lemma ec_inv_ops:
  "ec_inv NewErrorCollector"
  "ec_inv ec \<Longrightarrow> op_ok a \<Longrightarrow> ec_inv (run_ec_op a ec)"
proof -
  show "ec_inv NewErrorCollector" by (simp add: ec_inv_def NewErrorCollector_def)
  assume inv: "ec_inv ec" and ok: "op_ok a"
  then have wf: "wf_map (entries ec)" by (simp add: ec_inv_def)
  have purge: "ec_inv (ec\<lparr>entries := filter (\<lambda>(k, e). \<not> expired t e) (entries ec)\<rparr>)" for t
    using inv by (auto simp: ec_inv_def wf_map_filter)
  show "ec_inv (run_ec_op a ec)"
  proof (cases a)
    case (OpReport e t)
    have "set (map_set k v m) \<subseteq> insert (k, v) (set m)" for k v and m :: "(string, entry) gomap"
      unfolding map_set_def by (induction m) auto
    with inv OpReport show ?thesis by (fastforce simp: ec_inv_def Report_def Let_def)
  next
    case OpClear
    then show ?thesis by (simp add: ec_inv_def ErrorCollector_Clear_def)
  qed (use ok purge in \<open>simp_all add: GetActiveErrors_eq [OF wf] GetActiveErrorCodes_spec(1) [OF wf]\<close>)
qed

text \<open>The collector holds nothing but last reports, and every last report that is still active.\<close>

definition ec_rel :: "Time \<Rightarrow> (string \<rightharpoonup> entry) \<Rightarrow> ErrorCollector \<Rightarrow> bool" where
  "ec_rel now m ec \<longleftrightarrow> ec_inv ec \<and>
     (\<forall>k e. map_of (entries ec) k = Some e \<longrightarrow> m k = Some e) \<and>
     (\<forall>k e. m k = Some e \<longrightarrow> expired now e \<or> map_of (entries ec) k = Some e)"

lemma ec_relI:
  assumes "ec_inv ec"
    and "\<And>k e. map_of (entries ec) k = Some e \<Longrightarrow> m k = Some e"
    and "\<And>k e. m k = Some e \<Longrightarrow> \<not> expired now e \<Longrightarrow> map_of (entries ec) k = Some e"
  shows "ec_rel now m ec"
  unfolding ec_rel_def using assms by blast

lemma ec_relD:
  assumes "ec_rel now m ec"
  shows "ec_inv ec"
    and "map_of (entries ec) k = Some e \<Longrightarrow> m k = Some e"
    and "m k = Some e \<Longrightarrow> \<not> expired now e \<Longrightarrow> map_of (entries ec) k = Some e"
  using assms unfolding ec_rel_def by blast+

lemma ec_rel_later: "ec_rel t m ec \<Longrightarrow> t \<le> u \<Longrightarrow> ec_rel u m ec"
  by (rule ec_relI) (erule ec_relD | assumption | simp add: expired_iff)+

lemma ec_rel_purge:
  assumes "ec_rel t m ec"
  shows "ec_rel t m (ec\<lparr>entries := filter (\<lambda>(k, e). \<not> expired t e) (entries ec)\<rparr>)"
proof (rule ec_relI)
  note inv = ec_relD(1) [OF assms]
  then have wf: "wf_map (entries ec)" by (simp add: ec_inv_def)
  show "ec_inv (ec\<lparr>entries := filter (\<lambda>(k, e). \<not> expired t e) (entries ec)\<rparr>)"
    using inv by (auto simp: ec_inv_def wf_map_filter)
  fix k e
  show "m k = Some e"
    if "map_of (entries (ec\<lparr>entries := filter (\<lambda>(k, e). \<not> expired t e) (entries ec)\<rparr>)) k = Some e"
    using that ec_relD(2) [OF assms, of k e] by (simp add: map_of_filter [OF wf] split: option.splits if_splits)
  show "map_of (entries (ec\<lparr>entries := filter (\<lambda>(k, e). \<not> expired t e) (entries ec)\<rparr>)) k = Some e"
    if "m k = Some e" and "\<not> expired t e"
    using that ec_relD(3) [OF assms that] by (simp add: map_of_filter [OF wf])
qed

lemma ec_rel_report:
  assumes "ec_rel t m ec" and "ec_inv (Report e t ec)"
  shows "ec_rel t (latest_step (OpReport e t) m) (Report e t ec)"
proof (rule ec_relI [OF assms(2)])
  fix k e'
  let ?k = "error_key (Code e) (Component e)"
  have upd: "map_of (entries (Report e t ec)) = (map_of (entries ec))(?k \<mapsto> \<lparr>entry_err = e, lastReport = t\<rparr>)"
    by (simp add: Report_def Let_def)
  show "latest_step (OpReport e t) m k = Some e'" if "map_of (entries (Report e t ec)) k = Some e'"
    using that ec_relD(2) [OF assms(1), of k e'] by (simp add: upd split: if_splits)
  show "map_of (entries (Report e t ec)) k = Some e'"
    if "latest_step (OpReport e t) m k = Some e'" and "\<not> expired t e'"
    using that ec_relD(3) [OF assms(1), of k e'] by (simp add: upd split: if_splits)
qed

lemma ec_rel_step:
  assumes "ec_rel t m ec" and "op_ok a" and "case op_time a of None \<Rightarrow> u = t | Some t' \<Rightarrow> u = t' \<and> t \<le> t'"
  shows "ec_rel u (latest_step a m) (run_ec_op a ec)"
proof -
  note inv = ec_relD(1) [OF assms(1)]
  then have wf: "wf_map (entries ec)" by (simp add: ec_inv_def)
  have inv': "ec_inv (run_ec_op a ec)" by (rule ec_inv_ops(2) [OF inv assms(2)])
  from assms(3) have "t \<le> u" by (simp split: option.splits)
  note later = ec_rel_later [OF assms(1) this]
  note purge = ec_rel_purge [OF later]
  show ?thesis
  proof (cases a)
    case (OpReport e t')
    with assms(3) have "u = t'" by simp
    with ec_rel_report [of u m ec e] later inv' OpReport show ?thesis by simp
  next
    case (OpGetErrors ord t')
    with assms(2,3) purge show ?thesis by (simp add: GetActiveErrors_eq [OF wf])
  next
    case (OpGetCodes ord t')
    with assms(2,3) purge show ?thesis by (simp add: GetActiveErrorCodes_spec(1) [OF wf])
  next
    case OpClear
    with inv' show ?thesis by (simp add: ec_rel_def ErrorCollector_Clear_def)
  qed
qed

lemma ec_rel_run:
  "ec_rel t m ec \<Longrightarrow> timely t ops \<Longrightarrow> list_all op_ok ops \<Longrightarrow>
   ec_rel (end_time t ops) (fold latest_step ops m) (fold run_ec_op ops ec)"
proof (induction ops arbitrary: t m ec)
  case (Cons a ops)
  let ?u = "case op_time a of None \<Rightarrow> t | Some u \<Rightarrow> u"
  have "ec_rel ?u (latest_step a m) (run_ec_op a ec)"
    by (rule ec_rel_step [OF Cons.prems(1)]) (use Cons.prems in \<open>simp_all split: option.splits\<close>)
  moreover from Cons.prems have "timely ?u ops" and "list_all op_ok ops"
    by (simp_all split: option.splits)
  ultimately show ?case using Cons.IH by simp
qed simp

lemma ec_rel_init: "ec_rel t Map.empty NewErrorCollector"
  using ec_inv_ops(1) by (simp add: ec_rel_def NewErrorCollector_def)

lemma ec_rel_active:
  assumes "ec_rel now m ec"
  shows "(k, e) \<in> set (entries ec) \<and> \<not> expired now e \<longleftrightarrow> m k = Some e \<and> \<not> expired now e"
proof -
  have "distinct (map fst (entries ec))"
    using ec_relD(1) [OF assms] by (simp add: ec_inv_def wf_map_def)
  then have "(k, e) \<in> set (entries ec) \<longleftrightarrow> map_of (entries ec) k = Some e" by simp
  with ec_relD(2,3) [OF assms, of k e] show ?thesis by blast
qed

lemma ex_entry_of:
  "(\<exists>e. entry_err e = err \<and> Q e) \<longleftrightarrow> (\<exists>t. Q \<lparr>entry_err = err, lastReport = t\<rparr>)"
proof
  assume "\<exists>e. entry_err e = err \<and> Q e"
  then obtain e where "entry_err e = err" and "Q e" by blast
  then show "\<exists>t. Q \<lparr>entry_err = err, lastReport = t\<rparr>" by (cases e) auto
qed force

lemma history_rel:
  assumes "timely t0 ops" and "list_all op_ok ops" and "end_time t0 ops \<le> now"
  shows "ec_rel now (latest ops) (fold run_ec_op ops NewErrorCollector)"
  unfolding latest_def
  by (rule ec_rel_later [OF ec_rel_run [OF ec_rel_init assms(1,2)] assms(3)])

section \<open>Properties of the error collector\<close>

text \<open>
  C34. After any sequence of reports, reads and clearings at non-decreasing times, the
  active errors are exactly the last reports per code and component that are at most
  five minutes old: reading never loses an active error, whatever the iteration order,
  and an error that is not reported again expires.
\<close>

theorem active_errors_are_recent_reports:
  assumes "timely t0 ops" and "list_all op_ok ops" and "end_time t0 ops \<le> now" and "order_ok ord"
  shows "err \<in> set (fst (GetActiveErrors ord now (fold run_ec_op ops NewErrorCollector))) \<longleftrightarrow>
         (\<exists>k t. latest ops k = Some \<lparr>entry_err = err, lastReport = t\<rparr> \<and> now - t \<le> 300000000000)"
proof -
  let ?ec = "fold run_ec_op ops NewErrorCollector"
  have rel: "ec_rel now (latest ops) ?ec" by (rule history_rel [OF assms(1-3)])
  have wf: "wf_map (entries ?ec)" using ec_relD(1) [OF rel] by (simp add: ec_inv_def)
  have "err \<in> set (fst (GetActiveErrors ord now ?ec)) \<longleftrightarrow>
      (\<exists>k e. entry_err e = err \<and> (k, e) \<in> set (entries ?ec) \<and> \<not> expired now e)"
    by (auto simp: GetActiveErrors_eq [OF wf assms(4)] map_range_set [OF assms(4)] image_iff)
  also have "\<dots> \<longleftrightarrow> (\<exists>k e. entry_err e = err \<and> latest ops k = Some e \<and> \<not> expired now e)"
    by (simp only: ec_rel_active [OF rel])
  also have "\<dots> \<longleftrightarrow> (\<exists>k t. latest ops k = Some \<lparr>entry_err = err, lastReport = t\<rparr> \<and> now - t \<le> 300000000000)"
    by (simp add: ex_entry_of expired_iff not_less)
  finally show ?thesis .
qed

theorem active_errors_are_recent_reports_witness:
  "let e = \<lparr>Code = ErrTimeout, Message = ''slow'', Component = ''agent'', Timestamp = 0, Err = None\<rparr>;
       ec = fold run_ec_op [OpReport e 10, OpGetErrors (\<lambda>n. [0..<n]) 20] NewErrorCollector
   in e \<in> set (fst (GetActiveErrors (\<lambda>n. rev [0..<n]) 300000000010 ec)) \<and>
      e \<notin> set (fst (GetActiveErrors (\<lambda>n. rev [0..<n]) 300000000011 ec))"
proof -
  let ?e = "\<lparr>Code = ErrTimeout, Message = ''slow'', Component = ''agent'', Timestamp = 0, Err = None\<rparr>"
  let ?ops = "[OpReport ?e 10, OpGetErrors (\<lambda>n. [0..<n]) 20]"
  have ops: "timely 0 ?ops" "list_all op_ok ?ops" "end_time 0 ?ops \<le> 300000000010"
      "end_time 0 ?ops \<le> 300000000011" by simp_all
  show ?thesis
    using active_errors_are_recent_reports [OF ops(1,2,3) backward_order_ok, of ?e]
      active_errors_are_recent_reports [OF ops(1,2,4) backward_order_ok, of ?e]
    by (simp add: latest_def)
qed

text \<open>
  The reported codes have no duplicates and are exactly the codes of the active
  errors, and reading the codes purges the same entries as reading the errors.
\<close>

theorem active_codes_match_errors:
  assumes "ec_inv ec" and "order_ok ord" and "order_ok ord'"
  shows "distinct (fst (GetActiveErrorCodes ord now ec))
       \<and> set (fst (GetActiveErrorCodes ord now ec)) = Code ` set (fst (GetActiveErrors ord' now ec))
       \<and> snd (GetActiveErrorCodes ord now ec) = snd (GetActiveErrors ord' now ec)"
proof -
  from assms(1) have wf: "wf_map (entries ec)" by (simp add: ec_inv_def)
  show ?thesis
    using GetActiveErrorCodes_spec [OF wf assms(2)]
    by (simp add: GetActiveErrors_eq [OF wf assms(3)] map_range_set [OF assms(3)] image_image case_prod_unfold)
qed

theorem active_codes_match_errors_witness:
  "let ec = Report \<lparr>Code = ErrTimeout, Message = ''a'', Component = ''x'', Timestamp = 0, Err = None\<rparr> 5
       (Report \<lparr>Code = ErrTimeout, Message = ''b'', Component = ''y'', Timestamp = 0, Err = None\<rparr> 4 NewErrorCollector)
   in set (fst (GetActiveErrorCodes (\<lambda>n. [0..<n]) 6 ec)) =
      Code ` set (fst (GetActiveErrors (\<lambda>n. rev [0..<n]) 6 ec))"
proof -
  have "ec_inv (run_ec_op (OpReport a 5) (run_ec_op (OpReport b 4) NewErrorCollector))" for a b
    by (simp only: ec_inv_ops op_ok.simps)
  then show ?thesis
    unfolding Let_def run_ec_op.simps
    using active_codes_match_errors [OF _ forward_order_ok backward_order_ok] by blast
qed

end
