(* ===== verification/Go_Strings.thy ===== *)
theory Go_Strings
  imports Float64
begin

text \<open>
  The functions of \<^verbatim>\<open>strings\<close>, \<^verbatim>\<open>strconv\<close> and \<^verbatim>\<open>bufio\<close> that the parsers of the agent call: trimming
  and splitting, decimal integers, floating-point numbers with Go's full syntax, and the
  line scanner with its limit. Strings are lists of bytes; white space is Unicode's, in
  its UTF-8 encoding.
\<close>

section \<open>Digits\<close>

definition is_digit :: "char \<Rightarrow> bool" where
  "is_digit c \<longleftrightarrow> of_char c \<ge> (48::nat) \<and> of_char c \<le> (57::nat)"

definition digit_val :: "char \<Rightarrow> nat" where
  "digit_val c = of_char c - 48"

definition digits_val :: "string \<Rightarrow> nat" where
  "digits_val s = foldl (\<lambda>n c. n * 10 + digit_val c) 0 s"

text \<open>An optional sign, as \<^verbatim>\<open>strconv\<close> and \<^verbatim>\<open>time\<close> read it: whether it is a minus, and the rest.\<close>

definition read_sign :: "string \<Rightarrow> bool \<times> string" where
  "read_sign s =
     (case s of [] \<Rightarrow> (False, [])
      | c # cs \<Rightarrow> if c = CHR ''-'' then (True, cs) else if c = CHR ''+'' then (False, cs) else (False, s))"

text \<open>
  \<^verbatim>\<open>strconv.ParseInt(s, 10, 64)\<close>, which is also what \<^verbatim>\<open>strconv.Atoi\<close> accepts: a sign, then
  decimal digits, in the range of \<^verbatim>\<open>int64\<close>; \<open>None\<close> is an error.
\<close>

definition ParseInt :: "string \<Rightarrow> int64 option" where
  "ParseInt s =
     (let (neg, ds) = read_sign s in
      if ds = [] \<or> \<not> list_all is_digit ds then None
      else let n = int (digits_val ds); i = (if neg then - n else n) in
           if - (2 ^ 63) \<le> i \<and> i < 2 ^ 63 then Some (word_of_int i) else None)"

definition ParseBool :: "string \<Rightarrow> bool option" where
  "ParseBool s =
     (if s \<in> set [''1'', ''t'', ''T'', ''true'', ''TRUE'', ''True''] then Some True
      else if s \<in> set [''0'', ''f'', ''F'', ''false'', ''FALSE'', ''False''] then Some False
      else None)"

section \<open>White space\<close>

definition is_space :: "char \<Rightarrow> bool" where
  "is_space c \<longleftrightarrow> of_char c \<in> set [9, 10, 11, 12, 13, 32 :: nat]"

text \<open>The encodings of the Unicode space characters beyond ASCII.\<close>

definition wide_spaces :: "string list" where
  "wide_spaces = map (map char_of)
     ([[194, 133], [194, 160], [225, 154, 128], [226, 128, 168], [226, 128, 169], [226, 128, 175], [226, 129, 159], [227, 128, 128]]
      @ map (\<lambda>k. [226, 128, k]) [128..<139 :: nat])"

text \<open>The number of bytes of the space character at the start of a text, 0 if there is none.\<close>

definition space_len :: "string \<Rightarrow> nat" where
  "space_len s =
     (case s of [] \<Rightarrow> 0
      | c # _ \<Rightarrow> if is_space c then 1
                 else case find (HasPrefix s) wide_spaces of Some w \<Rightarrow> length w | None \<Rightarrow> 0)"

definition space_len_end :: "string \<Rightarrow> nat" where
  "space_len_end r =
     (case r of [] \<Rightarrow> 0
      | c # _ \<Rightarrow> if is_space c then 1
                 else case find (\<lambda>w. HasPrefix r (rev w)) wide_spaces of Some w \<Rightarrow> length w | None \<Rightarrow> 0)"

function trim_by :: "(string \<Rightarrow> nat) \<Rightarrow> string \<Rightarrow> string" where
  "trim_by f s = (if s = [] \<or> f s = 0 then s else trim_by f (drop (f s) s))"
  by pat_completeness auto
termination by (relation "measure (\<lambda>(f, s). length s)") auto

declare trim_by.simps [simp del]

definition TrimSpace :: "string \<Rightarrow> string" where
  "TrimSpace s = rev (trim_by space_len_end (rev (trim_by space_len s)))"

text \<open>\<^verbatim>\<open>strings.Fields\<close>: the maximal runs of bytes that are not of a space; \<open>w\<close> is the current run.\<close>

function fields_from :: "string \<Rightarrow> string \<Rightarrow> string list" where
  "fields_from w s =
     (if s = [] then (if w = [] then [] else [w])
      else if space_len s = 0 then fields_from (w @ [hd s]) (tl s)
      else (if w = [] then [] else [w]) @ fields_from [] (drop (space_len s) s))"
  by pat_completeness auto
termination by (relation "measure (\<lambda>(w, s). length s)") auto

declare fields_from.simps [simp del]

definition Fields :: "string \<Rightarrow> string list" where
  "Fields s = fields_from [] s"

section \<open>Cutting\<close>

text \<open>\<^verbatim>\<open>strings.Split(s, ",")\<close>, for a separator of one byte.\<close>

fun split_at :: "char \<Rightarrow> string \<Rightarrow> string list" where
  "split_at sep [] = [[]]"
| "split_at sep (c # cs) =
     (if c = sep then [] # split_at sep cs
      else case split_at sep cs of [] \<Rightarrow> [[c]] | w # ws \<Rightarrow> (c # w) # ws)"

text \<open>\<^verbatim>\<open>strings.IndexByte\<close> and \<^verbatim>\<open>strings.LastIndexByte\<close>; \<open>None\<close> is $-1$.\<close>

fun IndexByte :: "string \<Rightarrow> char \<Rightarrow> nat option" where
  "IndexByte [] c = None"
| "IndexByte (x # s) c = (if x = c then Some 0 else map_option Suc (IndexByte s c))"

fun LastIndexByte :: "string \<Rightarrow> char \<Rightarrow> nat option" where
  "LastIndexByte [] c = None"
| "LastIndexByte (x # s) c =
     (case LastIndexByte s c of Some i \<Rightarrow> Some (Suc i) | None \<Rightarrow> if x = c then Some 0 else None)"

definition TrimPrefix :: "string \<Rightarrow> string \<Rightarrow> string" where
  "TrimPrefix s p = (if HasPrefix s p then drop (length p) s else s)"

text \<open>\<^verbatim>\<open>strings.TrimRight(s, "/")\<close>, for a cutset of one byte.\<close>

definition TrimRight :: "string \<Rightarrow> char \<Rightarrow> string" where
  "TrimRight s c = rev (dropWhile (\<lambda>x. x = c) (rev s))"

text \<open>\<^verbatim>\<open>strings.ToLower\<close> and \<^verbatim>\<open>strings.ToUpper\<close> on ASCII texts, as label values are; other bytes are kept.\<close>

definition lower :: "char \<Rightarrow> char" where
  "lower c = (if (65::nat) \<le> of_char c \<and> of_char c \<le> (90::nat) then char_of (of_char c + 32 :: nat) else c)"

definition upper :: "char \<Rightarrow> char" where
  "upper c = (if (97::nat) \<le> of_char c \<and> of_char c \<le> (122::nat) then char_of (of_char c - 32 :: nat) else c)"

definition ToLower :: "string \<Rightarrow> string" where
  "ToLower s = map lower s"

definition ToUpper :: "string \<Rightarrow> string" where
  "ToUpper s = map upper s"

section \<open>Lines\<close>

text \<open>
  \<^verbatim>\<open>bufio.Scanner\<close> with its default split function and buffer: lines end with a newline, one
  carriage return before it is dropped, and the scan stops at the first line of 65536 bytes
  or more.
\<close>

definition MaxScanTokenSize :: nat where "MaxScanTokenSize = 64 * 1024"

definition drop_cr :: "string \<Rightarrow> string" where
  "drop_cr l = (if l \<noteq> [] \<and> last l = CHR 0x0D then butlast l else l)"

abbreviation newline :: char where "newline \<equiv> CHR 0x0A"

definition raw_lines :: "string \<Rightarrow> string list" where
  "raw_lines s = (let ls = split_at newline s in if last ls = [] then butlast ls else ls)"

definition scan_lines :: "string \<Rightarrow> string list" where
  "scan_lines s = map drop_cr (takeWhile (\<lambda>l. length l < MaxScanTokenSize) (raw_lines s))"

section \<open>Floating-point numbers\<close>

text \<open>
  \<^verbatim>\<open>strconv.ParseFloat(s, 64)\<close>: decimal and hexadecimal literals with underscores between
  digits, and the names of the special values. The mantissa is read by \<open>mant_scan\<close> (whether
  a dot was seen, the numbers of digits and of fraction digits, the value, whether an
  underscore was seen), the exponent by \<open>exp_scan\<close>, which stops growing at 10000.
\<close>

definition is_hex_letter :: "char \<Rightarrow> bool" where
  "is_hex_letter c \<longleftrightarrow> lower c \<in> set ''abcdef''"

definition hex_val :: "char \<Rightarrow> nat" where
  "hex_val c = (if is_digit c then digit_val c else of_char (lower c) - 87)"

fun mant_scan :: "bool \<Rightarrow> bool \<Rightarrow> nat \<Rightarrow> nat \<Rightarrow> nat \<Rightarrow> bool \<Rightarrow> string \<Rightarrow> nat \<times> nat \<times> nat \<times> bool \<times> string" where
  "mant_scan hex dot nd nf m u [] = (nd, nf, m, u, [])"
| "mant_scan hex dot nd nf m u (c # s) =
     (if c = CHR ''_'' then mant_scan hex dot nd nf m True s
      else if c = CHR ''.'' then (if dot then (nd, nf, m, u, c # s) else mant_scan hex True nd nf m u s)
      else if is_digit c \<or> hex \<and> is_hex_letter c
      then mant_scan hex dot (Suc nd) (if dot then Suc nf else nf) (m * (if hex then 16 else 10) + hex_val c) u s
      else (nd, nf, m, u, c # s))"

fun exp_scan :: "nat \<Rightarrow> bool \<Rightarrow> string \<Rightarrow> nat \<times> bool \<times> string" where
  "exp_scan e u [] = (e, u, [])"
| "exp_scan e u (c # s) =
     (if c = CHR ''_'' then exp_scan e True s
      else if is_digit c then exp_scan (if e < 10000 then e * 10 + digit_val c else e) u s
      else (e, u, c # s))"

text \<open>The exponent part after the mantissa: the exponent, whether an underscore was seen, the rest.\<close>

definition read_exponent :: "bool \<Rightarrow> bool \<Rightarrow> string \<Rightarrow> (int \<times> bool \<times> string) option" where
  "read_exponent hex u s =
     (if s \<noteq> [] \<and> lower (hd s) = (if hex then CHR ''p'' else CHR ''e'') then
        let (neg, t) = read_sign (tl s) in
        if t = [] \<or> \<not> is_digit (hd t) then None
        else let (e, u', r) = exp_scan 0 u t in Some (if neg then - int e else int e, u', r)
      else if hex then None else Some (0, u, s))"

text \<open>\<^verbatim>\<open>underscoreOK\<close> after the sign and the base prefix; \<open>saw\<close> is the kind of the last byte.\<close>

fun underscore_ok :: "bool \<Rightarrow> char \<Rightarrow> string \<Rightarrow> bool" where
  "underscore_ok hex saw [] \<longleftrightarrow> saw \<noteq> CHR ''_''"
| "underscore_ok hex saw (c # s) \<longleftrightarrow>
     (if is_digit c \<or> hex \<and> is_hex_letter c then underscore_ok hex CHR ''0'' s
      else if c = CHR ''_'' then saw = CHR ''0'' \<and> underscore_ok hex CHR ''_'' s
      else saw \<noteq> CHR ''_'' \<and> underscore_ok hex CHR ''!'' s)"

definition underscoreOK :: "string \<Rightarrow> bool" where
  "underscoreOK s0 =
     (let s = snd (read_sign s0) in
      if length s \<ge> 2 \<and> hd s = CHR ''0'' \<and> lower (s ! 1) \<in> set ''box''
      then underscore_ok (lower (s ! 1) = CHR ''x'') CHR ''0'' (drop 2 s)
      else underscore_ok False (CHR ''^'') s)"

definition float_special :: "string \<Rightarrow> float64 option" where
  "float_special s0 =
     (let s = ToLower s0 in
      if s \<in> set [''inf'', ''infinity'', ''+inf'', ''+infinity''] then Some (Infinity False)
      else if s \<in> set [''-inf'', ''-infinity''] then Some (Infinity True)
      else if s = ''nan'' then Some NaN else None)"

definition float_literal :: "string \<Rightarrow> float64 option" where
  "float_literal s0 =
     (let (neg, s) = read_sign s0;
          hex = (length s > 2 \<and> hd s = CHR ''0'' \<and> lower (s ! 1) = CHR ''x'');
          (nd, nf, m, u, s1) = mant_scan hex False 0 0 0 False (if hex then drop 2 s else s)
      in if nd = 0 then None
         else case read_exponent hex u s1 of
           None \<Rightarrow> None
         | Some (e, u', rest) \<Rightarrow>
             if rest \<noteq> [] \<or> u' \<and> \<not> underscoreOK s0 then None
             else
               let q = (if hex then of_nat m * 2 powi (e - 4 * int nf) else of_nat m * 10 powi (e - int nf)) in
               if m = 0 then Some (Zero neg)
               else case f64_round (if neg then - q else q) of Infinity _ \<Rightarrow> None | x \<Rightarrow> Some x)"

definition ParseFloat :: "string \<Rightarrow> float64 option" where
  "ParseFloat s = (case float_special s of Some x \<Rightarrow> Some x | None \<Rightarrow> float_literal s)"

section \<open>Lemmas on white space and cutting\<close>

lemma IndexByte_append:
  "c \<notin> set s \<Longrightarrow> IndexByte (s @ c # t) c = Some (length s)"
  by (induction s) auto

lemma LastIndexByte_None: "c \<notin> set s \<Longrightarrow> LastIndexByte s c = None"
  by (induction s) auto

lemma IndexByte_None: "c \<notin> set s \<Longrightarrow> IndexByte s c = None"
  by (induction s) auto

lemma LastIndexByte_append:
  "c \<notin> set t \<Longrightarrow> LastIndexByte (s @ c # t) c = Some (length s)"
  by (induction s) (auto simp: LastIndexByte_None)

lemma split_at_nonempty [simp]: "split_at c s \<noteq> []"
  by (induction s) (auto split: list.splits)

lemma split_at_none: "c \<notin> set s \<Longrightarrow> split_at c s = [s]"
  by (induction s) auto

lemma split_at_append: "c \<notin> set s \<Longrightarrow> split_at c (s @ c # t) = s # split_at c t"
  by (induction s) auto

section \<open>Numerals\<close>

lemma digit_char [simp]: "k < 10 \<Longrightarrow> is_digit (char_of (48 + k))" "k < 10 \<Longrightarrow> digit_val (char_of (48 + k)) = k"
  by (simp_all add: is_digit_def digit_val_def)

lemma digits_val_snoc [simp]: "digits_val (s @ [c]) = digits_val s * 10 + digit_val c"
  by (simp add: digits_val_def)

lemma nat_to_string_digits:
  "list_all is_digit (nat_to_string n) \<and> nat_to_string n \<noteq> [] \<and> digits_val (nat_to_string n) = n"
proof (induction n rule: nat_to_string.induct)
  case (1 n)
  show ?case
  proof (cases "n < 10")
    case True
    then show ?thesis by (subst (1 2 3) nat_to_string.simps) (simp add: digits_val_def)
  next
    case False
    with 1 show ?thesis by (subst (1 2 3) nat_to_string.simps) simp
  qed
qed

lemma is_digit_facts [simp]: "is_digit c \<Longrightarrow> c \<noteq> CHR ''-''" "is_digit c \<Longrightarrow> c \<noteq> CHR ''+''"
  "is_digit c \<Longrightarrow> c \<noteq> CHR ''.''" "is_digit c \<Longrightarrow> c \<noteq> CHR ''_''" "\<not> is_digit CHR ''s''" "is_digit CHR ''0''"
  "is_digit c \<Longrightarrow> \<not> is_space c" "is_digit c \<Longrightarrow> lower c = c" "is_digit c \<Longrightarrow> hex_val c = digit_val c"
  by (auto simp: is_digit_def is_space_def lower_def hex_val_def)

lemma numeral_hd: "is_digit (hd (nat_to_string n @ r))" "nat_to_string n @ r \<noteq> []"
  using nat_to_string_digits [of n] by (auto simp: list_all_iff)

lemma numeral_sign [simp]: "read_sign (nat_to_string n @ r) = (False, nat_to_string n @ r)"
  using numeral_hd [of n r] by (cases "nat_to_string n @ r") (auto simp: read_sign_def)

lemma numeral_sign_end [simp]: "read_sign (nat_to_string n) = (False, nat_to_string n)"
  using numeral_sign [of n "[]"] by simp

lemma mant_scan_digits:
  assumes "list_all is_digit ds"
  shows "mant_scan False False nd 0 m u ds = (nd + length ds, 0, foldl (\<lambda>n c. n * 10 + digit_val c) m ds, u, [])"
  using assms by (induction ds arbitrary: nd m) auto

text \<open>A whole number is read as the nearest \<^verbatim>\<open>float64\<close>.\<close>

lemma ParseFloat_numeral:
  assumes "\<forall>b. f64_of_int (int n) \<noteq> Infinity b"
  shows "ParseFloat (nat_to_string n) = Some (f64_of_int (int n))"
proof -
  let ?s = "nat_to_string n"
  note ds = nat_to_string_digits [of n]
  obtain c t where s: "?s = c # t" and c: "is_digit c" using ds by (cases ?s) auto
  have "hd (ToLower ?s) = c" using s c by (simp add: ToLower_def)
  moreover have "c \<noteq> CHR ''i''" "c \<noteq> CHR ''n''" "c \<noteq> CHR ''-''" "c \<noteq> CHR ''+''" using c by (auto simp: is_digit_def)
  ultimately have "float_special ?s = None" using c by (auto simp: float_special_def Let_def is_digit_def)
  moreover have nothex: "\<not> (length ?s > 2 \<and> hd ?s = CHR ''0'' \<and> lower (?s ! 1) = CHR ''x'')"
  proof
    assume h: "length ?s > 2 \<and> hd ?s = CHR ''0'' \<and> lower (?s ! 1) = CHR ''x''"
    then have "is_digit (?s ! 1)" using ds by (simp add: list_all_length)
    with h show False by (simp add: is_digit_def)
  qed
  moreover have "length ?s \<noteq> 0" using s by simp
  moreover have "mant_scan False False 0 0 0 False ?s = (length ?s, 0, n, False, [])"
    using mant_scan_digits [of ?s 0 0 False] ds by (simp add: digits_val_def)
  ultimately show ?thesis using assms
    by (cases "n = 0"; cases "f64_of_int (int n)")
      (auto simp: ParseFloat_def float_literal_def Let_def read_exponent_def f64_of_int_def nothex)
qed

end
