(* ===== verification/Config.thy ===== *)
theory Config
  imports Go_Strings
begin

text \<open>
  \<^verbatim>\<open>internal/config\<close>: the configuration the agent reads from its environment, and its
  validation. The environment is a function from names to values, empty where a variable
  is not set, as \<^verbatim>\<open>os.Getenv\<close> reports it. The parsers of \<^verbatim>\<open>strconv\<close> and \<^verbatim>\<open>time\<close> that the
  code calls are written out; strings are lists of bytes.
\<close>

section \<open>strconv, strings and time\<close>

type_synonym environ = "string \<Rightarrow> string"

text \<open>\<^verbatim>\<open>leadingInt\<close> of \<^verbatim>\<open>time\<close>: the value of the leading digits and the rest, or an error beyond $2^{63}$.\<close>

fun leadingInt :: "nat \<Rightarrow> string \<Rightarrow> (nat \<times> string) option" where
  "leadingInt x [] = Some (x, [])"
| "leadingInt x (c # cs) =
     (if \<not> is_digit c then Some (x, c # cs)
      else if x > 2 ^ 63 div 10 then None
      else let y = x * 10 + digit_val c in if y > 2 ^ 63 then None else leadingInt y cs)"

text \<open>\<^verbatim>\<open>leadingFraction\<close>: digits that do not fit are skipped; the scale is a \<^verbatim>\<open>float64\<close>.\<close>

fun leadingFraction :: "nat \<Rightarrow> float64 \<Rightarrow> bool \<Rightarrow> string \<Rightarrow> nat \<times> float64 \<times> string" where
  "leadingFraction x scale overflow [] = (x, scale, [])"
| "leadingFraction x scale overflow (c # cs) =
     (if \<not> is_digit c then (x, scale, c # cs)
      else if overflow \<or> x > (2 ^ 63 - 1) div 10 then leadingFraction x scale True cs
      else let y = x * 10 + digit_val c in
           if y > 2 ^ 63 then leadingFraction x scale True cs
           else leadingFraction y (f64_mul scale (f64_of_int 10)) False cs)"

definition unitMap :: "(string \<times> nat) list" where
  "unitMap = [(''ns'', 1), (''us'', 1000), ([char_of (194::nat), char_of (181::nat), CHR ''s''], 1000),
     ([char_of (206::nat), char_of (188::nat), CHR ''s''], 1000), (''ms'', 1000000),
     (''s'', 1000000000), (''m'', 60 * 1000000000), (''h'', 60 * 60 * 1000000000)]"

definition unit_char :: "char \<Rightarrow> bool" where
  "unit_char c \<longleftrightarrow> c \<noteq> CHR ''.'' \<and> \<not> is_digit c"

text \<open>One number with its unit: its value in nanoseconds and the rest of the text.\<close>

definition duration_term :: "string \<Rightarrow> (nat \<times> string) option" where
  "duration_term s =
     (case leadingInt 0 s of None \<Rightarrow> None
      | Some (v, s1) \<Rightarrow>
        let pre = (length s1 \<noteq> length s);
            dot = (s1 \<noteq> [] \<and> hd s1 = CHR ''.'');
            (f, scale, s2) = (if dot then leadingFraction 0 (f64_of_int 1) False (tl s1) else (0, f64_of_int 1, s1));
            post = (dot \<and> length s2 \<noteq> length (tl s1));
            u = takeWhile unit_char s2; s3 = dropWhile unit_char s2
        in if \<not> pre \<and> \<not> post then None
           else if u = [] then None
           else case map_of unitMap u of None \<Rightarrow> None
                | Some unit \<Rightarrow>
                  if v > 2 ^ 63 div unit then None
                  else let v' = v * unit + (if f > 0 then nat \<lfloor>f64_val (f64_mul (f64_of_int (int f)) (f64_div (f64_of_int (int unit)) scale))\<rfloor> else 0)
                       in if f > 0 \<and> v' > 2 ^ 63 then None else Some (v', s3))"
lemma leadingInt_length: "leadingInt x s = Some (v, s') \<Longrightarrow> length s' \<le> length s"
  by (induction x s arbitrary: v s' rule: leadingInt.induct) (force simp: Let_def split: if_splits)+

lemma leadingFraction_length: "leadingFraction x sc ov s = (f, sc', s') \<Longrightarrow> length s' \<le> length s"
  by (induction x sc ov s arbitrary: f sc' s' rule: leadingFraction.induct) (force simp: Let_def split: if_splits)+

lemma duration_term_length: "duration_term s = Some (v, s') \<Longrightarrow> length s' < length s"
proof -
  assume "duration_term s = Some (v, s')"
  then obtain v1 s1 f sc s2 where l: "leadingInt 0 s = Some (v1, s1)"
    and f: "(if s1 \<noteq> [] \<and> hd s1 = CHR ''.'' then leadingFraction 0 (f64_of_int 1) False (tl s1) else (0, f64_of_int 1, s1)) = (f, sc, s2)"
    and u: "takeWhile unit_char s2 \<noteq> []" and s': "s' = dropWhile unit_char s2"
    by (auto simp: duration_term_def Let_def split: option.splits prod.splits if_splits)
  from l have "length s1 \<le> length s" by (rule leadingInt_length)
  moreover have "length s2 \<le> length s1"
    using f leadingFraction_length [of 0 "f64_of_int 1" False "tl s1" f sc s2] by (auto split: if_splits)
  moreover have "length (takeWhile unit_char s2) + length s' = length s2"
    unfolding s' by (metis length_append takeWhile_dropWhile_id)
  ultimately show ?thesis using u by (cases "takeWhile unit_char s2") auto
qed

text \<open>The loop of \<^verbatim>\<open>time.ParseDuration\<close>: the sum of the terms, at most $2^{63}$.\<close>

function duration_terms :: "nat \<Rightarrow> string \<Rightarrow> nat option" where
  "duration_terms d s =
     (if s = [] then Some d
      else if \<not> (hd s = CHR ''.'' \<or> is_digit (hd s)) then None
      else case duration_term s of None \<Rightarrow> None
           | Some (v, s') \<Rightarrow> if d + v > 2 ^ 63 then None else duration_terms (d + v) s')"
  by pat_completeness auto
termination by (relation "measure (\<lambda>(d, s). length s)") (auto dest: duration_term_length)

declare duration_terms.simps [simp del]

definition ParseDuration :: "string \<Rightarrow> Duration option" where
  "ParseDuration orig =
     (let (neg, s) = read_sign orig in
      if s = ''0'' then Some 0
      else if s = [] then None
      else case duration_terms 0 s of None \<Rightarrow> None
           | Some d \<Rightarrow> if neg then Some (- of_nat d)
                       else if d > 2 ^ 63 - 1 then None else Some (of_nat d))"

section \<open>Config and Load\<close>

record Config =
  APIKey :: string
  BackendURL :: string
  SnapshotInterval :: Duration
  MetricsInterval :: Duration
  InformerResyncPeriod :: Duration
  InformerSyncTimeout :: Duration
  CompressionLevel :: goint
  MaxRetries :: goint
  RequestTimeout :: Duration
  BufferMaxBytes :: int64
  HealthPort :: goint
  AgentVersion :: string
  KubernetesVersion :: string
  MaxCompressedBodyBytes :: int64
  ChartVersion :: string
  HelmReleaseName :: string
  PodName :: string
  PodNamespace :: string
  NodeName :: string
  AllowInsecure :: bool
  DebugEndpoints :: bool
  GPUMetricsEnabled :: bool
  DCGMExporterPort :: goint
  DCGMExporterNamespace :: string
  DCGMExporterEndpoints :: "string list"
  GPUMetricsInterval :: Duration

definition envOrDefault :: "environ \<Rightarrow> string \<Rightarrow> string \<Rightarrow> string" where
  "envOrDefault env key dflt = (if env key \<noteq> '''' then env key else dflt)"

definition envOrFallback :: "environ \<Rightarrow> string \<Rightarrow> string \<Rightarrow> string" where
  "envOrFallback env primary fallback = (if env primary \<noteq> '''' then env primary else env fallback)"

definition envOrFallbackOrDefault :: "environ \<Rightarrow> string \<Rightarrow> string \<Rightarrow> string \<Rightarrow> string" where
  "envOrFallbackOrDefault env primary fallback dflt =
     (if env primary \<noteq> '''' then env primary else if env fallback \<noteq> '''' then env fallback else dflt)"

definition parseDuration :: "environ \<Rightarrow> string \<Rightarrow> Duration \<Rightarrow> Duration" where
  "parseDuration env key dflt =
     (let v = env key in
      if v = '''' then dflt
      else case ParseDuration v of Some d \<Rightarrow> d
           | None \<Rightarrow> (case ParseInt v of Some secs \<Rightarrow> secs * Second | None \<Rightarrow> dflt))"

definition parseBool :: "environ \<Rightarrow> string \<Rightarrow> bool \<Rightarrow> bool" where
  "parseBool env key dflt =
     (if env key = '''' then dflt else case ParseBool (env key) of Some b \<Rightarrow> b | None \<Rightarrow> dflt)"

definition parseInt :: "environ \<Rightarrow> string \<Rightarrow> goint \<Rightarrow> goint" where
  "parseInt env key dflt =
     (if env key = '''' then dflt else case ParseInt (env key) of Some n \<Rightarrow> n | None \<Rightarrow> dflt)"

definition parseInt64 :: "environ \<Rightarrow> string \<Rightarrow> int64 \<Rightarrow> int64" where
  "parseInt64 env key dflt =
     (if env key = '''' then dflt else case ParseInt (env key) of Some n \<Rightarrow> n | None \<Rightarrow> dflt)"

definition parseStringSlice :: "environ \<Rightarrow> string \<Rightarrow> string list" where
  "parseStringSlice env key =
     (if env key = '''' then []
      else filter (\<lambda>s. s \<noteq> '''') (map TrimSpace (split_at CHR '','' (env key))))"

definition Load :: "environ \<Rightarrow> Config" where
  "Load env =
    (let metricsInterval = parseDuration env ''KUBEADAPT_METRICS_INTERVAL'' (60 * Second) in
    \<lparr>APIKey = envOrFallback env ''KUBEADAPT_API_KEY'' ''KUBEADAPT_AGENT_TOKEN'',
     BackendURL = envOrFallbackOrDefault env ''KUBEADAPT_BACKEND_URL'' ''KUBEADAPT_BACKEND_API_ENDPOINT'' ''https://agent.kubeadapt.io'',
     SnapshotInterval = parseDuration env ''KUBEADAPT_SNAPSHOT_INTERVAL'' (60 * Second),
     MetricsInterval = metricsInterval,
     InformerResyncPeriod = parseDuration env ''KUBEADAPT_INFORMER_RESYNC'' (300 * Second),
     InformerSyncTimeout = parseDuration env ''KUBEADAPT_INFORMER_SYNC_TIMEOUT'' (5 * Minute),
     CompressionLevel = parseInt env ''KUBEADAPT_COMPRESSION_LEVEL'' 3,
     MaxRetries = parseInt env ''KUBEADAPT_MAX_RETRIES'' 5,
     RequestTimeout = parseDuration env ''KUBEADAPT_REQUEST_TIMEOUT'' (30 * Second),
     BufferMaxBytes = parseInt64 env ''KUBEADAPT_BUFFER_MAX_BYTES'' 52428800,
     HealthPort = parseInt env ''KUBEADAPT_HEALTH_PORT'' 8080,
     AgentVersion = '''', KubernetesVersion = '''',
     MaxCompressedBodyBytes = parseInt64 env ''KUBEADAPT_MAX_COMPRESSED_BODY_BYTES'' 52428800,
     ChartVersion = env ''KUBEADAPT_CHART_VERSION'',
     HelmReleaseName = env ''HELM_RELEASE_NAME'',
     PodName = env ''POD_NAME'',
     PodNamespace = env ''POD_NAMESPACE'',
     NodeName = env ''NODE_NAME'',
     AllowInsecure = parseBool env ''KUBEADAPT_ALLOW_INSECURE'' False,
     DebugEndpoints = parseBool env ''KUBEADAPT_DEBUG_ENDPOINTS'' False,
     GPUMetricsEnabled = parseBool env ''KUBEADAPT_GPU_METRICS_ENABLED'' True,
     DCGMExporterPort = parseInt env ''KUBEADAPT_DCGM_PORT'' 9400,
     DCGMExporterNamespace = envOrDefault env ''KUBEADAPT_DCGM_NAMESPACE'' '''',
     DCGMExporterEndpoints = parseStringSlice env ''KUBEADAPT_DCGM_ENDPOINTS'',
     GPUMetricsInterval = parseDuration env ''KUBEADAPT_GPU_METRICS_INTERVAL'' metricsInterval\<rparr>)"

definition ResolveAgentVersion :: "environ \<Rightarrow> string \<Rightarrow> string" where
  "ResolveAgentVersion env buildVersion =
     (if buildVersion \<noteq> '''' \<and> buildVersion \<noteq> ''dev'' then buildVersion
      else if env ''KUBEADAPT_AGENT_VERSION'' \<noteq> '''' then env ''KUBEADAPT_AGENT_VERSION''
      else if buildVersion \<noteq> '''' then buildVersion
      else ''dev'')"

section \<open>Validation\<close>

text \<open>The errors of \<^verbatim>\<open>Validate\<close>, with the value they print.\<close>

datatype config_error =
    APIKeyRequired
  | BackendURLRequired
  | BackendURLInsecure string
  | SnapshotIntervalTooShort Duration
  | MetricsIntervalTooShort Duration
  | CompressionLevelOutOfRange goint
  | MaxRetriesNegative goint
  | HealthPortOutOfRange goint

definition Validate :: "Config \<Rightarrow> config_error option" where
  "Validate c =
     (if APIKey c = '''' then Some APIKeyRequired
      else if BackendURL c = '''' then Some BackendURLRequired
      else if \<not> AllowInsecure c \<and> \<not> HasPrefix (BackendURL c) ''https://'' then Some (BackendURLInsecure (BackendURL c))
      else if SnapshotInterval c <s 10 * Second then Some (SnapshotIntervalTooShort (SnapshotInterval c))
      else if MetricsInterval c <s 10 * Second then Some (MetricsIntervalTooShort (MetricsInterval c))
      else if CompressionLevel c <s 1 \<or> 4 <s CompressionLevel c then Some (CompressionLevelOutOfRange (CompressionLevel c))
      else if MaxRetries c <s 0 then Some (MaxRetriesNegative (MaxRetries c))
      else if HealthPort c <s 1 \<or> 65535 <s HealthPort c then Some (HealthPortOutOfRange (HealthPort c))
      else None)"

section \<open>Numerals\<close>

lemma foldl_digits_ge: "x \<le> foldl (\<lambda>n c. n * 10 + digit_val c) (x::nat) s"
proof (induction s arbitrary: x)
  case (Cons c s)
  from Cons [of "x * 10 + digit_val c"] show ?case by simp
qed simp

lemma leadingInt_digits:
  assumes "list_all is_digit ds" and "r = [] \<or> \<not> is_digit (hd r)"
    and "foldl (\<lambda>n c. n * 10 + digit_val c) x ds \<le> 2 ^ 63"
  shows "leadingInt x (ds @ r) = Some (foldl (\<lambda>n c. n * 10 + digit_val c) x ds, r)"
  using assms
proof (induction ds arbitrary: x)
  case Nil
  then show ?case by (cases r) auto
next
  case (Cons c ds)
  have "x * 10 + digit_val c \<le> 2 ^ 63"
    using foldl_digits_ge [of "x * 10 + digit_val c" ds] Cons.prems(3) by simp
  with Cons show ?case by (simp add: Let_def)
qed

lemma leadingInt_numeral:
  assumes "n \<le> 2 ^ 63" and "r = [] \<or> \<not> is_digit (hd r)"
  shows "leadingInt 0 (nat_to_string n @ r) = Some (n, r)"
  using leadingInt_digits [of "nat_to_string n" r 0] nat_to_string_digits [of n] assms
  by (simp add: digits_val_def)

lemma ParseInt_numeral: "n < 2 ^ 63 \<Longrightarrow> ParseInt (nat_to_string n) = Some (of_nat n)"
  using nat_to_string_digits [of n] by (simp add: ParseInt_def)

lemma duration_term_no_unit: "n \<le> 2 ^ 63 \<Longrightarrow> duration_term (nat_to_string n) = None"
  using leadingInt_numeral [of n "[]"] nat_to_string_digits [of n] by (simp add: duration_term_def Let_def)

lemma duration_term_seconds:
  "n \<le> 2 ^ 63 \<Longrightarrow> duration_term (nat_to_string n @ ''s'') =
     (if n > 9223372036 then None else Some (n * 1000000000, []))"
  using leadingInt_numeral [of n "''s''"] nat_to_string_digits [of n]
  by (simp add: duration_term_def Let_def unit_char_def unitMap_def)

lemma nat_to_string_0: "nat_to_string 0 = ''0''"
  by (simp add: nat_to_string.simps char_of_def bit_0)

lemma ParseDuration_no_unit:
  "n \<le> 2 ^ 63 \<Longrightarrow> ParseDuration (nat_to_string n) = (if n = 0 then Some 0 else None)"
  using nat_to_string_digits [of n] numeral_hd [of n "[]"]
  by (auto simp: ParseDuration_def duration_terms.simps [of 0 "nat_to_string n"] duration_term_no_unit
      digits_val_def digit_val_def nat_to_string_0)

lemma ParseDuration_seconds:
  "n \<le> 2 ^ 63 \<Longrightarrow> ParseDuration (nat_to_string n @ ''s'') =
     (if n > 9223372036 then None else Some (of_nat n * Second))"
  using numeral_hd [of n "''s''"] numeral_hd(2) [of n "[]"]
  by (auto simp: ParseDuration_def duration_terms.simps [of 0 "nat_to_string n @ ''s''"] duration_term_seconds
      duration_terms.simps [of _ "[]"] Second_def Cons_eq_append_conv append_eq_Cons_conv)

lemma ParseInt_seconds: "ParseInt (nat_to_string n @ ''s'') = None"
  by (simp add: ParseInt_def)

section \<open>Properties\<close>

text \<open>
  A duration of $n$ whole seconds may be written \<^verbatim>\<open>n\<close> or \<^verbatim>\<open>ns\<close>: both spellings are
  read as $n$ seconds, for every $n$ up to 9223372036, the largest number of seconds a
  \<^verbatim>\<open>time.Duration\<close> holds.
\<close>

theorem duration_spellings_agree:
  assumes "n \<le> 9223372036" and "env key = nat_to_string n \<or> env key = nat_to_string n @ ''s''"
  shows "parseDuration env key dflt = of_nat n * Second
       \<and> sint (parseDuration env key dflt) = int n * 1000000000"
proof -
  have "parseDuration env key dflt = of_nat n * Second"
    using assms numeral_hd(2) [of n "[]"] ParseDuration_no_unit [of n] ParseDuration_seconds [of n] ParseInt_numeral [of n]
    by (auto simp: parseDuration_def)
  moreover have "sint (of_nat n * Second) = int n * 1000000000"
    using sint_word_of_int_range [of "int n * 1000000000"] assms(1) by (simp add: Second_def)
  ultimately show ?thesis by simp
qed

theorem duration_spellings_agree_witness:
  "parseDuration (\<lambda>_. nat_to_string 90 @ ''s'') ''KUBEADAPT_SNAPSHOT_INTERVAL'' (60 * Second) = 90 * Second"
  using duration_spellings_agree [of 90 "\<lambda>_. nat_to_string 90 @ ''s''" "''KUBEADAPT_SNAPSHOT_INTERVAL''" "60 * Second"]
  by simp

text \<open>
  Beyond that number the two spellings part: with the unit the value is rejected and
  the default is used, without it the product of \<^verbatim>\<open>time.Duration(secs) * time.Second\<close>
  wraps around and the agent runs with some other duration.
\<close>

theorem duration_spelling_overflow:
  assumes "9223372036 < n" and "n < 2 ^ 63"
  shows "parseDuration (\<lambda>_. nat_to_string n @ ''s'') key dflt = dflt
       \<and> parseDuration (\<lambda>_. nat_to_string n) key dflt = of_nat n * Second
       \<and> sint (parseDuration (\<lambda>_. nat_to_string n) key dflt) \<noteq> int n * 1000000000"
proof (intro conjI)
  show "parseDuration (\<lambda>_. nat_to_string n @ ''s'') key dflt = dflt"
    using assms numeral_hd(2) [of n "''s''"] by (simp add: parseDuration_def ParseDuration_seconds ParseInt_seconds)
  show eq: "parseDuration (\<lambda>_. nat_to_string n) key dflt = of_nat n * Second"
    using assms numeral_hd(2) [of n "[]"] by (simp add: parseDuration_def ParseDuration_no_unit ParseInt_numeral)
  have "sint (of_nat n * Second :: int64) < 2 ^ 63"
    using sint_lt [of "of_nat n * Second :: int64"] by simp
  moreover from assms(1) have "2 ^ 63 \<le> int n * 1000000000" by simp
  ultimately show "sint (parseDuration (\<lambda>_. nat_to_string n) key dflt) \<noteq> int n * 1000000000"
    unfolding eq by simp
qed

theorem duration_spelling_overflow_witness:
  "parseDuration (\<lambda>_. nat_to_string 9223372037) ''KUBEADAPT_REQUEST_TIMEOUT'' (30 * Second) <s 0"
proof -
  have "parseDuration (\<lambda>_. nat_to_string 9223372037) ''KUBEADAPT_REQUEST_TIMEOUT'' (30 * Second) = 9223372037 * Second"
    using duration_spelling_overflow [of 9223372037 "''KUBEADAPT_REQUEST_TIMEOUT''" "30 * Second"] by simp
  then show ?thesis by (simp add: Second_def word_sless_alt)
qed

text \<open>
  An API key, or the older agent token, is the only setting without which the agent does not
  start: with every other variable unset the loaded configuration is valid.
\<close>

theorem api_key_suffices:
  assumes "key \<noteq> ''''" and "name \<in> {''KUBEADAPT_API_KEY'', ''KUBEADAPT_AGENT_TOKEN''}"
  shows "Validate (Load ((\<lambda>_. '''')(name := key))) = None
       \<and> Validate (Load (\<lambda>_. '''')) = Some APIKeyRequired"
proof -
  have "Validate (Load ((\<lambda>_. '''')(name := key))) = None"
    using assms(2)
    by (elim insertE emptyE; hypsubst)
      (simp_all add: Validate_def Load_def Let_def envOrFallback_def envOrFallbackOrDefault_def parseDuration_def
        parseInt_def parseBool_def HasPrefix_def Second_def word_sless_alt assms(1))
  moreover have "Validate (Load (\<lambda>_. '''')) = Some APIKeyRequired"
    by (simp add: Validate_def Load_def Let_def envOrFallback_def)
  ultimately show ?thesis ..
qed

theorem api_key_suffices_witness:
  "Validate (Load ((\<lambda>_. '''')(''KUBEADAPT_API_KEY'' := ''k''))) = None"
  using api_key_suffices [of "''k''" "''KUBEADAPT_API_KEY''"] by simp

end
