(* ===== verification/Observability.thy ===== *)
theory Observability
  imports Float64
begin

text \<open>
  \<^verbatim>\<open>internal/observability\<close>: the Prometheus metrics of the agent. The Prometheus client is
  a library; what the agent does to it is the sequence of calls it makes, which the
  model keeps as a log, newest last. \<open>LastMetricsCollectMs\<close> is the one metric the agent
  reads back. A nil \<^verbatim>\<open>*Metrics\<close> is \<open>None\<close>.
\<close>

datatype metric =
    SnapshotBuildDuration
  | SnapshotSendDuration
  | SnapshotSizeBytes string
  | SnapshotSendTotal string
  | OrphanPodNodeRefs
  | InformerEventsTotal string string
  | StoreItems string
  | EnricherDuration string
  | TransportRetries
  | TransportBufferBytes
  | AgentState_metric string
  | MetricsAPIDuration
  | CompressionRatio
  | CompressionDuration

text \<open>
  How each metric is created: its kind, name, help text and label names. The buckets of a
  histogram are those of the library, by default or computed by it.
\<close>

datatype buckets = DefBuckets | ExponentialBuckets float64 float64 nat

datatype metric_kind = Counter | Gauge | Histogram buckets

record metric_opts =
  opts_kind :: metric_kind
  opts_Name :: string
  opts_Help :: string
  opts_Labels :: "string list"

definition metric_desc :: "metric_kind \<Rightarrow> string \<Rightarrow> string \<Rightarrow> string list \<Rightarrow> metric_opts" where
  "metric_desc k n h ls = \<lparr>opts_kind = k, opts_Name = ''kubeadapt_agent_'' @ n, opts_Help = h, opts_Labels = ls\<rparr>"

fun created :: "metric \<Rightarrow> metric_opts" where
  "created SnapshotBuildDuration = metric_desc (Histogram DefBuckets) ''snapshot_build_duration_seconds''
     ''Duration of snapshot build operations in seconds.'' []"
| "created SnapshotSendDuration = metric_desc (Histogram DefBuckets) ''snapshot_send_duration_seconds''
     ''Duration of snapshot send operations in seconds.'' []"
| "created (SnapshotSizeBytes t) = metric_desc (Histogram (ExponentialBuckets (f64_of_int 1024) (f64_of_int 4) 10)) ''snapshot_size_bytes''
     ''Size of snapshots in bytes.'' [''type'']"
| "created (SnapshotSendTotal st) = metric_desc Counter ''snapshot_send_total''
     ''Total number of snapshot send attempts.'' [''status'']"
| "created OrphanPodNodeRefs = metric_desc Counter ''orphan_pod_node_refs_total''
     ''Total pod-to-node references where the node was missing from the snapshot after backfill.'' []"
| "created (InformerEventsTotal r e) = metric_desc Counter ''informer_events_total''
     ''Total number of informer events received.'' [''resource'', ''event'']"
| "created (StoreItems r) = metric_desc Gauge ''store_items''
     ''Current number of items in the store.'' [''resource'']"
| "created (EnricherDuration n) = metric_desc (Histogram DefBuckets) ''enricher_duration_seconds''
     ''Duration of enricher operations in seconds.'' [''enricher'']"
| "created TransportRetries = metric_desc Counter ''transport_retries_total''
     ''Total number of transport retry attempts.'' []"
| "created TransportBufferBytes = metric_desc Gauge ''transport_buffer_bytes''
     ''Current size of the transport buffer in bytes.'' []"
| "created (AgentState_metric st) = metric_desc Gauge ''state''
     ''Current agent state (1 = active, 0 = inactive).'' [''state'']"
| "created MetricsAPIDuration = metric_desc (Histogram DefBuckets) ''metrics_api_duration_seconds''
     ''Duration of metrics API calls in seconds.'' []"
| "created CompressionRatio = metric_desc Gauge ''compression_ratio''
     ''Current compression ratio (compressed/original).'' []"
| "created CompressionDuration = metric_desc (Histogram DefBuckets) ''compression_duration_seconds''
     ''Duration of compression operations in seconds.'' []"

text \<open>What \<^verbatim>\<open>NewMetrics\<close> passes to \<^verbatim>\<open>MustRegister\<close>, in order.\<close>

definition registered :: "metric_opts list" where
  "registered = map created
     [SnapshotBuildDuration, SnapshotSendDuration, SnapshotSizeBytes [], SnapshotSendTotal [], OrphanPodNodeRefs,
      InformerEventsTotal [] [], StoreItems [], EnricherDuration [], TransportRetries, TransportBufferBytes,
      AgentState_metric [], MetricsAPIDuration, CompressionRatio, CompressionDuration]"

text \<open>The arguments of \<^verbatim>\<open>WithLabelValues\<close>.\<close>

fun label_values :: "metric \<Rightarrow> string list" where
  "label_values (SnapshotSizeBytes t) = [t]"
| "label_values (SnapshotSendTotal st) = [st]"
| "label_values (InformerEventsTotal r e) = [r, e]"
| "label_values (StoreItems r) = [r]"
| "label_values (EnricherDuration n) = [n]"
| "label_values (AgentState_metric st) = [st]"
| "label_values m = []"

datatype metric_call =
    Observe metric float64
  | Inc metric
  | Add metric float64
  | GaugeSet metric float64

record Metrics =
  calls :: "metric_call list"
  LastMetricsCollectMs :: int64

definition NewMetrics :: Metrics where
  "NewMetrics = \<lparr>calls = [], LastMetricsCollectMs = 0\<rparr>"

definition metric_call :: "metric_call \<Rightarrow> Metrics \<Rightarrow> Metrics" where
  "metric_call c m = m\<lparr>calls := calls m @ [c]\<rparr>"

text \<open>\<^verbatim>\<open>if metrics != nil { ... }\<close>\<close>

definition with_metrics :: "metric_call \<Rightarrow> Metrics option \<Rightarrow> Metrics option" where
  "with_metrics c m = map_option (metric_call c) m"

text \<open>\<^verbatim>\<open>d.Seconds()\<close>: whole seconds plus the fraction, each rounded.\<close>

definition duration_Seconds :: "Duration \<Rightarrow> float64" where
  "duration_Seconds d =
     (let n = sint d; sec = sgn n * (\<bar>n\<bar> div 1000000000); nsec = n - sec * 1000000000
      in f64_add (f64_of_int sec) (f64_div (f64_of_int nsec) (f64_of_int 1000000000)))"

lemma calls_metric_call [simp]: "calls (metric_call c m) = calls m @ [c]"
  by (simp add: metric_call_def)

lemma LastMetricsCollectMs_metric_call [simp]:
  "LastMetricsCollectMs (metric_call c m) = LastMetricsCollectMs m"
  by (simp add: metric_call_def)

section \<open>Calls that the library accepts\<close>

text \<open>
  Counters only count up, gauges are set, histograms observe. \<open>used\<close>: the metrics that any
  code updates; the other four are created and registered only.
\<close>

definition well_typed :: "metric_call \<Rightarrow> bool" where
  "well_typed c =
     (case c of
        Observe m v \<Rightarrow> (case opts_kind (created m) of Histogram b \<Rightarrow> True | _ \<Rightarrow> False)
      | Inc m \<Rightarrow> opts_kind (created m) = Counter
      | Add m v \<Rightarrow> opts_kind (created m) = Counter
      | GaugeSet m v \<Rightarrow> opts_kind (created m) = Gauge)"

definition metric_of :: "metric_call \<Rightarrow> metric" where
  "metric_of c = (case c of Observe m v \<Rightarrow> m | Inc m \<Rightarrow> m | Add m v \<Rightarrow> m | GaugeSet m v \<Rightarrow> m)"

fun used :: "metric \<Rightarrow> bool" where
  "used TransportBufferBytes = False"
| "used (AgentState_metric st) = False"
| "used CompressionRatio = False"
| "used CompressionDuration = False"
| "used m = True"

definition calls_ok :: "Metrics \<Rightarrow> bool" where
  "calls_ok m \<longleftrightarrow> list_all (\<lambda>c. well_typed c \<and> used (metric_of c)) (calls m)"

lemma calls_ok_simps [simp]:
  "calls_ok NewMetrics"
  "calls_ok (metric_call c m) \<longleftrightarrow> calls_ok m \<and> well_typed c \<and> used (metric_of c)"
  "calls_ok (m\<lparr>LastMetricsCollectMs := x\<rparr>) \<longleftrightarrow> calls_ok m"
  by (auto simp: calls_ok_def NewMetrics_def)

lemma well_typed_simps [simp]:
  "well_typed (Observe SnapshotBuildDuration v)" "well_typed (Observe SnapshotSendDuration v)"
  "well_typed (Observe (SnapshotSizeBytes t) v)" "well_typed (Observe (EnricherDuration n) v)" "well_typed (Observe MetricsAPIDuration v)"
  "well_typed (Inc (SnapshotSendTotal st))" "well_typed (Inc TransportRetries)" "well_typed (Inc (InformerEventsTotal r e))"
  "well_typed (Add OrphanPodNodeRefs v)" "well_typed (GaugeSet (StoreItems r) v)"
  by (simp_all add: well_typed_def metric_desc_def)

lemma metric_of_simps [simp]:
  "metric_of (Observe m v) = m" "metric_of (Inc m) = m" "metric_of (Add m v) = m" "metric_of (GaugeSet m v) = m"
  by (simp_all add: metric_of_def)

abbreviation calls_ok_opt :: "Metrics option \<Rightarrow> bool" where
  "calls_ok_opt m \<equiv> pred_option calls_ok m"

lemma with_metrics_ok [simp]:
  "calls_ok_opt (with_metrics c m) \<longleftrightarrow> pred_option (\<lambda>m. calls_ok m \<and> well_typed c \<and> used (metric_of c)) m"
  by (cases m) (simp_all add: with_metrics_def)

section \<open>Registration\<close>

text \<open>The names that Prometheus accepts for metrics and labels.\<close>

definition name_start :: "char \<Rightarrow> bool" where
  "name_start c \<longleftrightarrow> (let n = of_char c :: nat in 65 \<le> n \<and> n \<le> 90 \<or> 97 \<le> n \<and> n \<le> 122 \<or> n = 95)"

definition name_char :: "char \<Rightarrow> bool" where
  "name_char c \<longleftrightarrow> name_start c \<or> (let n = of_char c :: nat in 48 \<le> n \<and> n \<le> 57)"

definition valid_name :: "string \<Rightarrow> bool" where
  "valid_name s \<longleftrightarrow> s \<noteq> [] \<and> name_start (hd s) \<and> list_all name_char s"

lemma registered_names:
  "map opts_Name registered = map (\<lambda>n. ''kubeadapt_agent_'' @ n)
     [''snapshot_build_duration_seconds'', ''snapshot_send_duration_seconds'', ''snapshot_size_bytes'', ''snapshot_send_total'',
      ''orphan_pod_node_refs_total'', ''informer_events_total'', ''store_items'', ''enricher_duration_seconds'',
      ''transport_retries_total'', ''transport_buffer_bytes'', ''state'', ''metrics_api_duration_seconds'',
      ''compression_ratio'', ''compression_duration_seconds'']"
  by (simp only: registered_def created.simps list.map metric_desc_def metric_opts.simps)

lemma registered_labels:
  "map opts_Labels registered =
     [[], [], [''type''], [''status''], [], [''resource'', ''event''], [''resource''], [''enricher''], [], [], [''state''], [], [], []]"
  by (simp only: registered_def created.simps list.map metric_desc_def metric_opts.simps)

lemma valid_name_Cons [simp]: "valid_name (c # s) \<longleftrightarrow> name_start c \<and> list_all name_char s"
  by (auto simp: valid_name_def name_char_def)

text \<open>
  Creating the metrics cannot panic, and neither can a call: the names of the metrics are
  distinct, they and the labels are names that Prometheus accepts, every metric that can be
  called is a registered one, and every call gives as many label values as the metric has labels.
\<close>

theorem metrics_registered:
  "distinct (map opts_Name registered) \<and> list_all (\<lambda>d. valid_name (opts_Name d) \<and> list_all valid_name (opts_Labels d)) registered
   \<and> created m \<in> set registered \<and> length (label_values m) = length (opts_Labels (created m))"
proof (intro conjI)
  show "distinct (map opts_Name registered)" unfolding registered_names by simp
  show "list_all (\<lambda>d. valid_name (opts_Name d) \<and> list_all valid_name (opts_Labels d)) registered"
  proof -
    have "list_all valid_name (map opts_Name registered)"
      unfolding registered_names by (simp add: name_char_def name_start_def)
    moreover have "list_all (list_all valid_name) (map opts_Labels registered)"
      unfolding registered_labels by (simp add: name_char_def name_start_def)
    ultimately show ?thesis by (simp add: list_all_iff)
  qed
  show "created m \<in> set registered" by (cases m) (simp_all add: registered_def)
  show "length (label_values m) = length (opts_Labels (created m))" by (cases m) (simp_all add: metric_desc_def)
qed

end
