(* ===== verification/Enrichment.thy ===== *)
theory Enrichment
  imports Model Observability
begin

text \<open>
  \<^verbatim>\<open>internal/enrichment\<close>: the pipeline and its enrichers. An enricher changes the snapshot
  in place, also when it fails, so it returns the new snapshot and an optional error.
  \<open>OwnershipEnricher\<close> follows a pod's owner to the top-level controller,
  \<open>AggregationEnricher\<close> sums container resources per workload, \<open>TargetsEnricher\<close> finds
  the workloads a disruption budget or service selects, \<open>MountsEnricher\<close> does nothing.
\<close>

section \<open>Pipeline\<close>

record Enricher =
  Enricher_Name :: string
  Enrich :: "ClusterSnapshot \<Rightarrow> ClusterSnapshot \<times> goerror option"

record Pipeline =
  enrichers :: "Enricher list"

text \<open>
  One turn of the loop: a failure is logged and does not stop the pipeline. The time an
  enricher takes is a parameter.
\<close>

definition run_enricher ::
  "(string \<Rightarrow> Duration) \<Rightarrow> Enricher \<Rightarrow> ClusterSnapshot \<times> Metrics option \<Rightarrow> ClusterSnapshot \<times> Metrics option" where
  "run_enricher dur e = (\<lambda>(snap, m).
     (fst (Enrich e snap),
      with_metrics (Observe (EnricherDuration (Enricher_Name e)) (duration_Seconds (dur (Enricher_Name e)))) m))"

definition Pipeline_Run ::
  "(string \<Rightarrow> Duration) \<Rightarrow> Pipeline \<Rightarrow> ClusterSnapshot \<Rightarrow> Metrics option \<Rightarrow> ClusterSnapshot \<times> Metrics option" where
  "Pipeline_Run dur p snap m = fold (run_enricher dur) (enrichers p) (snap, m)"

section \<open>Ownership\<close>

definition maxOwnerDepth :: nat where "maxOwnerDepth = 10"
definition kindReplicaSet :: string where "kindReplicaSet = ''ReplicaSet''"

definition buildReplicaSetMap :: "ReplicaSetInfo list \<Rightarrow> string \<rightharpoonup> ReplicaSetInfo" where
  "buildReplicaSetMap rss = index_by (\<lambda>rs. ns_name (ReplicaSetInfo.Namespace rs) (ReplicaSetInfo.Name rs)) rss"

definition buildJobMap :: "JobInfo list \<Rightarrow> string \<rightharpoonup> JobInfo" where
  "buildJobMap jobs = index_by (\<lambda>j. ns_name (JobInfo.Namespace j) (JobInfo.Name j)) jobs"

definition buildCronJobMap :: "CronJobInfo list \<Rightarrow> string \<rightharpoonup> CronJobInfo" where
  "buildCronJobMap cjs = index_by (\<lambda>cj. ns_name (CronJobInfo.Namespace cj) (CronJobInfo.Name cj)) cjs"

text \<open>An owner is a kind, a name and a UID.\<close>

type_synonym owner = "string \<times> string \<times> string"

text \<open>The body of the loop: the next owner, or \<open>None\<close> where the chain ends (\<^verbatim>\<open>resolved\<close> stays false).\<close>

definition owner_step ::
  "(string \<rightharpoonup> ReplicaSetInfo) \<Rightarrow> (string \<rightharpoonup> JobInfo) \<Rightarrow> (string \<rightharpoonup> CronJobInfo) \<Rightarrow> string \<Rightarrow> owner \<Rightarrow> owner option" where
  "owner_step rsMap jobMap cronJobMap ns = (\<lambda>(kind, name, uid).
     if kind = kindReplicaSet then
       (case rsMap (ns_name ns name) of
          None \<Rightarrow> None
        | Some rs \<Rightarrow>
            if ReplicaSetInfo.OwnerKind rs = '''' then None
            else Some (ReplicaSetInfo.OwnerKind rs, ReplicaSetInfo.OwnerName rs, ReplicaSetInfo.OwnerUID rs))
     else if kind = ''Job'' then
       (case jobMap (ns_name ns name) of
          None \<Rightarrow> None
        | Some job \<Rightarrow>
            if JobInfo.OwnerCronJob job = '''' then None
            else Some (''CronJob'', JobInfo.OwnerCronJob job,
              case cronJobMap (ns_name ns (JobInfo.OwnerCronJob job)) of
                None \<Rightarrow> uid
              | Some cj \<Rightarrow> CronJobInfo.UID cj))
     else None)"

fun owner_loop :: "(owner \<Rightarrow> owner option) \<Rightarrow> nat \<Rightarrow> owner \<Rightarrow> owner" where
  "owner_loop step 0 ow = ow"
| "owner_loop step (Suc n) ow = (case step ow of None \<Rightarrow> ow | Some ow' \<Rightarrow> owner_loop step n ow')"

definition pod_owner :: "PodInfo \<Rightarrow> owner" where
  "pod_owner pod = (PodInfo.OwnerKind pod, PodInfo.OwnerName pod, PodInfo.OwnerUID pod)"

definition set_pod_owner :: "owner \<Rightarrow> PodInfo \<Rightarrow> PodInfo" where
  "set_pod_owner = (\<lambda>(kind, name, uid) pod.
     pod\<lparr>PodInfo.OwnerKind := kind, PodInfo.OwnerName := name, PodInfo.OwnerUID := uid\<rparr>)"

definition resolveOwner ::
  "(string \<rightharpoonup> ReplicaSetInfo) \<Rightarrow> (string \<rightharpoonup> JobInfo) \<Rightarrow> (string \<rightharpoonup> CronJobInfo) \<Rightarrow> PodInfo \<Rightarrow> PodInfo" where
  "resolveOwner rsMap jobMap cronJobMap pod =
     (if PodInfo.OwnerKind pod = '''' then pod
      else if PodInfo.OwnerKind pod = ''Node'' then pod
      else set_pod_owner
        (owner_loop (owner_step rsMap jobMap cronJobMap (PodInfo.Namespace pod)) maxOwnerDepth (pod_owner pod)) pod)"

definition Ownership_Enrich :: "ReplicaSetInfo list \<Rightarrow> ClusterSnapshot \<Rightarrow> ClusterSnapshot \<times> goerror option" where
  "Ownership_Enrich replicaSets snap =
     (let rsMap = buildReplicaSetMap replicaSets;
          jobMap = buildJobMap (ClusterSnapshot.Jobs snap);
          cronJobMap = buildCronJobMap (ClusterSnapshot.CronJobs snap)
      in (snap\<lparr>ClusterSnapshot.Pods :=
            map (resolveOwner rsMap jobMap cronJobMap) (ClusterSnapshot.Pods snap)\<rparr>, None))"

definition NewOwnershipEnricher :: "ReplicaSetInfo list \<Rightarrow> Enricher" where
  "NewOwnershipEnricher rss = \<lparr>Enricher_Name = ''ownership'', Enrich = Ownership_Enrich rss\<rparr>"

section \<open>Aggregation\<close>

text \<open>A workload key: namespace, kind, name.\<close>

type_synonym workloadKey = "string \<times> string \<times> string"

definition isBatchOwnerKind :: "string \<Rightarrow> bool" where
  "isBatchOwnerKind ownerKind \<longleftrightarrow> ownerKind = ''Job'' \<or> ownerKind = ''CronJob''"

definition counted_pod :: "PodInfo \<Rightarrow> bool" where
  "counted_pod pod \<longleftrightarrow>
     PodInfo.OwnerKind pod \<noteq> '''' \<and>
     \<not> (\<not> isBatchOwnerKind (PodInfo.OwnerKind pod) \<and>
        (PodInfo.Phase pod = ''Succeeded'' \<or> PodInfo.Phase pod = ''Failed''))"

definition pod_key :: "PodInfo \<Rightarrow> workloadKey" where
  "pod_key pod = (PodInfo.Namespace pod, PodInfo.OwnerKind pod, PodInfo.OwnerName pod)"

text \<open>The first loop: pods that count, appended to the slice of their workload.\<close>

definition podsByWorkload :: "PodInfo list \<Rightarrow> workloadKey \<Rightarrow> PodInfo list" where
  "podsByWorkload pods = group_by pod_key (filter counted_pod pods)"

text \<open>The running totals of \<^verbatim>\<open>sumPodResources\<close>, and what one container adds.\<close>

record totals =
  cpuReq :: float64
  memReq :: int64
  cpuLim :: float64
  memLim :: int64
  cpuUseTotal :: float64
  memUseTotal :: int64
  hasUsage :: bool

definition add_container :: "totals \<Rightarrow> ContainerInfo \<Rightarrow> totals" where
  "add_container t c =
     (let t1 = t\<lparr>cpuReq := f64_add (cpuReq t) (ContainerInfo.CPURequestCores c),
                 memReq := memReq t + ContainerInfo.MemoryRequestBytes c,
                 cpuLim := f64_add (cpuLim t) (ContainerInfo.CPULimitCores c),
                 memLim := memLim t + ContainerInfo.MemoryLimitBytes c\<rparr>;
          t2 = (case ContainerInfo.CPUUsageCores c of
                  None \<Rightarrow> t1
                | Some u \<Rightarrow> t1\<lparr>cpuUseTotal := f64_add (cpuUseTotal t1) u, hasUsage := True\<rparr>)
      in case ContainerInfo.MemoryUsageBytes c of
           None \<Rightarrow> t2
         | Some u \<Rightarrow> t2\<lparr>memUseTotal := memUseTotal t2 + u, hasUsage := True\<rparr>)"

definition zero_totals :: totals where
  "zero_totals = \<lparr>cpuReq = f64_zero, memReq = 0, cpuLim = f64_zero, memLim = 0,
     cpuUseTotal = f64_zero, memUseTotal = 0, hasUsage = False\<rparr>"

definition sumPodResources ::
  "PodInfo list \<Rightarrow> float64 \<times> int64 \<times> float64 \<times> int64 \<times> float64 option \<times> int64 option" where
  "sumPodResources pods =
     (let t = foldl (\<lambda>t pod. foldl add_container t (PodInfo.Containers pod)) zero_totals pods
      in (cpuReq t, memReq t, cpuLim t, memLim t,
          if hasUsage t then Some (cpuUseTotal t) else None,
          if hasUsage t then Some (memUseTotal t) else None))"

definition sumContainerSpecRequests :: "ContainerSpecInfo list \<Rightarrow> float64 \<times> int64" where
  "sumContainerSpecRequests specs =
     foldl (\<lambda>(cpu, mem) c. (f64_add cpu (ContainerSpecInfo.CPURequestCores c), mem + ContainerSpecInfo.MemoryRequestBytes c))
       (f64_zero, 0) specs"

definition aggregate_Deployment :: "(workloadKey \<Rightarrow> PodInfo list) \<Rightarrow> DeploymentInfo \<Rightarrow> DeploymentInfo" where
  "aggregate_Deployment byWorkload d =
     (let (cpu, mem, cpuLim, memLim, cpuUse, memUse) =
        sumPodResources (byWorkload (DeploymentInfo.Namespace d, ''Deployment'', DeploymentInfo.Name d))
      in d\<lparr>DeploymentInfo.TotalCPURequest := cpu, DeploymentInfo.TotalMemoryRequest := mem,
           DeploymentInfo.TotalCPULimit := cpuLim, DeploymentInfo.TotalMemoryLimit := memLim,
           DeploymentInfo.TotalCPUUsage := cpuUse, DeploymentInfo.TotalMemoryUsage := memUse\<rparr>)"

definition aggregate_StatefulSet :: "(workloadKey \<Rightarrow> PodInfo list) \<Rightarrow> StatefulSetInfo \<Rightarrow> StatefulSetInfo" where
  "aggregate_StatefulSet byWorkload s =
     (let (cpu, mem, cpuLim, memLim, cpuUse, memUse) =
        sumPodResources (byWorkload (StatefulSetInfo.Namespace s, ''StatefulSet'', StatefulSetInfo.Name s))
      in s\<lparr>StatefulSetInfo.TotalCPURequest := cpu, StatefulSetInfo.TotalMemoryRequest := mem,
           StatefulSetInfo.TotalCPULimit := cpuLim, StatefulSetInfo.TotalMemoryLimit := memLim,
           StatefulSetInfo.TotalCPUUsage := cpuUse, StatefulSetInfo.TotalMemoryUsage := memUse\<rparr>)"

definition aggregate_DaemonSet :: "(workloadKey \<Rightarrow> PodInfo list) \<Rightarrow> DaemonSetInfo \<Rightarrow> DaemonSetInfo" where
  "aggregate_DaemonSet byWorkload ds =
     (let (cpu, mem, cpuLim, memLim, cpuUse, memUse) =
        sumPodResources (byWorkload (DaemonSetInfo.Namespace ds, ''DaemonSet'', DaemonSetInfo.Name ds))
      in ds\<lparr>DaemonSetInfo.TotalCPURequest := cpu, DaemonSetInfo.TotalMemoryRequest := mem,
            DaemonSetInfo.TotalCPULimit := cpuLim, DaemonSetInfo.TotalMemoryLimit := memLim,
            DaemonSetInfo.TotalCPUUsage := cpuUse, DaemonSetInfo.TotalMemoryUsage := memUse\<rparr>)"

definition aggregate_Job :: "(workloadKey \<Rightarrow> PodInfo list) \<Rightarrow> JobInfo \<Rightarrow> JobInfo" where
  "aggregate_Job byWorkload j =
     (let (cpu, mem, _, _, cpuUse, memUse) =
            sumPodResources (byWorkload (JobInfo.Namespace j, ''Job'', JobInfo.Name j));
          (cpu, mem) =
            (if f64_eq cpu f64_zero \<and> mem = 0 \<and> JobInfo.ContainerSpecs j \<noteq> []
             then sumContainerSpecRequests (JobInfo.ContainerSpecs j) else (cpu, mem))
      in j\<lparr>JobInfo.TotalCPURequest := cpu, JobInfo.TotalMemoryRequest := mem,
           JobInfo.TotalCPUUsage := cpuUse, JobInfo.TotalMemoryUsage := memUse\<rparr>)"

definition Aggregation_Enrich :: "ClusterSnapshot \<Rightarrow> ClusterSnapshot \<times> goerror option" where
  "Aggregation_Enrich snap =
     (let byWorkload = podsByWorkload (ClusterSnapshot.Pods snap)
      in (snap\<lparr>ClusterSnapshot.Deployments := map (aggregate_Deployment byWorkload) (ClusterSnapshot.Deployments snap),
              ClusterSnapshot.StatefulSets := map (aggregate_StatefulSet byWorkload) (ClusterSnapshot.StatefulSets snap),
              ClusterSnapshot.DaemonSets := map (aggregate_DaemonSet byWorkload) (ClusterSnapshot.DaemonSets snap),
              ClusterSnapshot.Jobs := map (aggregate_Job byWorkload) (ClusterSnapshot.Jobs snap)\<rparr>, None))"

definition NewAggregationEnricher :: Enricher where
  "NewAggregationEnricher = \<lparr>Enricher_Name = ''aggregation'', Enrich = Aggregation_Enrich\<rparr>"

section \<open>Targets\<close>

record workloadEntry =
  we_kind :: string
  we_name :: string
  we_namespace :: string
  we_selector :: "(string, string) gomap"

definition collectWorkloads :: "ClusterSnapshot \<Rightarrow> workloadEntry list" where
  "collectWorkloads snap =
     map (\<lambda>d. \<lparr>we_kind = ''Deployment'', we_name = DeploymentInfo.Name d,
             we_namespace = DeploymentInfo.Namespace d, we_selector = DeploymentInfo.Selector d\<rparr>)
       (filter (\<lambda>d. DeploymentInfo.Selector d \<noteq> []) (ClusterSnapshot.Deployments snap))
     @ map (\<lambda>s. \<lparr>we_kind = ''StatefulSet'', we_name = StatefulSetInfo.Name s,
             we_namespace = StatefulSetInfo.Namespace s, we_selector = StatefulSetInfo.Selector s\<rparr>)
       (filter (\<lambda>s. StatefulSetInfo.Selector s \<noteq> []) (ClusterSnapshot.StatefulSets snap))
     @ map (\<lambda>ds. \<lparr>we_kind = ''DaemonSet'', we_name = DaemonSetInfo.Name ds,
             we_namespace = DaemonSetInfo.Namespace ds, we_selector = DaemonSetInfo.Selector ds\<rparr>)
       (filter (\<lambda>ds. DaemonSetInfo.Selector ds \<noteq> []) (ClusterSnapshot.DaemonSets snap))"

text \<open>\<^verbatim>\<open>target[k] != v\<close> reads the empty string where the target has no such key.\<close>

definition labelsMatch :: "(string, string) gomap \<Rightarrow> (string, string) gomap \<Rightarrow> bool" where
  "labelsMatch selector target \<longleftrightarrow> list_all (\<lambda>(k, v). map_str target k = v) selector"

definition matchWorkloads :: "(string, string) gomap \<Rightarrow> workloadEntry list \<Rightarrow> WorkloadReference list" where
  "matchWorkloads selector workloads =
     foldl (\<lambda>refs w. if labelsMatch selector (we_selector w)
                    then refs @ [\<lparr>WorkloadReference.Kind = we_kind w, Name = we_name w, Namespace = we_namespace w\<rparr>]
                    else refs) [] workloads"

definition target_PDB :: "(string \<Rightarrow> workloadEntry list) \<Rightarrow> PDBInfo \<Rightarrow> PDBInfo" where
  "target_PDB byNamespace pdb =
     (if PDBInfo.MatchLabels pdb = [] then pdb
      else pdb\<lparr>PDBInfo.TargetWorkloads :=
        matchWorkloads (PDBInfo.MatchLabels pdb) (byNamespace (PDBInfo.Namespace pdb))\<rparr>)"

definition target_Service :: "(string \<Rightarrow> workloadEntry list) \<Rightarrow> ServiceInfo \<Rightarrow> ServiceInfo" where
  "target_Service byNamespace svc =
     (if ServiceInfo.Selector svc = [] then svc
      else svc\<lparr>ServiceInfo.TargetWorkloads :=
        matchWorkloads (ServiceInfo.Selector svc) (byNamespace (ServiceInfo.Namespace svc))\<rparr>)"

definition Targets_Enrich :: "ClusterSnapshot \<Rightarrow> ClusterSnapshot \<times> goerror option" where
  "Targets_Enrich snap =
     (let byNamespace = group_by we_namespace (collectWorkloads snap)
      in (snap\<lparr>ClusterSnapshot.PDBs := map (target_PDB byNamespace) (ClusterSnapshot.PDBs snap),
              ClusterSnapshot.Services := map (target_Service byNamespace) (ClusterSnapshot.Services snap)\<rparr>, None))"

definition NewTargetsEnricher :: Enricher where
  "NewTargetsEnricher = \<lparr>Enricher_Name = ''targets'', Enrich = Targets_Enrich\<rparr>"

section \<open>Mounts\<close>

definition Mounts_Enrich :: "ClusterSnapshot \<Rightarrow> ClusterSnapshot \<times> goerror option" where
  "Mounts_Enrich snap = (snap, None)"

definition NewMountsEnricher :: Enricher where
  "NewMountsEnricher = \<lparr>Enricher_Name = ''mounts'', Enrich = Mounts_Enrich\<rparr>"

text \<open>The pipeline \<^verbatim>\<open>main\<close> builds.\<close>

definition main_pipeline :: Pipeline where
  "main_pipeline = \<lparr>enrichers = [NewAggregationEnricher, NewTargetsEnricher, NewMountsEnricher]\<rparr>"

section \<open>What an enricher may change\<close>

text \<open>
  The part of a snapshot that the later steps of the builder read: the nodes, the pods up
  to their owner, the volumes and claims, and how many objects there are of every other
  counted kind. An enricher must not change it, and must not fail. A pipeline of such enrichers keeps it too, and records
  exactly one duration per enricher, in order.
\<close>

definition disown :: "PodInfo \<Rightarrow> PodInfo" where
  "disown = set_pod_owner ('''', '''', '''')"

definition summary_view :: "ClusterSnapshot \<Rightarrow>
    NodeInfo list \<times> PodInfo list \<times> PVInfo list \<times> PVCInfo list \<times> nat list" where
  "summary_view s =
     (ClusterSnapshot.Nodes s,
      map disown (ClusterSnapshot.Pods s),
      ClusterSnapshot.PVs s, ClusterSnapshot.PVCs s,
      [length (ClusterSnapshot.Namespaces s), length (ClusterSnapshot.Deployments s),
       length (ClusterSnapshot.StatefulSets s), length (ClusterSnapshot.DaemonSets s),
       length (ClusterSnapshot.Jobs s), length (ClusterSnapshot.CronJobs s),
       length (ClusterSnapshot.CustomWorkloads s), length (ClusterSnapshot.HPAs s),
       length (ClusterSnapshot.Services s), length (ClusterSnapshot.Ingresses s)])"

locale enricher_contract =
  fixes e :: Enricher
  assumes keeps_view: "summary_view (fst (Enrich e s)) = summary_view s"
    and never_fails: "snd (Enrich e s) = None"
begin

lemma run_keeps_view: "summary_view (fst (run_enricher dur e sm)) = summary_view (fst sm)"
  by (cases sm) (simp add: run_enricher_def keeps_view)

lemma run_observes:
  "snd (run_enricher dur e (s, Some m)) =
   Some (metric_call (Observe (EnricherDuration (Enricher_Name e)) (duration_Seconds (dur (Enricher_Name e)))) m)"
  by (simp add: run_enricher_def with_metrics_def)

end

lemma resolveOwner_keeps [simp]:
  "PodInfo.Phase (resolveOwner rs js cs pod) = PodInfo.Phase pod"
  "PodInfo.Containers (resolveOwner rs js cs pod) = PodInfo.Containers pod"
  "PodInfo.Namespace (resolveOwner rs js cs pod) = PodInfo.Namespace pod"
  "PodInfo.Name (resolveOwner rs js cs pod) = PodInfo.Name pod"
  by (simp_all add: resolveOwner_def set_pod_owner_def split: prod.splits)

lemma disown_fields [simp]:
  "PodInfo.Phase (disown pod) = PodInfo.Phase pod"
  "PodInfo.Containers (disown pod) = PodInfo.Containers pod"
  "PodInfo.Namespace (disown pod) = PodInfo.Namespace pod"
  "PodInfo.Name (disown pod) = PodInfo.Name pod"
  "PodInfo.NodeName (disown pod) = PodInfo.NodeName pod"
  by (simp_all add: disown_def set_pod_owner_def)

lemma disown_resolveOwner [simp]: "disown (resolveOwner rs js cs pod) = disown pod"
  by (simp add: disown_def resolveOwner_def set_pod_owner_def split: prod.splits)

interpretation ownership: enricher_contract "NewOwnershipEnricher rss" for rss
  by unfold_locales (simp_all add: NewOwnershipEnricher_def Ownership_Enrich_def summary_view_def comp_def Let_def)

interpretation aggregation: enricher_contract NewAggregationEnricher
  by unfold_locales (simp_all add: NewAggregationEnricher_def Aggregation_Enrich_def summary_view_def Let_def)

interpretation targets: enricher_contract NewTargetsEnricher
  by unfold_locales (simp_all add: NewTargetsEnricher_def Targets_Enrich_def summary_view_def Let_def)

interpretation mounts: enricher_contract NewMountsEnricher
  by unfold_locales (simp_all add: NewMountsEnricher_def Mounts_Enrich_def)

section \<open>Following owners\<close>

text \<open>One hop of the chain as a relation.\<close>

definition hops :: "(owner \<Rightarrow> owner option) \<Rightarrow> (owner \<times> owner) set" where
  "hops step = {(a, b). step a = Some b}"

lemma owner_loop_hops:
  "\<exists>k \<le> n. (ow, owner_loop step n ow) \<in> hops step ^^ k \<and> (step (owner_loop step n ow) = None \<or> k = n)"
proof (induction n arbitrary: ow)
  case (Suc n)
  show ?case
  proof (cases "step ow")
    case None
    then show ?thesis by (intro exI [of _ 0]) simp
  next
    case (Some ow')
    from Suc.IH [of ow'] obtain k where k: "k \<le> n" "(ow', owner_loop step n ow') \<in> hops step ^^ k"
      "step (owner_loop step n ow') = None \<or> k = n" by blast
    from Some have "(ow, ow') \<in> hops step" by (simp add: hops_def)
    from relpow_Suc_I2 [OF this k(2)] k Some show ?thesis
      by (intro exI [of _ "Suc k"]) simp
  qed
qed simp

lemma owner_loop_stop: "step ow = None \<Longrightarrow> owner_loop step n ow = ow"
  by (cases n) simp_all

text \<open>
  Where no ReplicaSet is owned by a ReplicaSet, two turns of the loop reach the end of
  every chain: ReplicaSet to its owner, Job to CronJob.
\<close>

lemma owner_step_other: "kind \<noteq> kindReplicaSet \<Longrightarrow> kind \<noteq> ''Job'' \<Longrightarrow> owner_step r j c ns (kind, name, uid) = None"
  by (simp add: owner_step_def)

lemma owner_step_job: "owner_step r j c ns (''Job'', name, uid) = Some ow \<Longrightarrow> fst ow = ''CronJob''"
  by (auto simp: owner_step_def kindReplicaSet_def split: option.splits if_splits)

lemma owner_step_cron: "fst ow = ''CronJob'' \<Longrightarrow> owner_step r j c ns ow = None"
  by (cases ow) (simp add: owner_step_def kindReplicaSet_def)

lemma owner_loop_not_rs:
  assumes "fst ow \<noteq> kindReplicaSet"
  shows "owner_step r j c ns (owner_loop (owner_step r j c ns) (Suc n) ow) = None"
proof (cases "owner_step r j c ns ow")
  case (Some ow')
  obtain kind name uid where ow: "ow = (kind, name, uid)" by (cases ow)
  with Some assms owner_step_other [of kind r j c ns name uid] have "kind = ''Job''" by fastforce
  with Some ow owner_step_job [of r j c ns name uid ow'] have "fst ow' = ''CronJob''" by simp
  with Some show ?thesis by (simp add: owner_step_cron owner_loop_stop)
qed simp

lemma owner_loop_top:
  assumes "\<And>k rs. r k = Some rs \<Longrightarrow> ReplicaSetInfo.OwnerKind rs \<noteq> kindReplicaSet"
  shows "owner_step r j c ns (owner_loop (owner_step r j c ns) (Suc (Suc n)) ow) = None"
proof (cases "owner_step r j c ns ow")
  case (Some ow')
  obtain kind name uid where ow: "ow = (kind, name, uid)" by (cases ow)
  have "fst ow' \<noteq> kindReplicaSet"
  proof (cases "kind = kindReplicaSet")
    case True
    with Some ow assms show ?thesis by (auto simp: owner_step_def split: option.splits if_splits)
  next
    case False
    with Some ow owner_step_other have "kind = ''Job''" by fastforce
    with Some ow owner_step_job [of r j c ns name uid ow'] show ?thesis by (simp add: kindReplicaSet_def)
  qed
  from owner_loop_not_rs [OF this] Some show ?thesis by simp
qed simp

lemma pod_owner_set [simp]: "pod_owner (set_pod_owner ow pod) = ow"
  by (cases ow) (simp add: pod_owner_def set_pod_owner_def)

lemma set_pod_owner_same [simp]: "set_pod_owner (pod_owner pod) pod = pod"
  by (simp add: pod_owner_def set_pod_owner_def)

lemma resolveOwner_owned:
  "PodInfo.OwnerKind pod \<notin> {'''', ''Node''} \<Longrightarrow>
   pod_owner (resolveOwner r j c pod) =
   owner_loop (owner_step r j c (PodInfo.Namespace pod)) maxOwnerDepth (pod_owner pod)"
  by (simp add: resolveOwner_def)

lemma resolveOwner_idem:
  assumes "owner_step r j c (PodInfo.Namespace pod) (pod_owner (resolveOwner r j c pod)) = None"
  shows "resolveOwner r j c (resolveOwner r j c pod) = resolveOwner r j c pod"
  using owner_loop_stop [where step = "owner_step r j c (PodInfo.Namespace pod)", OF assms]
  by (simp add: resolveOwner_def [of r j c "resolveOwner r j c pod"])

lemma resolveOwner_top:
  assumes "\<forall>rs \<in> set rss. ReplicaSetInfo.OwnerKind rs \<noteq> ''ReplicaSet''"
  shows "owner_step (buildReplicaSetMap rss) j c (PodInfo.Namespace pod)
           (pod_owner (resolveOwner (buildReplicaSetMap rss) j c pod)) = None"
proof (cases "PodInfo.OwnerKind pod \<in> {'''', ''Node''}")
  case True
  then show ?thesis by (auto simp: resolveOwner_def pod_owner_def owner_step_def kindReplicaSet_def)
next
  case False
  have rs: "ReplicaSetInfo.OwnerKind rs \<noteq> kindReplicaSet" if "buildReplicaSetMap rss k = Some rs" for k rs
    using assms index_by_SomeD that by (fastforce simp: buildReplicaSetMap_def kindReplicaSet_def)
  have "maxOwnerDepth = Suc (Suc 8)" by (simp add: maxOwnerDepth_def)
  with owner_loop_top [of "buildReplicaSetMap rss" j c "PodInfo.Namespace pod" 8 "pod_owner pod", OF rs]
  show ?thesis using resolveOwner_owned [OF False, of "buildReplicaSetMap rss" j c] by simp
qed

section \<open>Sums over containers\<close>

definition containers_of :: "PodInfo list \<Rightarrow> ContainerInfo list" where
  "containers_of pods = concat (map PodInfo.Containers pods)"

lemma containers_of_simps [simp]:
  "containers_of [] = []"
  "containers_of (p # ps) = PodInfo.Containers p @ containers_of ps"
  by (simp_all add: containers_of_def)

definition option_list :: "'a option \<Rightarrow> 'a list" where
  "option_list x = (case x of None \<Rightarrow> [] | Some v \<Rightarrow> [v])"

definition has_metrics :: "ContainerInfo \<Rightarrow> bool" where
  "has_metrics c \<longleftrightarrow> ContainerInfo.CPUUsageCores c \<noteq> None \<or> ContainerInfo.MemoryUsageBytes c \<noteq> None"

lemma foldl_containers:
  "foldl (\<lambda>t pod. foldl f t (PodInfo.Containers pod)) t pods = foldl f t (containers_of pods)"
  by (induction pods arbitrary: t) simp_all

lemma add_container_fields [simp]:
  "cpuReq (add_container t c) = f64_add (cpuReq t) (ContainerInfo.CPURequestCores c)"
  "memReq (add_container t c) = memReq t + ContainerInfo.MemoryRequestBytes c"
  "cpuLim (add_container t c) = f64_add (cpuLim t) (ContainerInfo.CPULimitCores c)"
  "memLim (add_container t c) = memLim t + ContainerInfo.MemoryLimitBytes c"
  "cpuUseTotal (add_container t c) = foldl f64_add (cpuUseTotal t) (option_list (ContainerInfo.CPUUsageCores c))"
  "memUseTotal (add_container t c) = memUseTotal t + sum_list (option_list (ContainerInfo.MemoryUsageBytes c))"
  "hasUsage (add_container t c) \<longleftrightarrow> hasUsage t \<or> has_metrics c"
  by (simp_all add: add_container_def Let_def option_list_def has_metrics_def split: option.splits)

lemma foldl_add_container:
  "cpuReq (foldl add_container t cs) = foldl f64_add (cpuReq t) (map ContainerInfo.CPURequestCores cs)"
  "memReq (foldl add_container t cs) = memReq t + sum_list (map ContainerInfo.MemoryRequestBytes cs)"
  "cpuLim (foldl add_container t cs) = foldl f64_add (cpuLim t) (map ContainerInfo.CPULimitCores cs)"
  "memLim (foldl add_container t cs) = memLim t + sum_list (map ContainerInfo.MemoryLimitBytes cs)"
  "cpuUseTotal (foldl add_container t cs) =
     foldl f64_add (cpuUseTotal t) (concat (map (option_list \<circ> ContainerInfo.CPUUsageCores) cs))"
  "memUseTotal (foldl add_container t cs) =
     memUseTotal t + sum_list (concat (map (option_list \<circ> ContainerInfo.MemoryUsageBytes) cs))"
  "hasUsage (foldl add_container t cs) \<longleftrightarrow> hasUsage t \<or> list_ex has_metrics cs"
  by (induction cs arbitrary: t) (simp_all add: add.assoc)

text \<open>The totals of a list of containers, column by column.\<close>

definition container_totals ::
  "ContainerInfo list \<Rightarrow> float64 \<times> int64 \<times> float64 \<times> int64 \<times> float64 option \<times> int64 option" where
  "container_totals cs =
     (f64_sum (map ContainerInfo.CPURequestCores cs), sum_list (map ContainerInfo.MemoryRequestBytes cs),
      f64_sum (map ContainerInfo.CPULimitCores cs), sum_list (map ContainerInfo.MemoryLimitBytes cs),
      if list_ex has_metrics cs then Some (f64_sum (concat (map (option_list \<circ> ContainerInfo.CPUUsageCores) cs))) else None,
      if list_ex has_metrics cs then Some (sum_list (concat (map (option_list \<circ> ContainerInfo.MemoryUsageBytes) cs))) else None)"

lemma sumPodResources_eq: "sumPodResources pods = container_totals (containers_of pods)"
  by (simp add: sumPodResources_def foldl_containers Let_def foldl_add_container container_totals_def
      f64_sum_def zero_totals_def)

text \<open>The containers of the pods that count for a workload.\<close>

definition workload_containers :: "ClusterSnapshot \<Rightarrow> workloadKey \<Rightarrow> ContainerInfo list" where
  "workload_containers snap key =
     containers_of (filter (\<lambda>p. counted_pod p \<and> pod_key p = key) (ClusterSnapshot.Pods snap))"

lemma sum_podsByWorkload:
  "sumPodResources (podsByWorkload (ClusterSnapshot.Pods snap) key) = container_totals (workload_containers snap key)"
  by (simp add: sumPodResources_eq podsByWorkload_def group_by_filter workload_containers_def conj_commute)

section \<open>Label selectors\<close>

lemma matchWorkloads_map:
  "matchWorkloads selector ws =
   map (\<lambda>w. \<lparr>WorkloadReference.Kind = we_kind w, Name = we_name w, Namespace = we_namespace w\<rparr>)
     (filter (\<lambda>w. labelsMatch selector (we_selector w)) ws)"
proof -
  have "foldl (\<lambda>refs w. if P w then refs @ [f w] else refs) rs ws = rs @ map f (filter P ws)"
    for P :: "workloadEntry \<Rightarrow> bool" and f and rs :: "WorkloadReference list"
    by (induction ws arbitrary: rs) simp_all
  then show ?thesis by (simp add: matchWorkloads_def)
qed

lemma labelsMatch_iff:
  "labelsMatch selector target \<longleftrightarrow>
   (\<forall>(k, v) \<in> set selector. map_of target k = Some v \<or> (v = '''' \<and> map_of target k = None))"
  by (auto simp: labelsMatch_def list_all_iff map_str_def split: option.splits)

lemma collectWorkloads_selected: "w \<in> set (collectWorkloads snap) \<Longrightarrow> we_selector w \<noteq> []"
  by (auto simp: collectWorkloads_def)

section \<open>Sums over workloads\<close>

lemma sum_list_filter_split:
  fixes g :: "'a \<Rightarrow> 'b :: comm_monoid_add"
  assumes "\<And>x. \<not> (P x \<and> Q x)"
  shows "sum_list (map g (filter (\<lambda>x. P x \<or> Q x) xs)) = sum_list (map g (filter P xs)) + sum_list (map g (filter Q xs))"
  using assms by (induction xs) (auto simp: ac_simps)

lemma sum_over_groups:
  fixes g :: "'a \<Rightarrow> 'b :: comm_monoid_add"
  assumes "distinct ks"
  shows "(\<Sum>k \<leftarrow> ks. sum_list (map g (filter (\<lambda>x. P x \<and> f x = k) xs))) =
         sum_list (map g (filter (\<lambda>x. P x \<and> f x \<in> set ks) xs))"
  using assms
proof (induction ks)
  case (Cons k ks)
  then have "sum_list (map g (filter (\<lambda>x. P x \<and> f x \<in> set (k # ks)) xs)) =
      sum_list (map g (filter (\<lambda>x. (P x \<and> f x = k) \<or> (P x \<and> f x \<in> set ks)) xs))"
    by (intro arg_cong [where f = sum_list] arg_cong [where f = "map g"] filter_cong) auto
  also have "\<dots> = sum_list (map g (filter (\<lambda>x. P x \<and> f x = k) xs)) + sum_list (map g (filter (\<lambda>x. P x \<and> f x \<in> set ks) xs))"
    by (rule sum_list_filter_split) (use Cons.prems in auto)
  finally show ?case using Cons by simp
qed simp

lemma sum_containers_of:
  fixes g :: "ContainerInfo \<Rightarrow> 'b :: comm_monoid_add"
  shows "sum_list (map g (containers_of pods)) = sum_list (map (\<lambda>p. sum_list (map g (PodInfo.Containers p))) pods)"
  by (induction pods) simp_all

section \<open>Properties of the enrichers\<close>



text \<open>
  Whatever the ReplicaSets, the walk from a pod to its owner takes at most ten hops,
  each along a recorded ownership, and it stops earlier only where the chain ends.
\<close>

theorem owner_walk_bounded:
  assumes "PodInfo.OwnerKind pod \<noteq> ''''" and "PodInfo.OwnerKind pod \<noteq> ''Node''"
  shows "\<exists>k \<le> 10. (pod_owner pod, pod_owner (resolveOwner r j c pod))
             \<in> hops (owner_step r j c (PodInfo.Namespace pod)) ^^ k
           \<and> (k = 10 \<or> owner_step r j c (PodInfo.Namespace pod) (pod_owner (resolveOwner r j c pod)) = None)"
  using owner_loop_hops [of maxOwnerDepth "pod_owner pod" "owner_step r j c (PodInfo.Namespace pod)"] assms
  by (auto simp: resolveOwner_owned maxOwnerDepth_def)

theorem owner_walk_bounded_witness:
  "\<exists>k \<le> 10. ((''ReplicaSet'', ''a'', ''''),
      pod_owner (resolveOwner
        (\<lambda>_. Some (zero_ReplicaSetInfo\<lparr>ReplicaSetInfo.OwnerKind := ''ReplicaSet'', ReplicaSetInfo.OwnerName := ''a''\<rparr>))
        Map.empty Map.empty
        (zero_PodInfo\<lparr>PodInfo.OwnerKind := ''ReplicaSet'', PodInfo.OwnerName := ''a''\<rparr>)))
     \<in> hops (owner_step
        (\<lambda>_. Some (zero_ReplicaSetInfo\<lparr>ReplicaSetInfo.OwnerKind := ''ReplicaSet'', ReplicaSetInfo.OwnerName := ''a''\<rparr>))
        Map.empty Map.empty '''') ^^ k"
  using owner_walk_bounded [of "zero_PodInfo\<lparr>PodInfo.OwnerKind := ''ReplicaSet'', PodInfo.OwnerName := ''a''\<rparr>"
      "\<lambda>_. Some (zero_ReplicaSetInfo\<lparr>ReplicaSetInfo.OwnerKind := ''ReplicaSet'', ReplicaSetInfo.OwnerName := ''a''\<rparr>)"
      Map.empty Map.empty]
  by (auto simp: pod_owner_def zero_PodInfo_def)






text \<open>
  A selector label with an empty value matches every workload whose selector lacks
  that label, although the pair does not exist in the workload's selector.
\<close>

theorem empty_label_matches_absent_key:
  assumes "map_of target k = None"
  shows "labelsMatch [(k, '''')] target"
  using assms by (simp add: labelsMatch_def map_str_def)

theorem empty_label_matches_absent_key_witness:
  "labelsMatch [(''team'', '''')] [(''app'', ''web'')]"
  by (rule empty_label_matches_absent_key) simp

section \<open>Ownership before aggregation\<close>

lemma cronjob_pods_leave_job:
  fixes snap :: ClusterSnapshot
  assumes "\<forall>rs \<in> set rss. ReplicaSetInfo.OwnerKind rs \<noteq> ''ReplicaSet''"
    and "buildJobMap (ClusterSnapshot.Jobs snap) (ns_name (JobInfo.Namespace j) (JobInfo.Name j)) = Some j"
    and "JobInfo.OwnerCronJob j \<noteq> ''''"
  shows "workload_containers (fst (Ownership_Enrich rss snap)) (JobInfo.Namespace j, ''Job'', JobInfo.Name j) = []"
proof -
  let ?snap' = "fst (Ownership_Enrich rss snap)"
  have "pod_key pod \<noteq> (JobInfo.Namespace j, ''Job'', JobInfo.Name j)" if "pod \<in> set (ClusterSnapshot.Pods ?snap')" for pod
  proof
    assume key: "pod_key pod = (JobInfo.Namespace j, ''Job'', JobInfo.Name j)"
    from that have "owner_step (buildReplicaSetMap rss) (buildJobMap (ClusterSnapshot.Jobs snap))
        (buildCronJobMap (ClusterSnapshot.CronJobs snap)) (PodInfo.Namespace pod) (pod_owner pod) = None"
      by (auto simp: Ownership_Enrich_def Let_def resolveOwner_top [OF assms(1)])
    with key assms(2,3) show False
      by (simp add: pod_key_def pod_owner_def owner_step_def kindReplicaSet_def)
  qed
  then show ?thesis by (simp add: workload_containers_def containers_of_def)
qed

text \<open>
  Ownership runs first, so the pods of a Job that a CronJob owns are attributed to the
  CronJob, and the Job itself is aggregated over no pods at all: its usage is never
  reported and its requests are those of one copy of its pod template, whatever its
  pods request and use.
\<close>

theorem cronjob_jobs_never_have_usage:
  assumes "\<forall>rs \<in> set rss. ReplicaSetInfo.OwnerKind rs \<noteq> ''ReplicaSet''"
    and "distinct (map (\<lambda>j. ns_name (JobInfo.Namespace j) (JobInfo.Name j)) (ClusterSnapshot.Jobs snap))"
    and "i < length (ClusterSnapshot.Jobs snap)"
    and "JobInfo.OwnerCronJob (ClusterSnapshot.Jobs snap ! i) \<noteq> ''''"
    and "JobInfo.ContainerSpecs (ClusterSnapshot.Jobs snap ! i) \<noteq> []"
  defines "j' \<equiv> ClusterSnapshot.Jobs (fst (Aggregation_Enrich (fst (Ownership_Enrich rss snap)))) ! i"
  shows "JobInfo.TotalCPUUsage j' = None \<and> JobInfo.TotalMemoryUsage j' = None
       \<and> (JobInfo.TotalCPURequest j', JobInfo.TotalMemoryRequest j') =
         sumContainerSpecRequests (JobInfo.ContainerSpecs (ClusterSnapshot.Jobs snap ! i))"
proof -
  let ?j = "ClusterSnapshot.Jobs snap ! i" and ?snap = "fst (Ownership_Enrich rss snap)"
  have "buildJobMap (ClusterSnapshot.Jobs snap) (ns_name (JobInfo.Namespace ?j) (JobInfo.Name ?j)) = Some ?j"
    using index_by_unique [OF assms(2), of ?j] assms(3) by (simp add: buildJobMap_def)
  then have "workload_containers ?snap (JobInfo.Namespace ?j, ''Job'', JobInfo.Name ?j) = []"
    using cronjob_pods_leave_job assms(1,4) by blast
  then have "sumPodResources (podsByWorkload (ClusterSnapshot.Pods ?snap) (JobInfo.Namespace ?j, ''Job'', JobInfo.Name ?j)) =
      (f64_zero, 0, f64_zero, 0, None, None)"
    by (simp add: sum_podsByWorkload container_totals_def f64_sum_def)
  moreover have "j' = aggregate_Job (podsByWorkload (ClusterSnapshot.Pods ?snap)) ?j"
    using assms(3) by (simp add: j'_def Aggregation_Enrich_def Ownership_Enrich_def Let_def)
  ultimately show ?thesis
    using assms(5) by (simp add: aggregate_Job_def split: prod.splits)
qed

theorem cronjob_jobs_never_have_usage_witness:
  "let c = zero_ContainerInfo\<lparr>ContainerInfo.MemoryUsageBytes := Some 7\<rparr>;
       p = zero_PodInfo\<lparr>PodInfo.Namespace := ''ns'', PodInfo.OwnerKind := ''Job'', PodInfo.OwnerName := ''backup-1'',
             PodInfo.Containers := [c]\<rparr>;
       spec = \<lparr>ContainerSpecInfo.Name = ''c'', Image = '''', CPURequestCores = f64_zero, MemoryRequestBytes = 3,
              CPULimitCores = f64_zero, MemoryLimitBytes = 0, GPURequest = 0, GPULimit = 0\<rparr>;
       j = zero_JobInfo\<lparr>JobInfo.Name := ''backup-1'', JobInfo.Namespace := ''ns'', JobInfo.OwnerCronJob := ''backup'',
             JobInfo.ContainerSpecs := [spec]\<rparr>;
       snap = zero_ClusterSnapshot\<lparr>ClusterSnapshot.Pods := [p], ClusterSnapshot.Jobs := [j]\<rparr>
   in JobInfo.TotalMemoryUsage (ClusterSnapshot.Jobs (fst (Aggregation_Enrich (fst (Ownership_Enrich [] snap)))) ! 0) = None"
  unfolding Let_def
  by (rule cronjob_jobs_never_have_usage [THEN conjunct2, THEN conjunct1]) (simp_all add: zero_ClusterSnapshot_def)

lemma main_pipeline_run:
  "Pipeline_Run dur main_pipeline snap m =
     run_enricher dur NewMountsEnricher (run_enricher dur NewTargetsEnricher
       (run_enricher dur NewAggregationEnricher (snap, m)))"
  by (simp add: Pipeline_Run_def main_pipeline_def)

lemma main_pipeline_view:
  "summary_view (fst (Pipeline_Run dur main_pipeline snap m)) = summary_view snap"
  unfolding main_pipeline_run
  by (simp add: mounts.run_keeps_view targets.run_keeps_view aggregation.run_keeps_view)

text \<open>
  The pipeline that \<^verbatim>\<open>main\<close> builds keeps everything the summary is computed from, and
  records one duration for the aggregation, the targets and the mounts enricher, in this
  order.
\<close>

theorem pipeline_keeps_summary_view:
  "summary_view (fst (Pipeline_Run dur main_pipeline snap m)) = summary_view snap
   \<and> map_option calls (snd (Pipeline_Run dur main_pipeline snap (Some m0))) =
     Some (calls m0 @ map (\<lambda>n. Observe (EnricherDuration n) (duration_Seconds (dur n))) [''aggregation'', ''targets'', ''mounts''])"
  by (simp add: main_pipeline_view)
    (simp add: main_pipeline_run run_enricher_def with_metrics_def NewMountsEnricher_def NewTargetsEnricher_def
      NewAggregationEnricher_def)

end
