(* ===== verification/Gpu.thy ===== *)
theory Gpu
  imports Float64
begin

text \<open>
  \<^verbatim>\<open>internal/collector/gpu\<close>: the metrics of a GPU device as dcgm-exporter reports them.
\<close>

record GPUDeviceMetrics =
  GPU :: string
  UUID :: string
  Device :: string
  ModelName :: string
  DriverVersion :: string
  Hostname :: string
  PodName :: string
  Namespace :: string
  ContainerName :: string
  MIGEnabled :: "bool option"
  GPUInstanceID :: string
  GPUProfile :: string
  GPUUtilization :: "float64 option"
  TensorActivePercent :: "float64 option"
  MemCopyUtilPercent :: "float64 option"
  MemoryUsedBytes :: "int64 option"
  MemoryFreeBytes :: "int64 option"
  MemoryTotalBytes :: "int64 option"
  Temperature :: "float64 option"
  PowerUsage :: "float64 option"
  Timestamp :: int64

definition zero_GPUDeviceMetrics :: GPUDeviceMetrics where
  "zero_GPUDeviceMetrics =
    \<lparr>GPUDeviceMetrics.GPU = '''', GPUDeviceMetrics.UUID = '''', GPUDeviceMetrics.Device = '''',
     GPUDeviceMetrics.ModelName = '''', GPUDeviceMetrics.DriverVersion = '''', GPUDeviceMetrics.Hostname = '''',
     GPUDeviceMetrics.PodName = '''', GPUDeviceMetrics.Namespace = '''', GPUDeviceMetrics.ContainerName = '''',
     GPUDeviceMetrics.MIGEnabled = None, GPUDeviceMetrics.GPUInstanceID = '''', GPUDeviceMetrics.GPUProfile = '''',
     GPUDeviceMetrics.GPUUtilization = None, GPUDeviceMetrics.TensorActivePercent = None,
     GPUDeviceMetrics.MemCopyUtilPercent = None, GPUDeviceMetrics.MemoryUsedBytes = None,
     GPUDeviceMetrics.MemoryFreeBytes = None, GPUDeviceMetrics.MemoryTotalBytes = None,
     GPUDeviceMetrics.Temperature = None, GPUDeviceMetrics.PowerUsage = None, GPUDeviceMetrics.Timestamp = 0\<rparr>"

end
