(* ===== verification/Builder.thy ===== *)
theory Builder
  imports Store Agent_Errors Config Enrichment Gpu
begin

text \<open>
  \<^verbatim>\<open>internal/snapshot\<close>: the builder that turns the stores into one \<open>ClusterSnapshot\<close>, and the
  summary. \<open>Build\<close> composes the steps of the code in their order; what other goroutines do
  to the stores meanwhile is in the \<open>build_view\<close>, which holds the stores as each read of the
  builder finds them, and the iteration orders and clock readings of this run.
\<close>

section \<open>Merging metrics-server data\<close>

definition mergeNodeMetrics :: "NodeInfo list \<Rightarrow> NodeMetrics list \<Rightarrow> NodeInfo list" where
  "mergeNodeMetrics nodes metrics =
     (if metrics = [] then nodes
      else let lookup = index_by NodeMetrics.Name metrics in
        map (\<lambda>n. case lookup (NodeInfo.Name n) of None \<Rightarrow> n
                 | Some m \<Rightarrow> n\<lparr>NodeInfo.CPUUsageCores := Some (NodeMetrics.CPUUsageCores m),
                              NodeInfo.MemoryUsageBytes := Some (NodeMetrics.MemoryUsageBytes m)\<rparr>) nodes)"

definition pod_id :: "PodInfo \<Rightarrow> string" where
  "pod_id p = ns_name (PodInfo.Namespace p) (PodInfo.Name p)"

definition merge_container :: "(string \<rightharpoonup> ContainerMetrics) \<Rightarrow> ContainerInfo \<Rightarrow> ContainerInfo" where
  "merge_container cmLookup c =
     (case cmLookup (ContainerInfo.Name c) of None \<Rightarrow> c
      | Some cm \<Rightarrow> c\<lparr>ContainerInfo.CPUUsageCores := Some (ContainerMetrics.CPUUsageCores cm),
                     ContainerInfo.MemoryUsageBytes := Some (ContainerMetrics.MemoryUsageBytes cm)\<rparr>)"

definition merge_pod :: "(string \<rightharpoonup> PodMetrics) \<Rightarrow> PodInfo \<Rightarrow> PodInfo" where
  "merge_pod lookup p =
     (case lookup (pod_id p) of None \<Rightarrow> p
      | Some pm \<Rightarrow> p\<lparr>PodInfo.Containers :=
          map (merge_container (index_by ContainerMetrics.Name (PodMetrics.Containers pm))) (PodInfo.Containers p)\<rparr>)"

definition mergePodMetrics :: "PodInfo list \<Rightarrow> PodMetrics list \<Rightarrow> PodInfo list" where
  "mergePodMetrics pods metrics =
     (if metrics = [] then pods
      else map (merge_pod (index_by (\<lambda>m. ns_name (PodMetrics.Namespace m) (PodMetrics.Name m)) metrics)) pods)"

section \<open>Merging GPU data\<close>

text \<open>The accumulators of the loop over the devices of a node.\<close>

record node_gpu =
  utilSum :: float64
  utilCount :: goint
  tensorSum :: float64
  tensorCount :: goint
  memUtilSum :: float64
  memUtilCount :: goint
  memUsed :: int64
  memTotal :: int64
  maxTemp :: float64
  powerSum :: float64
  hasTemp :: bool
  hasPower :: bool
  migDetected :: bool

definition zero_node_gpu :: node_gpu where
  "zero_node_gpu = \<lparr>utilSum = f64_zero, utilCount = 0, tensorSum = f64_zero, tensorCount = 0,
     memUtilSum = f64_zero, memUtilCount = 0, memUsed = 0, memTotal = 0, maxTemp = f64_zero,
     powerSum = f64_zero, hasTemp = False, hasPower = False, migDetected = False\<rparr>"

definition device_info :: "GPUDeviceMetrics \<Rightarrow> GPUDeviceInfo" where
  "device_info d = \<lparr>GPUDeviceInfo.UUID = GPUDeviceMetrics.UUID d, DeviceIndex = GPUDeviceMetrics.GPU d,
     ModelName = GPUDeviceMetrics.ModelName d, UtilizationPercent = GPUDeviceMetrics.GPUUtilization d,
     TensorActivePercent = GPUDeviceMetrics.TensorActivePercent d,
     MemoryUtilPercent = GPUDeviceMetrics.MemCopyUtilPercent d,
     MemoryUsedBytes = GPUDeviceMetrics.MemoryUsedBytes d,
     MemoryTotalBytes = GPUDeviceMetrics.MemoryTotalBytes d,
     TemperatureCelsius = GPUDeviceMetrics.Temperature d, PowerWatts = GPUDeviceMetrics.PowerUsage d,
     MIGProfile = GPUDeviceMetrics.GPUProfile d, MIGInstanceID = GPUDeviceMetrics.GPUInstanceID d\<rparr>"

text \<open>\<^verbatim>\<open>if p != nil { ... *p ... }\<close>\<close>

definition if_some :: "'a option \<Rightarrow> ('a \<Rightarrow> 'b \<Rightarrow> 'b) \<Rightarrow> 'b \<Rightarrow> 'b" where
  "if_some x f s = (case x of None \<Rightarrow> s | Some v \<Rightarrow> f v s)"

definition add_device :: "node_gpu \<Rightarrow> GPUDeviceMetrics \<Rightarrow> node_gpu" where
  "add_device a0 d =
    (let a1 = if_some (GPUDeviceMetrics.GPUUtilization d) (\<lambda>v a. a\<lparr>utilSum := f64_add (utilSum a) v, utilCount := utilCount a + 1\<rparr>) a0;
         a2 = if_some (GPUDeviceMetrics.TensorActivePercent d) (\<lambda>v a. a\<lparr>tensorSum := f64_add (tensorSum a) v, tensorCount := tensorCount a + 1\<rparr>) a1;
         a3 = if_some (GPUDeviceMetrics.MemCopyUtilPercent d) (\<lambda>v a. a\<lparr>memUtilSum := f64_add (memUtilSum a) v, memUtilCount := memUtilCount a + 1\<rparr>) a2;
         a4 = if_some (GPUDeviceMetrics.MemoryUsedBytes d) (\<lambda>v a. a\<lparr>memUsed := memUsed a + v\<rparr>) a3;
         a5 = if_some (GPUDeviceMetrics.MemoryTotalBytes d) (\<lambda>v a. a\<lparr>memTotal := memTotal a + v\<rparr>) a4;
         a6 = if_some (GPUDeviceMetrics.Temperature d)
                (\<lambda>v a. a\<lparr>maxTemp := (if f64_less (maxTemp a) v then v else maxTemp a), hasTemp := True\<rparr>) a5;
         a7 = if_some (GPUDeviceMetrics.PowerUsage d) (\<lambda>v a. a\<lparr>powerSum := f64_add (powerSum a) v, hasPower := True\<rparr>) a6
     in if GPUDeviceMetrics.MIGEnabled d = Some True then a7\<lparr>migDetected := True\<rparr> else a7)"

definition mean :: "float64 \<Rightarrow> goint \<Rightarrow> float64" where
  "mean s n = f64_div s (f64_of_int (sint n))"

definition merge_gpu_node :: "GPUDeviceMetrics list \<Rightarrow> NodeInfo \<Rightarrow> NodeInfo" where
  "merge_gpu_node devs n =
    (if devs = [] then n
     else let a = foldl add_device zero_node_gpu devs in
       n\<lparr>NodeInfo.GPUDevices := map device_info devs,
         NodeInfo.GPUModel := (if GPUDeviceMetrics.ModelName (hd devs) \<noteq> '''' then GPUDeviceMetrics.ModelName (hd devs) else NodeInfo.GPUModel n),
         NodeInfo.GPUDriverVersion := (if GPUDeviceMetrics.DriverVersion (hd devs) \<noteq> '''' then GPUDeviceMetrics.DriverVersion (hd devs) else NodeInfo.GPUDriverVersion n),
         NodeInfo.MIGEnabled := migDetected a,
         NodeInfo.GPUUtilizationPercent := (if 0 <s utilCount a then Some (mean (utilSum a) (utilCount a)) else NodeInfo.GPUUtilizationPercent n),
         NodeInfo.GPUTensorActivePercent := (if 0 <s tensorCount a then Some (mean (tensorSum a) (tensorCount a)) else NodeInfo.GPUTensorActivePercent n),
         NodeInfo.GPUMemoryUtilPercent := (if 0 <s memUtilCount a then Some (mean (memUtilSum a) (memUtilCount a)) else NodeInfo.GPUMemoryUtilPercent n),
         NodeInfo.GPUMemoryUsedBytes := (if 0 <s memUsed a then Some (memUsed a) else NodeInfo.GPUMemoryUsedBytes n),
         NodeInfo.GPUMemoryTotalBytes := (if 0 <s memTotal a then Some (memTotal a) else NodeInfo.GPUMemoryTotalBytes n),
         NodeInfo.GPUTemperatureCelsius := (if hasTemp a then Some (maxTemp a) else NodeInfo.GPUTemperatureCelsius n),
         NodeInfo.GPUPowerWatts := (if hasPower a then Some (powerSum a) else NodeInfo.GPUPowerWatts n)\<rparr>)"

definition mergeGPUNodeMetrics :: "NodeInfo list \<Rightarrow> GPUDeviceMetrics list \<Rightarrow> NodeInfo list" where
  "mergeGPUNodeMetrics nodes metrics =
     (if metrics = [] then nodes
      else let byNode = group_by GPUDeviceMetrics.Hostname (filter (\<lambda>m. GPUDeviceMetrics.Hostname m \<noteq> '''') metrics) in
        map (\<lambda>n. merge_gpu_node (byNode (NodeInfo.Name n)) n) nodes)"

type_synonym containerKey = "string \<times> string \<times> string"

record containerGPU =
  cg_utilSum :: float64
  cg_utilCount :: goint
  cg_memUsed :: int64
  cg_hasUtil :: bool
  cg_hasMem :: bool

definition zero_containerGPU :: containerGPU where
  "zero_containerGPU = \<lparr>cg_utilSum = f64_zero, cg_utilCount = 0, cg_memUsed = 0, cg_hasUtil = False, cg_hasMem = False\<rparr>"

definition add_container_device :: "containerGPU \<Rightarrow> GPUDeviceMetrics \<Rightarrow> containerGPU" where
  "add_container_device cg m =
    if_some (GPUDeviceMetrics.MemoryUsedBytes m) (\<lambda>v c. c\<lparr>cg_memUsed := cg_memUsed c + v, cg_hasMem := True\<rparr>)
     (if_some (GPUDeviceMetrics.GPUUtilization m)
        (\<lambda>v c. c\<lparr>cg_utilSum := f64_add (cg_utilSum c) v, cg_utilCount := cg_utilCount c + 1, cg_hasUtil := True\<rparr>) cg)"

definition device_key :: "GPUDeviceMetrics \<Rightarrow> containerKey" where
  "device_key m = (GPUDeviceMetrics.Namespace m, GPUDeviceMetrics.PodName m, GPUDeviceMetrics.ContainerName m)"

definition containerGPU_lookup :: "GPUDeviceMetrics list \<Rightarrow> containerKey \<rightharpoonup> containerGPU" where
  "containerGPU_lookup metrics =
    foldl (\<lambda>lookup m.
       if GPUDeviceMetrics.PodName m = '''' \<or> GPUDeviceMetrics.Namespace m = '''' \<or> GPUDeviceMetrics.ContainerName m = '''' then lookup
       else let key = device_key m;
                cg = (case lookup key of None \<Rightarrow> zero_containerGPU | Some cg \<Rightarrow> cg)
            in lookup(key \<mapsto> add_container_device cg m)) Map.empty metrics"

definition merge_gpu_container :: "containerGPU option \<Rightarrow> ContainerInfo \<Rightarrow> ContainerInfo" where
  "merge_gpu_container cg c =
    if_some cg (\<lambda>cg c. c\<lparr>
       ContainerInfo.GPUUtilizationPercent :=
         (if cg_hasUtil cg \<and> 0 <s cg_utilCount cg then Some (mean (cg_utilSum cg) (cg_utilCount cg)) else ContainerInfo.GPUUtilizationPercent c),
       ContainerInfo.GPUMemoryUsedBytes :=
         (if cg_hasMem cg then Some (cg_memUsed cg) else ContainerInfo.GPUMemoryUsedBytes c)\<rparr>) c"

definition merge_gpu_pod :: "(containerKey \<rightharpoonup> containerGPU) \<Rightarrow> PodInfo \<Rightarrow> PodInfo" where
  "merge_gpu_pod lookup p = p\<lparr>PodInfo.Containers :=
     map (\<lambda>c. merge_gpu_container (lookup (PodInfo.Namespace p, PodInfo.Name p, ContainerInfo.Name c)) c) (PodInfo.Containers p)\<rparr>"

definition mergeGPUContainerMetrics :: "PodInfo list \<Rightarrow> GPUDeviceMetrics list \<Rightarrow> PodInfo list" where
  "mergeGPUContainerMetrics pods metrics =
     (if metrics = [] then pods else map (merge_gpu_pod (containerGPU_lookup metrics)) pods)"

section \<open>Summary\<close>

definition count_pod :: "ClusterSummary \<Rightarrow> PodInfo \<Rightarrow> ClusterSummary" where
  "count_pod s0 pod =
    (let ph = PodInfo.Phase pod;
         s = (if ph = ''Running'' then s0\<lparr>ClusterSummary.RunningPodCount := ClusterSummary.RunningPodCount s0 + 1\<rparr>
              else if ph = ''Pending'' then s0\<lparr>ClusterSummary.PendingPodCount := ClusterSummary.PendingPodCount s0 + 1\<rparr>
              else if ph = ''Failed'' then s0\<lparr>ClusterSummary.FailedPodCount := ClusterSummary.FailedPodCount s0 + 1\<rparr>
              else if ph = ''Succeeded'' then s0\<lparr>ClusterSummary.SucceededPodCount := ClusterSummary.SucceededPodCount s0 + 1\<rparr>
              else s0)
     in s\<lparr>ClusterSummary.ContainerCount := ClusterSummary.ContainerCount s + len (PodInfo.Containers pod)\<rparr>)"

text \<open>The local variables of the loop over the nodes.\<close>

record node_sums =
  metricsAvailable :: bool
  cpuUsageSum :: float64
  memUsageSum :: int64
  hasCPUUsage :: bool
  hasMemUsage :: bool
  gpuUsageSum :: float64
  gpuTensorSum :: float64
  gpuMemUtilSum :: float64
  gpuMemUsedSum :: int64
  gpuMemTotalSum :: int64
  gpuNodeCount :: goint
  gpuTensorCount :: goint
  gpuMemUtilCount :: goint
  hasGPUMetrics :: bool

definition zero_node_sums :: node_sums where
  "zero_node_sums = \<lparr>metricsAvailable = False, cpuUsageSum = f64_zero, memUsageSum = 0, hasCPUUsage = False,
     hasMemUsage = False, gpuUsageSum = f64_zero, gpuTensorSum = f64_zero, gpuMemUtilSum = f64_zero,
     gpuMemUsedSum = 0, gpuMemTotalSum = 0, gpuNodeCount = 0, gpuTensorCount = 0, gpuMemUtilCount = 0,
     hasGPUMetrics = False\<rparr>"

definition add_node_usage :: "node_sums \<Rightarrow> NodeInfo \<Rightarrow> node_sums" where
  "add_node_usage a0 n =
    (let a1 = if_some (NodeInfo.CPUUsageCores n)
                (\<lambda>v a. a\<lparr>metricsAvailable := True, cpuUsageSum := f64_add (cpuUsageSum a) v, hasCPUUsage := True\<rparr>) a0;
         a2 = if_some (NodeInfo.MemoryUsageBytes n) (\<lambda>v a. a\<lparr>memUsageSum := memUsageSum a + v, hasMemUsage := True\<rparr>) a1;
         a3 = if_some (NodeInfo.GPUUtilizationPercent n)
                (\<lambda>v a. a\<lparr>gpuUsageSum := f64_add (gpuUsageSum a) v, gpuNodeCount := gpuNodeCount a + 1, hasGPUMetrics := True\<rparr>) a2;
         a4 = if_some (NodeInfo.GPUTensorActivePercent n)
                (\<lambda>v a. a\<lparr>gpuTensorSum := f64_add (gpuTensorSum a) v, gpuTensorCount := gpuTensorCount a + 1\<rparr>) a3;
         a5 = if_some (NodeInfo.GPUMemoryUtilPercent n)
                (\<lambda>v a. a\<lparr>gpuMemUtilSum := f64_add (gpuMemUtilSum a) v, gpuMemUtilCount := gpuMemUtilCount a + 1\<rparr>) a4;
         a6 = if_some (NodeInfo.GPUMemoryUsedBytes n) (\<lambda>v a. a\<lparr>gpuMemUsedSum := gpuMemUsedSum a + v\<rparr>) a5
     in if_some (NodeInfo.GPUMemoryTotalBytes n) (\<lambda>v a. a\<lparr>gpuMemTotalSum := gpuMemTotalSum a + v\<rparr>) a6)"

definition add_node_capacity :: "ClusterSummary \<Rightarrow> NodeInfo \<Rightarrow> ClusterSummary" where
  "add_node_capacity s n = s\<lparr>
     ClusterSummary.TotalCPUCapacity := f64_add (ClusterSummary.TotalCPUCapacity s) (NodeInfo.CPUCapacityCores n),
     ClusterSummary.TotalCPUAllocatable := f64_add (ClusterSummary.TotalCPUAllocatable s) (NodeInfo.CPUAllocatable n),
     ClusterSummary.TotalMemoryCapacity := ClusterSummary.TotalMemoryCapacity s + NodeInfo.MemoryCapacityBytes n,
     ClusterSummary.TotalMemoryAllocatable := ClusterSummary.TotalMemoryAllocatable s + NodeInfo.MemoryAllocatable n,
     ClusterSummary.TotalGPUCapacity := ClusterSummary.TotalGPUCapacity s + NodeInfo.GPUCapacity n\<rparr>"

definition set_usage :: "node_sums \<Rightarrow> ClusterSummary \<Rightarrow> ClusterSummary" where
  "set_usage a s = s\<lparr>
     ClusterSummary.MetricsAvailable := metricsAvailable a,
     ClusterSummary.GPUMetricsAvailable := hasGPUMetrics a,
     ClusterSummary.TotalCPUUsage := (if hasCPUUsage a then Some (cpuUsageSum a) else ClusterSummary.TotalCPUUsage s),
     ClusterSummary.TotalMemoryUsage := (if hasMemUsage a then Some (memUsageSum a) else ClusterSummary.TotalMemoryUsage s),
     ClusterSummary.TotalGPUUsage := (if hasGPUMetrics a \<and> 0 <s gpuNodeCount a then Some (mean (gpuUsageSum a) (gpuNodeCount a)) else ClusterSummary.TotalGPUUsage s),
     ClusterSummary.TotalGPUMemoryUsed := (if hasGPUMetrics a \<and> 0 <s gpuNodeCount a then Some (gpuMemUsedSum a) else ClusterSummary.TotalGPUMemoryUsed s),
     ClusterSummary.TotalGPUMemoryTotal := (if hasGPUMetrics a \<and> 0 <s gpuNodeCount a then Some (gpuMemTotalSum a) else ClusterSummary.TotalGPUMemoryTotal s),
     ClusterSummary.TotalGPUTensorActive := (if 0 <s gpuTensorCount a then Some (mean (gpuTensorSum a) (gpuTensorCount a)) else ClusterSummary.TotalGPUTensorActive s),
     ClusterSummary.TotalGPUMemoryUtil := (if 0 <s gpuMemUtilCount a then Some (mean (gpuMemUtilSum a) (gpuMemUtilCount a)) else ClusterSummary.TotalGPUMemoryUtil s)\<rparr>"

definition add_container_requests :: "ClusterSummary \<Rightarrow> ContainerInfo \<Rightarrow> ClusterSummary" where
  "add_container_requests s c = s\<lparr>
     ClusterSummary.TotalCPURequested := f64_add (ClusterSummary.TotalCPURequested s) (ContainerInfo.CPURequestCores c),
     ClusterSummary.TotalMemoryRequested := ClusterSummary.TotalMemoryRequested s + ContainerInfo.MemoryRequestBytes c,
     ClusterSummary.TotalGPURequested := ClusterSummary.TotalGPURequested s + ContainerInfo.GPURequest c\<rparr>"

definition count_resources :: "ClusterSnapshot \<Rightarrow> ClusterSummary" where
  "count_resources snap = zero_ClusterSummary\<lparr>
     ClusterSummary.NodeCount := len (ClusterSnapshot.Nodes snap),
     ClusterSummary.PodCount := len (ClusterSnapshot.Pods snap),
     ClusterSummary.NamespaceCount := len (ClusterSnapshot.Namespaces snap),
     ClusterSummary.DeploymentCount := len (ClusterSnapshot.Deployments snap),
     ClusterSummary.StatefulSetCount := len (ClusterSnapshot.StatefulSets snap),
     ClusterSummary.DaemonSetCount := len (ClusterSnapshot.DaemonSets snap),
     ClusterSummary.JobCount := len (ClusterSnapshot.Jobs snap),
     ClusterSummary.CronJobCount := len (ClusterSnapshot.CronJobs snap),
     ClusterSummary.CustomWorkloadCount := len (ClusterSnapshot.CustomWorkloads snap),
     ClusterSummary.HPACount := len (ClusterSnapshot.HPAs snap),
     ClusterSummary.ServiceCount := len (ClusterSnapshot.Services snap),
     ClusterSummary.IngressCount := len (ClusterSnapshot.Ingresses snap),
     ClusterSummary.PVCount := len (ClusterSnapshot.PVs snap),
     ClusterSummary.PVCCount := len (ClusterSnapshot.PVCs snap)\<rparr>"

definition ComputeSummary :: "ClusterSnapshot \<Rightarrow> ClusterSummary" where
  "ComputeSummary snap =
    (let s1 = foldl count_pod (count_resources snap) (ClusterSnapshot.Pods snap);
         s2 = foldl add_node_capacity s1 (ClusterSnapshot.Nodes snap);
         s3 = set_usage (foldl add_node_usage zero_node_sums (ClusterSnapshot.Nodes snap)) s2;
         s4 = foldl (\<lambda>s pod. foldl add_container_requests s (PodInfo.Containers pod)) s3 (ClusterSnapshot.Pods snap);
         s5 = foldl (\<lambda>s pv. s\<lparr>ClusterSummary.TotalStorageCapacity := ClusterSummary.TotalStorageCapacity s + PVInfo.Capacity pv\<rparr>)
                s4 (ClusterSnapshot.PVs snap)
     in foldl (\<lambda>s pvc. s\<lparr>ClusterSummary.TotalStorageRequested := ClusterSummary.TotalStorageRequested s + PVCInfo.RequestedBytes pvc\<rparr>)
          s5 (ClusterSnapshot.PVCs snap))"

section \<open>Building a snapshot\<close>

record SnapshotBuilder =
  store :: Store
  metricsStore :: MetricsStore
  config :: Config
  metrics :: "Metrics option"
  errorCollector :: ErrorCollector
  pipeline :: "Pipeline option"
  gpuCollector :: "GPUDeviceMetrics list option"
  cloudAccountID :: string

definition NewSnapshotBuilder ::
  "Store \<Rightarrow> MetricsStore \<Rightarrow> Config \<Rightarrow> Metrics option \<Rightarrow> ErrorCollector \<Rightarrow> Pipeline option \<Rightarrow>
   GPUDeviceMetrics list option \<Rightarrow> string \<Rightarrow> SnapshotBuilder" where
  "NewSnapshotBuilder st ms cfg m ec p gpu acct =
     \<lparr>store = st, metricsStore = ms, config = cfg, metrics = m, errorCollector = ec, pipeline = p,
      gpuCollector = gpu, cloudAccountID = acct\<rparr>"

text \<open>
  What one run of \<open>Build\<close> meets: \<open>read_store\<close> holds each of the 22 stores as the goroutine
  that reads it finds it (the reads are concurrent with the informers, so the stores need
  not be of one moment), \<open>reread_nodes\<close> the node store at the second read, \<open>late_store\<close> the
  stores when their time stamps are read; \<open>orders i\<close> is the order of the \<open>i\<close>-th map loop.
\<close>

record build_view =
  read_store :: Store
  reread_nodes :: "NodeInfo TypedStore"
  late_store :: Store
  orders :: "nat \<Rightarrow> iter_order"
  uuid :: string
  start_time :: Time
  snapshot_time :: Time
  stale_time :: Time
  end_time :: Time
  enricher_time :: "string \<Rightarrow> Duration"

definition readStores :: "build_view \<Rightarrow> ClusterSnapshot \<Rightarrow> ClusterSnapshot \<times> ReplicaSetInfo list" where
  "readStores v snap =
    (let st = read_store v; ord = orders v in
     (snap\<lparr>ClusterSnapshot.Nodes := Store.Values (ord 0) (Store.Nodes st),
           ClusterSnapshot.Pods := Store.Values (ord 1) (Store.Pods st),
           ClusterSnapshot.Namespaces := Store.Values (ord 2) (Store.Namespaces st),
           ClusterSnapshot.Deployments := Store.Values (ord 3) (Store.Deployments st),
           ClusterSnapshot.StatefulSets := Store.Values (ord 4) (Store.StatefulSets st),
           ClusterSnapshot.DaemonSets := Store.Values (ord 5) (Store.DaemonSets st),
           ClusterSnapshot.Jobs := Store.Values (ord 6) (Store.Jobs st),
           ClusterSnapshot.CronJobs := Store.Values (ord 7) (Store.CronJobs st),
           ClusterSnapshot.CustomWorkloads := Store.Values (ord 8) (Store.CustomWorkloads st),
           ClusterSnapshot.HPAs := Store.Values (ord 9) (Store.HPAs st),
           ClusterSnapshot.VPAs := Store.Values (ord 10) (Store.VPAs st),
           ClusterSnapshot.PDBs := Store.Values (ord 11) (Store.PDBs st),
           ClusterSnapshot.Services := Store.Values (ord 12) (Store.Services st),
           ClusterSnapshot.Ingresses := Store.Values (ord 13) (Store.Ingresses st),
           ClusterSnapshot.PVs := Store.Values (ord 14) (Store.PVs st),
           ClusterSnapshot.PVCs := Store.Values (ord 15) (Store.PVCs st),
           ClusterSnapshot.StorageClasses := Store.Values (ord 16) (Store.StorageClasses st),
           ClusterSnapshot.PriorityClasses := Store.Values (ord 17) (Store.PriorityClasses st),
           ClusterSnapshot.LimitRanges := Store.Values (ord 18) (Store.LimitRanges st),
           ClusterSnapshot.ResourceQuotas := Store.Values (ord 19) (Store.ResourceQuotas st),
           ClusterSnapshot.NodePools := Store.Values (ord 20) (Store.NodePools st)\<rparr>,
      Store.Values (ord 21) (Store.ReplicaSets st)))"

text \<open>The names of nodes that pods refer to and the snapshot lacks, as a map used as a set.\<close>

definition missing_nodes :: "ClusterSnapshot \<Rightarrow> (string, unit) gomap" where
  "missing_nodes snap =
    (let present = NodeInfo.Name ` set (ClusterSnapshot.Nodes snap) in
     foldl (\<lambda>r p. if PodInfo.NodeName p = '''' then r
                  else if PodInfo.NodeName p \<in> present then r
                  else map_set (PodInfo.NodeName p) () r) [] (ClusterSnapshot.Pods snap))"

definition backfillReferencedNodes ::
  "build_view \<Rightarrow> ClusterSnapshot \<Rightarrow> Metrics option \<Rightarrow> ClusterSnapshot \<times> Metrics option" where
  "backfillReferencedNodes v snap m =
    (if ClusterSnapshot.Pods snap = [] then (snap, m)
     else let referenced = missing_nodes snap in
       if referenced = [] then (snap, m)
       else let storeIndex = index_by NodeInfo.Name (Store.Values (orders v 24) (reread_nodes v));
                (nodes, stillOrphan) =
                  foldl (\<lambda>(ns, os) (name, _). case storeIndex name of Some n \<Rightarrow> (ns @ [n], os) | None \<Rightarrow> (ns, os @ [name]))
                    (ClusterSnapshot.Nodes snap, []) (map_range (orders v 25) referenced)
            in (snap\<lparr>ClusterSnapshot.Nodes := nodes\<rparr>,
                if stillOrphan \<noteq> [] then with_metrics (Add OrphanPodNodeRefs (f64_of_int (sint (len stillOrphan)))) m else m))"

definition deriveProvider :: "string \<Rightarrow> string" where
  "deriveProvider providerID =
     (if HasPrefix providerID ''aws://'' then ''aws''
      else if HasPrefix providerID ''gce://'' then ''gcp''
      else if HasPrefix providerID ''azure://'' then ''azure''
      else '''')"

text \<open>Steps 2, 3 and 3b on the pods and on the nodes.\<close>

definition merged_pods :: "SnapshotBuilder \<Rightarrow> build_view \<Rightarrow> PodInfo list \<Rightarrow> PodInfo list" where
  "merged_pods b v pods =
    (let pods' = mergePodMetrics pods (Store.Values (orders v 23) (PodMetrics_store (metricsStore b)))
     in case gpuCollector b of None \<Rightarrow> pods' | Some gpu \<Rightarrow> mergeGPUContainerMetrics pods' gpu)"

definition merged_nodes :: "SnapshotBuilder \<Rightarrow> build_view \<Rightarrow> NodeInfo list \<Rightarrow> NodeInfo list" where
  "merged_nodes b v nodes =
    (let nodes' = mergeNodeMetrics nodes (Store.Values (orders v 22) (NodeMetrics_store (metricsStore b)))
     in case gpuCollector b of None \<Rightarrow> nodes' | Some gpu \<Rightarrow> mergeGPUNodeMetrics nodes' gpu)"

definition stale_resources :: "SnapshotBuilder \<Rightarrow> build_view \<Rightarrow> string list" where
  "stale_resources b v =
    (let threshold = 3 * SnapshotInterval (config b); now = UnixMilli (stale_time v)
     in foldl (\<lambda>rs (resource, lu). let age = (now - lu) * Millisecond
                                  in if threshold <s age then rs @ [resource] else rs)
          [] (map_range (orders v 26) (LastUpdatedTimes (late_store v))))"

text \<open>Steps 7 and 8.\<close>

definition set_identity :: "SnapshotBuilder \<Rightarrow> build_view \<Rightarrow> ClusterSnapshot \<Rightarrow> ClusterSnapshot" where
  "set_identity b v snap =
    (let s1 = snap\<lparr>ClusterSnapshot.SnapshotID := uuid v,
                   ClusterSnapshot.Timestamp := UnixMilli (snapshot_time v),
                   ClusterSnapshot.AgentVersion := Config.AgentVersion (config b),
                   ClusterSnapshot.KubernetesVersion := Config.KubernetesVersion (config b)\<rparr>;
         s2 = (case ClusterSnapshot.Nodes s1 of [] \<Rightarrow> s1
               | n # _ \<Rightarrow> s1\<lparr>ClusterSnapshot.Provider := deriveProvider (NodeInfo.ProviderID n),
                            ClusterSnapshot.Region := NodeInfo.Region n\<rparr>)
     in s2\<lparr>ClusterSnapshot.CloudAccountID := cloudAccountID b\<rparr>)"

text \<open>Steps 1 to 5.\<close>

definition build_enriched :: "SnapshotBuilder \<Rightarrow> build_view \<Rightarrow> ClusterSnapshot \<times> Metrics option" where
  "build_enriched b v =
    (let (snap1, replicaSets) = readStores v zero_ClusterSnapshot;
         snap3 = snap1\<lparr>ClusterSnapshot.Nodes := merged_nodes b v (ClusterSnapshot.Nodes snap1),
                       ClusterSnapshot.Pods := merged_pods b v (ClusterSnapshot.Pods snap1)\<rparr>;
         (snap3c, m3c) = backfillReferencedNodes v snap3 (metrics b);
         snap4 = fst (Enrich (NewOwnershipEnricher replicaSets) snap3c)
     in case pipeline b of None \<Rightarrow> (snap4, m3c)
        | Some p \<Rightarrow> Pipeline_Run (enricher_time v) p snap4 m3c)"

definition Build :: "SnapshotBuilder \<Rightarrow> build_view \<Rightarrow> ClusterSnapshot \<times> Metrics option" where
  "Build b v =
    (let (snap5, m5) = build_enriched b v;
         snap6 = snap5\<lparr>ClusterSnapshot.Summary := ComputeSummary snap5\<rparr>;
         snap7 = set_identity b v snap6;
         snap8 = snap7\<lparr>ClusterSnapshot.Health := (ClusterSnapshot.Health snap7)
                   \<lparr>AgentHealth.StaleResources := AgentHealth.StaleResources (ClusterSnapshot.Health snap7) @ stale_resources b v\<rparr>\<rparr>
     in (snap8, with_metrics (Observe SnapshotBuildDuration (duration_Seconds (time_Sub (end_time v) (start_time v)))) m5))"

text \<open>
  \<^verbatim>\<open>Values\<close> copies the structs of the store but not the array behind their \<open>Containers\<close>
  slices, so that steps 3 and 3b write into the containers of the stored pods too. When no
  informer replaces a pod during the build, this is the pod store after it.
\<close>

definition written_back :: "SnapshotBuilder \<Rightarrow> build_view \<Rightarrow> PodInfo TypedStore \<Rightarrow> PodInfo TypedStore" where
  "written_back b v ts = ts\<lparr>items :=
     map (\<lambda>(k, p). (k, p\<lparr>PodInfo.Containers := PodInfo.Containers (hd (merged_pods b v [p]))\<rparr>)) (items ts)\<rparr>"

section \<open>Closed forms of the loops\<close>

text \<open>The values of an optional field that are set, in the order of the slice, and their mean.\<close>

abbreviation some_of :: "('a \<Rightarrow> 'b option) \<Rightarrow> 'a list \<Rightarrow> 'b list" where
  "some_of \<equiv> List.map_filter"

definition mean_of :: "float64 list \<Rightarrow> float64 option" where
  "mean_of xs = (if xs = [] then None else Some (f64_div (f64_sum xs) (f64_of_int (int (length xs)))))"

lemma if_some_simps [simp]: "if_some None f s = s" "if_some (Some v) f s = f v s"
  by (simp_all add: if_some_def)

lemma some_of_simps [simp]:
  "some_of f [] = []"
  "some_of f (x # xs) = (case f x of None \<Rightarrow> some_of f xs | Some y \<Rightarrow> y # some_of f xs)"
  by (simp_all add: map_filter_simps)

lemma length_some_of: "length (some_of f xs) \<le> length xs"
  by (induction xs) (auto split: option.splits)

lemma mean_count:
  assumes "length xs < 2 ^ 63"
  shows "0 <s (of_nat (length xs) :: goint) \<longleftrightarrow> xs \<noteq> []"
    and "xs \<noteq> [] \<Longrightarrow> Some (mean (f64_sum xs) (of_nat (length xs))) = mean_of xs"
  using assms sint_of_nat_small [of "length xs"]
  by (simp_all add: word_sless_alt mean_def mean_of_def)

lemma foldl_count_pod:
  "foldl count_pod s ps = s\<lparr>
     ClusterSummary.RunningPodCount := ClusterSummary.RunningPodCount s + len (filter (\<lambda>p. PodInfo.Phase p = ''Running'') ps),
     ClusterSummary.PendingPodCount := ClusterSummary.PendingPodCount s + len (filter (\<lambda>p. PodInfo.Phase p = ''Pending'') ps),
     ClusterSummary.FailedPodCount := ClusterSummary.FailedPodCount s + len (filter (\<lambda>p. PodInfo.Phase p = ''Failed'') ps),
     ClusterSummary.SucceededPodCount := ClusterSummary.SucceededPodCount s + len (filter (\<lambda>p. PodInfo.Phase p = ''Succeeded'') ps),
     ClusterSummary.ContainerCount := ClusterSummary.ContainerCount s + len (containers_of ps)\<rparr>"
  by (induction ps arbitrary: s) (simp_all add: count_pod_def Let_def len_def)

lemma foldl_add_node_capacity:
  "foldl add_node_capacity s ns = s\<lparr>
     ClusterSummary.TotalCPUCapacity := foldl f64_add (ClusterSummary.TotalCPUCapacity s) (map NodeInfo.CPUCapacityCores ns),
     ClusterSummary.TotalCPUAllocatable := foldl f64_add (ClusterSummary.TotalCPUAllocatable s) (map NodeInfo.CPUAllocatable ns),
     ClusterSummary.TotalMemoryCapacity := ClusterSummary.TotalMemoryCapacity s + sum_list (map NodeInfo.MemoryCapacityBytes ns),
     ClusterSummary.TotalMemoryAllocatable := ClusterSummary.TotalMemoryAllocatable s + sum_list (map NodeInfo.MemoryAllocatable ns),
     ClusterSummary.TotalGPUCapacity := ClusterSummary.TotalGPUCapacity s + sum_list (map NodeInfo.GPUCapacity ns)\<rparr>"
  by (induction ns arbitrary: s) (simp_all add: add_node_capacity_def add.assoc)

lemma foldl_add_container_requests:
  "foldl add_container_requests s cs = s\<lparr>
     ClusterSummary.TotalCPURequested := foldl f64_add (ClusterSummary.TotalCPURequested s) (map ContainerInfo.CPURequestCores cs),
     ClusterSummary.TotalMemoryRequested := ClusterSummary.TotalMemoryRequested s + sum_list (map ContainerInfo.MemoryRequestBytes cs),
     ClusterSummary.TotalGPURequested := ClusterSummary.TotalGPURequested s + sum_list (map ContainerInfo.GPURequest cs)\<rparr>"
  by (induction cs arbitrary: s) (simp_all add: add_container_requests_def add.assoc)

lemma foldl_add_storage:
  "foldl (\<lambda>s pv. s\<lparr>ClusterSummary.TotalStorageCapacity := ClusterSummary.TotalStorageCapacity s + f pv\<rparr>) s pvs =
   s\<lparr>ClusterSummary.TotalStorageCapacity := ClusterSummary.TotalStorageCapacity s + sum_list (map f pvs)\<rparr>"
  "foldl (\<lambda>s pvc. s\<lparr>ClusterSummary.TotalStorageRequested := ClusterSummary.TotalStorageRequested s + g pvc\<rparr>) s pvcs =
   s\<lparr>ClusterSummary.TotalStorageRequested := ClusterSummary.TotalStorageRequested s + sum_list (map g pvcs)\<rparr>"
  by (induction pvs arbitrary: s, simp_all add: add.assoc) (induction pvcs arbitrary: s, simp_all add: add.assoc)

lemma if_some_keep: "(\<And>v s. h (f v s) = h s) \<Longrightarrow> h (if_some x f s) = h s"
  by (simp add: if_some_def split: option.split)

lemmas node_sums_keep =
  if_some_keep [of metricsAvailable] if_some_keep [of cpuUsageSum] if_some_keep [of memUsageSum]
  if_some_keep [of hasCPUUsage] if_some_keep [of hasMemUsage] if_some_keep [of gpuUsageSum]
  if_some_keep [of gpuTensorSum] if_some_keep [of gpuMemUtilSum] if_some_keep [of gpuMemUsedSum]
  if_some_keep [of gpuMemTotalSum] if_some_keep [of gpuNodeCount] if_some_keep [of gpuTensorCount]
  if_some_keep [of gpuMemUtilCount] if_some_keep [of hasGPUMetrics]

lemma add_node_usage_cpu [simp]:
  "metricsAvailable (add_node_usage a n) = (case NodeInfo.CPUUsageCores n of None \<Rightarrow> metricsAvailable a | Some v \<Rightarrow> True)"
  "cpuUsageSum (add_node_usage a n) = (case NodeInfo.CPUUsageCores n of None \<Rightarrow> cpuUsageSum a | Some v \<Rightarrow> f64_add (cpuUsageSum a) v)"
  "hasCPUUsage (add_node_usage a n) = (case NodeInfo.CPUUsageCores n of None \<Rightarrow> hasCPUUsage a | Some v \<Rightarrow> True)"
  unfolding add_node_usage_def Let_def by (cases "NodeInfo.CPUUsageCores n"; simp add: node_sums_keep)+

lemma add_node_usage_memory [simp]:
  "memUsageSum (add_node_usage a n) = (case NodeInfo.MemoryUsageBytes n of None \<Rightarrow> memUsageSum a | Some v \<Rightarrow> memUsageSum a + v)"
  "hasMemUsage (add_node_usage a n) = (case NodeInfo.MemoryUsageBytes n of None \<Rightarrow> hasMemUsage a | Some v \<Rightarrow> True)"
  unfolding add_node_usage_def Let_def by (cases "NodeInfo.MemoryUsageBytes n"; simp add: node_sums_keep)+

lemma add_node_usage_gpu [simp]:
  "gpuUsageSum (add_node_usage a n) = (case NodeInfo.GPUUtilizationPercent n of None \<Rightarrow> gpuUsageSum a | Some v \<Rightarrow> f64_add (gpuUsageSum a) v)"
  "gpuNodeCount (add_node_usage a n) = (case NodeInfo.GPUUtilizationPercent n of None \<Rightarrow> gpuNodeCount a | Some v \<Rightarrow> gpuNodeCount a + 1)"
  "hasGPUMetrics (add_node_usage a n) = (case NodeInfo.GPUUtilizationPercent n of None \<Rightarrow> hasGPUMetrics a | Some v \<Rightarrow> True)"
  unfolding add_node_usage_def Let_def by (cases "NodeInfo.GPUUtilizationPercent n"; simp add: node_sums_keep)+

lemma add_node_usage_tensor [simp]:
  "gpuTensorSum (add_node_usage a n) = (case NodeInfo.GPUTensorActivePercent n of None \<Rightarrow> gpuTensorSum a | Some v \<Rightarrow> f64_add (gpuTensorSum a) v)"
  "gpuTensorCount (add_node_usage a n) = (case NodeInfo.GPUTensorActivePercent n of None \<Rightarrow> gpuTensorCount a | Some v \<Rightarrow> gpuTensorCount a + 1)"
  unfolding add_node_usage_def Let_def by (cases "NodeInfo.GPUTensorActivePercent n"; simp add: node_sums_keep)+

lemma add_node_usage_gpu_memory [simp]:
  "gpuMemUtilSum (add_node_usage a n) = (case NodeInfo.GPUMemoryUtilPercent n of None \<Rightarrow> gpuMemUtilSum a | Some v \<Rightarrow> f64_add (gpuMemUtilSum a) v)"
  "gpuMemUtilCount (add_node_usage a n) = (case NodeInfo.GPUMemoryUtilPercent n of None \<Rightarrow> gpuMemUtilCount a | Some v \<Rightarrow> gpuMemUtilCount a + 1)"
  unfolding add_node_usage_def Let_def by (cases "NodeInfo.GPUMemoryUtilPercent n"; simp add: node_sums_keep)+

lemma add_node_usage_gpu_used [simp]:
  "gpuMemUsedSum (add_node_usage a n) = (case NodeInfo.GPUMemoryUsedBytes n of None \<Rightarrow> gpuMemUsedSum a | Some v \<Rightarrow> gpuMemUsedSum a + v)"
  unfolding add_node_usage_def Let_def by (cases "NodeInfo.GPUMemoryUsedBytes n"; simp add: node_sums_keep)

lemma add_node_usage_gpu_total [simp]:
  "gpuMemTotalSum (add_node_usage a n) = (case NodeInfo.GPUMemoryTotalBytes n of None \<Rightarrow> gpuMemTotalSum a | Some v \<Rightarrow> gpuMemTotalSum a + v)"
  unfolding add_node_usage_def Let_def by (cases "NodeInfo.GPUMemoryTotalBytes n"; simp add: node_sums_keep)

lemma foldl_add_node_usage:
  "foldl add_node_usage a ns =
   \<lparr>metricsAvailable = (metricsAvailable a \<or> some_of NodeInfo.CPUUsageCores ns \<noteq> []),
    cpuUsageSum = foldl f64_add (cpuUsageSum a) (some_of NodeInfo.CPUUsageCores ns),
    memUsageSum = memUsageSum a + sum_list (some_of NodeInfo.MemoryUsageBytes ns),
    hasCPUUsage = (hasCPUUsage a \<or> some_of NodeInfo.CPUUsageCores ns \<noteq> []),
    hasMemUsage = (hasMemUsage a \<or> some_of NodeInfo.MemoryUsageBytes ns \<noteq> []),
    gpuUsageSum = foldl f64_add (gpuUsageSum a) (some_of NodeInfo.GPUUtilizationPercent ns),
    gpuTensorSum = foldl f64_add (gpuTensorSum a) (some_of NodeInfo.GPUTensorActivePercent ns),
    gpuMemUtilSum = foldl f64_add (gpuMemUtilSum a) (some_of NodeInfo.GPUMemoryUtilPercent ns),
    gpuMemUsedSum = gpuMemUsedSum a + sum_list (some_of NodeInfo.GPUMemoryUsedBytes ns),
    gpuMemTotalSum = gpuMemTotalSum a + sum_list (some_of NodeInfo.GPUMemoryTotalBytes ns),
    gpuNodeCount = gpuNodeCount a + len (some_of NodeInfo.GPUUtilizationPercent ns),
    gpuTensorCount = gpuTensorCount a + len (some_of NodeInfo.GPUTensorActivePercent ns),
    gpuMemUtilCount = gpuMemUtilCount a + len (some_of NodeInfo.GPUMemoryUtilPercent ns),
    hasGPUMetrics = (hasGPUMetrics a \<or> some_of NodeInfo.GPUUtilizationPercent ns \<noteq> [])\<rparr>"
  by (induction ns arbitrary: a) (simp_all add: len_def add.assoc split: option.split)

lemmas node_gpu_keep =
  if_some_keep [of utilSum] if_some_keep [of utilCount] if_some_keep [of tensorSum]
  if_some_keep [of tensorCount] if_some_keep [of memUtilSum] if_some_keep [of memUtilCount]
  if_some_keep [of memUsed] if_some_keep [of memTotal] if_some_keep [of maxTemp] if_some_keep [of hasTemp]
  if_some_keep [of powerSum] if_some_keep [of hasPower] if_some_keep [of migDetected]

lemma add_device_util [simp]:
  "utilSum (add_device a d) = (case GPUDeviceMetrics.GPUUtilization d of None \<Rightarrow> utilSum a | Some v \<Rightarrow> f64_add (utilSum a) v)"
  "utilCount (add_device a d) = (case GPUDeviceMetrics.GPUUtilization d of None \<Rightarrow> utilCount a | Some v \<Rightarrow> utilCount a + 1)"
  unfolding add_device_def Let_def by (cases "GPUDeviceMetrics.GPUUtilization d"; simp add: node_gpu_keep)+

lemma add_device_tensor [simp]:
  "tensorSum (add_device a d) = (case GPUDeviceMetrics.TensorActivePercent d of None \<Rightarrow> tensorSum a | Some v \<Rightarrow> f64_add (tensorSum a) v)"
  "tensorCount (add_device a d) = (case GPUDeviceMetrics.TensorActivePercent d of None \<Rightarrow> tensorCount a | Some v \<Rightarrow> tensorCount a + 1)"
  unfolding add_device_def Let_def by (cases "GPUDeviceMetrics.TensorActivePercent d"; simp add: node_gpu_keep)+

lemma add_device_mem_util [simp]:
  "memUtilSum (add_device a d) = (case GPUDeviceMetrics.MemCopyUtilPercent d of None \<Rightarrow> memUtilSum a | Some v \<Rightarrow> f64_add (memUtilSum a) v)"
  "memUtilCount (add_device a d) = (case GPUDeviceMetrics.MemCopyUtilPercent d of None \<Rightarrow> memUtilCount a | Some v \<Rightarrow> memUtilCount a + 1)"
  unfolding add_device_def Let_def by (cases "GPUDeviceMetrics.MemCopyUtilPercent d"; simp add: node_gpu_keep)+

lemma add_device_mem_used [simp]:
  "memUsed (add_device a d) = (case GPUDeviceMetrics.MemoryUsedBytes d of None \<Rightarrow> memUsed a | Some v \<Rightarrow> memUsed a + v)"
  unfolding add_device_def Let_def by (cases "GPUDeviceMetrics.MemoryUsedBytes d"; simp add: node_gpu_keep)

lemma add_device_mem_total [simp]:
  "memTotal (add_device a d) = (case GPUDeviceMetrics.MemoryTotalBytes d of None \<Rightarrow> memTotal a | Some v \<Rightarrow> memTotal a + v)"
  unfolding add_device_def Let_def by (cases "GPUDeviceMetrics.MemoryTotalBytes d"; simp add: node_gpu_keep)

lemma add_device_temp [simp]:
  "maxTemp (add_device a d) = (case GPUDeviceMetrics.Temperature d of None \<Rightarrow> maxTemp a | Some v \<Rightarrow> (if f64_less (maxTemp a) v then v else maxTemp a))"
  "hasTemp (add_device a d) = (case GPUDeviceMetrics.Temperature d of None \<Rightarrow> hasTemp a | Some v \<Rightarrow> True)"
  unfolding add_device_def Let_def by (cases "GPUDeviceMetrics.Temperature d"; simp add: node_gpu_keep)+

lemma add_device_power [simp]:
  "powerSum (add_device a d) = (case GPUDeviceMetrics.PowerUsage d of None \<Rightarrow> powerSum a | Some v \<Rightarrow> f64_add (powerSum a) v)"
  "hasPower (add_device a d) = (case GPUDeviceMetrics.PowerUsage d of None \<Rightarrow> hasPower a | Some v \<Rightarrow> True)"
  unfolding add_device_def Let_def by (cases "GPUDeviceMetrics.PowerUsage d"; simp add: node_gpu_keep)+

lemma add_device_mig [simp]: "migDetected (add_device a d) \<longleftrightarrow> migDetected a \<or> GPUDeviceMetrics.MIGEnabled d = Some True"
  unfolding add_device_def Let_def by (simp add: node_gpu_keep)

lemma foldl_add_device:
  "foldl add_device a ds =
   \<lparr>utilSum = foldl f64_add (utilSum a) (some_of GPUDeviceMetrics.GPUUtilization ds),
    utilCount = utilCount a + len (some_of GPUDeviceMetrics.GPUUtilization ds),
    tensorSum = foldl f64_add (tensorSum a) (some_of GPUDeviceMetrics.TensorActivePercent ds),
    tensorCount = tensorCount a + len (some_of GPUDeviceMetrics.TensorActivePercent ds),
    memUtilSum = foldl f64_add (memUtilSum a) (some_of GPUDeviceMetrics.MemCopyUtilPercent ds),
    memUtilCount = memUtilCount a + len (some_of GPUDeviceMetrics.MemCopyUtilPercent ds),
    memUsed = memUsed a + sum_list (some_of GPUDeviceMetrics.MemoryUsedBytes ds),
    memTotal = memTotal a + sum_list (some_of GPUDeviceMetrics.MemoryTotalBytes ds),
    maxTemp = foldl (\<lambda>t v. if f64_less t v then v else t) (maxTemp a) (some_of GPUDeviceMetrics.Temperature ds),
    powerSum = foldl f64_add (powerSum a) (some_of GPUDeviceMetrics.PowerUsage ds),
    hasTemp = (hasTemp a \<or> some_of GPUDeviceMetrics.Temperature ds \<noteq> []),
    hasPower = (hasPower a \<or> some_of GPUDeviceMetrics.PowerUsage ds \<noteq> []),
    migDetected = (migDetected a \<or> list_ex (\<lambda>d. GPUDeviceMetrics.MIGEnabled d = Some True) ds)\<rparr>"
  by (induction ds arbitrary: a) (simp_all add: len_def add.assoc split: option.split)

section \<open>The summary\<close>

text \<open>
  The summary as one expression per field: counts, sums of the values that are set, and
  means over them.
\<close>

definition summary_spec :: "ClusterSnapshot \<Rightarrow> ClusterSummary" where
  "summary_spec snap =
    (let nodes = ClusterSnapshot.Nodes snap; pods = ClusterSnapshot.Pods snap; cs = containers_of pods;
         phase = (\<lambda>ph. len (filter (\<lambda>p. PodInfo.Phase p = ph) pods));
         gpu = some_of NodeInfo.GPUUtilizationPercent nodes
     in (count_resources snap)\<lparr>
       ClusterSummary.RunningPodCount := phase ''Running'',
       ClusterSummary.PendingPodCount := phase ''Pending'',
       ClusterSummary.FailedPodCount := phase ''Failed'',
       ClusterSummary.SucceededPodCount := phase ''Succeeded'',
       ClusterSummary.ContainerCount := len cs,
       ClusterSummary.TotalCPUCapacity := f64_sum (map NodeInfo.CPUCapacityCores nodes),
       ClusterSummary.TotalCPUAllocatable := f64_sum (map NodeInfo.CPUAllocatable nodes),
       ClusterSummary.TotalMemoryCapacity := sum_list (map NodeInfo.MemoryCapacityBytes nodes),
       ClusterSummary.TotalMemoryAllocatable := sum_list (map NodeInfo.MemoryAllocatable nodes),
       ClusterSummary.TotalGPUCapacity := sum_list (map NodeInfo.GPUCapacity nodes),
       ClusterSummary.MetricsAvailable := (some_of NodeInfo.CPUUsageCores nodes \<noteq> []),
       ClusterSummary.GPUMetricsAvailable := (gpu \<noteq> []),
       ClusterSummary.TotalCPUUsage :=
         (if some_of NodeInfo.CPUUsageCores nodes = [] then None else Some (f64_sum (some_of NodeInfo.CPUUsageCores nodes))),
       ClusterSummary.TotalMemoryUsage :=
         (if some_of NodeInfo.MemoryUsageBytes nodes = [] then None else Some (sum_list (some_of NodeInfo.MemoryUsageBytes nodes))),
       ClusterSummary.TotalGPUUsage := mean_of gpu,
       ClusterSummary.TotalGPUMemoryUsed := (if gpu = [] then None else Some (sum_list (some_of NodeInfo.GPUMemoryUsedBytes nodes))),
       ClusterSummary.TotalGPUMemoryTotal := (if gpu = [] then None else Some (sum_list (some_of NodeInfo.GPUMemoryTotalBytes nodes))),
       ClusterSummary.TotalGPUTensorActive := mean_of (some_of NodeInfo.GPUTensorActivePercent nodes),
       ClusterSummary.TotalGPUMemoryUtil := mean_of (some_of NodeInfo.GPUMemoryUtilPercent nodes),
       ClusterSummary.TotalCPURequested := f64_sum (map ContainerInfo.CPURequestCores cs),
       ClusterSummary.TotalMemoryRequested := sum_list (map ContainerInfo.MemoryRequestBytes cs),
       ClusterSummary.TotalGPURequested := sum_list (map ContainerInfo.GPURequest cs),
       ClusterSummary.TotalStorageCapacity := sum_list (map PVInfo.Capacity (ClusterSnapshot.PVs snap)),
       ClusterSummary.TotalStorageRequested := sum_list (map PVCInfo.RequestedBytes (ClusterSnapshot.PVCs snap))\<rparr>)"

lemma set_usage_nodes:
  assumes "length ns < 2 ^ 63"
  shows "set_usage (foldl add_node_usage zero_node_sums ns) s = s\<lparr>
     ClusterSummary.MetricsAvailable := (some_of NodeInfo.CPUUsageCores ns \<noteq> []),
     ClusterSummary.GPUMetricsAvailable := (some_of NodeInfo.GPUUtilizationPercent ns \<noteq> []),
     ClusterSummary.TotalCPUUsage := (if some_of NodeInfo.CPUUsageCores ns = [] then ClusterSummary.TotalCPUUsage s
        else Some (f64_sum (some_of NodeInfo.CPUUsageCores ns))),
     ClusterSummary.TotalMemoryUsage := (if some_of NodeInfo.MemoryUsageBytes ns = [] then ClusterSummary.TotalMemoryUsage s
        else Some (sum_list (some_of NodeInfo.MemoryUsageBytes ns))),
     ClusterSummary.TotalGPUUsage := (if some_of NodeInfo.GPUUtilizationPercent ns = [] then ClusterSummary.TotalGPUUsage s
        else mean_of (some_of NodeInfo.GPUUtilizationPercent ns)),
     ClusterSummary.TotalGPUMemoryUsed := (if some_of NodeInfo.GPUUtilizationPercent ns = [] then ClusterSummary.TotalGPUMemoryUsed s
        else Some (sum_list (some_of NodeInfo.GPUMemoryUsedBytes ns))),
     ClusterSummary.TotalGPUMemoryTotal := (if some_of NodeInfo.GPUUtilizationPercent ns = [] then ClusterSummary.TotalGPUMemoryTotal s
        else Some (sum_list (some_of NodeInfo.GPUMemoryTotalBytes ns))),
     ClusterSummary.TotalGPUTensorActive := (if some_of NodeInfo.GPUTensorActivePercent ns = [] then ClusterSummary.TotalGPUTensorActive s
        else mean_of (some_of NodeInfo.GPUTensorActivePercent ns)),
     ClusterSummary.TotalGPUMemoryUtil := (if some_of NodeInfo.GPUMemoryUtilPercent ns = [] then ClusterSummary.TotalGPUMemoryUtil s
        else mean_of (some_of NodeInfo.GPUMemoryUtilPercent ns))\<rparr>"
proof -
  have "length (some_of f ns) < 2 ^ 63" for f :: "NodeInfo \<Rightarrow> float64 option"
    using length_some_of [of f ns] assms by simp
  note count = mean_count [OF this]
  show ?thesis
    unfolding foldl_add_node_usage set_usage_def
    by (simp add: zero_node_sums_def len_def count f64_sum_def [symmetric] cong: if_cong)
qed

lemma ComputeSummary_spec:
  assumes "length (ClusterSnapshot.Nodes snap) < 2 ^ 63"
  shows "ComputeSummary snap = summary_spec snap"
  unfolding ComputeSummary_def foldl_containers set_usage_nodes [OF assms] summary_spec_def Let_def
  by (simp add: foldl_count_pod foldl_add_node_capacity foldl_add_container_requests foldl_add_storage
      count_resources_def zero_ClusterSummary_def f64_sum_def mean_of_def)

section \<open>The steps of Build\<close>

lemma set_identity_fields [simp]:
  "ClusterSnapshot.Nodes (set_identity b v s) = ClusterSnapshot.Nodes s"
  "ClusterSnapshot.Pods (set_identity b v s) = ClusterSnapshot.Pods s"
  "ClusterSnapshot.Namespaces (set_identity b v s) = ClusterSnapshot.Namespaces s"
  "ClusterSnapshot.Deployments (set_identity b v s) = ClusterSnapshot.Deployments s"
  "ClusterSnapshot.StatefulSets (set_identity b v s) = ClusterSnapshot.StatefulSets s"
  "ClusterSnapshot.DaemonSets (set_identity b v s) = ClusterSnapshot.DaemonSets s"
  "ClusterSnapshot.Jobs (set_identity b v s) = ClusterSnapshot.Jobs s"
  "ClusterSnapshot.CronJobs (set_identity b v s) = ClusterSnapshot.CronJobs s"
  "ClusterSnapshot.CustomWorkloads (set_identity b v s) = ClusterSnapshot.CustomWorkloads s"
  "ClusterSnapshot.HPAs (set_identity b v s) = ClusterSnapshot.HPAs s"
  "ClusterSnapshot.VPAs (set_identity b v s) = ClusterSnapshot.VPAs s"
  "ClusterSnapshot.PDBs (set_identity b v s) = ClusterSnapshot.PDBs s"
  "ClusterSnapshot.Services (set_identity b v s) = ClusterSnapshot.Services s"
  "ClusterSnapshot.Ingresses (set_identity b v s) = ClusterSnapshot.Ingresses s"
  "ClusterSnapshot.PVs (set_identity b v s) = ClusterSnapshot.PVs s"
  "ClusterSnapshot.PVCs (set_identity b v s) = ClusterSnapshot.PVCs s"
  "ClusterSnapshot.StorageClasses (set_identity b v s) = ClusterSnapshot.StorageClasses s"
  "ClusterSnapshot.PriorityClasses (set_identity b v s) = ClusterSnapshot.PriorityClasses s"
  "ClusterSnapshot.LimitRanges (set_identity b v s) = ClusterSnapshot.LimitRanges s"
  "ClusterSnapshot.ResourceQuotas (set_identity b v s) = ClusterSnapshot.ResourceQuotas s"
  "ClusterSnapshot.NodePools (set_identity b v s) = ClusterSnapshot.NodePools s"
  "ClusterSnapshot.Summary (set_identity b v s) = ClusterSnapshot.Summary s"
  "ClusterSnapshot.Health (set_identity b v s) = ClusterSnapshot.Health s"
  by (simp_all add: set_identity_def Let_def split: list.split)

lemma Build_fields [simp]:
  "ClusterSnapshot.Nodes (fst (Build b v)) = ClusterSnapshot.Nodes (fst (build_enriched b v))"
  "ClusterSnapshot.Pods (fst (Build b v)) = ClusterSnapshot.Pods (fst (build_enriched b v))"
  "ClusterSnapshot.Namespaces (fst (Build b v)) = ClusterSnapshot.Namespaces (fst (build_enriched b v))"
  "ClusterSnapshot.Deployments (fst (Build b v)) = ClusterSnapshot.Deployments (fst (build_enriched b v))"
  "ClusterSnapshot.StatefulSets (fst (Build b v)) = ClusterSnapshot.StatefulSets (fst (build_enriched b v))"
  "ClusterSnapshot.DaemonSets (fst (Build b v)) = ClusterSnapshot.DaemonSets (fst (build_enriched b v))"
  "ClusterSnapshot.Jobs (fst (Build b v)) = ClusterSnapshot.Jobs (fst (build_enriched b v))"
  "ClusterSnapshot.CronJobs (fst (Build b v)) = ClusterSnapshot.CronJobs (fst (build_enriched b v))"
  "ClusterSnapshot.CustomWorkloads (fst (Build b v)) = ClusterSnapshot.CustomWorkloads (fst (build_enriched b v))"
  "ClusterSnapshot.HPAs (fst (Build b v)) = ClusterSnapshot.HPAs (fst (build_enriched b v))"
  "ClusterSnapshot.VPAs (fst (Build b v)) = ClusterSnapshot.VPAs (fst (build_enriched b v))"
  "ClusterSnapshot.PDBs (fst (Build b v)) = ClusterSnapshot.PDBs (fst (build_enriched b v))"
  "ClusterSnapshot.Services (fst (Build b v)) = ClusterSnapshot.Services (fst (build_enriched b v))"
  "ClusterSnapshot.Ingresses (fst (Build b v)) = ClusterSnapshot.Ingresses (fst (build_enriched b v))"
  "ClusterSnapshot.PVs (fst (Build b v)) = ClusterSnapshot.PVs (fst (build_enriched b v))"
  "ClusterSnapshot.PVCs (fst (Build b v)) = ClusterSnapshot.PVCs (fst (build_enriched b v))"
  "ClusterSnapshot.StorageClasses (fst (Build b v)) = ClusterSnapshot.StorageClasses (fst (build_enriched b v))"
  "ClusterSnapshot.PriorityClasses (fst (Build b v)) = ClusterSnapshot.PriorityClasses (fst (build_enriched b v))"
  "ClusterSnapshot.LimitRanges (fst (Build b v)) = ClusterSnapshot.LimitRanges (fst (build_enriched b v))"
  "ClusterSnapshot.ResourceQuotas (fst (Build b v)) = ClusterSnapshot.ResourceQuotas (fst (build_enriched b v))"
  "ClusterSnapshot.NodePools (fst (Build b v)) = ClusterSnapshot.NodePools (fst (build_enriched b v))"
  "ClusterSnapshot.Summary (fst (Build b v)) = ComputeSummary (fst (build_enriched b v))"
  by (simp_all add: Build_def Let_def split: prod.split)

lemma summary_spec_Build: "summary_spec (fst (Build b v)) = summary_spec (fst (build_enriched b v))"
  by (simp add: summary_spec_def count_resources_def)

text \<open>Merging metrics changes neither the identity of a pod or node nor where a pod runs.\<close>

lemma merged_pods_map:
  "merged_pods b v pods = map (\<lambda>p. hd (merged_pods b v [p])) pods"
  by (auto simp: merged_pods_def mergePodMetrics_def mergeGPUContainerMetrics_def Let_def split: option.split)

lemma merge_pod_keeps [simp]:
  "PodInfo.Name (merge_pod l p) = PodInfo.Name p"
  "PodInfo.Namespace (merge_pod l p) = PodInfo.Namespace p"
  "PodInfo.NodeName (merge_pod l p) = PodInfo.NodeName p"
  "PodInfo.Name (merge_gpu_pod l' p) = PodInfo.Name p"
  "PodInfo.Namespace (merge_gpu_pod l' p) = PodInfo.Namespace p"
  "PodInfo.NodeName (merge_gpu_pod l' p) = PodInfo.NodeName p"
  by (simp_all add: merge_pod_def merge_gpu_pod_def split: option.split)

lemma merged_pods_NodeName: "map PodInfo.NodeName (merged_pods b v pods) = map PodInfo.NodeName pods"
  by (simp add: merged_pods_def mergePodMetrics_def mergeGPUContainerMetrics_def Let_def split: option.split)

lemma merged_nodes_Name: "map NodeInfo.Name (merged_nodes b v nodes) = map NodeInfo.Name nodes"
  by (auto simp: merged_nodes_def mergeNodeMetrics_def mergeGPUNodeMetrics_def merge_gpu_node_def Let_def split: option.split)

text \<open>The snapshot after step 3c.\<close>

definition build_filled :: "SnapshotBuilder \<Rightarrow> build_view \<Rightarrow> ClusterSnapshot \<times> Metrics option" where
  "build_filled b v =
    (let snap1 = fst (readStores v zero_ClusterSnapshot) in
     backfillReferencedNodes v
       (snap1\<lparr>ClusterSnapshot.Nodes := merged_nodes b v (ClusterSnapshot.Nodes snap1),
              ClusterSnapshot.Pods := merged_pods b v (ClusterSnapshot.Pods snap1)\<rparr>) (metrics b))"

lemma build_enriched_view:
  assumes "pipeline b = None \<or> pipeline b = Some main_pipeline"
  shows "summary_view (fst (build_enriched b v)) = summary_view (fst (build_filled b v))"
  using assms
  by (auto simp: build_enriched_def build_filled_def Let_def ownership.keeps_view main_pipeline_view split: prod.split)

section \<open>Backfilling nodes\<close>

lemma map_set_keys [simp]: "fst ` set (map_set k v m) = insert k (fst ` set m)"
  by (simp add: map_set_def dom_update)

lemma missing_nodes_keys:
  "set (map fst (missing_nodes snap)) =
     PodInfo.NodeName ` set (ClusterSnapshot.Pods snap) - {''''} - NodeInfo.Name ` set (ClusterSnapshot.Nodes snap)
   \<and> wf_map (missing_nodes snap)"
proof -
  define f where "f = (\<lambda>r (p :: PodInfo). if PodInfo.NodeName p = '''' then r
      else if PodInfo.NodeName p \<in> NodeInfo.Name ` set (ClusterSnapshot.Nodes snap) then r
      else map_set (PodInfo.NodeName p) () r)"
  have "set (map fst (foldl f [] ps)) = PodInfo.NodeName ` set ps - {''''} - NodeInfo.Name ` set (ClusterSnapshot.Nodes snap)
      \<and> wf_map (foldl f [] ps)" for ps
    by (induction ps rule: rev_induct) (auto simp: f_def)
  from this [of "ClusterSnapshot.Pods snap"] show ?thesis by (simp add: missing_nodes_def f_def)
qed

definition fill :: "(string \<rightharpoonup> NodeInfo) \<Rightarrow> NodeInfo list \<Rightarrow> string list \<Rightarrow> (string, unit) gomap \<Rightarrow> NodeInfo list \<times> string list" where
  "fill idx ns os refs =
     foldl (\<lambda>(ns, os) (name, _). case idx name of Some n \<Rightarrow> (ns @ [n], os) | None \<Rightarrow> (ns, os @ [name])) (ns, os) refs"

lemma fill_eq:
  "fill idx ns os refs =
     (ns @ some_of idx (map fst refs), os @ filter (\<lambda>n. idx n = None) (map fst refs))"
  unfolding fill_def by (induction refs arbitrary: ns os) (auto split: option.split)

lemma backfill_result:
  fixes snap :: ClusterSnapshot and m :: "Metrics option" and v :: build_view
  defines "idx \<equiv> index_by NodeInfo.Name (Store.Values (orders v 24) (reread_nodes v))"
    and "refs \<equiv> map fst (map_range (orders v 25) (missing_nodes snap))"
  assumes "order_ok (orders v 25)"
  shows "backfillReferencedNodes v snap m =
     (snap\<lparr>ClusterSnapshot.Nodes := ClusterSnapshot.Nodes snap @ some_of idx refs\<rparr>,
      if filter (\<lambda>n. idx n = None) refs = [] then m
      else with_metrics (Add OrphanPodNodeRefs (f64_of_int (sint (len (filter (\<lambda>n. idx n = None) refs))))) m)"
proof (cases "missing_nodes snap = []")
  case True
  with assms(3) have "refs = []"
    using map_range_length [of "orders v 25" "missing_nodes snap"] by (simp add: refs_def)
  with True show ?thesis by (simp add: backfillReferencedNodes_def)
next
  case False
  then have pods: "ClusterSnapshot.Pods snap \<noteq> []" by (auto simp: missing_nodes_def)
  have fill: "foldl (\<lambda>(ns, os) (name, _). case idx name of Some n \<Rightarrow> (ns @ [n], os) | None \<Rightarrow> (ns, os @ [name]))
      (ClusterSnapshot.Nodes snap, []) (map_range (orders v 25) (missing_nodes snap)) =
      (ClusterSnapshot.Nodes snap @ some_of idx refs, filter (\<lambda>n. idx n = None) refs)"
    using fill_eq [of idx "ClusterSnapshot.Nodes snap" "[]"] by (simp add: fill_def refs_def)
  from False pods show ?thesis
    unfolding backfillReferencedNodes_def Let_def idx_def [symmetric] fill by simp
qed

lemma backfill_Nodes:
  fixes snap :: ClusterSnapshot
  assumes "order_ok (orders v 25)"
  shows "ClusterSnapshot.Nodes (fst (backfillReferencedNodes v snap m)) = ClusterSnapshot.Nodes snap @
     some_of (index_by NodeInfo.Name (Store.Values (orders v 24) (reread_nodes v)))
       (map fst (map_range (orders v 25) (missing_nodes snap)))"
  by (simp add: backfill_result [OF assms])

lemma Values_set: "order_ok ord \<Longrightarrow> set (Store.Values ord s) = snd ` set (items s)"
  by (simp add: Values_map map_range_set)

lemma set_some_of: "set (some_of f xs) = {y. \<exists>x \<in> set xs. f x = Some y}"
  by (induction xs) (auto split: option.splits)

text \<open>After the backfill a pod's node is in the snapshot unless the second read does not know it.\<close>

lemma backfill_complete:
  fixes snap :: ClusterSnapshot
  assumes "order_ok (orders v 24)" and "order_ok (orders v 25)"
    and "p \<in> set (ClusterSnapshot.Pods snap)" and "PodInfo.NodeName p \<noteq> ''''"
  shows "PodInfo.NodeName p \<in> NodeInfo.Name ` set (ClusterSnapshot.Nodes (fst (backfillReferencedNodes v snap m)))
       \<or> PodInfo.NodeName p \<notin> NodeInfo.Name ` set (map snd (items (reread_nodes v)))"
proof (cases "PodInfo.NodeName p \<in> NodeInfo.Name ` set (ClusterSnapshot.Nodes snap)")
  case True
  then show ?thesis unfolding backfill_Nodes [OF assms(2)] set_append image_Un by blast
next
  case False
  let ?idx = "index_by NodeInfo.Name (Store.Values (orders v 24) (reread_nodes v))"
  have "PodInfo.NodeName p \<in> set (map fst (missing_nodes snap))"
    using missing_nodes_keys [of snap] assms(3,4) False by simp
  then have ref: "PodInfo.NodeName p \<in> set (map fst (map_range (orders v 25) (missing_nodes snap)))"
    by (simp add: map_range_set [OF assms(2)])
  show ?thesis
  proof (cases "?idx (PodInfo.NodeName p)")
    case None
    then show ?thesis using Values_set [OF assms(1), of "reread_nodes v"] by (simp add: index_by_None_iff)
  next
    case (Some n)
    then have "NodeInfo.Name n = PodInfo.NodeName p" by (blast dest: index_by_SomeD)
    moreover from Some ref have "n \<in> set (some_of ?idx (map fst (map_range (orders v 25) (missing_nodes snap))))"
      unfolding set_some_of by blast
    ultimately show ?thesis unfolding backfill_Nodes [OF assms(2)] set_append image_Un by (metis UnI2 imageI)
  qed
qed

lemma map_key_some_of: "map key (some_of (index_by key ys) xs) = filter (\<lambda>x. index_by key ys x \<noteq> None) xs"
  by (induction xs) (auto dest: index_by_SomeD split: option.splits)

lemma backfill_distinct:
  fixes snap :: ClusterSnapshot
  assumes "order_ok (orders v 25)" and "distinct (map NodeInfo.Name (ClusterSnapshot.Nodes snap))"
  shows "distinct (map NodeInfo.Name (ClusterSnapshot.Nodes (fst (backfillReferencedNodes v snap m))))"
proof -
  let ?idx = "index_by NodeInfo.Name (Store.Values (orders v 24) (reread_nodes v))"
  let ?refs = "map fst (map_range (orders v 25) (missing_nodes snap))"
  have "distinct ?refs"
    using map_range_wf [OF assms(1) conjunct2 [OF missing_nodes_keys [of snap]]] by (simp add: wf_map_def)
  moreover have "map NodeInfo.Name (some_of ?idx ?refs) = filter (\<lambda>x. ?idx x \<noteq> None) ?refs"
    by (rule map_key_some_of)
  moreover have "set ?refs \<inter> NodeInfo.Name ` set (ClusterSnapshot.Nodes snap) = {}"
    using missing_nodes_keys [of snap] map_range_set [OF assms(1), of "missing_nodes snap"] by auto
  ultimately show ?thesis
    using assms(2) unfolding backfill_Nodes [OF assms(1)] map_append distinct_append
    by (simp only: distinct_filter set_map set_filter) blast
qed

section \<open>Attributing devices to nodes and containers\<close>

definition attributed :: "GPUDeviceMetrics \<Rightarrow> bool" where
  "attributed m \<longleftrightarrow> GPUDeviceMetrics.PodName m \<noteq> '''' \<and> GPUDeviceMetrics.Namespace m \<noteq> '''' \<and> GPUDeviceMetrics.ContainerName m \<noteq> ''''"

definition devices_of :: "containerKey \<Rightarrow> GPUDeviceMetrics list \<Rightarrow> GPUDeviceMetrics list" where
  "devices_of key ms = filter (\<lambda>m. attributed m \<and> device_key m = key) ms"

lemma containerGPU_lookup_devices:
  "containerGPU_lookup ms key =
     (if devices_of key ms = [] then None else Some (foldl add_container_device zero_containerGPU (devices_of key ms)))"
proof (induction ms arbitrary: key rule: rev_induct)
  case Nil
  then show ?case by (simp add: containerGPU_lookup_def devices_of_def)
next
  case (snoc m ms)
  have "containerGPU_lookup (ms @ [m]) =
      (if attributed m then (containerGPU_lookup ms)(device_key m \<mapsto>
         add_container_device (case containerGPU_lookup ms (device_key m) of None \<Rightarrow> zero_containerGPU | Some cg \<Rightarrow> cg) m)
       else containerGPU_lookup ms)"
    by (simp add: containerGPU_lookup_def attributed_def Let_def)
  moreover have "devices_of key (ms @ [m]) =
      devices_of key ms @ (if attributed m \<and> device_key m = key then [m] else [])"
    by (simp add: devices_of_def)
  ultimately show ?case by (auto simp: snoc)
qed

lemma foldl_add_container_device:
  "foldl add_container_device a ds =
   \<lparr>cg_utilSum = foldl f64_add (cg_utilSum a) (some_of GPUDeviceMetrics.GPUUtilization ds),
    cg_utilCount = cg_utilCount a + len (some_of GPUDeviceMetrics.GPUUtilization ds),
    cg_memUsed = cg_memUsed a + sum_list (some_of GPUDeviceMetrics.MemoryUsedBytes ds),
    cg_hasUtil = (cg_hasUtil a \<or> some_of GPUDeviceMetrics.GPUUtilization ds \<noteq> []),
    cg_hasMem = (cg_hasMem a \<or> some_of GPUDeviceMetrics.MemoryUsedBytes ds \<noteq> [])\<rparr>"
  by (induction ds arbitrary: a) (simp_all add: add_container_device_def if_some_def len_def add.assoc split: option.split)

text \<open>\<open>x\<close> unless it is unset, then the old value: what a merge step leaves in a pointer field.\<close>

definition or_old :: "'a option \<Rightarrow> 'a option \<Rightarrow> 'a option" where
  "or_old x old = (case x of None \<Rightarrow> old | Some v \<Rightarrow> Some v)"

definition sum_of :: "int64 list \<Rightarrow> int64 option" where
  "sum_of xs = (if xs = [] then None else Some (sum_list xs))"

lemma merge_gpu_container_devices:
  assumes "length ms < 2 ^ 63"
  shows "merge_gpu_container (containerGPU_lookup ms key) c = c\<lparr>
     ContainerInfo.GPUUtilizationPercent :=
       or_old (mean_of (some_of GPUDeviceMetrics.GPUUtilization (devices_of key ms))) (ContainerInfo.GPUUtilizationPercent c),
     ContainerInfo.GPUMemoryUsedBytes :=
       or_old (sum_of (some_of GPUDeviceMetrics.MemoryUsedBytes (devices_of key ms))) (ContainerInfo.GPUMemoryUsedBytes c)\<rparr>"
proof -
  have "length (some_of GPUDeviceMetrics.GPUUtilization (devices_of key ms)) \<le> length (devices_of key ms)"
    by (rule length_some_of)
  also have "\<dots> \<le> length ms" by (simp add: devices_of_def)
  finally have "length (some_of GPUDeviceMetrics.GPUUtilization (devices_of key ms)) < 2 ^ 63" using assms by simp
  note count = mean_count [OF this]
  show ?thesis
    by (simp add: merge_gpu_container_def containerGPU_lookup_devices foldl_add_container_device zero_containerGPU_def
        len_def count f64_sum_def [symmetric] or_old_def sum_of_def cong: if_cong)
      (simp add: mean_of_def)
qed

lemma merge_gpu_node_Nil [simp]: "merge_gpu_node [] n = n"
  by (simp add: merge_gpu_node_def)

lemma merge_gpu_node_devices:
  assumes "length devs < 2 ^ 63" and "devs \<noteq> []"
  shows "NodeInfo.GPUUtilizationPercent (merge_gpu_node devs n) =
           or_old (mean_of (some_of GPUDeviceMetrics.GPUUtilization devs)) (NodeInfo.GPUUtilizationPercent n)
       \<and> NodeInfo.GPUTensorActivePercent (merge_gpu_node devs n) =
           or_old (mean_of (some_of GPUDeviceMetrics.TensorActivePercent devs)) (NodeInfo.GPUTensorActivePercent n)
       \<and> NodeInfo.GPUMemoryUtilPercent (merge_gpu_node devs n) =
           or_old (mean_of (some_of GPUDeviceMetrics.MemCopyUtilPercent devs)) (NodeInfo.GPUMemoryUtilPercent n)"
proof -
  have "length (some_of f devs) < 2 ^ 63" for f :: "GPUDeviceMetrics \<Rightarrow> float64 option"
    using length_some_of [of f devs] assms(1) by simp
  note count = mean_count [OF this]
  show ?thesis using assms(2)
    by (simp add: merge_gpu_node_def foldl_add_device zero_node_gpu_def len_def count f64_sum_def [symmetric]
        or_old_def Let_def cong: if_cong)
      (simp add: mean_of_def)
qed

section \<open>What a second build finds in the store\<close>

lemma merge_container_gpu [simp]:
  "ContainerInfo.GPUUtilizationPercent (merge_container l c) = ContainerInfo.GPUUtilizationPercent c"
  "ContainerInfo.GPUMemoryUsedBytes (merge_container l c) = ContainerInfo.GPUMemoryUsedBytes c"
  "ContainerInfo.Name (merge_container l c) = ContainerInfo.Name c"
  by (simp_all add: merge_container_def split: option.split)

lemma merge_gpu_container_Name [simp]: "ContainerInfo.Name (merge_gpu_container cg c) = ContainerInfo.Name c"
  by (cases cg) (simp_all add: merge_gpu_container_def)

lemma mergePodMetrics_map:
  "mergePodMetrics pods ms = map (merge_pod (index_by (\<lambda>m. ns_name (PodMetrics.Namespace m) (PodMetrics.Name m)) ms)) pods"
proof -
  have "merge_pod Map.empty p = p" for p by (simp add: merge_pod_def)
  then show ?thesis by (simp add: mergePodMetrics_def map_idI)
qed

lemma merge_pod_containers:
  "length (PodInfo.Containers (merge_pod l p)) = length (PodInfo.Containers p)"
  "i < length (PodInfo.Containers p) \<Longrightarrow> \<exists>l'. PodInfo.Containers (merge_pod l p) ! i = merge_container l' (PodInfo.Containers p ! i)"
  by (auto simp: merge_pod_def merge_container_def split: option.split intro: exI [of _ Map.empty])

lemma merged_pod_containers:
  "length (PodInfo.Containers (hd (merged_pods b v [p]))) = length (PodInfo.Containers p)"
  "i < length (PodInfo.Containers p) \<Longrightarrow>
   ContainerInfo.Name (PodInfo.Containers (hd (merged_pods b v [p])) ! i) = ContainerInfo.Name (PodInfo.Containers p ! i)"
  "PodInfo.Name (hd (merged_pods b v [p])) = PodInfo.Name p"
  "PodInfo.Namespace (hd (merged_pods b v [p])) = PodInfo.Namespace p"
  by (simp_all add: merged_pods_def mergePodMetrics_map mergeGPUContainerMetrics_def merge_gpu_pod_def merge_pod_def Let_def
      split: option.split)

text \<open>A build that has no data on a container leaves its GPU fields as the store has them.\<close>

lemma merged_pod_gpu_unchanged:
  assumes "gpuCollector b = None \<or> gpuCollector b = Some gpu"
    and "devices_of (PodInfo.Namespace p, PodInfo.Name p, ContainerInfo.Name (PodInfo.Containers p ! i)) gpu = []"
    and "i < length (PodInfo.Containers p)"
  shows "ContainerInfo.GPUUtilizationPercent (PodInfo.Containers (hd (merged_pods b v [p])) ! i) =
           ContainerInfo.GPUUtilizationPercent (PodInfo.Containers p ! i)
       \<and> ContainerInfo.GPUMemoryUsedBytes (PodInfo.Containers (hd (merged_pods b v [p])) ! i) =
           ContainerInfo.GPUMemoryUsedBytes (PodInfo.Containers p ! i)"
proof -
  obtain l where p': "mergePodMetrics [p] (Store.Values (orders v 23) (PodMetrics_store (metricsStore b))) = [merge_pod l p]"
    using mergePodMetrics_map [of "[p]"] by simp
  obtain l' where c': "PodInfo.Containers (merge_pod l p) ! i = merge_container l' (PodInfo.Containers p ! i)"
    using merge_pod_containers(2) [OF assms(3)] by blast
  have none: "merge_gpu_container (containerGPU_lookup gpu
      (PodInfo.Namespace p, PodInfo.Name p, ContainerInfo.Name (PodInfo.Containers p ! i))) c = c" for c
    by (simp add: containerGPU_lookup_devices assms(2) merge_gpu_container_def)
  show ?thesis using assms(1) merge_pod_containers(1) [of l p] assms(3)
    by (elim disjE) (simp_all add: merged_pods_def Let_def p' c' mergeGPUContainerMetrics_def merge_gpu_pod_def none)
qed

lemma build_pods:
  assumes "pipeline b = None \<or> pipeline b = Some main_pipeline"
  shows "map disown (ClusterSnapshot.Pods (fst (Build b v))) =
         map disown (merged_pods b v (Store.Values (orders v 1) (Store.Pods (read_store v))))"
proof -
  have "ClusterSnapshot.Pods (fst (build_filled b v)) = merged_pods b v (Store.Values (orders v 1) (Store.Pods (read_store v)))"
    by (simp add: build_filled_def backfillReferencedNodes_def readStores_def Let_def split: prod.split)
  with build_enriched_view [OF assms, of v] show ?thesis by (simp add: summary_view_def)
qed

lemma build_nodes:
  assumes "pipeline b = None \<or> pipeline b = Some main_pipeline"
  shows "ClusterSnapshot.Nodes (fst (Build b v)) = ClusterSnapshot.Nodes (fst (build_filled b v))"
  using build_enriched_view [OF assms, of v] by (simp add: summary_view_def)

lemma enrichers_Health:
  "ClusterSnapshot.Health (fst (Enrich (NewOwnershipEnricher rss) snap)) = ClusterSnapshot.Health snap"
  "ClusterSnapshot.Health (fst (Enrich NewAggregationEnricher snap)) = ClusterSnapshot.Health snap"
  "ClusterSnapshot.Health (fst (Enrich NewTargetsEnricher snap)) = ClusterSnapshot.Health snap"
  "ClusterSnapshot.Health (fst (Enrich NewMountsEnricher snap)) = ClusterSnapshot.Health snap"
  by (simp_all add: NewOwnershipEnricher_def NewAggregationEnricher_def NewTargetsEnricher_def NewMountsEnricher_def
      Ownership_Enrich_def Aggregation_Enrich_def Targets_Enrich_def Mounts_Enrich_def Let_def)

lemma build_stale_resources:
  assumes "pipeline b = None \<or> pipeline b = Some main_pipeline"
  shows "AgentHealth.StaleResources (ClusterSnapshot.Health (fst (Build b v))) = stale_resources b v"
proof -
  have "ClusterSnapshot.Health (fst (backfillReferencedNodes v snap m)) = ClusterSnapshot.Health snap" for snap m
    by (simp add: backfillReferencedNodes_def Let_def split: prod.split)
  moreover have "fst (run_enricher dur e sm) = fst (Enrich e (fst sm))" for dur e sm
    by (cases sm) (simp add: run_enricher_def)
  moreover have "ClusterSnapshot.Health (fst (readStores v zero_ClusterSnapshot)) = zero_AgentHealth"
    by (simp add: readStores_def zero_ClusterSnapshot_def Let_def)
  ultimately have "ClusterSnapshot.Health (fst (build_enriched b v)) = zero_AgentHealth"
    using assms
    by (elim disjE) (simp_all add: build_enriched_def Let_def main_pipeline_run case_prod_unfold enrichers_Health)
  then show ?thesis by (simp add: Build_def Let_def zero_AgentHealth_def case_prod_unfold)
qed

text \<open>A view in which nothing changes the stores during the build.\<close>

definition quiet_view :: "Store \<Rightarrow> (nat \<Rightarrow> iter_order) \<Rightarrow> Time \<Rightarrow> build_view" where
  "quiet_view st ord t = \<lparr>read_store = st, reread_nodes = Store.Nodes st, late_store = st, orders = ord,
     uuid = '''', start_time = t, snapshot_time = t, stale_time = t, end_time = t, enricher_time = (\<lambda>_. 0)\<rparr>"

definition forward :: "nat \<Rightarrow> iter_order" where
  "forward i n = [0..<n]"

lemma forward_ok [simp]: "order_ok (forward i)"
  by (simp add: forward_def [abs_def])

lemma Values_forward [simp]: "Store.Values (forward i) s = map snd (items s)"
  by (simp add: Values_map forward_def [abs_def])

lemma items_Set_new [simp]: "items (Set k v t (NewTypedStore t')) = [(k, v)]"
  by (simp add: Set_def set_items_def stamp_def NewTypedStore_def map_set_def)

lemma NewStore_empty [simp]:
  "items (Store.Nodes (NewStore t)) = []" "items (Store.Pods (NewStore t)) = []"
  "items (NodeMetrics_store (NewMetricsStore t)) = []" "items (PodMetrics_store (NewMetricsStore t)) = []"
  by (simp_all add: NewStore_def NewMetricsStore_def NewTypedStore_def)

lemma quiet_view_fields [simp]:
  "read_store (quiet_view st ord t) = st" "reread_nodes (quiet_view st ord t) = Store.Nodes st"
  "late_store (quiet_view st ord t) = st" "orders (quiet_view st ord t) = ord"
  "stale_time (quiet_view st ord t) = t"
  by (simp_all add: quiet_view_def)

text \<open>A builder over empty stores, with no pipeline and no GPU collector.\<close>

definition plain_builder :: "Store \<Rightarrow> SnapshotBuilder" where
  "plain_builder st = NewSnapshotBuilder st (NewMetricsStore 0) (Load (\<lambda>_. '''')) None NewErrorCollector None None ''''"

lemma plain_builder_fields [simp]:
  "pipeline (plain_builder st) = None" "gpuCollector (plain_builder st) = None" "metrics (plain_builder st) = None"
  "metricsStore (plain_builder st) = NewMetricsStore 0" "config (plain_builder st) = Load (\<lambda>_. '''')"
  by (simp_all add: plain_builder_def NewSnapshotBuilder_def)

section \<open>Properties\<close>



text \<open>
  C5. No pod of a snapshot refers to a node the snapshot lacks, unless the node store does
  not know that node when it is read again; and no node is listed twice. This holds
  although the node store and the pod store are read at different moments.
\<close>

theorem snapshot_nodes_complete:
  assumes "\<forall>i. order_ok (orders v i)" and "pipeline b = None \<or> pipeline b = Some main_pipeline"
    and "distinct (map (NodeInfo.Name \<circ> snd) (items (Store.Nodes (read_store v))))"
  shows "(\<forall>p \<in> set (ClusterSnapshot.Pods (fst (Build b v))). PodInfo.NodeName p \<noteq> '''' \<longrightarrow>
            PodInfo.NodeName p \<in> NodeInfo.Name ` set (ClusterSnapshot.Nodes (fst (Build b v)))
          \<or> PodInfo.NodeName p \<notin> NodeInfo.Name ` snd ` set (items (reread_nodes v)))
       \<and> distinct (map NodeInfo.Name (ClusterSnapshot.Nodes (fst (Build b v))))"
proof (intro conjI ballI impI)
  let ?snap1 = "fst (readStores v zero_ClusterSnapshot)"
  let ?snap3 = "?snap1\<lparr>ClusterSnapshot.Nodes := merged_nodes b v (ClusterSnapshot.Nodes ?snap1),
      ClusterSnapshot.Pods := merged_pods b v (ClusterSnapshot.Pods ?snap1)\<rparr>"
  have ord: "order_ok (orders v 0)" "order_ok (orders v 24)" "order_ok (orders v 25)" using assms(1) by blast+
  have filled: "build_filled b v = backfillReferencedNodes v ?snap3 (metrics b)" by (simp add: build_filled_def Let_def)
  fix p assume p: "p \<in> set (ClusterSnapshot.Pods (fst (Build b v)))" and nn: "PodInfo.NodeName p \<noteq> ''''"
  from p have "disown p \<in> set (map disown (merged_pods b v (Store.Values (orders v 1) (Store.Pods (read_store v)))))"
    unfolding build_pods [OF assms(2), symmetric] by simp
  then obtain q where q: "q \<in> set (merged_pods b v (Store.Values (orders v 1) (Store.Pods (read_store v))))" "disown p = disown q" by auto
  have "PodInfo.NodeName p = PodInfo.NodeName q" using disown_fields(5) [of p] disown_fields(5) [of q] q(2) by simp
  moreover from q(1) have "q \<in> set (ClusterSnapshot.Pods ?snap3)" by (simp add: readStores_def Let_def)
  ultimately show "PodInfo.NodeName p \<in> NodeInfo.Name ` set (ClusterSnapshot.Nodes (fst (Build b v)))
      \<or> PodInfo.NodeName p \<notin> NodeInfo.Name ` snd ` set (items (reread_nodes v))"
    using backfill_complete [OF ord(2,3), of q ?snap3 "metrics b"] nn
    unfolding build_nodes [OF assms(2)] filled set_map by metis
next
  let ?snap1 = "fst (readStores v zero_ClusterSnapshot)"
  have "distinct (map NodeInfo.Name (ClusterSnapshot.Nodes ?snap1))"
    using assms(1,3) map_range_mset [of "orders v 0" "items (Store.Nodes (read_store v))"]
    by (simp add: readStores_def Let_def Values_map) (metis distinct_map mset_map mset_eq_imp_distinct_iff)
  then show "distinct (map NodeInfo.Name (ClusterSnapshot.Nodes (fst (Build b v))))"
    unfolding build_nodes [OF assms(2)] build_filled_def Let_def
    by (intro backfill_distinct) (simp_all add: assms(1) merged_nodes_Name)
qed

theorem snapshot_nodes_complete_witness:
  "let n = zero_NodeInfo\<lparr>NodeInfo.Name := ''n1''\<rparr>; p = zero_PodInfo\<lparr>PodInfo.Name := ''p1'', PodInfo.NodeName := ''n1''\<rparr>;
       st = (NewStore 0)\<lparr>Store.Pods := Set ''/p1'' p 0 (NewTypedStore 0)\<rparr>;
       v = (quiet_view st forward 0)\<lparr>reread_nodes := Set ''n1'' n 0 (NewTypedStore 0)\<rparr>
   in ''n1'' \<in> NodeInfo.Name ` set (ClusterSnapshot.Nodes (fst (Build (plain_builder st) v)))"
proof -
  let ?n = "zero_NodeInfo\<lparr>NodeInfo.Name := ''n1''\<rparr>" and ?p = "zero_PodInfo\<lparr>PodInfo.Name := ''p1'', PodInfo.NodeName := ''n1''\<rparr>"
  let ?st = "(NewStore 0)\<lparr>Store.Pods := Set ''/p1'' ?p 0 (NewTypedStore 0)\<rparr>"
  let ?v = "(quiet_view ?st forward 0)\<lparr>reread_nodes := Set ''n1'' ?n 0 (NewTypedStore 0)\<rparr>"
  have "map disown (ClusterSnapshot.Pods (fst (Build (plain_builder ?st) ?v))) = [disown ?p]"
    by (subst build_pods) (simp_all add: merged_pods_def mergePodMetrics_def)
  then obtain q where q: "q \<in> set (ClusterSnapshot.Pods (fst (Build (plain_builder ?st) ?v)))" "disown q = disown ?p"
    by (auto simp: map_eq_Cons_conv)
  then have nn: "PodInfo.NodeName q = ''n1''"
    using disown_fields(5) [of q] disown_fields(5) [of ?p] by simp
  have "\<forall>i. order_ok (orders ?v i)" and "pipeline (plain_builder ?st) = None \<or> pipeline (plain_builder ?st) = Some main_pipeline"
    and "distinct (map (NodeInfo.Name \<circ> snd) (items (Store.Nodes (read_store ?v))))"
    by simp_all
  note bspec [OF conjunct1 [OF snapshot_nodes_complete [OF this]] q(1)]
  moreover have "''n1'' \<in> NodeInfo.Name ` snd ` set (items (reread_nodes ?v))" by simp
  ultimately show ?thesis unfolding nn Let_def by blast
qed

text \<open>
  A node that the second read adds is reported exactly as it is stored: the data of the
  metrics server and of the GPU collector are merged before, so it has no usage even when
  both have data on it.
\<close>

theorem backfilled_nodes_lack_metrics:
  assumes "order_ok (orders v 24)" and "order_ok (orders v 25)"
    and "pipeline b = None \<or> pipeline b = Some main_pipeline"
    and "n \<in> set (ClusterSnapshot.Nodes (fst (Build b v)))"
    and "NodeInfo.Name n \<notin> NodeInfo.Name ` set (Store.Values (orders v 0) (Store.Nodes (read_store v)))"
  shows "n \<in> snd ` set (items (reread_nodes v))"
proof -
  let ?snap1 = "fst (readStores v zero_ClusterSnapshot)"
  let ?nodes = "merged_nodes b v (Store.Values (orders v 0) (Store.Nodes (read_store v)))"
  have "NodeInfo.Name ` set ?nodes = NodeInfo.Name ` set (Store.Values (orders v 0) (Store.Nodes (read_store v)))"
    using arg_cong [OF merged_nodes_Name, of set] by (simp only: set_map)
  with assms(5) have "n \<notin> set ?nodes" by blast
  have read: "ClusterSnapshot.Nodes ?snap1 = Store.Values (orders v 0) (Store.Nodes (read_store v))"
    by (simp add: readStores_def Let_def)
  let ?idx = "index_by NodeInfo.Name (Store.Values (orders v 24) (reread_nodes v))"
  let ?snap3 = "?snap1\<lparr>ClusterSnapshot.Nodes := merged_nodes b v (ClusterSnapshot.Nodes ?snap1),
      ClusterSnapshot.Pods := merged_pods b v (ClusterSnapshot.Pods ?snap1)\<rparr>"
  have "ClusterSnapshot.Nodes ?snap3 = ?nodes" by (simp add: read)
  then obtain xs where "ClusterSnapshot.Nodes (fst (Build b v)) = ?nodes @ some_of ?idx xs"
    using build_nodes [OF assms(3)] backfill_Nodes [OF assms(2), of ?snap3 "metrics b"]
    unfolding build_filled_def Let_def by metis
  with assms(4) \<open>n \<notin> set ?nodes\<close> have "n \<in> set (some_of ?idx xs)" by (simp only: set_append Un_iff simp_thms)
  then obtain k where "?idx k = Some n" unfolding set_some_of by blast
  from index_by_SomeD [OF this] show ?thesis unfolding Values_set [OF assms(1)] by (rule conjunct1)
qed

theorem backfilled_nodes_lack_metrics_witness:
  "let n = zero_NodeInfo\<lparr>NodeInfo.Name := ''n1''\<rparr>; p = zero_PodInfo\<lparr>PodInfo.Name := ''p1'', PodInfo.NodeName := ''n1''\<rparr>;
       st = (NewStore 0)\<lparr>Store.Pods := Set ''/p1'' p 0 (NewTypedStore 0)\<rparr>;
       v = (quiet_view st forward 0)\<lparr>reread_nodes := Set ''n1'' n 0 (NewTypedStore 0)\<rparr>;
       b = (plain_builder st)\<lparr>metricsStore := (NewMetricsStore 0)\<lparr>NodeMetrics_store :=
             Set ''n1'' (zero_NodeMetrics\<lparr>NodeMetrics.Name := ''n1'', NodeMetrics.MemoryUsageBytes := 5\<rparr>) 0 (NewTypedStore 0)\<rparr>\<rparr>
   in \<forall>n' \<in> set (ClusterSnapshot.Nodes (fst (Build b v))). NodeInfo.MemoryUsageBytes n' = None"
proof -
  let ?n = "zero_NodeInfo\<lparr>NodeInfo.Name := ''n1''\<rparr>" and ?p = "zero_PodInfo\<lparr>PodInfo.Name := ''p1'', PodInfo.NodeName := ''n1''\<rparr>"
  let ?st = "(NewStore 0)\<lparr>Store.Pods := Set ''/p1'' ?p 0 (NewTypedStore 0)\<rparr>"
  let ?v = "(quiet_view ?st forward 0)\<lparr>reread_nodes := Set ''n1'' ?n 0 (NewTypedStore 0)\<rparr>"
  let ?b = "(plain_builder ?st)\<lparr>metricsStore := (NewMetricsStore 0)\<lparr>NodeMetrics_store :=
             Set ''n1'' (zero_NodeMetrics\<lparr>NodeMetrics.Name := ''n1'', NodeMetrics.MemoryUsageBytes := 5\<rparr>) 0 (NewTypedStore 0)\<rparr>\<rparr>"
  have h: "order_ok (orders ?v 24)" "order_ok (orders ?v 25)"
    "pipeline ?b = None \<or> pipeline ?b = Some main_pipeline" by simp_all
  have read: "NodeInfo.Name x \<notin> NodeInfo.Name ` set (Store.Values (orders ?v 0) (Store.Nodes (read_store ?v)))" for x :: NodeInfo
    by simp
  have "NodeInfo.MemoryUsageBytes n' = None" if "n' \<in> set (ClusterSnapshot.Nodes (fst (Build ?b ?v)))" for n'
  proof -
    have "n' \<in> snd ` set (items (reread_nodes ?v))" by (rule backfilled_nodes_lack_metrics [OF h that read])
    then have "n' = ?n" by simp
    then show ?thesis by (simp add: zero_NodeInfo_def)
  qed
  then show ?thesis unfolding Let_def by blast
qed





text \<open>
  The builder lists as stale exactly the resource kinds whose store was last changed more
  than three snapshot intervals before the build, for every iteration order, as long as
  the ages and three intervals fit a \<^verbatim>\<open>time.Duration\<close>.
\<close>

theorem stale_resources_exact:
  assumes "order_ok (orders v 26)"
    and "\<bar>3 * sint (SnapshotInterval (config b))\<bar> < 2 ^ 63"
    and "\<forall>(r, lu) \<in> set (LastUpdatedTimes (late_store v)).
           \<bar>(sint (UnixMilli (stale_time v)) - sint lu) * 1000000\<bar> < 2 ^ 63"
    and "pipeline b = None \<or> pipeline b = Some main_pipeline"
  shows "set (AgentHealth.StaleResources (ClusterSnapshot.Health (fst (Build b v)))) =
     {r. \<exists>lu. (r, lu) \<in> set (LastUpdatedTimes (late_store v)) \<and>
        3 * sint (SnapshotInterval (config b)) < (sint (UnixMilli (stale_time v)) - sint lu) * 1000000}"
proof -
  let ?thr = "3 * SnapshotInterval (config b)" and ?now = "UnixMilli (stale_time v)"
  have fold: "foldl (\<lambda>rs (resource, lu). if P lu then rs @ [resource] else rs) acc xs =
      acc @ map fst (filter (P \<circ> snd) xs)" for P and acc :: "string list" and xs :: "(string, int64) gomap"
    by (induction xs arbitrary: acc) auto
  have thr: "sint ?thr = 3 * sint (SnapshotInterval (config b))"
    using sint_word_of_int_range [of "3 * sint (SnapshotInterval (config b))"] assms(2) by simp
  have age: "sint ((?now - lu) * Millisecond) = (sint ?now - sint lu) * 1000000"
    if "(r, lu) \<in> set (LastUpdatedTimes (late_store v))" for r lu
    using sint_word_of_int_range [of "(sint ?now - sint lu) * 1000000"] assms(3) that by (auto simp: Millisecond_def)
  have "set (stale_resources b v) = {r. \<exists>lu. (r, lu) \<in> set (LastUpdatedTimes (late_store v)) \<and> ?thr <s (?now - lu) * Millisecond}"
    unfolding stale_resources_def Let_def fold by (auto simp: map_range_set [OF assms(1)] image_iff)
  also have "\<dots> = {r. \<exists>lu. (r, lu) \<in> set (LastUpdatedTimes (late_store v)) \<and>
      3 * sint (SnapshotInterval (config b)) < (sint ?now - sint lu) * 1000000}"
    unfolding word_sless_alt thr using age by auto
  finally show ?thesis by (simp add: build_stale_resources [OF assms(4)])
qed

theorem stale_resources_exact_witness:
  "''pods'' \<in> set (AgentHealth.StaleResources (ClusterSnapshot.Health
     (fst (Build (plain_builder (NewStore 0)) (quiet_view (NewStore 0) forward 1000000000000)))))"
proof -
  have *: "sint (UnixMilli 0) = 0" "sint (UnixMilli 1000000000000) = 1000000" by (simp_all add: UnixMilli_def)
  have i: "sint (SnapshotInterval (Load (\<lambda>_. ''''))) = 60000000000"
    by (simp add: Load_def parseDuration_def Let_def Second_def)
  have t: "LastUpdatedTimes (NewStore 0) = map (\<lambda>r. (r, UnixMilli 0)) (map fst (LastUpdatedTimes (NewStore 0)))"
    by (simp add: LastUpdatedTimes_def LastUpdated_def NewStore_def NewTypedStore_def)
  have "''pods'' \<in> set (map fst (LastUpdatedTimes (NewStore 0)))" by (simp add: LastUpdatedTimes_def)
  then have "(''pods'', UnixMilli 0) \<in> set (LastUpdatedTimes (NewStore 0))" by (subst t) force
  moreover have "\<forall>(r, lu) \<in> set (LastUpdatedTimes (NewStore 0)). lu = UnixMilli 0" by (subst t) auto
  ultimately show ?thesis
    by (subst stale_resources_exact) (auto simp: * i intro!: exI [of _ "UnixMilli 0"])
qed

text \<open>
  The provider and region of a snapshot are those of whichever node the iteration over the
  node store visits first: in a cluster with nodes of two providers the same stores give
  different providers from one build to the next.
\<close>

theorem provider_depends_on_iteration:
  "let aws = zero_NodeInfo\<lparr>NodeInfo.Name := ''a'', NodeInfo.ProviderID := ''aws:///i-1''\<rparr>;
       gce = zero_NodeInfo\<lparr>NodeInfo.Name := ''g'', NodeInfo.ProviderID := ''gce://p/z/g''\<rparr>;
       st = (NewStore 0)\<lparr>Store.Nodes := Set ''g'' gce 0 (Set ''a'' aws 0 (NewTypedStore 0))\<rparr>;
       backward = (\<lambda>i n. rev [0..<n])
   in ClusterSnapshot.Provider (fst (Build (plain_builder st) (quiet_view st forward 0))) = ''aws''
    \<and> ClusterSnapshot.Provider (fst (Build (plain_builder st) (quiet_view st backward 0))) = ''gcp''"
proof -
  let ?aws = "zero_NodeInfo\<lparr>NodeInfo.Name := ''a'', NodeInfo.ProviderID := ''aws:///i-1''\<rparr>"
  let ?gce = "zero_NodeInfo\<lparr>NodeInfo.Name := ''g'', NodeInfo.ProviderID := ''gce://p/z/g''\<rparr>"
  let ?st = "(NewStore 0)\<lparr>Store.Nodes := Set ''g'' ?gce 0 (Set ''a'' ?aws 0 (NewTypedStore 0))\<rparr>"
  have items: "items (Set ''g'' ?gce 0 (Set ''a'' ?aws 0 (NewTypedStore 0))) = [(''a'', ?aws), (''g'', ?gce)]"
    by (simp add: Set_def set_items_def stamp_def NewTypedStore_def map_set_def)
  have nodes: "ClusterSnapshot.Nodes (fst (build_enriched (plain_builder ?st) (quiet_view ?st ord 0))) =
      Store.Values (ord 0) (Store.Nodes ?st)" if "Store.Values (ord 1) (Store.Pods (NewStore 0)) = []"
      "Store.Values (ord 22) (NodeMetrics_store (NewMetricsStore 0)) = []" for ord
    using build_nodes [of "plain_builder ?st" "quiet_view ?st ord 0"] that
    by (simp add: build_filled_def readStores_def merged_nodes_def merged_pods_def mergeNodeMetrics_def
      mergePodMetrics_def backfillReferencedNodes_def Let_def)
  have provider: "ClusterSnapshot.Provider (fst (Build b v)) = deriveProvider (NodeInfo.ProviderID n)"
    if "ClusterSnapshot.Nodes (fst (build_enriched b v)) = n # ns" for b v n ns
    using that by (cases "build_enriched b v") (simp add: Build_def set_identity_def Let_def)
  have f: "ClusterSnapshot.Nodes (fst (build_enriched (plain_builder ?st) (quiet_view ?st forward 0))) = [?aws, ?gce]"
    by (subst nodes) (simp_all add: items)
  have b: "ClusterSnapshot.Nodes (fst (build_enriched (plain_builder ?st) (quiet_view ?st (\<lambda>i n. rev [0..<n]) 0))) = [?gce, ?aws]"
    by (subst nodes) (simp_all add: items Values_map)
  show ?thesis unfolding Let_def provider [OF f] provider [OF b] by (simp add: deriveProvider_def HasPrefix_def)
qed

end
