(* ===== verification/Transport.thy ===== *)
theory Transport
  imports Config Agent_Errors Observability Model
begin

text \<open>
  \<^verbatim>\<open>internal/transport\<close>: the client that encodes a snapshot, posts it and retries, its
  middleware, and the classification of responses. The network, JSON and zstd are the
  parameter \<open>net\<close>: what they answer to the \<open>k\<close>-th request, which errors they give. The
  requests a call makes and the times it sleeps are part of its result.
\<close>

section \<open>Requests, responses and the outside world\<close>

record HttpRequest =
  URL :: string
  ContentLength :: int64
  Header :: "(string, string) gomap"
  ReqBody :: string

record HttpResponse =
  StatusCode :: goint
  RetryAfter :: string
  Body :: string

text \<open>
  \<open>url_error\<close>: why \<^verbatim>\<open>http.NewRequestWithContext\<close> rejects a URL; \<open>round_trip k\<close>: the answer of
  the base \<^verbatim>\<open>http.Transport\<close> to the \<open>k\<close>-th request; \<open>ctx_Err k\<close>: \<^verbatim>\<open>ctx.Err()\<close> before the
  \<open>k\<close>-th attempt; \<open>marshal\<close>: the JSON text of a snapshot; \<open>zstd_new\<close>, \<open>zstd_write\<close> and \<open>zstd_close\<close>:
  the encoder (bytes accepted and error of a write; the compressed bytes on closing);
  \<open>decode\<close> and \<open>decode_error\<close>: the JSON decoder on the two response types.
\<close>

record net =
  url_error :: "string \<Rightarrow> goerror option"
  round_trip :: "nat \<Rightarrow> HttpRequest \<Rightarrow> goerror + HttpResponse"
  ctx_Err :: "nat \<Rightarrow> goerror option"
  marshal :: "ClusterSnapshot \<Rightarrow> goerror + string"
  zstd_new :: "goerror option"
  zstd_write :: "string \<Rightarrow> goint \<times> goerror option"
  zstd_close :: "string \<Rightarrow> goerror + string"
  decode :: "string \<Rightarrow> goerror + SnapshotResponse"
  decode_error :: "string \<Rightarrow> goerror + SnapshotErrorResponse"

definition ProtocolHeader :: string where "ProtocolHeader = ''X-Kubeadapt-Protocol''"
definition ProtocolVersion :: string where "ProtocolVersion = ''v1''"
definition ContentEncoding :: string where "ContentEncoding = ''zstd''"
definition DefaultMaxCompressedBodyBytes :: int64 where "DefaultMaxCompressedBodyBytes = 52428800"
definition IngestPath :: string where "IngestPath = ''/api/v1/metrics/ingest''"

definition ErrPayloadTooLarge :: goerror where
  "ErrPayloadTooLarge = Sentinel ''ErrPayloadTooLarge'' ''transport: compressed snapshot exceeds server limit''"

text \<open>\<^verbatim>\<open>fmt.Errorf(prefix + "%w", err)\<close>\<close>

definition wrap :: "string \<Rightarrow> goerror \<Rightarrow> goerror" where
  "wrap prefix e = Errorf (prefix @ error_text e) (Some e)"

section \<open>CountingWriter\<close>

record CountingWriter =
  count :: int64

definition NewCountingWriter :: CountingWriter where
  "NewCountingWriter = \<lparr>count = 0\<rparr>"

definition Write :: "(string \<Rightarrow> goint \<times> goerror option) \<Rightarrow> string \<Rightarrow> CountingWriter \<Rightarrow> (goint \<times> goerror option) \<times> CountingWriter" where
  "Write w p cw = (let (n, err) = w p in ((n, err), cw\<lparr>count := count cw + n\<rparr>))"

definition Count :: "CountingWriter \<Rightarrow> int64" where
  "Count cw = count cw"

section \<open>Responses\<close>

text \<open>The dash of the messages, in UTF-8.\<close>

definition dash :: string where
  "dash = [CHR '' '', char_of (226::nat), char_of (128::nat), char_of (148::nat), CHR '' '']"

definition http_code :: "string \<Rightarrow> goint \<Rightarrow> string" where
  "http_code prefix code = prefix @ '' (HTTP '' @ int_to_string (sint code) @ '')''"

definition ParseResponse :: "net \<Rightarrow> HttpResponse \<Rightarrow> goerror + SnapshotResponse" where
  "ParseResponse nt resp =
    (let code = StatusCode resp in
     if code = 200 then
       (case decode nt (Body resp) of
          Inl e \<Rightarrow> Inl (wrap ''transport: failed to decode 200 response: '' e)
        | Inr r \<Rightarrow> Inr r)
     else if code = 401 \<or> code = 403 then Inl (Errorf (http_code ''transport: authentication failed'' code) None)
     else if code = 402 then
       (case decode_error nt (Body resp) of
          Inr errResp \<Rightarrow>
            let msg = (case SnapshotErrorResponse.RetryAfterSeconds errResp of
                         None \<Rightarrow> SnapshotErrorResponse.Message errResp
                       | Some s \<Rightarrow> SnapshotErrorResponse.Message errResp @ '' (retry after '' @ int_to_string (sint s) @ ''s)'')
            in Inl (Errorf (''transport: quota exceeded: '' @ msg) None)
        | Inl e \<Rightarrow> Inl (Errorf ''transport: quota exceeded (HTTP 402)'' None))
     else if code = 404 then
       Inl (Errorf (''transport: protocol mismatch (HTTP 404)'' @ dash @ ''check X-Kubeadapt-Protocol header and backend URL'') None)
     else if code = 410 then Inl (Errorf ''transport: agent deprecated (HTTP 410)'' None)
     else if code = 411 then
       Inl (Errorf (''transport: length required (HTTP 411)'' @ dash @ ''agent misconfigured, Content-Length missing'') None)
     else if code = 413 then
       Inl (Errorf (''transport: payload too large (HTTP 413)'' @ dash @ ''snapshot exceeds server compressed-body cap'') None)
     else if code = 415 then
       Inl (Errorf (''transport: unsupported encoding (HTTP 415)'' @ dash @ ''server requires Content-Encoding: zstd'') None)
     else if code = 429 then Inl (Errorf ''transport: rate limited (HTTP 429)'' None)
     else if \<not> code <s 500 then Inl (Errorf (http_code ''transport: server error'' code) None)
     else Inl (Errorf (http_code ''transport: unexpected status'' code) None))"

definition terminal_phrases :: "string list" where
  "terminal_phrases = [''authentication failed'', ''quota exceeded'', ''agent deprecated'', ''protocol mismatch'',
     ''unsupported encoding'', ''length required'', ''payload too large'']"

definition isNonRetryableError :: "goerror \<Rightarrow> bool" where
  "isNonRetryableError err \<longleftrightarrow>
     errors_Is err ErrPayloadTooLarge \<or> list_ex (strings_Contains (error_text err)) terminal_phrases"

section \<open>Middleware\<close>

text \<open>A \<^verbatim>\<open>RoundTripper\<close>; the number is the index of the request on the wire.\<close>

type_synonym RoundTripper = "nat \<Rightarrow> HttpRequest \<Rightarrow> goerror + HttpResponse"

definition WithAuth :: "string \<Rightarrow> RoundTripper \<Rightarrow> RoundTripper" where
  "WithAuth token next k req = next k (req\<lparr>Header := map_set ''Authorization'' (''Bearer '' @ token) (Header req)\<rparr>)"

text \<open>\<^verbatim>\<open>WithLogging\<close> returns what the wrapped transport returns; the log lines are not modelled.\<close>

definition WithLogging :: "RoundTripper \<Rightarrow> RoundTripper" where
  "WithLogging next k req = (case next k req of Inl e \<Rightarrow> Inl e | Inr r \<Rightarrow> Inr r)"

text \<open>
  \<^verbatim>\<open>time.Duration(math.Pow(2, float64(attempt))) * time.Second\<close>: the power is exact, the
  product wraps around from the 34th doubling on.
\<close>

definition sleepWithBackoff :: "nat \<Rightarrow> Duration" where
  "sleepWithBackoff attempt = word_of_int (2 ^ attempt) * Second"

definition retryAfterDelay :: "net \<Rightarrow> HttpResponse \<Rightarrow> Duration" where
  "retryAfterDelay nt resp =
    (let fromBody = (case decode_error nt (Body resp) of
                       Inr errResp \<Rightarrow>
                         (case SnapshotErrorResponse.RetryAfterSeconds errResp of
                            Some s \<Rightarrow> if 0 <s s then s * Second else 5 * Second
                          | None \<Rightarrow> 5 * Second)
                     | Inl e \<Rightarrow> 5 * Second)
     in if RetryAfter resp \<noteq> '''' then
          (case ParseInt (RetryAfter resp) of
             Some secs \<Rightarrow> if 0 <s secs then secs * Second else fromBody
           | None \<Rightarrow> fromBody)
        else fromBody)"

text \<open>
  The loop of \<^verbatim>\<open>retryTransport.RoundTrip\<close>: \<open>left\<close> iterations remain, \<open>attempt\<close> are done. The
  result is the last response or error (\<open>None\<close> is the pair of nils a loop that never runs
  returns), the number of requests and the sleeps.
\<close>

fun retry_loop :: "net \<Rightarrow> RoundTripper \<Rightarrow> HttpRequest \<Rightarrow> nat \<Rightarrow> nat \<Rightarrow> (goerror + HttpResponse) option \<times> nat \<times> Duration list" where
  "retry_loop nt next req 0 attempt = (None, attempt, [])"
| "retry_loop nt next req (Suc left) attempt =
    (let again = (\<lambda>d. let (r, n, ds) = retry_loop nt next req left (Suc attempt) in (r, n, d # ds)) in
     case next attempt req of
       Inl err \<Rightarrow> if left > 0 then again (sleepWithBackoff attempt) else (Some (Inl err), Suc attempt, [])
     | Inr resp \<Rightarrow>
         if StatusCode resp <s 500 \<and> StatusCode resp \<noteq> 429 then (Some (Inr resp), Suc attempt, [])
         else if StatusCode resp = 429 then
           (if left > 0 then again (retryAfterDelay nt resp) else (Some (Inr resp), Suc attempt, []))
         else if left > 0 then again (sleepWithBackoff attempt)
         else (Some (Inr resp), Suc attempt, []))"

definition retry_RoundTrip :: "net \<Rightarrow> goint \<Rightarrow> RoundTripper \<Rightarrow> HttpRequest \<Rightarrow> (goerror + HttpResponse) option \<times> nat \<times> Duration list" where
  "retry_RoundTrip nt maxRetries next req =
     (if maxRetries <s 0 then (None, 0, []) else retry_loop nt next req (Suc (nat (sint maxRetries))) 0)"

section \<open>Client\<close>

record SendStats =
  OriginalBytes :: int64
  CompressedBytes :: int64
  EncodeDurationMs :: int64

record Client =
  config :: Config
  metrics :: "Metrics option"
  errorCollector :: "ErrorCollector option"
  maxCompressedBodyBytes :: int64
  lastSendStats :: SendStats

definition NewClient :: "Config \<Rightarrow> Metrics option \<Rightarrow> ErrorCollector option \<Rightarrow> Client" where
  "NewClient cfg m ec =
     \<lparr>config = cfg, metrics = m, errorCollector = ec,
      maxCompressedBodyBytes = (if 0 <s MaxCompressedBodyBytes cfg then MaxCompressedBodyBytes cfg else DefaultMaxCompressedBodyBytes),
      lastSendStats = \<lparr>OriginalBytes = 0, CompressedBytes = 0, EncodeDurationMs = 0\<rparr>\<rparr>"

definition encodeSnapshot :: "net \<Rightarrow> ClusterSnapshot \<Rightarrow> goerror + (string \<times> int64)" where
  "encodeSnapshot nt snap =
    (case zstd_new nt of Some e \<Rightarrow> Inl (wrap ''transport: failed to create zstd encoder: '' e)
     | None \<Rightarrow>
       (case marshal nt snap of Inl e \<Rightarrow> Inl (wrap ''transport: JSON encode failed: '' e)
        | Inr text \<Rightarrow>
          (let ((n, err), orig) = Write (zstd_write nt) text NewCountingWriter in
           case err of Some e \<Rightarrow> Inl (wrap ''transport: JSON encode failed: '' e)
           | None \<Rightarrow> (case zstd_close nt text of Inl e \<Rightarrow> Inl (wrap ''transport: zstd close failed: '' e)
                     | Inr compressed \<Rightarrow> Inr (compressed, Count orig)))))"

definition ingest_request :: "Config \<Rightarrow> string \<Rightarrow> string \<Rightarrow> HttpRequest" where
  "ingest_request cfg snapshotID compressed =
     \<lparr>URL = BackendURL cfg @ IngestPath, ContentLength = len compressed,
      Header = foldl (\<lambda>h (k, v). map_set k v h) []
        [(ProtocolHeader, ProtocolVersion), (''Content-Type'', ''application/json''), (''Content-Encoding'', ContentEncoding),
         (''X-Agent-Version'', Config.AgentVersion cfg), (''X-Snapshot-ID'', snapshotID), (''Idempotency-Key'', snapshotID),
         (''User-Agent'', ''kubeadapt-agent/'' @ Config.AgentVersion cfg)],
      ReqBody = compressed\<rparr>"

text \<open>One attempt, the \<open>k\<close>-th of a call of \<open>Send\<close>; the requests it puts on the wire come first.\<close>

definition doSend :: "net \<Rightarrow> Config \<Rightarrow> nat \<Rightarrow> string \<Rightarrow> string \<Rightarrow> HttpRequest list \<times> (goerror + SnapshotResponse)" where
  "doSend nt cfg k snapshotID compressed =
    (case url_error nt (BackendURL cfg @ IngestPath) of
       Some e \<Rightarrow> ([], Inl (wrap ''transport: failed to create request: '' e))
     | None \<Rightarrow>
       let req = ingest_request cfg snapshotID compressed;
           wire = req\<lparr>Header := map_set ''Authorization'' (''Bearer '' @ APIKey cfg) (Header req)\<rparr>
       in ([wire],
           case WithAuth (APIKey cfg) (round_trip nt) k req of
             Inl e \<Rightarrow> Inl (wrap ''transport: HTTP request failed: '' e)
           | Inr resp \<Rightarrow> ParseResponse nt resp))"

text \<open>What a call of \<open>Send\<close> did and where its loop stands.\<close>

record send_state =
  result :: "SnapshotResponse option"
  lastErr :: "goerror option"
  requests :: "HttpRequest list"
  sleeps :: "Duration list"
  send_metrics :: "Metrics option"

text \<open>The retry loop: \<open>left\<close> iterations remain, \<open>attempt\<close> are done.\<close>

fun send_loop :: "net \<Rightarrow> Config \<Rightarrow> string \<Rightarrow> string \<Rightarrow> nat \<Rightarrow> nat \<Rightarrow> send_state \<Rightarrow> send_state" where
  "send_loop nt cfg sid compressed 0 attempt s = s"
| "send_loop nt cfg sid compressed (Suc left) attempt s =
    (let s1 = (if attempt > 0 then s\<lparr>send_metrics := with_metrics (Inc TransportRetries) (send_metrics s),
                                     sleeps := sleeps s @ [sleepWithBackoff (attempt - 1)]\<rparr> else s) in
     case ctx_Err nt attempt of
       Some e \<Rightarrow> s1\<lparr>lastErr := Some (wrap (''transport: context canceled before attempt '' @ nat_to_string (attempt + 1) @ '': '') e)\<rparr>
     | None \<Rightarrow>
       (case doSend nt cfg attempt sid compressed of
          (reqs, Inl err) \<Rightarrow>
            let s2 = s1\<lparr>requests := requests s1 @ reqs, lastErr := Some err\<rparr>
            in if isNonRetryableError err then s2 else send_loop nt cfg sid compressed left (Suc attempt) s2
        | (reqs, Inr resp) \<Rightarrow>
            s1\<lparr>requests := requests s1 @ reqs, result := Some resp, lastErr := None\<rparr>))"

text \<open>\<^verbatim>\<open>maxAttempts := c.config.MaxRetries + 1\<close>, compared as a signed integer.\<close>

definition max_attempts :: "Config \<Rightarrow> nat" where
  "max_attempts cfg = nat (sint (MaxRetries cfg + 1))"

record send_clock =
  send_start :: Time
  encode_start :: Time
  encode_end :: Time
  send_end :: Time
  report_time :: Time

definition send_error :: "goerror \<Rightarrow> Time \<Rightarrow> AgentError" where
  "send_error err now =
     \<lparr>Code = ErrBackendUnreachable, Message = ''snapshot send failed: '' @ error_text err,
      Component = ''transport'', Timestamp = UnixMilli now, Err = Some err\<rparr>"

definition Send :: "net \<Rightarrow> send_clock \<Rightarrow> ClusterSnapshot \<Rightarrow> Client \<Rightarrow> (goerror + SnapshotResponse option) \<times> Client \<times> HttpRequest list \<times> Duration list" where
  "Send nt clk snap c =
    (case encodeSnapshot nt snap of
       Inl e \<Rightarrow> (Inl e, c, [], [])
     | Inr (compressed, originalBytes) \<Rightarrow>
       let compressedBytes = len compressed in
       if 0 <s maxCompressedBodyBytes c \<and> maxCompressedBodyBytes c <s compressedBytes then
         (Inl (Errorf (error_text ErrPayloadTooLarge @ '' (compressed='' @ int_to_string (sint compressedBytes) @
                 '', limit='' @ int_to_string (sint (maxCompressedBodyBytes c)) @ '')'') (Some ErrPayloadTooLarge)),
          c, [], [])
       else
         let s = send_loop nt (config c) (ClusterSnapshot.SnapshotID snap) compressed (max_attempts (config c)) 0
                   \<lparr>result = None, lastErr = None, requests = [], sleeps = [], send_metrics = metrics c\<rparr>;
             m1 = with_metrics (Observe SnapshotSendDuration (duration_Seconds (time_Sub (send_end clk) (send_start clk)))) (send_metrics s);
             m2 = (if 0 <s compressedBytes then with_metrics (Observe (SnapshotSizeBytes ''compressed'') (f64_of_int (sint compressedBytes))) m1 else m1);
             m3 = with_metrics (Inc (SnapshotSendTotal (if lastErr s \<noteq> None then ''error'' else ''success''))) m2
         in (case lastErr s of
               Some err \<Rightarrow> (Inl err, c\<lparr>metrics := m3, errorCollector := map_option (Report (send_error err (report_time clk)) (report_time clk)) (errorCollector c)\<rparr>,
                            requests s, sleeps s)
             | None \<Rightarrow> (Inr (result s), c\<lparr>metrics := m3, lastSendStats :=
                          \<lparr>OriginalBytes = originalBytes, CompressedBytes = compressedBytes,
                           EncodeDurationMs = Milliseconds (time_Sub (encode_end clk) (encode_start clk))\<rparr>\<rparr>,
                        requests s, sleeps s)))"

definition LastSendStats :: "Client \<Rightarrow> SendStats" where
  "LastSendStats c = lastSendStats c"

section \<open>Phrases in messages\<close>

lemma contains_split:
  assumes "d \<notin> set sub" and "sub \<noteq> []"
  shows "strings_Contains (a @ d # b) sub \<longleftrightarrow> strings_Contains a sub \<or> strings_Contains b sub"
proof
  assume "strings_Contains (a @ d # b) sub"
  then obtain x y where eq: "a @ d # b = x @ sub @ y" by (auto simp: strings_Contains_iff)
  then consider us where "a = x @ us" "us @ d # b = sub @ y" | us where "x = a @ us" "d # b = us @ sub @ y"
    by (auto simp: append_eq_append_conv2)
  then show "strings_Contains a sub \<or> strings_Contains b sub"
  proof cases
    case 1
    with assms(1) obtain vs where "us = sub @ vs" by (auto simp: append_eq_append_conv2 append_eq_Cons_conv Cons_eq_append_conv)
    with 1 show ?thesis by (auto simp: strings_Contains_iff)
  next
    case 2
    with assms obtain vs where "us = d # vs" by (cases us) (auto simp: Cons_eq_append_conv)
    with 2 show ?thesis by (auto simp: strings_Contains_iff)
  qed
next
  have "\<exists>x' y'. a @ d # b = x' @ sub @ y'" if "a = x @ sub @ y \<or> b = x @ sub @ y" for x y
    using that
  proof
    assume "a = x @ sub @ y"
    then have "a @ d # b = x @ sub @ (y @ d # b)" by simp
    then show ?thesis by blast
  next
    assume "b = x @ sub @ y"
    then have "a @ d # b = (a @ d # x) @ sub @ y" by simp
    then show ?thesis by blast
  qed
  then show "strings_Contains a sub \<or> strings_Contains b sub \<Longrightarrow> strings_Contains (a @ d # b) sub"
    unfolding strings_Contains_iff by blast
qed

text \<open>A phrase without digits and minus signs is not found across a printed number.\<close>

lemma contains_number:
  assumes "sub \<noteq> []" and "\<And>c. c \<in> set sub \<Longrightarrow> \<not> is_digit c \<and> c \<noteq> CHR ''-''"
  shows "strings_Contains (a @ int_to_string i @ b) sub \<longleftrightarrow> strings_Contains a sub \<or> strings_Contains b sub"
proof -
  have digits: "strings_Contains (a @ ds @ b) sub \<longleftrightarrow> strings_Contains a sub \<or> strings_Contains b sub"
    if "ds \<noteq> []" "\<And>c. c \<in> set ds \<Longrightarrow> is_digit c \<or> c = CHR ''-''" for a ds
    using that
  proof (induction ds arbitrary: a)
    case (Cons d ds)
    then have d: "d \<notin> set sub" using assms(2) [of d] Cons.prems(2) [of d] by auto
    show ?case
    proof (cases "ds = []")
      case True
      then show ?thesis using contains_split [OF d assms(1), of a b] by simp
    next
      case False
      have "strings_Contains [] sub = False" using assms(1) by simp
      with Cons.IH [OF False, of "[]"] Cons.prems(2) contains_split [OF d assms(1), of a "ds @ b"]
      show ?thesis by simp
    qed
  qed simp
  have "int_to_string i \<noteq> []" and "\<And>c. c \<in> set (int_to_string i) \<Longrightarrow> is_digit c \<or> c = CHR ''-''"
    using nat_to_string_digits [of "nat i"] nat_to_string_digits [of "nat (- i)"]
    by (auto simp: int_to_string_def list_all_iff split: if_splits)
  then show ?thesis by (rule digits)
qed

lemma terminal_phrase_chars:
  "sub \<in> set terminal_phrases \<Longrightarrow> sub \<noteq> [] \<and> (\<forall>c \<in> set sub. \<not> is_digit c \<and> c \<noteq> CHR ''-'')"
  unfolding terminal_phrases_def by (auto simp: is_digit_def)

lemma terminal_http_code:
  "list_ex (strings_Contains (http_code prefix code)) terminal_phrases \<longleftrightarrow>
   list_ex (strings_Contains (prefix @ '' (HTTP '')) terminal_phrases"
proof -
  have "strings_Contains (http_code prefix code) sub \<longleftrightarrow> strings_Contains (prefix @ '' (HTTP '') sub"
    if "sub \<in> set terminal_phrases" for sub
  proof -
    have "\<not> strings_Contains '')'' sub" using that unfolding terminal_phrases_def by (auto simp: HasPrefix_def)
    with contains_number [of sub "prefix @ '' (HTTP ''" "sint code" "'')''"] terminal_phrase_chars [OF that]
    show ?thesis by (simp add: http_code_def)
  qed
  then show ?thesis by (auto simp: list_ex_iff)
qed

declare strings_Contains.simps [simp del]

section \<open>Middleware as an interface\<close>

text \<open>
  A middleware that only decorates requests: it passes each one on once, with the same
  URL, body and length, and returns the answer unchanged. Whatever is behind it therefore
  sees the same bodies in the same order.
\<close>

locale request_decorator =
  fixes mw :: "RoundTripper \<Rightarrow> RoundTripper" and decorate :: "HttpRequest \<Rightarrow> HttpRequest"
  assumes passes_on: "mw next k req = next k (decorate req)"
    and keeps: "URL (decorate req) = URL req" "ReqBody (decorate req) = ReqBody req"
      "ContentLength (decorate req) = ContentLength req"
begin

lemma same_answer: "next k = (\<lambda>req. f (URL req) (ReqBody req)) \<Longrightarrow> mw next k req = next k req"
  by (simp add: passes_on keeps)

lemma retries_unseen: "fst (retry_RoundTrip nt n (mw next) req) = fst (retry_RoundTrip nt n next (decorate req))"
proof -
  have "retry_loop nt (mw next) req l a = retry_loop nt next (decorate req) l a" for l a
    by (induction l arbitrary: a) (simp_all add: passes_on)
  then show ?thesis by (simp only: retry_RoundTrip_def)
qed

end

interpretation auth: request_decorator "WithAuth token"
    "\<lambda>req. req\<lparr>Header := map_set ''Authorization'' (''Bearer '' @ token) (Header req)\<rparr>" for token
  by unfold_locales (simp_all add: WithAuth_def)

interpretation logging: request_decorator WithLogging "\<lambda>req. req"
  by unfold_locales (simp_all add: WithLogging_def split: sum.split)

section \<open>The retry loop\<close>

text \<open>An attempt ends the loop when the context is done, or it succeeds, or its error is terminal.\<close>

definition decisive :: "net \<Rightarrow> Config \<Rightarrow> string \<Rightarrow> string \<Rightarrow> nat \<Rightarrow> bool" where
  "decisive nt cfg sid compressed k \<longleftrightarrow> ctx_Err nt k \<noteq> None \<or>
     (case snd (doSend nt cfg k sid compressed) of Inl e \<Rightarrow> isNonRetryableError e | Inr r \<Rightarrow> True)"

definition attempt_outcome :: "net \<Rightarrow> Config \<Rightarrow> string \<Rightarrow> string \<Rightarrow> nat \<Rightarrow> goerror + SnapshotResponse" where
  "attempt_outcome nt cfg sid compressed k =
     (case ctx_Err nt k of
        Some e \<Rightarrow> Inl (wrap (''transport: context canceled before attempt '' @ nat_to_string (k + 1) @ '': '') e)
      | None \<Rightarrow> snd (doSend nt cfg k sid compressed))"

text \<open>The attempts that are made out of the next \<open>left\<close>: up to the first decisive one.\<close>

fun attempts :: "(nat \<Rightarrow> bool) \<Rightarrow> nat \<Rightarrow> nat \<Rightarrow> nat list" where
  "attempts stop 0 k = []"
| "attempts stop (Suc left) k = k # (if stop k then [] else attempts stop left (Suc k))"

definition wire_requests :: "net \<Rightarrow> Config \<Rightarrow> string \<Rightarrow> string \<Rightarrow> nat \<Rightarrow> HttpRequest list" where
  "wire_requests nt cfg sid compressed k = (if ctx_Err nt k \<noteq> None then [] else fst (doSend nt cfg k sid compressed))"

text \<open>What one attempt does to the state of the loop.\<close>

definition send_step :: "net \<Rightarrow> Config \<Rightarrow> string \<Rightarrow> string \<Rightarrow> nat \<Rightarrow> send_state \<Rightarrow> send_state" where
  "send_step nt cfg sid compressed k s =
    \<lparr>result = (case attempt_outcome nt cfg sid compressed k of Inl e \<Rightarrow> result s | Inr r \<Rightarrow> Some r),
     lastErr = (case attempt_outcome nt cfg sid compressed k of Inl e \<Rightarrow> Some e | Inr r \<Rightarrow> None),
     requests = requests s @ wire_requests nt cfg sid compressed k,
     sleeps = sleeps s @ (if k > 0 then [sleepWithBackoff (k - 1)] else []),
     send_metrics = (if k > 0 then with_metrics (Inc TransportRetries) (send_metrics s) else send_metrics s)\<rparr>"

lemma send_loop_step:
  "send_loop nt cfg sid compressed (Suc left) k s =
    (if decisive nt cfg sid compressed k then send_step nt cfg sid compressed k s
     else send_loop nt cfg sid compressed left (Suc k) (send_step nt cfg sid compressed k s))"
proof (cases "ctx_Err nt k")
  case None
  obtain reqs out where d: "doSend nt cfg k sid compressed = (reqs, out)" by fastforce
  from None d show ?thesis
    by (cases s; cases out) (simp_all add: send_step_def decisive_def attempt_outcome_def wire_requests_def)
next
  case (Some e)
  then show ?thesis by (simp add: send_step_def decisive_def attempt_outcome_def wire_requests_def)
qed

lemma send_loop_requests:
  "requests (send_loop nt cfg sid compressed left k s) =
   requests s @ concat (map (wire_requests nt cfg sid compressed) (attempts (decisive nt cfg sid compressed) left k))"
proof (induction left arbitrary: k s)
  case (Suc left)
  show ?case unfolding send_loop_step using Suc.IH by (simp add: send_step_def)
qed simp

lemma send_loop_sleeps:
  "sleeps (send_loop nt cfg sid compressed left k s) =
   sleeps s @ map (\<lambda>a. sleepWithBackoff (a - 1)) (filter (\<lambda>a. a > 0) (attempts (decisive nt cfg sid compressed) left k))"
proof (induction left arbitrary: k s)
  case (Suc left)
  show ?case unfolding send_loop_step using Suc.IH by (simp add: send_step_def)
qed simp

lemma send_loop_outcome:
  fixes nt :: net and cfg :: Config and sid compressed :: string and k :: nat
  assumes "left > 0" and "result s = None"
  defines "s' \<equiv> send_loop nt cfg sid compressed left k s"
  shows "case attempt_outcome nt cfg sid compressed (last (attempts (decisive nt cfg sid compressed) left k)) of
           Inl e \<Rightarrow> lastErr s' = Some e \<and> result s' = None
         | Inr r \<Rightarrow> lastErr s' = None \<and> result s' = Some r"
  using assms(1,2) unfolding s'_def
proof (induction left arbitrary: k s)
  case (Suc left)
  show ?case
  proof (cases "decisive nt cfg sid compressed k \<or> left = 0")
    case True
    then show ?thesis unfolding send_loop_step using Suc.prems(2) by (auto simp: send_step_def split: sum.split)
  next
    case False
    then have "\<exists>e. attempt_outcome nt cfg sid compressed k = Inl e"
      by (auto simp: decisive_def attempt_outcome_def split: option.splits sum.splits)
    with Suc.prems(2) have "result (send_step nt cfg sid compressed k s) = None" by (auto simp: send_step_def)
    moreover from False have "attempts (decisive nt cfg sid compressed) left (Suc k) \<noteq> []" by (cases left) simp_all
    ultimately show ?thesis unfolding send_loop_step using Suc.IH [of "send_step nt cfg sid compressed k s" "Suc k"] False by simp
  qed
qed simp

lemma attempts_upt: "\<exists>m \<le> left. attempts stop left k = [k..<k + m] \<and> (left > 0 \<longrightarrow> m > 0)
    \<and> (\<forall>i. k \<le> i \<and> Suc i < k + m \<longrightarrow> \<not> stop i) \<and> (m = left \<or> stop (k + m - 1))"
proof (induction left arbitrary: k)
  case (Suc left)
  show ?case
  proof (cases "stop k")
    case True
    then show ?thesis by (intro exI [of _ 1]) auto
  next
    case False
    from Suc.IH [of "Suc k"] obtain m where m: "m \<le> left" "attempts stop left (Suc k) = [Suc k..<Suc k + m]" "left > 0 \<longrightarrow> m > 0"
      "\<forall>i. Suc k \<le> i \<and> Suc i < Suc k + m \<longrightarrow> \<not> stop i" "m = left \<or> stop (Suc k + m - 1)" by blast
    have "\<forall>i. k \<le> i \<and> Suc i < k + Suc m \<longrightarrow> \<not> stop i"
      using m(4) False by (metis Suc_leI add_Suc_right add_Suc order_le_less)
    with False m show ?thesis by (intro exI [of _ "Suc m"]) (simp add: upt_conv_Cons)
  qed
qed auto

lemma max_attempts_Suc:
  assumes "0 \<le> sint (MaxRetries cfg)" and "sint (MaxRetries cfg) < 2 ^ 63 - 1"
  shows "max_attempts cfg = Suc (nat (sint (MaxRetries cfg)))"
  using sint_word_of_int_range [of "sint (MaxRetries cfg) + 1"] assms by (simp add: max_attempts_def)

lemma wire_requests_length: "length (wire_requests nt cfg sid compressed k) \<le> 1"
  by (simp add: wire_requests_def doSend_def Let_def split: option.split)

lemma wire_requests_fields:
  "q \<in> set (wire_requests nt cfg sid compressed k) \<Longrightarrow>
   ReqBody q = compressed \<and> ContentLength q = len compressed
   \<and> map_of (Header q) ''Idempotency-Key'' = Some sid \<and> map_of (Header q) ''Authorization'' = Some (''Bearer '' @ APIKey cfg)"
  by (auto simp: wire_requests_def doSend_def ingest_request_def Let_def ProtocolHeader_def split: option.splits if_splits)

lemma sleeps_upt: "map (\<lambda>a. sleepWithBackoff (a - 1)) (filter (\<lambda>a. a > 0) [0..<m]) = map sleepWithBackoff [0..<m - 1]"
proof (induction m)
  case (Suc m)
  then show ?case by (cases m) (auto split: if_splits)
qed simp

lemma Send_trace:
  "snd (snd (Send nt clk snap c)) =
    (case encodeSnapshot nt snap of Inl e \<Rightarrow> ([], [])
     | Inr (compressed, n) \<Rightarrow>
       if 0 <s maxCompressedBodyBytes c \<and> maxCompressedBodyBytes c <s len compressed then ([], [])
       else let as = attempts (decisive nt (config c) (ClusterSnapshot.SnapshotID snap) compressed) (max_attempts (config c)) 0
            in (concat (map (wire_requests nt (config c) (ClusterSnapshot.SnapshotID snap) compressed) as),
                map (\<lambda>a. sleepWithBackoff (a - 1)) (filter (\<lambda>a. a > 0) as)))"
proof (cases "encodeSnapshot nt snap")
  case (Inr p)
  obtain compressed n where p: "p = (compressed, n)" by (cases p)
  show ?thesis
  proof (cases "0 <s maxCompressedBodyBytes c \<and> maxCompressedBodyBytes c <s len compressed")
    case False
    let ?s = "send_loop nt (config c) (ClusterSnapshot.SnapshotID snap) compressed (max_attempts (config c)) 0
        \<lparr>result = None, lastErr = None, requests = [], sleeps = [], send_metrics = metrics c\<rparr>"
    from False Inr p show ?thesis
      by (cases "lastErr ?s") (simp_all only: Send_def Let_def send_loop_requests send_loop_sleeps sum.case prod.case
          option.case if_False snd_conv send_state.select_convs append_Nil)
  qed (simp add: Send_def Inr p)
qed (simp add: Send_def)

text \<open>An instance of the outside world: a backend that answers every request with one status code.\<close>

definition constant_net :: "goint \<Rightarrow> net" where
  "constant_net code = \<lparr>url_error = (\<lambda>_. None), round_trip = (\<lambda>_ _. Inr \<lparr>StatusCode = code, RetryAfter = '''', Body = ''''\<rparr>),
     ctx_Err = (\<lambda>_. None), marshal = (\<lambda>_. Inr ''{}''), zstd_new = None, zstd_write = (\<lambda>t. (len t, None)),
     zstd_close = (\<lambda>t. Inr t), decode = (\<lambda>_. Inr zero_SnapshotResponse), decode_error = (\<lambda>_. Inr zero_SnapshotErrorResponse)\<rparr>"

section \<open>Properties\<close>



text \<open>
  C16. A snapshot that is encoded and fits the size limit is posted until an attempt is
  decisive (it succeeds, its error is terminal, or the context is done) or the retries
  are used up, and the result of \<open>Send\<close> is the outcome of exactly that last attempt.
\<close>

theorem send_returns_last_attempt:
  assumes "encodeSnapshot nt snap = Inr (compressed, n)"
    and "\<not> (0 <s maxCompressedBodyBytes c \<and> maxCompressedBodyBytes c <s len compressed)"
    and "0 \<le> sint (MaxRetries (config c))" and "sint (MaxRetries (config c)) < 2 ^ 63 - 1"
  defines "outcome \<equiv> attempt_outcome nt (config c) (ClusterSnapshot.SnapshotID snap) compressed"
    and "ends \<equiv> decisive nt (config c) (ClusterSnapshot.SnapshotID snap) compressed"
  shows "\<exists>k \<le> nat (sint (MaxRetries (config c))).
       (\<forall>i < k. \<not> ends i) \<and> (ends k \<or> k = nat (sint (MaxRetries (config c))))
     \<and> fst (Send nt clk snap c) = (case outcome k of Inl e \<Rightarrow> Inl e | Inr r \<Rightarrow> Inr (Some r))"
proof -
  let ?sid = "ClusterSnapshot.SnapshotID snap" and ?max = "max_attempts (config c)"
  let ?s0 = "\<lparr>result = None, lastErr = None, requests = [], sleeps = [], send_metrics = metrics c\<rparr>"
  have max: "?max = Suc (nat (sint (MaxRetries (config c))))" using assms(3,4) by (rule max_attempts_Suc)
  obtain m where m: "m \<le> ?max" "attempts ends ?max 0 = [0..<m]" "m > 0" "\<forall>i. Suc i < m \<longrightarrow> \<not> ends i" "m = ?max \<or> ends (m - 1)"
    using attempts_upt [of ?max ends 0] max by auto
  have "last (attempts ends ?max 0) = m - 1" using m(2,3) by (cases m) simp_all
  with send_loop_outcome [of ?max ?s0 nt "config c" ?sid compressed 0] max
  have "case outcome (m - 1) of
      Inl e \<Rightarrow> lastErr (send_loop nt (config c) ?sid compressed ?max 0 ?s0) = Some e
    | Inr r \<Rightarrow> lastErr (send_loop nt (config c) ?sid compressed ?max 0 ?s0) = None \<and>
               result (send_loop nt (config c) ?sid compressed ?max 0 ?s0) = Some r"
    unfolding outcome_def ends_def by (auto split: sum.splits)
  then have "fst (Send nt clk snap c) = (case outcome (m - 1) of Inl e \<Rightarrow> Inl e | Inr r \<Rightarrow> Inr (Some r))"
    using assms(1,2) by (auto simp: Send_def Let_def split: sum.splits)
  moreover have "\<forall>i < m - 1. \<not> ends i" using m(4) by auto
  ultimately show ?thesis using m(1,3,5) max by (intro exI [of _ "m - 1"]) auto
qed

theorem send_returns_last_attempt_witness:
  "let c = NewClient (Load (\<lambda>_. '''')) None None;
       clk = \<lparr>send_start = 0, encode_start = 0, encode_end = 0, send_end = 0, report_time = 0\<rparr>
   in fst (Send (constant_net 200) clk zero_ClusterSnapshot c) = Inr (Some zero_SnapshotResponse)"
proof -
  let ?c = "NewClient (Load (\<lambda>_. '''')) None None"
  let ?clk = "\<lparr>send_start = 0, encode_start = 0, encode_end = 0, send_end = 0, report_time = 0\<rparr>"
  have h: "encodeSnapshot (constant_net 200) zero_ClusterSnapshot = Inr (''{}'', 2)"
    "\<not> (0 <s maxCompressedBodyBytes ?c \<and> maxCompressedBodyBytes ?c <s len ''{}'')"
    "0 \<le> sint (MaxRetries (config ?c))" "sint (MaxRetries (config ?c)) < 2 ^ 63 - 1"
    by (simp_all add: encodeSnapshot_def Write_def NewCountingWriter_def Count_def constant_net_def len_def NewClient_def
        Load_def parseInt_def parseInt64_def Let_def word_sless_alt)
  have ok: "attempt_outcome (constant_net 200) (config ?c) (ClusterSnapshot.SnapshotID zero_ClusterSnapshot) ''{}'' k = Inr zero_SnapshotResponse" for k
    by (simp add: attempt_outcome_def doSend_def constant_net_def WithAuth_def ParseResponse_def Let_def)
  show ?thesis using send_returns_last_attempt [OF h, of ?clk] unfolding Let_def ok by auto
qed



text \<open>
  A snapshot that cannot be encoded or is over the size limit is never posted, and the
  failure is visible to the caller only: the client, with its metrics and its error
  collector, is unchanged. The error of an oversize snapshot is a terminal one.
\<close>

theorem unsendable_snapshots_stay_local:
  assumes "(\<exists>e. encodeSnapshot nt snap = Inl e) \<or>
     (\<exists>compressed n. encodeSnapshot nt snap = Inr (compressed, n) \<and>
        0 <s maxCompressedBodyBytes c \<and> maxCompressedBodyBytes c <s len compressed)"
  shows "\<exists>e. Send nt clk snap c = (Inl e, c, [], []) \<and> (encodeSnapshot nt snap = Inl e \<or> isNonRetryableError e)"
  using assms by (auto simp: Send_def isNonRetryableError_def ErrPayloadTooLarge_def)

theorem unsendable_snapshots_stay_local_witness:
  "let c = NewClient ((Load (\<lambda>_. ''''))\<lparr>MaxCompressedBodyBytes := 1\<rparr>) None None;
       clk = \<lparr>send_start = 0, encode_start = 0, encode_end = 0, send_end = 0, report_time = 0\<rparr>
   in \<exists>e. Send (constant_net 200) clk zero_ClusterSnapshot c = (Inl e, c, [], [])"
proof -
  let ?c = "NewClient ((Load (\<lambda>_. ''''))\<lparr>MaxCompressedBodyBytes := 1\<rparr>) None None"
  let ?clk = "\<lparr>send_start = 0, encode_start = 0, encode_end = 0, send_end = 0, report_time = 0\<rparr>"
  have "encodeSnapshot (constant_net 200) zero_ClusterSnapshot = Inr (''{}'', 2)"
    by (simp add: encodeSnapshot_def Write_def NewCountingWriter_def Count_def constant_net_def len_def)
  moreover have "0 <s maxCompressedBodyBytes ?c" "maxCompressedBodyBytes ?c <s len ''{}''"
    by (simp_all add: NewClient_def len_def word_sless_alt)
  ultimately show ?thesis
    using unsendable_snapshots_stay_local [of "constant_net 200" zero_ClusterSnapshot ?c ?clk] unfolding Let_def by blast
qed

text \<open>
  With the largest value of \<^verbatim>\<open>KUBEADAPT_MAX_RETRIES\<close>, which the validation accepts, the
  number of attempts overflows: the loop never runs, nothing is sent, and \<open>Send\<close> returns
  success without a response and counts a successful send.
\<close>

theorem max_retries_overflow_sends_nothing:
  fixes c :: Client
  assumes "MaxRetries (config c) = 2 ^ 63 - 1" and "encodeSnapshot nt snap = Inr (compressed, n)"
    and "\<not> (0 <s maxCompressedBodyBytes c \<and> maxCompressedBodyBytes c <s len compressed)"
    and "metrics c = Some m"
  shows "\<exists>c'. Send nt clk snap c = (Inr None, c', [], [])
     \<and> (\<exists>m'. metrics c' = Some m' \<and> last (calls m') = Inc (SnapshotSendTotal ''success''))"
proof -
  have "max_attempts (config c) = 0" by (simp add: max_attempts_def assms(1))
  with assms(2-4) show ?thesis by (auto simp: Send_def Let_def with_metrics_def)
qed

theorem max_retries_overflow_sends_nothing_witness:
  "let cfg = (Load (\<lambda>_. ''k''))\<lparr>MaxRetries := 2 ^ 63 - 1, MaxCompressedBodyBytes := 100\<rparr>; c = NewClient cfg (Some NewMetrics) None;
       clk = \<lparr>send_start = 0, encode_start = 0, encode_end = 0, send_end = 0, report_time = 0\<rparr>
   in fst (Send (constant_net 200) clk zero_ClusterSnapshot c) = Inr None"
proof -
  let ?c = "NewClient ((Load (\<lambda>_. ''k''))\<lparr>MaxRetries := 2 ^ 63 - 1, MaxCompressedBodyBytes := 100\<rparr>) (Some NewMetrics) None"
  let ?clk = "\<lparr>send_start = 0, encode_start = 0, encode_end = 0, send_end = 0, report_time = 0\<rparr>"
  have h: "MaxRetries (config ?c) = 2 ^ 63 - 1" "encodeSnapshot (constant_net 200) zero_ClusterSnapshot = Inr (''{}'', 2)"
    "\<not> (0 <s maxCompressedBodyBytes ?c \<and> maxCompressedBodyBytes ?c <s len ''{}'')" "metrics ?c = Some NewMetrics"
    by (simp_all add: NewClient_def encodeSnapshot_def Write_def NewCountingWriter_def Count_def constant_net_def len_def word_sless_alt)
  show ?thesis using max_retries_overflow_sends_nothing [OF h, of ?clk] unfolding Let_def by auto
qed

text \<open>
  The waits double from one second: up to the 34th they are exactly $2^k$ seconds, so that
  $n$ retries wait $2^n - 1$ seconds in all; the 35th overflows to a negative duration, which does
  not wait.
\<close>

theorem backoff_doubles_then_overflows:
  "(\<forall>k \<le> 33. sint (sleepWithBackoff k) = 2 ^ k * 1000000000)
 \<and> (\<forall>n \<le> 34. sum_list (map (\<lambda>k. sint (sleepWithBackoff k)) [0..<n]) = (2 ^ n - 1) * 1000000000)
 \<and> sint (sleepWithBackoff 34) < 0"
proof -
  have exact: "sint (sleepWithBackoff k) = 2 ^ k * 1000000000" if "k \<le> 33" for k
  proof -
    have "(2::int) ^ k \<le> 2 ^ 33" using that by (rule power_increasing) simp
    then have up: "2 ^ k * 1000000000 < (2::int) ^ 63" by simp
    have low: "- (2 ^ 63) \<le> (2::int) ^ k * 1000000000" by (rule order_trans [of _ 0]) simp_all
    have "sint (word_of_int (2 ^ k * 1000000000) :: int64) = 2 ^ k * 1000000000"
      by (rule sint_word_of_int_range [OF low up])
    then show ?thesis by (simp add: sleepWithBackoff_def Second_def)
  qed
  moreover have "sum_list (map (\<lambda>k. sint (sleepWithBackoff k)) [0..<n]) = (2 ^ n - 1) * 1000000000" if "n \<le> 34" for n
    using that by (induction n) (simp_all add: exact algebra_simps)
  moreover have "sint (sleepWithBackoff 34) < 0" by (simp add: sleepWithBackoff_def Second_def)
  ultimately show ?thesis by blast
qed

theorem backoff_doubles_then_overflows_witness:
  "sint (sleepWithBackoff 4) = 16 * 1000000000"
  using conjunct1 [OF backoff_doubles_then_overflows, rule_format, of 4] by simp

end
