(* ===== verification/Registry.thy ===== *)
theory Registry
  imports Float64
begin

text \<open>
  \<^verbatim>\<open>internal/collector\<close>: the interfaces of a collector and the registry that starts, watches
  and stops all of them. A collector is the answers it gives to the registry: the errors
  of \<^verbatim>\<open>Start\<close> and \<^verbatim>\<open>WaitForSync\<close>, and its answers to the optional interfaces, \<open>None\<close> where it
  does not implement one. The registry's goroutines finish in an order of their own,
  which is a parameter.
\<close>

section \<open>Collectors and the registry\<close>

record Collector =
  Name :: string
  Start :: "goerror option"
  Collector_WaitForSync :: "goerror option"
  IsHealthy :: "(bool \<times> string) option"
  APICallStats :: "(int64 \<times> int64) option"
  DCGMTargetStats :: "(goint \<times> goint) option"

record Registry =
  collectors :: "Collector list"
  started :: bool

definition NewRegistry :: Registry where
  "NewRegistry = \<lparr>collectors = [], started = False\<rparr>"

definition Register :: "Collector \<Rightarrow> Registry \<Rightarrow> Registry" where
  "Register c r = r\<lparr>collectors := collectors r @ [c]\<rparr>"

text \<open>The two errors of \<^verbatim>\<open>StartAll\<close>.\<close>

datatype start_error =
    AllFailed nat
  | PartialStartError (Failed: "string list") (Total: goint)

definition arrivals :: "iter_order \<Rightarrow> 'a list \<Rightarrow> 'a list" where
  "arrivals ord xs = map (\<lambda>i. xs ! i) (ord (length xs))"

definition StartAll :: "iter_order \<Rightarrow> Registry \<Rightarrow> start_error option \<times> Registry" where
  "StartAll ord r =
    (let cs = collectors r; r' = r\<lparr>started := True\<rparr> in
     if cs = [] then (None, r')
     else
       let results = arrivals ord (map (\<lambda>c. (Name c, Start c)) cs);
           failedNames = foldl (\<lambda>ns (n, err). if err \<noteq> None then ns @ [n] else ns) [] results
       in if length failedNames = length cs then (Some (AllFailed (length failedNames)), r')
          else if failedNames \<noteq> [] then (Some (PartialStartError failedNames (len cs)), r')
          else (None, r'))"

fun first_error :: "goerror option list \<Rightarrow> goerror option" where
  "first_error [] = None"
| "first_error (None # es) = first_error es"
| "first_error (Some e # es) = Some (Errorf (''collector sync failed: '' @ error_text e) (Some e))"

definition WaitForSync :: "iter_order \<Rightarrow> Registry \<Rightarrow> goerror option" where
  "WaitForSync ord r =
     (if collectors r = [] then None else first_error (arrivals ord (map Collector_WaitForSync (collectors r))))"

text \<open>\<^verbatim>\<open>StopAll\<close>: the collectors whose \<^verbatim>\<open>Stop\<close> is called, in order.\<close>

definition StopAll :: "Registry \<Rightarrow> Collector list \<times> Registry" where
  "StopAll r = (if \<not> started r then ([], r) else (collectors r, r\<lparr>started := False\<rparr>))"

definition Collectors :: "Registry \<Rightarrow> Collector list" where
  "Collectors r = collectors r"

definition HealthReport :: "Registry \<Rightarrow> goint \<times> goint \<times> string list" where
  "HealthReport r =
    (let (healthy, stale) = foldl (\<lambda>(h, st) c.
        case IsHealthy c of
          Some (ok, reason) \<Rightarrow> if ok then (h + 1, st) else (h, st @ [Name c])
        | None \<Rightarrow> (h + 1, st)) (0, []) (collectors r)
     in (healthy, len (collectors r), stale))"

definition APICallReport :: "Registry \<Rightarrow> int64 \<times> int64" where
  "APICallReport r =
     foldl (\<lambda>(total, failed) c. case APICallStats c of Some (t, f) \<Rightarrow> (total + t, failed + f) | None \<Rightarrow> (total, failed))
       (0, 0) (collectors r)"

fun first_targets :: "Collector list \<Rightarrow> goint \<times> goint" where
  "first_targets [] = (0, 0)"
| "first_targets (c # cs) = (case DCGMTargetStats c of Some s \<Rightarrow> s | None \<Rightarrow> first_targets cs)"

definition DCGMTargetReport :: "Registry \<Rightarrow> goint \<times> goint" where
  "DCGMTargetReport r = first_targets (collectors r)"

section \<open>Lemmas\<close>

lemma arrivals_mset: "order_ok ord \<Longrightarrow> mset (arrivals ord xs) = mset xs"
proof -
  assume "order_ok ord"
  then have "mset (arrivals ord xs) = image_mset ((!) xs) (mset [0..<length xs])"
    by (simp add: arrivals_def order_ok_def)
  also have "\<dots> = mset (map ((!) xs) [0..<length xs])" by (simp only: mset_map)
  also have "\<dots> = mset xs" by (simp add: map_nth)
  finally show ?thesis .
qed

lemma foldl_failed:
  "foldl (\<lambda>ns (n, err). if err \<noteq> None then ns @ [n] else ns) acc rs = acc @ map fst (filter (\<lambda>(n, err). err \<noteq> None) rs)"
  by (induction rs arbitrary: acc) auto

definition failing :: "Collector \<Rightarrow> bool" where
  "failing c \<longleftrightarrow> Start c \<noteq> None"

lemma failed_mset:
  assumes "order_ok ord"
  shows "mset (map fst (filter (\<lambda>(n, err). err \<noteq> None) (arrivals ord (map (\<lambda>c. (Name c, Start c)) cs)))) =
         mset (map Name (filter failing cs))"
proof -
  have "mset (map fst (filter (\<lambda>(n, err). err \<noteq> None) (arrivals ord (map (\<lambda>c. (Name c, Start c)) cs)))) =
      image_mset fst (filter_mset (\<lambda>(n, err). err \<noteq> None) (mset (map (\<lambda>c. (Name c, Start c)) cs)))"
    by (simp only: mset_map mset_filter arrivals_mset [OF assms])
  also have "\<dots> = mset (map fst (filter (\<lambda>(n, err). err \<noteq> None) (map (\<lambda>c. (Name c, Start c)) cs)))"
    by simp
  also have "map fst (filter (\<lambda>(n, err). err \<noteq> None) (map (\<lambda>c. (Name c, Start c)) cs)) = map Name (filter failing cs)"
    by (simp add: filter_map comp_def failing_def [abs_def])
  finally show ?thesis .
qed

lemma HealthReport_fold:
  "foldl (\<lambda>(h, st) c. case IsHealthy c of Some (ok, reason) \<Rightarrow> if ok then (h + 1, st) else (h, st @ [Name c]) | None \<Rightarrow> (h + 1, st))
     (h, st) cs =
   (h + len (filter (\<lambda>c. \<forall>r. IsHealthy c \<noteq> Some (False, r)) cs), st @ map Name (filter (\<lambda>c. \<exists>r. IsHealthy c = Some (False, r)) cs))"
  by (induction cs arbitrary: h st) (auto simp: len_def split: option.splits)

section \<open>Properties\<close>

text \<open>
  Whatever order the collectors come up in, \<open>StartAll\<close> reports no error when all start, a
  \<open>PartialStartError\<close> with exactly the names of those that fail when some do, and the
  other error only when every collector fails.
\<close>

theorem start_error_classified:
  assumes "order_ok ord" and "StartAll ord r = (err, r')"
  shows "(err = None \<longleftrightarrow> (\<forall>c \<in> set (collectors r). Start c = None))
     \<and> (\<forall>names n. err = Some (PartialStartError names n) \<longrightarrow>
          mset names = mset (map Name (filter failing (collectors r))) \<and> n = len (collectors r))
     \<and> ((\<exists>n. err = Some (AllFailed n)) \<longleftrightarrow> collectors r \<noteq> [] \<and> (\<forall>c \<in> set (collectors r). Start c \<noteq> None))
     \<and> r' = r\<lparr>started := True\<rparr>"
proof (cases "collectors r = []")
  case True
  with assms(2) show ?thesis by (auto simp: StartAll_def)
next
  case False
  let ?cs = "collectors r"
  define ns where "ns = map fst (filter (\<lambda>(n, err). err \<noteq> None) (arrivals ord (map (\<lambda>c. (Name c, Start c)) ?cs)))"
  have names: "mset ns = mset (map Name (filter failing ?cs))" unfolding ns_def by (rule failed_mset [OF assms(1)])
  have len: "length ns = length (filter failing ?cs)" using arg_cong [OF names, of size] by (simp only: size_mset length_map)
  have all: "length (filter failing ?cs) = length ?cs \<longleftrightarrow> (\<forall>c \<in> set ?cs. Start c \<noteq> None)"
    using length_filter_less [of _ ?cs failing] by (fastforce simp: failing_def)
  have none: "filter failing ?cs = [] \<longleftrightarrow> (\<forall>c \<in> set ?cs. Start c = None)"
    by (auto simp: filter_empty_conv failing_def)
  have err: "(err, r') = (if length ns = length ?cs then (Some (AllFailed (length ns)), r\<lparr>started := True\<rparr>)
      else if ns \<noteq> [] then (Some (PartialStartError ns (Go_Prelude.len ?cs)), r\<lparr>started := True\<rparr>) else (None, r\<lparr>started := True\<rparr>))"
    using assms(2) False unfolding StartAll_def Let_def foldl_failed append_Nil ns_def [symmetric] by simp
  have e: "ns = [] \<longleftrightarrow> filter failing ?cs = []" unfolding length_0_conv [symmetric] len ..
  consider "length (filter failing ?cs) = length ?cs" | "length (filter failing ?cs) \<noteq> length ?cs" "filter failing ?cs \<noteq> []"
    | "filter failing ?cs = []" by blast
  then show ?thesis
  proof cases
    case 1
    with False have "filter failing ?cs \<noteq> []" by auto
    moreover from 1 err len have "err = Some (AllFailed (length ns))" "r' = r\<lparr>started := True\<rparr>" by simp_all
    ultimately show ?thesis using 1 all none False by auto
  next
    case 2
    with err len e have "err = Some (PartialStartError ns (Go_Prelude.len ?cs))" "r' = r\<lparr>started := True\<rparr>" by simp_all
    with 2 all none names show ?thesis by auto
  next
    case 3
    with False have "length (filter failing ?cs) \<noteq> length ?cs" by simp
    moreover from this 3 err len e have "err = None" "r' = r\<lparr>started := True\<rparr>" by simp_all
    ultimately show ?thesis using 3 all none by auto
  qed
qed
theorem start_error_classified_witness:
  "let c = (\<lambda>n e. \<lparr>Name = n, Start = e, Collector_WaitForSync = None, IsHealthy = None, APICallStats = None, DCGMTargetStats = None\<rparr>);
       r = Register (c ''vpas'' (Some (Errorf ''no CRD'' None))) (Register (c ''pods'' None) NewRegistry)
   in fst (StartAll (\<lambda>n. rev [0..<n]) r) = Some (PartialStartError [''vpas''] 2)"
proof -
  let ?c = "\<lambda>n e. \<lparr>Name = n, Start = e, Collector_WaitForSync = None, IsHealthy = None, APICallStats = None, DCGMTargetStats = None\<rparr>"
  let ?r = "Register (?c ''vpas'' (Some (Errorf ''no CRD'' None))) (Register (?c ''pods'' None) NewRegistry)"
  have cs: "collectors ?r = [?c ''pods'' None, ?c ''vpas'' (Some (Errorf ''no CRD'' None))]"
    by (simp add: Register_def NewRegistry_def)
  obtain err r' where s: "StartAll (\<lambda>n. rev [0..<n]) ?r = (err, r')" by (cases "StartAll (\<lambda>n. rev [0..<n]) ?r")
  note t = start_error_classified [OF backward_order_ok s]
  then have "err \<noteq> None" and "\<not> (\<exists>n. err = Some (AllFailed n))" unfolding cs by auto
  then obtain names n where e: "err = Some (PartialStartError names n)" by (cases err; cases "the err") auto
  with t have "mset names = mset [''vpas'']" "n = 2" unfolding cs by (auto simp: failing_def len_def)
  then show ?thesis unfolding Let_def s e by simp
qed

text \<open>
  The health report covers every registered collector once: the healthy ones are counted,
  the others named, and the two add up to the total; a collector without a health check
  counts as healthy. A second \<open>StopAll\<close> stops nothing.
\<close>

theorem health_report_covers_collectors:
  "case HealthReport r of (healthy, n, stale) \<Rightarrow>
     healthy + len stale = n
   \<and> stale = map Name (filter (\<lambda>c. \<exists>reason. IsHealthy c = Some (False, reason)) (collectors r))
   \<and> fst (StopAll (snd (StopAll r))) = []"
proof -
  have "length (filter (\<lambda>c. \<forall>r. IsHealthy c \<noteq> Some (False, r)) cs) + length (filter (\<lambda>c. \<exists>r. IsHealthy c = Some (False, r)) cs) = length cs" for cs
    using sum_length_filter_compl [of "\<lambda>c. \<exists>r. IsHealthy c = Some (False, r)" cs] by (simp add: add.commute)
  from this [of "collectors r"] show ?thesis
    unfolding HealthReport_def HealthReport_fold
    by (simp add: len_def StopAll_def flip: of_nat_add)
qed

end
