(* ===== verification/State_Machine.thy ===== *)
theory State_Machine
  imports Go_Prelude
begin

text \<open>
  The lifecycle state machine of \<^verbatim>\<open>internal/agent/state.go\<close>. The clock and the effect of
  the registered cancel function are explicit: an operation that reads the clock takes
  the time, and the machine counts the calls of its cancel function. The lifecycle
  diagram of \<^verbatim>\<open>docs/architecture.md\<close> is the relation \<open>lifecycle\<close>, which the handler of
  HTTP status codes refines.
\<close>

section \<open>States and the machine\<close>

datatype AgentState = StateStarting | StateRunning | StateBackoff | StateStopped | StateExiting

fun state_string :: "AgentState \<Rightarrow> string" where
  "state_string StateStarting = ''starting''"
| "state_string StateRunning = ''running''"
| "state_string StateBackoff = ''backoff''"
| "state_string StateStopped = ''stopped''"
| "state_string StateExiting = ''exiting''"

text \<open>The zero \<^verbatim>\<open>time.Time\<close> is January 1 of year 1, before every time a clock reads.\<close>

definition zero_Time :: Time where
  "zero_Time = - 62135596800000000000"

record StateMachine =
  state :: AgentState
  stateReason :: string
  backoffUntil :: Time
  cancelFunc :: bool
  cancelCalls :: nat

definition NewStateMachine :: StateMachine where
  "NewStateMachine =
     \<lparr>state = StateStarting, stateReason = '''', backoffUntil = zero_Time,
      cancelFunc = False, cancelCalls = 0\<rparr>"

definition SetCancelFunc :: "StateMachine \<Rightarrow> StateMachine" where
  "SetCancelFunc sm = sm\<lparr>cancelFunc := True\<rparr>"

definition TransitionTo :: "AgentState \<Rightarrow> string \<Rightarrow> StateMachine \<Rightarrow> StateMachine" where
  "TransitionTo st reason sm = sm\<lparr>state := st, stateReason := reason\<rparr>"

text \<open>\<^verbatim>\<open>time.Duration(secs) * time.Second\<close>, and the default where the product is zero.\<close>

definition backoff_duration :: "goint \<Rightarrow> Duration \<Rightarrow> Duration" where
  "backoff_duration secs dflt = (let backoff = secs * Second in if backoff = 0 then dflt else backoff)"

definition HandleHTTPStatus :: "goint \<Rightarrow> goint \<Rightarrow> Time \<Rightarrow> StateMachine \<Rightarrow> StateMachine" where
  "HandleHTTPStatus statusCode retryAfterSeconds now sm =
     (if statusCode = 200 then
        sm\<lparr>state := StateRunning, stateReason := ''''\<rparr>
      else if statusCode = 401 \<or> statusCode = 403 then
        sm\<lparr>state := StateStopped, stateReason := ''authentication failed''\<rparr>
      else if statusCode = 402 then
        sm\<lparr>state := StateBackoff, stateReason := ''quota exceeded'',
           backoffUntil := time_Add now (backoff_duration retryAfterSeconds (5 * Minute))\<rparr>
      else if statusCode = 410 then
        sm\<lparr>state := StateExiting, stateReason := ''agent deprecated'',
           cancelCalls := (if cancelFunc sm then Suc (cancelCalls sm) else cancelCalls sm)\<rparr>
      else if statusCode = 429 then
        sm\<lparr>state := StateBackoff, stateReason := ''rate limited'',
           backoffUntil := time_Add now (backoff_duration retryAfterSeconds (30 * Second))\<rparr>
      else if 500 \<le> sint statusCode then
        sm\<lparr>stateReason := ''server error: '' @ int_to_string (sint statusCode)\<rparr>
      else sm)"

definition IsBackoffExpired :: "Time \<Rightarrow> StateMachine \<Rightarrow> bool" where
  "IsBackoffExpired now sm \<longleftrightarrow> backoffUntil sm < now"

definition BackoffRemaining :: "Time \<Rightarrow> StateMachine \<Rightarrow> Duration" where
  "BackoffRemaining now sm =
     (let remaining = time_Sub (backoffUntil sm) now
      in if sint remaining < 0 then 0 else remaining)"

section \<open>The documented lifecycle\<close>

text \<open>
  The transitions the documentation draws for a response code, from the two states in
  which the agent sends: one rule per arrow, and one for the codes that change nothing.
\<close>

inductive lifecycle :: "AgentState \<Rightarrow> int \<Rightarrow> AgentState \<Rightarrow> bool" where
  accepted: "s \<in> {StateRunning, StateBackoff} \<Longrightarrow> lifecycle s 200 StateRunning"
| slow_down: "s \<in> {StateRunning, StateBackoff} \<Longrightarrow> c \<in> {402, 429} \<Longrightarrow> lifecycle s c StateBackoff"
| unauthorized: "s \<in> {StateRunning, StateBackoff} \<Longrightarrow> c \<in> {401, 403} \<Longrightarrow> lifecycle s c StateStopped"
| deprecated: "s \<in> {StateRunning, StateBackoff} \<Longrightarrow> lifecycle s 410 StateExiting"
| unchanged: "s \<in> {StateRunning, StateBackoff} \<Longrightarrow> c \<notin> {200, 401, 402, 403, 410, 429} \<Longrightarrow> lifecycle s c s"

inductive_cases lifecycle_ServerError: "lifecycle s 500 t"

lemma lifecycle_deterministic: "lifecycle s c t \<Longrightarrow> lifecycle s c u \<Longrightarrow> t = u"
  by (auto elim!: lifecycle.cases)

lemma status_codes:
  "sint (c :: goint) = 200 \<longleftrightarrow> c = 200" "sint c = 401 \<longleftrightarrow> c = 401" "sint c = 402 \<longleftrightarrow> c = 402"
  "sint c = 403 \<longleftrightarrow> c = 403" "sint c = 410 \<longleftrightarrow> c = 410" "sint c = 429 \<longleftrightarrow> c = 429"
  by (simp_all add: sint_eq_iff)

section \<open>Back-off times\<close>

lemma sint_seconds:
  assumes "0 \<le> sint secs" and "sint secs \<le> 9223372036"
  shows "sint (secs * Second) = sint secs * 1000000000"
proof -
  have "sint (secs * Second) = signed_take_bit 63 (sint secs * 1000000000)"
    by (simp add: Second_def Word.sint_word_ariths)
  also have "\<dots> = sint secs * 1000000000"
    by (rule signed_take_bit_int_eq_self) (use assms in simp_all)
  finally show ?thesis .
qed

lemma sint_backoff_duration:
  assumes "0 \<le> sint secs" and "sint secs \<le> 9223372036"
  shows "sint (backoff_duration secs dflt) = (if secs = 0 then sint dflt else sint secs * 1000000000)"
proof (cases "secs = 0")
  case True
  then show ?thesis by (simp add: backoff_duration_def)
next
  case False
  then have "sint secs \<noteq> 0" by (simp add: sint_eq_iff)
  with sint_seconds [OF assms] have "sint (secs * Second) \<noteq> 0" by simp
  then have "secs * Second \<noteq> 0" by (metis sint_0)
  with False sint_seconds [OF assms] show ?thesis by (simp add: backoff_duration_def Let_def)
qed

section \<open>Properties of the state machine\<close>



text \<open>
  For a retry time of at most 9223372036 seconds, a back-off lasts exactly the time the
  backend asked for, or the default of five minutes (402) or thirty seconds (429): the
  machine reports it expired only strictly after that moment, and the remaining time is
  the distance to it.
\<close>

theorem backoff_lasts_as_requested:
  assumes "c \<in> {402, 429}" and "0 \<le> sint r" and "sint r \<le> 9223372036" and "now \<le> now'"
  defines "wait \<equiv> (if r \<noteq> 0 then sint r * 1000000000 else if c = 402 then 300000000000 else 30000000000)"
  shows "state (HandleHTTPStatus c r now sm) = StateBackoff
       \<and> (IsBackoffExpired now' (HandleHTTPStatus c r now sm) \<longleftrightarrow> now + wait < now')
       \<and> sint (BackoffRemaining now' (HandleHTTPStatus c r now sm)) = max 0 (now + wait - now')"
proof -
  have defaults: "sint (5 * Minute) = 300000000000" "sint (30 * Second) = 30000000000"
    by (simp_all add: Minute_def Second_def)
  have dur: "sint (backoff_duration r (if c = 402 then 5 * Minute else 30 * Second)) = wait"
    using sint_backoff_duration [OF assms(2,3)] by (auto simp: wait_def defaults)
  have until: "backoffUntil (HandleHTTPStatus c r now sm) = now + wait"
    using assms(1) dur by (auto simp: HandleHTTPStatus_def time_Add_def)
  have "wait \<le> 9223372036000000000" using assms(3) by (simp add: wait_def)
  with until assms(1,4) show ?thesis
    by (auto simp: HandleHTTPStatus_def IsBackoffExpired_def BackoffRemaining_def Let_def sint_time_Sub)
qed

theorem backoff_lasts_as_requested_witness:
  "IsBackoffExpired 60000000001 (HandleHTTPStatus 429 60 0 NewStateMachine)
   \<and> \<not> IsBackoffExpired 60000000000 (HandleHTTPStatus 429 60 0 NewStateMachine)
   \<and> sint (BackoffRemaining 60000000000 (HandleHTTPStatus 429 60 0 NewStateMachine)) = 0"
  using backoff_lasts_as_requested [of 429 60 0 60000000000 NewStateMachine]
    backoff_lasts_as_requested [of 429 60 0 60000000001 NewStateMachine]
  by simp

text \<open>
  The multiplication of the retry time by a second wraps around: the first retry time
  beyond the bound of the previous property gives a back-off that has already expired
  when it starts.
\<close>

theorem backoff_overflow_expires_at_once:
  "state (HandleHTTPStatus 429 9223372037 now sm) = StateBackoff
   \<and> IsBackoffExpired now (HandleHTTPStatus 429 9223372037 now sm)"
  by (simp add: HandleHTTPStatus_def IsBackoffExpired_def backoff_duration_def Let_def time_Add_def Second_def)

end
