(* ===== verification/Agent.thy ===== *)
theory Agent
  imports Builder Transport Registry State_Machine
begin

text \<open>
  \<^verbatim>\<open>internal/agent\<close>: the orchestrator. It starts the collectors, waits for their first
  synchronisation and then, on every tick, builds a snapshot, fills in its health report
  and sends it. The metrics and the error collector, which the agent, the builder and the
  client share by pointer, are fields of the agent that each call is given and gives back.
  What a run meets from outside (the stores, the network, the clock, the collectors'
  answers) is in a \<open>snap_env\<close> per snapshot; the ticker and the context are a list of events.
\<close>

section \<open>The agent\<close>

record Agent =
  config :: Config
  registry :: Registry
  builder :: SnapshotBuilder
  transport :: Client
  stateMachine :: StateMachine
  errorCollector :: ErrorCollector
  metrics :: Metrics
  latestSnapshot :: "ClusterSnapshot option"
  ready :: bool
  startedAt :: Time
  snapshotsSent :: uint64
  snapshotsFailed :: uint64
  snapshotsTotal :: uint64
  prevSnapshotsSent :: uint64
  prevSnapshotsFailed :: uint64
  lastBuildMs :: int64
  lastSendMs :: int64

definition NewAgent ::
  "Config \<Rightarrow> Registry \<Rightarrow> SnapshotBuilder \<Rightarrow> Client \<Rightarrow> StateMachine \<Rightarrow> ErrorCollector \<Rightarrow> Metrics \<Rightarrow> Time \<Rightarrow> Agent" where
  "NewAgent cfg reg b tr sm ec m now =
     \<lparr>config = cfg, registry = reg, builder = b, transport = tr, stateMachine = sm, errorCollector = ec, metrics = m,
      latestSnapshot = None, ready = False, startedAt = now, snapshotsSent = 0, snapshotsFailed = 0, snapshotsTotal = 0,
      prevSnapshotsSent = 0, prevSnapshotsFailed = 0, lastBuildMs = 0, lastSendMs = 0\<rparr>"

definition IsReady :: "Agent \<Rightarrow> bool" where
  "IsReady a = ready a"

definition LatestSnapshot :: "Agent \<Rightarrow> ClusterSnapshot option" where
  "LatestSnapshot a = latestSnapshot a"

text \<open>
  What one snapshot meets: \<open>env_registry\<close> is the registry with the answers its collectors give
  when the health report is filled in.
\<close>

record snap_env =
  env_view :: build_view
  env_net :: net
  env_registry :: Registry
  env_clock :: send_clock
  build_begin :: Time
  build_done :: Time
  health_time :: Time
  error_order :: iter_order
  code_order :: iter_order
  send_begin :: Time
  send_done :: Time
  status_time :: Time

text \<open>\<^verbatim>\<open>int64(d / time.Second)\<close> truncates towards zero.\<close>

definition whole_seconds :: "Duration \<Rightarrow> int64" where
  "whole_seconds d = word_of_int (sgn (sint d) * (\<bar>sint d\<bar> div 1000000000))"

definition populateHealth :: "snap_env \<Rightarrow> ClusterSnapshot \<Rightarrow> Agent \<Rightarrow> ClusterSnapshot \<times> Agent" where
  "populateHealth e snap a =
    (let s = ClusterSnapshot.Summary snap; stats = LastSendStats (transport a); reg = env_registry e;
         h0 = ClusterSnapshot.Health snap;
         (targets, upTargets) = DCGMTargetReport reg;
         (healthy, regTotal, stale) = HealthReport reg;
         (apiTotal, apiFailed) = APICallReport reg;
         (activeErrors, ec1) = GetActiveErrors (error_order e) (health_time e) (errorCollector a);
         (codes, ec2) = GetActiveErrorCodes (code_order e) (health_time e) ec1;
         h = h0\<lparr>AgentHealth.SnapshotsSentTotal := snapshotsSent a,
                AgentHealth.SnapshotsFailedTotal := snapshotsFailed a,
                AgentHealth.SnapshotsTotalCount := snapshotsTotal a,
                AgentHealth.SnapshotsSentDelta := snapshotsSent a - prevSnapshotsSent a,
                AgentHealth.SnapshotsFailedDelta := snapshotsFailed a - prevSnapshotsFailed a,
                AgentHealth.State := state_string (state (stateMachine a)),
                AgentHealth.StateReason := stateReason (stateMachine a),
                AgentHealth.LastBuildDurationMs := lastBuildMs a,
                AgentHealth.LastSendDurationMs := lastSendMs a,
                AgentHealth.LastMetricsCollectDurationMs := LastMetricsCollectMs (metrics a),
                AgentHealth.OriginalSizeBytes := OriginalBytes stats,
                AgentHealth.CompressedSizeBytes := CompressedBytes stats,
                AgentHealth.EncodeDurationMs := SendStats.EncodeDurationMs stats,
                AgentHealth.CompressionFactor :=
                  (if 0 <s CompressedBytes stats
                   then f64_div (f64_of_int (sint (OriginalBytes stats))) (f64_of_int (sint (CompressedBytes stats)))
                   else AgentHealth.CompressionFactor h0),
                AgentHealth.NodeCount := ClusterSummary.NodeCount s,
                AgentHealth.PodCount := ClusterSummary.PodCount s,
                AgentHealth.ContainerCount := ClusterSummary.ContainerCount s,
                AgentHealth.WorkloadCount := ClusterSummary.DeploymentCount s + ClusterSummary.StatefulSetCount s +
                  ClusterSummary.DaemonSetCount s + ClusterSummary.JobCount s + ClusterSummary.CronJobCount s +
                  ClusterSummary.CustomWorkloadCount s,
                AgentHealth.ServiceCount := ClusterSummary.ServiceCount s,
                AgentHealth.HPACount := ClusterSummary.HPACount s,
                AgentHealth.PDBCount := len (ClusterSnapshot.PDBs snap),
                AgentHealth.PVCount := ClusterSummary.PVCount s,
                AgentHealth.MetricsServerAvailable := ClusterSummary.MetricsAvailable s,
                AgentHealth.GPUMetricsAvailable := ClusterSummary.GPUMetricsAvailable s,
                AgentHealth.VPAAvailable := (ClusterSnapshot.VPAs snap \<noteq> []),
                AgentHealth.KarpenterAvailable := (ClusterSnapshot.NodePools snap \<noteq> []),
                AgentHealth.DCGMExporterTargets := targets,
                AgentHealth.DCGMExporterUpTargets := upTargets,
                AgentHealth.InformersSynced := ready a,
                AgentHealth.InformersTotal := regTotal,
                AgentHealth.InformersHealthy := healthy,
                AgentHealth.StaleResources := stale,
                AgentHealth.APICallsTotal := apiTotal,
                AgentHealth.APICallsFailedCount := apiFailed,
                AgentHealth.ActiveErrorsCount := len activeErrors,
                AgentHealth.ErrorCodes := codes,
                AgentHealth.UptimeSeconds := whole_seconds (time_Sub (health_time e) (startedAt a)),
                AgentHealth.StartedAt := UnixMilli (startedAt a),
                AgentHealth.CollectedAt := UnixMilli (health_time e),
                AgentHealth.ChartVersion := Config.ChartVersion (config a),
                AgentHealth.HelmReleaseName := Config.HelmReleaseName (config a),
                AgentHealth.PodName := Config.PodName (config a),
                AgentHealth.PodNamespace := Config.PodNamespace (config a),
                AgentHealth.NodeName := Config.NodeName (config a)\<rparr>
     in (snap\<lparr>ClusterSnapshot.Health := h\<rparr>,
         a\<lparr>prevSnapshotsSent := snapshotsSent a, prevSnapshotsFailed := snapshotsFailed a, errorCollector := ec2\<rparr>))"

text \<open>\<^verbatim>\<open>a.builder.Build(ctx)\<close>, with the shared metrics.\<close>

definition agent_build :: "build_view \<Rightarrow> Agent \<Rightarrow> ClusterSnapshot \<times> Agent" where
  "agent_build v a =
    (let (snap, m) = Build ((builder a)\<lparr>SnapshotBuilder.metrics := Some (metrics a)\<rparr>) v
     in (snap, a\<lparr>metrics := (case m of Some m' \<Rightarrow> m' | None \<Rightarrow> metrics a)\<rparr>))"

text \<open>\<^verbatim>\<open>a.transport.Send(ctx, snap)\<close>, with the shared metrics and error collector.\<close>

definition agent_send :: "snap_env \<Rightarrow> ClusterSnapshot \<Rightarrow> Agent \<Rightarrow> (goerror + SnapshotResponse option) \<times> Agent" where
  "agent_send e snap a =
    (let (r, c, _) = Send (env_net e) (env_clock e) snap
           ((transport a)\<lparr>Client.metrics := Some (metrics a), Client.errorCollector := Some (errorCollector a)\<rparr>)
     in (r, a\<lparr>transport := c,
              metrics := (case Client.metrics c of Some m \<Rightarrow> m | None \<Rightarrow> metrics a),
              errorCollector := (case Client.errorCollector c of Some ec \<Rightarrow> ec | None \<Rightarrow> errorCollector a)\<rparr>))"

definition doSnapshot :: "snap_env \<Rightarrow> Agent \<Rightarrow> Agent" where
  "doSnapshot e a =
    (let (snap0, a1) = agent_build (env_view e) a;
         a2 = a1\<lparr>lastBuildMs := Milliseconds (time_Sub (build_done e) (build_begin e))\<rparr>;
         (snap, a3) = populateHealth e snap0 a2;
         a4 = a3\<lparr>latestSnapshot := Some snap\<rparr>;
         (r, a5) = agent_send e snap a4;
         a6 = a5\<lparr>lastSendMs := Milliseconds (time_Sub (send_done e) (send_begin e)), snapshotsTotal := snapshotsTotal a5 + 1\<rparr>
     in case r of
          Inl err \<Rightarrow> a6\<lparr>snapshotsFailed := snapshotsFailed a6 + 1\<rparr>
        | Inr resp \<Rightarrow>
            let a7 = a6\<lparr>snapshotsSent := snapshotsSent a6 + 1\<rparr> in
            if state (stateMachine a7) \<in> {StateStopped, StateExiting} then a7
            else a7\<lparr>stateMachine := HandleHTTPStatus 200 0 (status_time e) (stateMachine a7)\<rparr>)"

text \<open>\<^verbatim>\<open>logStoreCounts\<close> builds a snapshot for its log line only.\<close>

definition logStoreCounts :: "build_view \<Rightarrow> Agent \<Rightarrow> Agent" where
  "logStoreCounts v a = snd (agent_build v a)"

section \<open>The main loop\<close>

datatype event = Tick Time snap_env | CtxDone goerror

datatype run_result = StillRunning | Returned "goerror option"

text \<open>One iteration of the loop after an event: the agent, and the result if the loop returns.\<close>

definition loop_step :: "event \<Rightarrow> Agent \<Rightarrow> Agent \<times> run_result" where
  "loop_step ev a =
    (case ev of
       CtxDone err \<Rightarrow> (a, Returned (Some err))
     | Tick now e \<Rightarrow>
         let check = (\<lambda>a. if state (stateMachine a) \<in> {StateStopped, StateExiting} then (a, Returned None) else (a, StillRunning)) in
         (case state (stateMachine a) of
            StateRunning \<Rightarrow> check (doSnapshot e a)
          | StateBackoff \<Rightarrow>
              if IsBackoffExpired now (stateMachine a)
              then check (doSnapshot e (a\<lparr>stateMachine := TransitionTo StateRunning ''backoff expired'' (stateMachine a)\<rparr>))
              else check a
          | StateStopped \<Rightarrow> (a, Returned None)
          | StateExiting \<Rightarrow> (a, Returned None)
          | StateStarting \<Rightarrow> check a))"

fun run_loop :: "event list \<Rightarrow> Agent \<Rightarrow> Agent \<times> run_result" where
  "run_loop [] a = (a, StillRunning)"
| "run_loop (ev # evs) a =
     (case loop_step ev a of (a', StillRunning) \<Rightarrow> run_loop evs a' | r \<Rightarrow> r)"

record run_env =
  start_order :: iter_order
  sync_order :: iter_order
  sync_time :: Time
  counts_view :: build_view
  first_env :: snap_env

text \<open>\<^verbatim>\<open>d.String()\<close>: hours, minutes and seconds, or one smaller unit, with a fraction without trailing zeros.\<close>

definition frac_text :: "nat \<Rightarrow> nat \<Rightarrow> string" where
  "frac_text prec v =
    (let ds = nat_to_string v; padded = replicate (prec - length ds) CHR ''0'' @ ds;
         kept = rev (dropWhile (\<lambda>c. c = CHR ''0'') (rev padded))
     in if kept = [] then [] else ''.'' @ kept)"

definition duration_String :: "Duration \<Rightarrow> string" where
  "duration_String d =
    (let u = nat \<bar>sint d\<bar>; s = u div 1000000000;
         text = (if u = 0 then ''0s''
                 else if u < 1000 then nat_to_string u @ ''ns''
                 else if u < 1000000 then nat_to_string (u div 1000) @ frac_text 3 (u mod 1000) @ [char_of (194::nat), char_of (181::nat), CHR ''s'']
                 else if u < 1000000000 then nat_to_string (u div 1000000) @ frac_text 6 (u mod 1000000) @ ''ms''
                 else (if s div 3600 > 0 then nat_to_string (s div 3600) @ ''h'' else []) @
                      (if s div 60 > 0 then nat_to_string (s div 60 mod 60) @ ''m'' else []) @
                      nat_to_string (s mod 60) @ frac_text 9 (u mod 1000000000) @ ''s'')
     in if sint d < 0 then ''-'' @ text else text)"

definition sync_error :: "Duration \<Rightarrow> goerror \<Rightarrow> Time \<Rightarrow> AgentError" where
  "sync_error timeout err now =
     \<lparr>Code = ErrInformerSyncTimeout,
      Message = ''informer sync timed out after '' @ duration_String timeout @ '': '' @ error_text err,
      Component = ''agent'', Timestamp = UnixMilli now, Err = Some err\<rparr>"

text \<open>Steps 2 and 3 of \<open>Run\<close>: wait for the first synchronisation, log the counts, become ready.\<close>

definition become_ready :: "run_env \<Rightarrow> Agent \<Rightarrow> Agent" where
  "become_ready e a =
    (let syncTimeout = (if InformerSyncTimeout (config a) = 0 then 5 * Minute else InformerSyncTimeout (config a));
         a3 = (case WaitForSync (sync_order e) (registry a) of
                 Some se \<Rightarrow> a\<lparr>errorCollector := Report (sync_error syncTimeout se (sync_time e)) (sync_time e) (errorCollector a)\<rparr>
               | None \<Rightarrow> a);
         a4 = logStoreCounts (counts_view e) a3
     in a4\<lparr>stateMachine := TransitionTo StateRunning ''informers synced'' (stateMachine a4), ready := True\<rparr>)"

text \<open>\<^verbatim>\<open>defer a.registry.StopAll()\<close>, once the loop returns.\<close>

definition stop_collectors :: "Agent \<times> run_result \<Rightarrow> Agent \<times> run_result" where
  "stop_collectors = (\<lambda>(a, r). (if r = StillRunning then a else a\<lparr>registry := snd (StopAll (registry a))\<rparr>, r))"

definition start_collectors :: "run_env \<Rightarrow> Agent \<Rightarrow> start_error option \<times> Agent" where
  "start_collectors e a0 =
    (let a1 = a0\<lparr>stateMachine := SetCancelFunc (stateMachine a0)\<rparr>;
         (err, reg) = StartAll (start_order e) (registry a1)
     in (err, a1\<lparr>registry := reg\<rparr>))"

definition Run :: "run_env \<Rightarrow> event list \<Rightarrow> Agent \<Rightarrow> Agent \<times> run_result" where
  "Run e evs a0 =
    (let (err, a2) = start_collectors e a0
     in case err of
          Some (AllFailed n) \<Rightarrow>
            (a2, Returned (Some (Errorf (''failed to start collectors: all '' @ nat_to_string n @ '' collectors failed to start'')
                                  (Some (Errorf (''all '' @ nat_to_string n @ '' collectors failed to start'') None)))))
        | _ \<Rightarrow> stop_collectors (run_loop evs (doSnapshot (first_env e) (become_ready e a2))))"

section \<open>Memory pressure\<close>

record MemoryPressureMonitor =
  threshold :: float64
  interval :: Duration
  mon_stopped :: bool

definition NewMemoryPressureMonitor :: "float64 \<Rightarrow> Duration \<Rightarrow> MemoryPressureMonitor" where
  "NewMemoryPressureMonitor thr iv = \<lparr>threshold = thr, interval = iv, mon_stopped = False\<rparr>"

text \<open>\<open>limit\<close> is the answer of \<^verbatim>\<open>debug.SetMemoryLimit(-1)\<close>; \<open>sys\<close> and \<open>released\<close> are of \<^verbatim>\<open>runtime.MemStats\<close>.\<close>

definition mon_check :: "int64 \<Rightarrow> uint64 \<Rightarrow> uint64 \<Rightarrow> MemoryPressureMonitor \<Rightarrow> bool" where
  "mon_check limit sys released m =
     (if limit <s 0 \<or> limit = 0 then False
      else f64_less (threshold m) (f64_div (f64_of_int (uint (sys - released))) (f64_of_int (sint limit))))"

text \<open>One turn of the polling loop: the number of times the callback has been called.\<close>

definition mon_tick :: "int64 \<Rightarrow> uint64 \<Rightarrow> uint64 \<Rightarrow> MemoryPressureMonitor \<Rightarrow> nat \<Rightarrow> nat" where
  "mon_tick limit sys released m n = (if \<not> mon_stopped m \<and> mon_check limit sys released m then Suc n else n)"

definition mon_Stop :: "MemoryPressureMonitor \<Rightarrow> MemoryPressureMonitor" where
  "mon_Stop m = m\<lparr>mon_stopped := True\<rparr>"

section \<open>What a snapshot leaves alone\<close>

lemma agent_build_fields [simp]:
  "stateMachine (snd (agent_build v a)) = stateMachine a"
  "snapshotsSent (snd (agent_build v a)) = snapshotsSent a"
  "snapshotsFailed (snd (agent_build v a)) = snapshotsFailed a"
  "snapshotsTotal (snd (agent_build v a)) = snapshotsTotal a"
  "prevSnapshotsSent (snd (agent_build v a)) = prevSnapshotsSent a"
  "prevSnapshotsFailed (snd (agent_build v a)) = prevSnapshotsFailed a"
  "registry (snd (agent_build v a)) = registry a"
  "latestSnapshot (snd (agent_build v a)) = latestSnapshot a"
  "ready (snd (agent_build v a)) = ready a"
  by (simp_all add: agent_build_def case_prod_unfold Let_def)

lemma agent_send_fields [simp]:
  "stateMachine (snd (agent_send e snap a)) = stateMachine a"
  "snapshotsSent (snd (agent_send e snap a)) = snapshotsSent a"
  "snapshotsFailed (snd (agent_send e snap a)) = snapshotsFailed a"
  "snapshotsTotal (snd (agent_send e snap a)) = snapshotsTotal a"
  "prevSnapshotsSent (snd (agent_send e snap a)) = prevSnapshotsSent a"
  "prevSnapshotsFailed (snd (agent_send e snap a)) = prevSnapshotsFailed a"
  "registry (snd (agent_send e snap a)) = registry a"
  "latestSnapshot (snd (agent_send e snap a)) = latestSnapshot a"
  "ready (snd (agent_send e snap a)) = ready a"
  by (simp_all add: agent_send_def case_prod_unfold Let_def)

lemma populateHealth_fields [simp]:
  "stateMachine (snd (populateHealth e snap a)) = stateMachine a"
  "snapshotsSent (snd (populateHealth e snap a)) = snapshotsSent a"
  "snapshotsFailed (snd (populateHealth e snap a)) = snapshotsFailed a"
  "snapshotsTotal (snd (populateHealth e snap a)) = snapshotsTotal a"
  "prevSnapshotsSent (snd (populateHealth e snap a)) = snapshotsSent a"
  "prevSnapshotsFailed (snd (populateHealth e snap a)) = snapshotsFailed a"
  "registry (snd (populateHealth e snap a)) = registry a"
  "ready (snd (populateHealth e snap a)) = ready a"
  by (simp_all add: populateHealth_def case_prod_unfold Let_def)

lemma populateHealth_Health [simp]:
  fixes snap :: ClusterSnapshot
  defines "h \<equiv> \<lambda>e snap a. ClusterSnapshot.Health (fst (populateHealth e snap a))"
  shows "AgentHealth.SnapshotsSentTotal (h e snap a) = snapshotsSent a"
    "AgentHealth.SnapshotsFailedTotal (h e snap a) = snapshotsFailed a"
    "AgentHealth.SnapshotsTotalCount (h e snap a) = snapshotsTotal a"
    "AgentHealth.SnapshotsSentDelta (h e snap a) = snapshotsSent a - prevSnapshotsSent a"
    "AgentHealth.SnapshotsFailedDelta (h e snap a) = snapshotsFailed a - prevSnapshotsFailed a"
    "AgentHealth.State (h e snap a) = state_string (state (stateMachine a))"
    "AgentHealth.StaleResources (h e snap a) = snd (snd (HealthReport (env_registry e)))"
  unfolding h_def by (simp_all add: populateHealth_def case_prod_unfold Let_def)

lemma HandleHTTPStatus_200 [simp]: "state (HandleHTTPStatus 200 0 t sm) = StateRunning"
  by (simp add: HandleHTTPStatus_def)

text \<open>The snapshot that is sent, and whether the send fails.\<close>

definition sent_snapshot :: "snap_env \<Rightarrow> Agent \<Rightarrow> ClusterSnapshot \<times> Agent" where
  "sent_snapshot e a =
    (let (snap0, a1) = agent_build (env_view e) a
     in populateHealth e snap0 (a1\<lparr>lastBuildMs := Milliseconds (time_Sub (build_done e) (build_begin e))\<rparr>))"

definition send_fails :: "snap_env \<Rightarrow> Agent \<Rightarrow> bool" where
  "send_fails e a \<longleftrightarrow>
     (\<exists>err. fst (agent_send e (fst (sent_snapshot e a)) ((snd (sent_snapshot e a))\<lparr>latestSnapshot := Some (fst (sent_snapshot e a))\<rparr>)) = Inl err)"

lemma doSnapshot_fields:
  "snapshotsTotal (doSnapshot e a) = snapshotsTotal a + 1"
  "snapshotsSent (doSnapshot e a) = (if send_fails e a then snapshotsSent a else snapshotsSent a + 1)"
  "snapshotsFailed (doSnapshot e a) = (if send_fails e a then snapshotsFailed a + 1 else snapshotsFailed a)"
  "prevSnapshotsSent (doSnapshot e a) = snapshotsSent a"
  "prevSnapshotsFailed (doSnapshot e a) = snapshotsFailed a"
  "latestSnapshot (doSnapshot e a) = Some (fst (sent_snapshot e a))"
  "ready (doSnapshot e a) = ready a"
  "state (stateMachine (doSnapshot e a)) =
     (if send_fails e a \<or> state (stateMachine a) \<in> {StateStopped, StateExiting} then state (stateMachine a) else StateRunning)"
  by (auto simp: doSnapshot_def sent_snapshot_def send_fails_def case_prod_unfold Let_def split: sum.splits)

lemma sent_snapshot_Health [simp]:
  "AgentHealth.SnapshotsSentTotal (ClusterSnapshot.Health (fst (sent_snapshot e a))) = snapshotsSent a"
  "AgentHealth.SnapshotsFailedTotal (ClusterSnapshot.Health (fst (sent_snapshot e a))) = snapshotsFailed a"
  "AgentHealth.SnapshotsTotalCount (ClusterSnapshot.Health (fst (sent_snapshot e a))) = snapshotsTotal a"
  "AgentHealth.SnapshotsSentDelta (ClusterSnapshot.Health (fst (sent_snapshot e a))) = snapshotsSent a - prevSnapshotsSent a"
  "AgentHealth.SnapshotsFailedDelta (ClusterSnapshot.Health (fst (sent_snapshot e a))) = snapshotsFailed a - prevSnapshotsFailed a"
  "AgentHealth.State (ClusterSnapshot.Health (fst (sent_snapshot e a))) = state_string (state (stateMachine a))"
  "AgentHealth.StaleResources (ClusterSnapshot.Health (fst (sent_snapshot e a))) = snd (snd (HealthReport (env_registry e)))"
  by (simp_all add: sent_snapshot_def case_prod_unfold Let_def)

section \<open>Invariants of the loop\<close>

text \<open>
  An invariant of the loop: it holds after the first snapshot and every snapshot keeps it
  in the running state. The state machine, the counters and the latest snapshot are
  the instances.
\<close>

locale snapshot_invariant =
  fixes inv :: "Agent \<Rightarrow> bool"
  assumes kept: "state (stateMachine a) = StateRunning \<Longrightarrow> inv a \<Longrightarrow> inv (doSnapshot e a)"
begin

lemma loop_step_kept:
  assumes "state (stateMachine a) = StateRunning" and "inv a"
  shows "state (stateMachine (fst (loop_step ev a))) = StateRunning" and "inv (fst (loop_step ev a))"
    and "snd (loop_step ev a) = StillRunning \<or> (\<exists>err. ev = CtxDone err \<and> snd (loop_step ev a) = Returned (Some err))"
  using assms kept by (auto simp: loop_step_def doSnapshot_fields split: event.splits)

lemma run_loop_kept:
  assumes "state (stateMachine a) = StateRunning" and "inv a"
  shows "state (stateMachine (fst (run_loop evs a))) = StateRunning \<and> inv (fst (run_loop evs a))
       \<and> (snd (run_loop evs a) = StillRunning \<or> (\<exists>err. CtxDone err \<in> set evs \<and> snd (run_loop evs a) = Returned (Some err)))"
  using assms
proof (induction evs arbitrary: a)
  case (Cons ev evs)
  obtain a' r where s: "loop_step ev a = (a', r)" by (cases "loop_step ev a")
  note k = loop_step_kept [OF Cons.prems, of ev, unfolded s fst_conv snd_conv]
  show ?case
  proof (cases r)
    case StillRunning
    with Cons.IH [OF k(1,2)] s show ?thesis by auto
  next
    case (Returned x)
    with k s show ?thesis by auto
  qed
qed simp

end

definition counters_add_up :: "Agent \<Rightarrow> bool" where
  "counters_add_up a \<longleftrightarrow> snapshotsTotal a = snapshotsSent a + snapshotsFailed a
     \<and> (\<forall>snap. latestSnapshot a = Some snap \<longrightarrow>
          AgentHealth.SnapshotsTotalCount (ClusterSnapshot.Health snap) =
          AgentHealth.SnapshotsSentTotal (ClusterSnapshot.Health snap) + AgentHealth.SnapshotsFailedTotal (ClusterSnapshot.Health snap))"

lemma counters_doSnapshot: "counters_add_up a \<Longrightarrow> counters_add_up (doSnapshot e a)"
  by (simp add: counters_add_up_def doSnapshot_fields)

interpretation counters: snapshot_invariant counters_add_up
  by unfold_locales (rule counters_doSnapshot)

interpretation published: snapshot_invariant "\<lambda>a. counters_add_up a \<and> latestSnapshot a \<noteq> None"
  by unfold_locales (simp add: counters_doSnapshot doSnapshot_fields)

interpretation reported_running: snapshot_invariant
  "\<lambda>a. \<forall>snap. latestSnapshot a = Some snap \<longrightarrow> AgentHealth.State (ClusterSnapshot.Health snap) = ''running''"
  by unfold_locales (simp add: doSnapshot_fields)

lemma before_loop_fields:
  "state (stateMachine (become_ready e a)) = StateRunning"
  "snapshotsTotal (become_ready e a) = snapshotsTotal a"
  "snapshotsSent (become_ready e a) = snapshotsSent a"
  "snapshotsFailed (become_ready e a) = snapshotsFailed a"
  "latestSnapshot (become_ready e a) = latestSnapshot a"
  by (simp_all add: become_ready_def TransitionTo_def logStoreCounts_def Let_def split: option.split)

lemma start_collectors_fields [simp]:
  "fst (start_collectors e a) = fst (StartAll (start_order e) (registry a))"
  "snapshotsTotal (snd (start_collectors e a)) = snapshotsTotal a"
  "snapshotsSent (snd (start_collectors e a)) = snapshotsSent a"
  "snapshotsFailed (snd (start_collectors e a)) = snapshotsFailed a"
  "latestSnapshot (snd (start_collectors e a)) = latestSnapshot a"
  by (simp_all add: start_collectors_def case_prod_unfold Let_def)

definition all_failed :: "run_env \<Rightarrow> Agent \<Rightarrow> bool" where
  "all_failed e a = (case fst (StartAll (start_order e) (registry a)) of Some (AllFailed n) \<Rightarrow> True | _ \<Rightarrow> False)"

lemma Run_loop:
  assumes "\<not> all_failed e a"
  shows "Run e evs a = stop_collectors (run_loop evs (doSnapshot (first_env e) (become_ready e (snd (start_collectors e a)))))"
  using assms by (auto simp: Run_def all_failed_def case_prod_unfold split: option.splits start_error.splits)

lemma stop_collectors_fields [simp]:
  "stateMachine (fst (stop_collectors x)) = stateMachine (fst x)"
  "snapshotsTotal (fst (stop_collectors x)) = snapshotsTotal (fst x)"
  "snapshotsSent (fst (stop_collectors x)) = snapshotsSent (fst x)"
  "snapshotsFailed (fst (stop_collectors x)) = snapshotsFailed (fst x)"
  "latestSnapshot (fst (stop_collectors x)) = latestSnapshot (fst x)"
  "snd (stop_collectors x) = snd x"
  by (simp_all add: stop_collectors_def case_prod_unfold)

text \<open>A concrete agent without collectors, and a run against a backend that answers with one code.\<close>

definition example_agent :: Agent where
  "example_agent = NewAgent (Load (\<lambda>_. '''')) NewRegistry (plain_builder (NewStore 0)) (NewClient (Load (\<lambda>_. '''')) None None)
     NewStateMachine NewErrorCollector NewMetrics 0"

definition example_env :: "goint \<Rightarrow> snap_env" where
  "example_env code = \<lparr>env_view = quiet_view (NewStore 0) forward 0, env_net = constant_net code, env_registry = NewRegistry,
     env_clock = \<lparr>send_start = 0, encode_start = 0, encode_end = 0, send_end = 0, report_time = 0\<rparr>,
     build_begin = 0, build_done = 0, health_time = 0, error_order = forward 0, code_order = forward 0,
     send_begin = 0, send_done = 0, status_time = 0\<rparr>"

definition example_run :: "goint \<Rightarrow> run_env" where
  "example_run code = \<lparr>start_order = forward 0, sync_order = forward 0, sync_time = 0,
     counts_view = quiet_view (NewStore 0) forward 0, first_env = example_env code\<rparr>"

lemma example_starts: "\<not> all_failed (example_run code) example_agent"
  by (simp add: all_failed_def example_run_def example_agent_def NewAgent_def NewRegistry_def StartAll_def)

section \<open>Properties\<close>

text \<open>
  C1. The agent never leaves the running state once it is ready: whatever the backend
  answers to any number of snapshots (authentication failed, quota exceeded, rate
  limited, agent deprecated), the state stays running, no back-off is ever taken, and
  \<open>Run\<close> only returns when its context is done. The errors of \<open>Send\<close> do not reach the state
  machine, whose handler is only ever called with code 200.
\<close>

theorem agent_never_leaves_running:
  assumes "\<not> all_failed e a"
  shows "state (stateMachine (fst (Run e evs a))) = StateRunning
       \<and> (\<forall>snap. latestSnapshot (fst (Run e evs a)) = Some snap \<longrightarrow> AgentHealth.State (ClusterSnapshot.Health snap) = ''running'')
       \<and> (snd (Run e evs a) = StillRunning \<or> (\<exists>err. CtxDone err \<in> set evs \<and> snd (Run e evs a) = Returned (Some err)))"
proof -
  let ?a = "doSnapshot (first_env e) (become_ready e (snd (start_collectors e a)))"
  have run: "state (stateMachine ?a) = StateRunning" by (simp add: doSnapshot_fields before_loop_fields)
  have rep: "\<forall>snap. latestSnapshot ?a = Some snap \<longrightarrow> AgentHealth.State (ClusterSnapshot.Health snap) = ''running''"
    by (simp add: doSnapshot_fields before_loop_fields)
  from reported_running.run_loop_kept [OF run rep, of evs] show ?thesis
    unfolding Run_loop [OF assms] stop_collectors_fields by blast
qed

theorem agent_never_leaves_running_witness:
  "state (stateMachine (fst (Run (example_run 401) [Tick 0 (example_env 401), Tick 1 (example_env 410)] example_agent))) = StateRunning"
  using agent_never_leaves_running [of "example_run 401" example_agent "[Tick 0 (example_env 401), Tick 1 (example_env 410)]"]
    example_starts by blast

text \<open>
  C32. Every snapshot is counted once, as sent or as failed: after any run the total is the
  sum of the two (as 64-bit counters), and the same holds of the counters in every health report.
\<close>

theorem snapshot_counters_add_up:
  assumes "\<not> all_failed e a" and "snapshotsTotal a = snapshotsSent a + snapshotsFailed a"
  shows "counters_add_up (fst (Run e evs a)) \<and> latestSnapshot (fst (Run e evs a)) \<noteq> None"
proof -
  let ?b = "become_ready e (snd (start_collectors e a))"
  let ?a = "doSnapshot (first_env e) ?b"
  have "counters_add_up ?a" using assms(2)
    by (simp add: counters_add_up_def doSnapshot_fields before_loop_fields)
  moreover have "latestSnapshot ?a \<noteq> None" by (simp add: doSnapshot_fields)
  ultimately have start: "counters_add_up ?a \<and> latestSnapshot ?a \<noteq> None" ..
  have run: "state (stateMachine ?a) = StateRunning" by (simp add: doSnapshot_fields before_loop_fields)
  from published.run_loop_kept [OF run start, of evs] show ?thesis
    unfolding Run_loop [OF assms(1)] counters_add_up_def stop_collectors_fields by blast
qed

theorem snapshot_counters_add_up_witness:
  "counters_add_up (fst (Run (example_run 503) [Tick 0 (example_env 503)] example_agent))"
proof -
  have "snapshotsTotal example_agent = snapshotsSent example_agent + snapshotsFailed example_agent"
    by (simp add: example_agent_def NewAgent_def)
  from snapshot_counters_add_up [OF example_starts this] show ?thesis by blast
qed

text \<open>The health reports of a sequence of snapshots.\<close>

fun health_reports :: "snap_env list \<Rightarrow> Agent \<Rightarrow> AgentHealth list" where
  "health_reports [] a = []"
| "health_reports (e # es) a = ClusterSnapshot.Health (fst (sent_snapshot e a)) # health_reports es (doSnapshot e a)"

text \<open>
  The per-interval deltas of the health reports lose nothing and count nothing twice: over
  any sequence of snapshots they add up to the change of the counter they are taken from.
\<close>

theorem health_deltas_telescope:
  assumes "es \<noteq> []"
  shows "sum_list (map AgentHealth.SnapshotsSentDelta (health_reports es a)) =
           AgentHealth.SnapshotsSentTotal (last (health_reports es a)) - prevSnapshotsSent a
       \<and> sum_list (map AgentHealth.SnapshotsFailedDelta (health_reports es a)) =
           AgentHealth.SnapshotsFailedTotal (last (health_reports es a)) - prevSnapshotsFailed a"
  using assms
proof (induction es arbitrary: a)
  case (Cons e es)
  show ?case
  proof (cases es)
    case Nil
    then show ?thesis by simp
  next
    case (Cons e' es')
    with Cons.IH [of "doSnapshot e a"] show ?thesis by (simp add: doSnapshot_fields)
  qed
qed simp

theorem health_deltas_telescope_witness:
  "sum_list (map AgentHealth.SnapshotsSentDelta (health_reports [example_env 200, example_env 200] example_agent)) =
   AgentHealth.SnapshotsSentTotal (last (health_reports [example_env 200, example_env 200] example_agent)) - 0"
proof -
  have "prevSnapshotsSent example_agent = 0" by (simp add: example_agent_def NewAgent_def)
  moreover have "[example_env 200, example_env 200] \<noteq> []" by simp
  ultimately show ?thesis using health_deltas_telescope [of "[example_env 200, example_env 200]" example_agent] by metis
qed

text \<open>
  The stale resources that the builder puts into a snapshot never reach the backend: the
  health report that is sent lists exactly the collectors that report themselves
  unhealthy, whatever the age of the stores.
\<close>

theorem builder_staleness_overwritten:
  "\<exists>snap. latestSnapshot (doSnapshot e a) = Some snap
     \<and> AgentHealth.StaleResources (ClusterSnapshot.Health snap) =
       map Collector.Name (filter (\<lambda>c. \<exists>reason. IsHealthy c = Some (False, reason)) (collectors (env_registry e)))"
  by (simp add: doSnapshot_fields HealthReport_def HealthReport_fold)

fun is_tick :: "event \<Rightarrow> bool" where
  "is_tick (Tick now e) = True"
| "is_tick (CtxDone err) = False"

lemma run_loop_total:
  "state (stateMachine a) = StateRunning \<Longrightarrow>
   snapshotsTotal (fst (run_loop evs a)) = snapshotsTotal a + of_nat (length (takeWhile is_tick evs))"
proof (induction evs arbitrary: a)
  case (Cons ev evs)
  show ?case
  proof (cases ev)
    case (Tick now e)
    have run: "state (stateMachine (doSnapshot e a)) = StateRunning" using Cons.prems by (simp add: doSnapshot_fields)
    then have "loop_step ev a = (doSnapshot e a, StillRunning)" using Cons.prems Tick by (simp add: loop_step_def)
    then show ?thesis using Cons.IH [OF run] Tick by (simp add: doSnapshot_fields)
  qed (simp add: loop_step_def)
qed simp

text \<open>
  The agent takes one snapshot at once when it is ready and then exactly one per tick until its
  context is done: none is skipped and none is taken after.
\<close>

theorem one_snapshot_per_tick:
  assumes "\<not> all_failed e a"
  shows "snapshotsTotal (fst (Run e evs a)) = snapshotsTotal a + 1 + of_nat (length (takeWhile is_tick evs))"
  unfolding Run_loop [OF assms] stop_collectors_fields
  by (simp add: run_loop_total doSnapshot_fields before_loop_fields)

theorem one_snapshot_per_tick_witness:
  "snapshotsTotal (fst (Run (example_run 200) [Tick 0 (example_env 200), CtxDone (Errorf ''canceled'' None)] example_agent)) = 2"
proof -
  have "snapshotsTotal example_agent = 0" by (simp add: example_agent_def NewAgent_def)
  then show ?thesis by (simp add: one_snapshot_per_tick [OF example_starts])
qed

end
