(* ===== verification/Informers.thy ===== *)
theory Informers
  imports Store Observability Registry
begin

text \<open>
  What the 21 informer collectors of \<^verbatim>\<open>internal/collector/resource\<close> share: the event handlers,
  which write the converted object into a typed store and update two metrics, and the
  goroutine that runs the informer with crash recovery (\<^verbatim>\<open>runner.go\<close>, \<^verbatim>\<open>health.go\<close>). The
  informer itself is a library: its calls of the handlers and the returns of its \<^verbatim>\<open>Run\<close> are
  events. The locale \<open>informer_store\<close> states what a collector needs of its conversion, and
  holds the theorem that its store mirrors the cluster.
\<close>

section \<open>Event handlers\<close>

text \<open>
  The dynamic type of the \<^verbatim>\<open>interface{}\<close> a handler is given: an object of the kind, the marker
  for a deletion that was missed (with the last known object, or with something else), or
  any other value.
\<close>

datatype 'o watched = Obj 'o | Tombstone "'o option" | OtherObject

datatype 'o informer_event = Added "'o watched" | Updated "'o watched" | Deleted "'o watched"

definition nsNameKey :: "string \<Rightarrow> string \<Rightarrow> string" where
  "nsNameKey namespace name = namespace @ ''/'' @ name"

text \<open>The two metrics after a change of the store.\<close>

definition count_event :: "string \<Rightarrow> string \<Rightarrow> 'i TypedStore \<Rightarrow> Metrics \<Rightarrow> Metrics" where
  "count_event name act s m =
     metric_call (GaugeSet (StoreItems name) (f64_of_int (sint (Len s)))) (metric_call (Inc (InformerEventsTotal name act)) m)"

definition store_object :: "string \<Rightarrow> string \<Rightarrow> ('o \<Rightarrow> 'i) \<Rightarrow> ('i \<Rightarrow> string) \<Rightarrow> Time \<Rightarrow> 'o \<Rightarrow> 'i TypedStore \<times> Metrics \<Rightarrow> 'i TypedStore \<times> Metrics" where
  "store_object name act conv key now x = (\<lambda>(s, m).
     let info = conv x; s' = Set (key info) info now s in (s', count_event name act s' m))"

definition handle_event ::
  "string \<Rightarrow> ('o \<Rightarrow> 'i) \<Rightarrow> ('i \<Rightarrow> string) \<Rightarrow> ('o \<Rightarrow> string) \<Rightarrow> Time \<Rightarrow> 'o informer_event \<Rightarrow> 'i TypedStore \<times> Metrics \<Rightarrow> 'i TypedStore \<times> Metrics" where
  "handle_event name conv key okey now ev = (\<lambda>(s, m).
     case ev of
       Added w \<Rightarrow> (case w of Obj x \<Rightarrow> store_object name ''add'' conv key now x (s, m) | _ \<Rightarrow> (s, m))
     | Updated w \<Rightarrow> (case w of Obj x \<Rightarrow> store_object name ''update'' conv key now x (s, m) | _ \<Rightarrow> (s, m))
     | Deleted w \<Rightarrow>
         (case (case w of Obj x \<Rightarrow> Some x | Tombstone t \<Rightarrow> t | OtherObject \<Rightarrow> None) of
            None \<Rightarrow> (s, m)
          | Some x \<Rightarrow> let s' = Delete (okey x) now s in (s', count_event name ''delete'' s' m)))"

section \<open>The store mirrors the cluster\<close>

text \<open>The objects of the kind that the events tell of, by key; what is no object of the kind is ignored.\<close>

definition cluster_event :: "('o \<Rightarrow> string) \<Rightarrow> 'o informer_event \<Rightarrow> (string \<rightharpoonup> 'o) \<Rightarrow> (string \<rightharpoonup> 'o)" where
  "cluster_event okey ev c =
     (case ev of
        Added w \<Rightarrow> (case w of Obj x \<Rightarrow> c(okey x \<mapsto> x) | _ \<Rightarrow> c)
      | Updated w \<Rightarrow> (case w of Obj x \<Rightarrow> c(okey x \<mapsto> x) | _ \<Rightarrow> c)
      | Deleted w \<Rightarrow> (case w of Obj x \<Rightarrow> c(okey x := None) | Tombstone (Some x) \<Rightarrow> c(okey x := None) | _ \<Rightarrow> c))"

locale informer_store =
  fixes name :: string
    and conv :: "'o \<Rightarrow> 'i"
    and key :: "'i \<Rightarrow> string"
    and okey :: "'o \<Rightarrow> string"
  assumes key_conv: "key (conv x) = okey x"
begin

lemma handle_keeps_wf: "wf_store s \<Longrightarrow> wf_store (fst (handle_event name conv key okey now ev (s, m)))"
  by (auto simp: handle_event_def store_object_def Let_def split: informer_event.split watched.split option.split)

lemma handle_mirrors:
  assumes "wf_store s" and "Get s = map_option conv \<circ> c"
  shows "Get (fst (handle_event name conv key okey now ev (s, m))) = map_option conv \<circ> cluster_event okey ev c"
  using assms typed.lookup_put [OF assms(1)] typed.lookup_remove [OF assms(1)]
  by (auto simp: handle_event_def store_object_def cluster_event_def Let_def key_conv fun_eq_iff
      split: informer_event.split watched.split option.split)

text \<open>Every handled event counts once, and the gauge is set to the number of stored objects.\<close>

lemma handle_metrics:
  "calls (snd (handle_event name conv key okey now ev (s, m))) = calls m \<or>
   (\<exists>act. calls (snd (handle_event name conv key okey now ev (s, m))) =
      calls m @ [Inc (InformerEventsTotal name act),
        GaugeSet (StoreItems name) (f64_of_int (sint (Len (fst (handle_event name conv key okey now ev (s, m))))))])"
  by (auto simp: handle_event_def store_object_def count_event_def Let_def split: informer_event.split watched.split option.split)

lemma events_mirror:
  assumes "wf_store s" and "Get s = map_option conv \<circ> c"
  defines "run \<equiv> fold (\<lambda>(now, ev) sm. handle_event name conv key okey now ev sm)"
  shows "wf_store (fst (run evs (s, m)))
       \<and> Get (fst (run evs (s, m))) = map_option conv \<circ> fold (\<lambda>(now, ev). cluster_event okey ev) evs c"
  using assms(1,2) unfolding run_def
proof (induction evs arbitrary: s m c)
  case Nil
  then show ?case by simp
next
  case (Cons e evs)
  obtain now ev where e: "e = (now, ev)" by (cases e)
  obtain s' m' where h: "handle_event name conv key okey now ev (s, m) = (s', m')" by fastforce
  from handle_keeps_wf [OF Cons.prems(1), of now ev m] handle_mirrors [OF Cons.prems, of now ev m] h
  have "wf_store s'" "Get s' = map_option conv \<circ> cluster_event okey ev c" by simp_all
  from Cons.IH [OF this, of m'] show ?case by (simp add: e h)
qed

end

section \<open>Running an informer\<close>

definition informerMaxRetries :: nat where "informerMaxRetries = 3"

datatype informer_phase = NotStarted | StartFailed | Running | Sleeping | Finished

record informer =
  inf_phase :: informer_phase
  attempt :: nat
  inf_stopCh :: bool
  inf_done :: bool
  runs :: nat
  inf_sleeps :: "Duration list"

definition new_informer :: informer where
  "new_informer = \<lparr>inf_phase = NotStarted, attempt = 0, inf_stopCh = False, inf_done = False, runs = 0, inf_sleeps = []\<rparr>"

text \<open>
  \<^verbatim>\<open>Start\<close> is called, and adding the handlers fails or not; \<^verbatim>\<open>informer.Run\<close> returns; a sleep is over;
  \<^verbatim>\<open>Stop\<close> closes \<open>stopCh\<close> (once). An event that is not possible changes nothing.
\<close>

datatype informer_act = InfStart "goerror option" | RunReturns | SleepOver | InfStop

definition informer_Start :: "goerror option \<Rightarrow> informer \<Rightarrow> informer" where
  "informer_Start err i =
     (if inf_phase i \<noteq> NotStarted then i
      else case err of
        Some e \<Rightarrow> i\<lparr>inf_phase := StartFailed\<rparr>
      | None \<Rightarrow> i\<lparr>inf_phase := Running, attempt := 0, runs := 1\<rparr>)"

text \<open>The loop of \<^verbatim>\<open>runInformerWithRecovery\<close>, event by event.\<close>

definition run_returns :: "informer \<Rightarrow> informer" where
  "run_returns i =
     (if inf_phase i \<noteq> Running then i
      else if inf_stopCh i then i\<lparr>inf_phase := Finished, inf_done := True\<rparr>
      else if Suc (attempt i) \<le> informerMaxRetries
      then i\<lparr>inf_phase := Sleeping, attempt := Suc (attempt i), inf_sleeps := inf_sleeps i @ [of_nat (Suc (attempt i)) * 5 * Second]\<rparr>
      else i\<lparr>inf_phase := Finished, attempt := Suc (attempt i), inf_done := True\<rparr>)"

definition sleep_over :: "informer \<Rightarrow> informer" where
  "sleep_over i = (if inf_phase i = Sleeping then i\<lparr>inf_phase := Running, runs := Suc (runs i)\<rparr> else i)"

definition informer_Stop :: "informer \<Rightarrow> informer" where
  "informer_Stop i = i\<lparr>inf_stopCh := True\<rparr>"

definition informer_step :: "informer_act \<Rightarrow> informer \<Rightarrow> informer" where
  "informer_step a i =
     (case a of InfStart err \<Rightarrow> informer_Start err i | RunReturns \<Rightarrow> run_returns i
      | SleepOver \<Rightarrow> sleep_over i | InfStop \<Rightarrow> informer_Stop i)"

definition informerHealthy :: "bool \<Rightarrow> bool \<Rightarrow> bool \<times> string" where
  "informerHealthy stop fin =
     (if fin then (if stop then (True, '''') else (False, ''informer goroutine exited unexpectedly'')) else (True, ''''))"

text \<open>A collector as the registry sees it: \<open>start\<close> is the error of adding handlers, \<open>cache\<close> the answer of \<^verbatim>\<open>cache.WaitForCacheSync\<close>.\<close>

definition informer_Collector :: "string \<Rightarrow> goerror option \<Rightarrow> bool \<Rightarrow> informer \<Rightarrow> Collector" where
  "informer_Collector name start cache i =
     \<lparr>Name = name,
      Start = (case start of None \<Rightarrow> None | Some e \<Rightarrow> Some (Errorf (name @ '': add event handler: '' @ error_text e) (Some e))),
      Collector_WaitForSync = (if cache then None else Some (Errorf (name @ '' informer cache sync failed'') None)),
      IsHealthy = Some (informerHealthy (inf_stopCh i) (inf_done i)), APICallStats = None, DCGMTargetStats = None\<rparr>"

text \<open>\<^verbatim>\<open>Stop\<close> waits for \<open>done\<close>.\<close>

definition informer_Stop_returns :: "informer \<Rightarrow> bool" where
  "informer_Stop_returns i \<longleftrightarrow> inf_stopCh i \<and> inf_done i"

section \<open>Crash recovery\<close>

definition recovery_ok :: "informer \<Rightarrow> bool" where
  "recovery_ok i \<longleftrightarrow>
     inf_sleeps i = map (\<lambda>k. of_nat k * 5 * Second) [1..<Suc (min (attempt i) 3)] \<and>
     (inf_done i \<longleftrightarrow> inf_phase i = Finished) \<and>
     (inf_phase i \<in> {NotStarted, StartFailed} \<longrightarrow> runs i = 0 \<and> attempt i = 0) \<and>
     (inf_phase i = Running \<longrightarrow> runs i = Suc (attempt i) \<and> attempt i \<le> 3) \<and>
     (inf_phase i = Sleeping \<longrightarrow> runs i = attempt i \<and> 1 \<le> attempt i \<and> attempt i \<le> 3) \<and>
     (inf_phase i = Finished \<longrightarrow> runs i \<le> 4 \<and> (runs i = 4 \<and> attempt i = 4 \<or> inf_stopCh i \<and> runs i = Suc (attempt i)))"

lemma recovery_step: "recovery_ok i \<Longrightarrow> recovery_ok (informer_step a i)"
proof (cases "a = RunReturns \<and> attempt i = 3")
  case True
  assume "recovery_ok i"
  with True show ?thesis
    by (cases "inf_phase i") (auto simp: recovery_ok_def informer_step_def run_returns_def informerMaxRetries_def)
next
  case False
  assume "recovery_ok i"
  with False show ?thesis
    by (cases a; cases "inf_phase i")
      (auto simp: recovery_ok_def informer_step_def informer_Start_def run_returns_def sleep_over_def informer_Stop_def
        informerMaxRetries_def min_def split: option.splits)
qed

lemma recovery_reachable: "recovery_ok (fold informer_step as new_informer)"
proof -
  have "recovery_ok i \<Longrightarrow> recovery_ok (fold informer_step as i)" for i
    by (induction as arbitrary: i) (auto simp: recovery_step)
  then show ?thesis by (simp add: recovery_ok_def new_informer_def)
qed

text \<open>
  C25. An informer that crashes is restarted at most three times, after 5, 10 and 15 seconds,
  whatever happens in between. A collector reports itself unhealthy exactly when its four
  runs have all ended and nobody has asked it to stop.
\<close>

theorem informer_recovery_bounded:
  defines "reach \<equiv> \<lambda>as. fold informer_step as new_informer"
  shows "runs (reach as) \<le> 4
       \<and> inf_sleeps (reach as) = take (length (inf_sleeps (reach as))) [5 * Second, 10 * Second, 15 * Second]
       \<and> (\<not> fst (informerHealthy (inf_stopCh (reach as)) (inf_done (reach as))) \<longleftrightarrow>
            inf_phase (reach as) = Finished \<and> runs (reach as) = 4 \<and> \<not> inf_stopCh (reach as))"
proof -
  let ?i = "reach as"
  have ok: "recovery_ok ?i" unfolding reach_def by (rule recovery_reachable)
  have "runs ?i \<le> 4" using ok by (cases "inf_phase ?i") (auto simp: recovery_ok_def)
  moreover have sl: "inf_sleeps ?i = take (min (attempt ?i) 3) [5 * Second, 10 * Second, 15 * Second]"
  proof -
    have cases: "min (attempt ?i) 3 = 0 \<or> min (attempt ?i) 3 = 1 \<or> min (attempt ?i) 3 = 2 \<or> min (attempt ?i) 3 = 3" by linarith
    have "map (\<lambda>k. of_nat k * 5 * Second) [1..<Suc n] = take n [5 * Second, 10 * Second, 15 * Second]"
      if "n = 0 \<or> n = 1 \<or> n = 2 \<or> n = 3" for n :: nat
      using that by (elim disjE) (simp_all add: Second_def eval_nat_numeral)
    from this [OF cases] show ?thesis using ok by (simp add: recovery_ok_def)
  qed
  moreover from sl have "length (inf_sleeps ?i) = min (attempt ?i) 3" by simp
  with sl have "inf_sleeps ?i = take (length (inf_sleeps ?i)) [5 * Second, 10 * Second, 15 * Second]" by simp
  moreover have "\<not> fst (informerHealthy (inf_stopCh ?i) (inf_done ?i)) \<longleftrightarrow> inf_phase ?i = Finished \<and> runs ?i = 4 \<and> \<not> inf_stopCh ?i"
    using ok by (auto simp: informerHealthy_def recovery_ok_def)
  ultimately show ?thesis by blast
qed

text \<open>
  \<^verbatim>\<open>Stop\<close> of a collector that was started returns: once the informer's \<^verbatim>\<open>Run\<close> returns, which
  it does when \<open>stopCh\<close> is closed, \<open>done\<close> is closed, in whatever state the recovery loop is.
\<close>

theorem stop_of_started_collector_returns:
  assumes "InfStart None \<in> set as" and "\<forall>e. InfStart (Some e) \<notin> set as"
  shows "informer_Stop_returns (fold informer_step (as @ [InfStop, SleepOver, RunReturns]) new_informer)"
proof -
  let ?i = "fold informer_step as new_informer"
  have started: "inf_phase (fold informer_step as i) \<notin> {NotStarted, StartFailed}"
    if "inf_phase i \<noteq> StartFailed" "inf_phase i = NotStarted \<longrightarrow> InfStart None \<in> set as" "\<forall>e. InfStart (Some e) \<notin> set as" for i
    using that
  proof (induction as arbitrary: i)
    case Nil
    then show ?case by auto
  next
    case (Cons a as)
    have "inf_phase (informer_step a i) \<noteq> StartFailed"
      using Cons.prems by (cases a) (auto simp: informer_step_def informer_Start_def run_returns_def sleep_over_def informer_Stop_def split: option.splits)
    moreover have "inf_phase (informer_step a i) = NotStarted \<longrightarrow> InfStart None \<in> set as"
      using Cons.prems by (cases a) (auto simp: informer_step_def informer_Start_def run_returns_def sleep_over_def informer_Stop_def split: option.splits)
    ultimately show ?case using Cons.IH [of "informer_step a i"] Cons.prems(3) by simp
  qed
  have "inf_phase ?i \<notin> {NotStarted, StartFailed}" using started [of new_informer] assms by (simp add: new_informer_def)
  moreover have "inf_done ?i \<longleftrightarrow> inf_phase ?i = Finished" using recovery_reachable [of as] by (simp add: recovery_ok_def)
  ultimately show ?thesis
    by (cases "inf_phase ?i")
      (simp_all add: informer_step_def informer_Stop_def sleep_over_def run_returns_def informer_Stop_returns_def)
qed

theorem stop_of_started_collector_returns_witness:
  "informer_Stop_returns (fold informer_step ([InfStart None, RunReturns] @ [InfStop, SleepOver, RunReturns]) new_informer)"
  by (rule stop_of_started_collector_returns) simp_all

text \<open>
  \<^verbatim>\<open>Stop\<close> of a collector whose \<^verbatim>\<open>Start\<close> failed never returns: no goroutine exists that could
  close \<open>done\<close>, whatever happens after.
\<close>

lemma failed_start_never_done:
  "\<not> informer_Stop_returns (fold informer_step (InfStart (Some e) # as) new_informer)"
proof -
  have "inf_phase (fold informer_step as i) = StartFailed \<and> \<not> inf_done (fold informer_step as i)"
    if "inf_phase i = StartFailed" "\<not> inf_done i" for i
    using that
  proof (induction as arbitrary: i)
    case (Cons a as)
    have "inf_phase (informer_step a i) = StartFailed \<and> \<not> inf_done (informer_step a i)"
      using Cons.prems by (cases a) (auto simp: informer_step_def informer_Start_def run_returns_def sleep_over_def informer_Stop_def)
    then show ?case using Cons.IH by simp
  qed simp
  from this [of "informer_step (InfStart (Some e)) new_informer"] show ?thesis
    by (simp add: informer_step_def informer_Start_def new_informer_def informer_Stop_returns_def)
qed

end
