(* ===== verification/Kube_Types.thy ===== *)
theory Kube_Types
  imports Go_Strings
begin

text \<open>
  The Kubernetes API objects that the conversions read, with the fields they read. The API
  types are of a library: a struct is a record, a pointer that may be nil an option, a
  string type a string. \<open>resource.Quantity\<close> and \<open>intstr.IntOrString\<close> are the type parameters
  \<open>'q\<close> and \<open>'s\<close>, and the methods of the library that the agent calls on them are the
  fields of a record \<open>kube\<close> that every conversion is given.
\<close>

section \<open>The library\<close>

record ('q, 's) kube =
  AsApproximateFloat64 :: "'q \<Rightarrow> float64"
  Quantity_Value :: "'q \<Rightarrow> int64"
  Quantity_String :: "'q \<Rightarrow> string"
  zero_Quantity :: 'q
  resource_ParseQuantity :: "string \<Rightarrow> 'q option"
  IntOrString_String :: "'s \<Rightarrow> string"
  float_wide :: "float64 \<Rightarrow> int64"

type_synonym 'q ResourceList = "(string, 'q) gomap"
type_synonym strmap = "(string, string) gomap"

section \<open>Metadata\<close>

record OwnerReference =
  or_Kind :: string
  or_Name :: string
  or_UID :: string

record ObjectMeta =
  om_Name :: string
  om_UID :: string
  om_Namespace :: string
  om_Labels :: strmap
  om_Annotations :: strmap
  om_CreationTimestamp :: Time
  om_OwnerReferences :: "OwnerReference list"

definition zero_ObjectMeta :: ObjectMeta where
  "zero_ObjectMeta = \<lparr>om_Name = '''', om_UID = '''', om_Namespace = '''', om_Labels = [], om_Annotations = [],
     om_CreationTimestamp = 0, om_OwnerReferences = []\<rparr>"

text \<open>The condition types of the API groups differ, but the conversions read the same four fields.\<close>

record Condition =
  cond_Type :: string
  cond_Status :: string
  cond_Reason :: string
  cond_Message :: string

section \<open>Pods\<close>

record K8sContainerPort =
  cp_Name :: string
  cp_ContainerPort :: int32
  cp_Protocol :: string

record 'q K8sContainer =
  ct_Name :: string
  ct_Image :: string
  ct_Requests :: "'q ResourceList"
  ct_Limits :: "'q ResourceList"
  ct_Ports :: "K8sContainerPort list"

record StateWaiting =
  sw_Reason :: string
  sw_Message :: string

record StateTerminated =
  tm_Reason :: string
  tm_Message :: string
  tm_ExitCode :: int32

record ContainerState =
  cs_Running :: bool
  cs_Waiting :: "StateWaiting option"
  cs_Terminated :: "StateTerminated option"

record ContainerStatus =
  st_Name :: string
  st_ImageID :: string
  st_Ready :: bool
  st_Started :: "bool option"
  st_RestartCount :: int32
  st_State :: ContainerState
  st_LastTerminationState :: ContainerState

record K8sVolume =
  vol_HostPath :: bool
  vol_EmptyDir :: bool

record 'q K8sPod =
  pod_Meta :: ObjectMeta
  pod_NodeName :: string
  pod_PriorityClassName :: string
  pod_Priority :: "int32 option"
  pod_SchedulerName :: string
  pod_ServiceAccountName :: string
  pod_HostNetwork :: bool
  pod_Volumes :: "K8sVolume list"
  pod_Containers :: "'q K8sContainer list"
  pod_InitContainers :: "'q K8sContainer list"
  pod_Phase :: string
  pod_Reason :: string
  pod_QOSClass :: string
  pod_PodIP :: string
  pod_HostIP :: string
  pod_ContainerStatuses :: "ContainerStatus list"
  pod_InitContainerStatuses :: "ContainerStatus list"
  pod_Conditions :: "Condition list"

section \<open>Nodes\<close>

record K8sTaint =
  taint_Key :: string
  taint_Value :: string
  taint_Effect :: string

record NodeSystemInfo =
  ni_KubeletVersion :: string
  ni_ContainerRuntimeVersion :: string
  ni_OSImage :: string
  ni_KernelVersion :: string
  ni_KubeProxyVersion :: string

record 'q K8sNode =
  node_Meta :: ObjectMeta
  node_ProviderID :: string
  node_PodCIDR :: string
  node_PodCIDRs :: "string list"
  node_Unschedulable :: bool
  node_Taints :: "K8sTaint list"
  node_Capacity :: "'q ResourceList"
  node_Allocatable :: "'q ResourceList"
  node_Conditions :: "Condition list"
  node_NodeInfo :: NodeSystemInfo

section \<open>Workloads\<close>

record LabelSelectorRequirement_k =
  lsr_Key :: string
  lsr_Operator :: string
  lsr_Values :: "string list"

record LabelSelector =
  ls_MatchLabels :: strmap
  ls_MatchExpressions :: "LabelSelectorRequirement_k list"

record 's RollingUpdate =
  ru_MaxSurge :: "'s option"
  ru_MaxUnavailable :: "'s option"

record ('q, 's) K8sDeployment =
  dep_Meta :: ObjectMeta
  dep_Replicas :: "int32 option"
  dep_StrategyType :: string
  dep_RollingUpdate :: "'s RollingUpdate option"
  dep_TemplateContainers :: "'q K8sContainer list"
  dep_Selector :: "LabelSelector option"
  dep_Paused :: bool
  dep_ReadyReplicas :: int32
  dep_AvailableReplicas :: int32
  dep_UnavailableReplicas :: int32
  dep_UpdatedReplicas :: int32
  dep_Conditions :: "Condition list"

record 'q K8sStatefulSet =
  ss_Meta :: ObjectMeta
  ss_Replicas :: "int32 option"
  ss_UpdateStrategyType :: string
  ss_RollingUpdatePartition :: "int32 option option"
  ss_ServiceName :: string
  ss_PodManagementPolicy :: string
  ss_TemplateContainers :: "'q K8sContainer list"
  ss_Selector :: "LabelSelector option"
  ss_VolumeClaimTemplates :: "string list"
  ss_ReadyReplicas :: int32
  ss_AvailableReplicas :: int32
  ss_UpdatedReplicas :: int32
  ss_Conditions :: "Condition list"

record 'q K8sDaemonSet =
  ds_Meta :: ObjectMeta
  ds_UpdateStrategyType :: string
  ds_TemplateContainers :: "'q K8sContainer list"
  ds_Selector :: "LabelSelector option"
  ds_DesiredNumberScheduled :: int32
  ds_CurrentNumberScheduled :: int32
  ds_NumberReady :: int32
  ds_NumberMisscheduled :: int32
  ds_UpdatedNumberScheduled :: int32
  ds_NumberUnavailable :: int32
  ds_NumberAvailable :: int32
  ds_Conditions :: "Condition list"

record K8sReplicaSet =
  rs_Meta :: ObjectMeta
  rs_Replicas :: "int32 option"
  rs_Selector :: "LabelSelector option"
  rs_ReadyReplicas :: int32

record 'q K8sJob =
  job_Meta :: ObjectMeta
  job_Completions :: "int32 option"
  job_Parallelism :: "int32 option"
  job_BackoffLimit :: "int32 option"
  job_ActiveDeadlineSeconds :: "int64 option"
  job_TTLSecondsAfterFinished :: "int32 option"
  job_TemplateContainers :: "'q K8sContainer list"
  job_Active :: int32
  job_Succeeded :: int32
  job_Failed :: int32
  job_StartTime :: "Time option"
  job_CompletionTime :: "Time option"
  job_Conditions :: "Condition list"

record 'q K8sCronJob =
  cj_Meta :: ObjectMeta
  cj_Schedule :: string
  cj_ConcurrencyPolicy :: string
  cj_Suspend :: "bool option"
  cj_TemplateContainers :: "'q K8sContainer list"
  cj_LastScheduleTime :: "Time option"
  cj_LastSuccessfulTime :: "Time option"
  cj_Active :: "string list"

end
