(* ===== verification/Convert_Core.thy ===== *)
theory Convert_Core
  imports Kube_Types Model
begin

text \<open>
  \<^verbatim>\<open>internal/convert\<close>, first part: the helpers on annotations and quantities, the parsing of
  provider ids and node labels (\<^verbatim>\<open>cloud.go\<close>), and the conversions of pods and nodes. A map
  that is filled in a loop is filled in the order of the list: the order cannot be observed.
\<close>

section \<open>Helpers\<close>

text \<open>A nil map and an empty one are the same list.\<close>

definition FilterAnnotations :: "strmap \<Rightarrow> strmap" where
  "FilterAnnotations annotations =
     foldl (\<lambda>filtered (k, v).
        if k = ''kubectl.kubernetes.io/last-applied-configuration'' then filtered
        else if length v > 1024 then map_set k (take 1024 v) filtered
        else map_set k v filtered) [] annotations"

definition ParseQuantity :: "('q, 's) kube \<Rightarrow> 'q \<Rightarrow> float64" where
  "ParseQuantity K q = AsApproximateFloat64 K q"

definition ParseQuantityString :: "('q, 's) kube \<Rightarrow> string \<Rightarrow> float64" where
  "ParseQuantityString K s = (case resource_ParseQuantity K s of None \<Rightarrow> f64_zero | Some q \<Rightarrow> ParseQuantity K q)"

definition resourceQuantity :: "('q, 's) kube \<Rightarrow> 'q ResourceList \<Rightarrow> string \<Rightarrow> 'q" where
  "resourceQuantity K rl name = (case map_of rl name of None \<Rightarrow> zero_Quantity K | Some q \<Rightarrow> q)"

definition quantityValue :: "('q, 's) kube \<Rightarrow> 'q ResourceList \<Rightarrow> string \<Rightarrow> int64" where
  "quantityValue K rl name = (case map_of rl name of None \<Rightarrow> 0 | Some q \<Rightarrow> Quantity_Value K q)"

text \<open>\<^verbatim>\<open>corev1.ResourceName\<close>\<close>

definition ResourceCPU :: string where "ResourceCPU = ''cpu''"
definition ResourceMemory :: string where "ResourceMemory = ''memory''"
definition ResourceEphemeralStorage :: string where "ResourceEphemeralStorage = ''ephemeral-storage''"
definition ResourcePods :: string where "ResourcePods = ''pods''"
definition ResourceStorage :: string where "ResourceStorage = ''storage''"
definition ResourceGPU :: string where "ResourceGPU = ''nvidia.com/gpu''"

section \<open>Provider ids\<close>

text \<open>The result is the instance id, the availability zone and the region.\<close>

definition parseAWSProviderID :: "string \<Rightarrow> string \<times> string \<times> string" where
  "parseAWSProviderID providerID =
    (let trimmed = TrimPrefix providerID ''aws:///'' in
     case IndexByte trimmed CHR ''/'' of
       None \<Rightarrow> (providerID, '''', '''')
     | Some i \<Rightarrow> let az = take i trimmed in (drop (Suc i) trimmed, az, if az \<noteq> [] then butlast az else ''''))"

definition parseGCEProviderID :: "string \<Rightarrow> string \<times> string \<times> string" where
  "parseGCEProviderID providerID =
    (let parts = split_at CHR ''/'' (TrimPrefix providerID ''gce://'') in
     if length parts < 3 then (providerID, '''', '''')
     else let az = parts ! 1 in
          (parts ! 2, az,
           case LastIndexByte az CHR ''-'' of Some i \<Rightarrow> if i > 0 then take i az else '''' | None \<Rightarrow> ''''))"

definition parseAzureProviderID :: "string \<Rightarrow> string \<times> string \<times> string" where
  "parseAzureProviderID providerID =
    (let trimmed = TrimPrefix providerID ''azure:///'' in
     (case LastIndexByte trimmed CHR ''/'' of Some i \<Rightarrow> drop (Suc i) trimmed | None \<Rightarrow> trimmed, '''', ''''))"

definition ParseProviderID :: "string \<Rightarrow> string \<times> string \<times> string" where
  "ParseProviderID providerID =
    (if providerID = '''' then ('''', '''', '''')
     else if HasPrefix providerID ''aws://'' then parseAWSProviderID providerID
     else if HasPrefix providerID ''gce://'' then parseGCEProviderID providerID
     else if HasPrefix providerID ''azure://'' then parseAzureProviderID providerID
     else (providerID, '''', ''''))"

section \<open>Node labels\<close>

definition ExtractCapacityType :: "strmap \<Rightarrow> string" where
  "ExtractCapacityType labels =
    (if map_of labels ''eks.amazonaws.com/compute-type'' = Some ''fargate'' then ''fargate''
     else case map_of labels ''eks.amazonaws.com/capacityType'' of
       Some v \<Rightarrow> if ToUpper v = ''ON_DEMAND'' then ''on-demand'' else if ToUpper v = ''SPOT'' then ''spot'' else ToLower v
     | None \<Rightarrow>
    (case map_of labels ''karpenter.sh/capacity-type'' of
       Some v \<Rightarrow> ToLower v
     | None \<Rightarrow>
     if map_option ToLower (map_of labels ''kubernetes.azure.com/scalesetpriority'') = Some ''spot'' then ''spot''
     else if map_of labels ''cloud.google.com/gke-preemptible'' \<noteq> None then ''preemptible''
     else if map_option ToLower (map_of labels ''cloud.google.com/gke-spot'') = Some ''true'' then ''spot''
     else case map_of labels ''node.kubernetes.io/lifecycle'' of
       Some v \<Rightarrow> if ToLower v = ''spot'' then ''spot'' else if ToLower v = ''normal'' then ''on-demand'' else ToLower v
     | None \<Rightarrow> ''''))"

definition ExtractNodeGroup :: "strmap \<Rightarrow> string" where
  "ExtractNodeGroup labels =
    (case map_of labels ''eks.amazonaws.com/nodegroup'' of Some v \<Rightarrow> v
     | None \<Rightarrow> (case map_of labels ''karpenter.sh/nodepool'' of Some v \<Rightarrow> v
     | None \<Rightarrow> (case map_of labels ''cloud.google.com/gke-nodepool'' of Some v \<Rightarrow> v
     | None \<Rightarrow> (case map_of labels ''kubernetes.azure.com/agentpool'' of Some v \<Rightarrow> v
     | None \<Rightarrow> ''''))))"

section \<open>Nodes\<close>

fun nodeReady :: "Condition list \<Rightarrow> bool" where
  "nodeReady [] = False"
| "nodeReady (c # cs) = (if cond_Type c = ''Ready'' then cond_Status c = ''True'' else nodeReady cs)"

definition convertTaints :: "K8sTaint list \<Rightarrow> TaintInfo list" where
  "convertTaints = map (\<lambda>t. \<lparr>TaintInfo.Key = taint_Key t, Value = taint_Value t, Effect = taint_Effect t\<rparr>)"

definition convertConditions :: "Condition list \<Rightarrow> NodeConditionInfo list" where
  "convertConditions = map (\<lambda>c. \<lparr>NodeConditionInfo.Type = cond_Type c, Status = cond_Status c,
     Reason = cond_Reason c, Message = cond_Message c\<rparr>)"

text \<open>\<^verbatim>\<open>DetectMIGResources\<close>, over the iteration order of the map.\<close>

definition DetectMIGResources :: "('q, 's) kube \<Rightarrow> iter_order \<Rightarrow> 'q K8sNode \<Rightarrow> bool \<times> (string, goint) gomap" where
  "DetectMIGResources K ord node =
     foldl (\<lambda>(on, devs) (rName, q).
        if HasPrefix rName ''nvidia.com/mig-'' then (True, map_set rName (Quantity_Value K q) devs) else (on, devs))
       (False, []) (map_range ord (node_Allocatable node))"

definition NodeToModel :: "('q, 's) kube \<Rightarrow> 'q K8sNode \<Rightarrow> NodeInfo" where
  "NodeToModel K node =
    (let labels = om_Labels (node_Meta node); providerID = node_ProviderID node;
         cap = node_Capacity node; alloc = node_Allocatable node; ni = node_NodeInfo node;
         (instanceID, az0, region0) = ParseProviderID providerID;
         region = (case map_of labels ''topology.kubernetes.io/region'' of Some v \<Rightarrow> v | None \<Rightarrow> region0);
         az = (case map_of labels ''topology.kubernetes.io/zone'' of Some v \<Rightarrow> v | None \<Rightarrow> az0)
     in zero_NodeInfo\<lparr>NodeInfo.Name := om_Name (node_Meta node), NodeInfo.UID := om_UID (node_Meta node), 
       NodeInfo.ProviderID := providerID, NodeInfo.InstanceID := instanceID, NodeInfo.Region := region, 
       NodeInfo.Zone := az, NodeInfo.InstanceType := map_str labels ''node.kubernetes.io/instance-type'', 
       NodeInfo.CapacityType := ExtractCapacityType labels, NodeInfo.NodeGroup := ExtractNodeGroup labels, 
       NodeInfo.Architecture := map_str labels ''kubernetes.io/arch'', 
       NodeInfo.OS := map_str labels ''kubernetes.io/os'', NodeInfo.KubeletVersion := ni_KubeletVersion ni, 
       NodeInfo.ContainerRuntime := ni_ContainerRuntimeVersion ni, NodeInfo.PodCIDR := node_PodCIDR node, 
       NodeInfo.PodCIDRs := node_PodCIDRs node, NodeInfo.OSImage := ni_OSImage ni, 
       NodeInfo.KernelVersion := ni_KernelVersion ni, NodeInfo.KubeProxyVersion := ni_KubeProxyVersion ni, 
       NodeInfo.CPUCapacityCores := ParseQuantity K (resourceQuantity K cap ResourceCPU), 
       NodeInfo.MemoryCapacityBytes := quantityValue K cap ResourceMemory, 
       NodeInfo.EphemeralStorageBytes := quantityValue K cap ResourceEphemeralStorage, 
       NodeInfo.EphemeralStorageAllocatable := quantityValue K alloc ResourceEphemeralStorage, 
       NodeInfo.PodCapacity := quantityValue K cap ResourcePods, 
       NodeInfo.GPUCapacity := quantityValue K cap ResourceGPU, 
       NodeInfo.CPUAllocatable := ParseQuantity K (resourceQuantity K alloc ResourceCPU), 
       NodeInfo.MemoryAllocatable := quantityValue K alloc ResourceMemory, 
       NodeInfo.PodAllocatable := quantityValue K alloc ResourcePods, 
       NodeInfo.GPUAllocatable := quantityValue K alloc ResourceGPU, 
       NodeInfo.Ready := nodeReady (node_Conditions node), NodeInfo.Unschedulable := node_Unschedulable node, 
       NodeInfo.Taints := convertTaints (node_Taints node), 
       NodeInfo.Conditions := convertConditions (node_Conditions node), NodeInfo.Labels := labels, 
       NodeInfo.Annotations := FilterAnnotations (om_Annotations (node_Meta node)), 
       NodeInfo.CreationTimestamp := UnixMilli (om_CreationTimestamp (node_Meta node))\<rparr>)"

section \<open>Pods\<close>

definition buildStatusMap :: "ContainerStatus list \<Rightarrow> string \<rightharpoonup> ContainerStatus" where
  "buildStatusMap = index_by st_Name"

definition convertContainerPorts :: "K8sContainerPort list \<Rightarrow> ContainerPortInfo list" where
  "convertContainerPorts = map (\<lambda>p. \<lparr>ContainerPortInfo.Name = cp_Name p, ContainerPort = cp_ContainerPort p, Protocol = cp_Protocol p\<rparr>)"

text \<open>The fields from the status, \<open>None\<close> for \<^verbatim>\<open>hasStatus == false\<close>.\<close>

definition container_status :: "ContainerStatus option \<Rightarrow> ContainerInfo \<Rightarrow> ContainerInfo" where
  "container_status status c =
    (case status of
       None \<Rightarrow> c\<lparr>ContainerInfo.State := ''waiting''\<rparr>
     | Some st \<Rightarrow>
        let s = st_State st;
            c1 = c\<lparr>ContainerInfo.ImageID := st_ImageID st, ContainerInfo.Ready := st_Ready st, 
       ContainerInfo.Started := st_Started st, ContainerInfo.RestartCount := st_RestartCount st\<rparr>;
            c2 = (if cs_Running s then c1\<lparr>ContainerInfo.State := ''running''\<rparr>
                  else case cs_Waiting s of
                    Some w \<Rightarrow> c1\<lparr>ContainerInfo.State := ''waiting'', ContainerInfo.StateReason := sw_Reason w, 
       ContainerInfo.StateMessage := sw_Message w\<rparr>
                  | None \<Rightarrow>
                   (case cs_Terminated s of
                      Some t \<Rightarrow> c1\<lparr>ContainerInfo.State := ''terminated'', ContainerInfo.StateReason := tm_Reason t, 
       ContainerInfo.StateMessage := tm_Message t, ContainerInfo.ExitCode := Some (tm_ExitCode t)\<rparr>
                    | None \<Rightarrow> c1))
        in case cs_Terminated (st_LastTerminationState st) of
             Some t \<Rightarrow> c2\<lparr>ContainerInfo.LastTerminationReason := tm_Reason t\<rparr>
           | None \<Rightarrow> c2)"

definition containerToModel :: "('q, 's) kube \<Rightarrow> ContainerStatus option \<Rightarrow> 'q K8sContainer \<Rightarrow> ContainerInfo" where
  "containerToModel K status spec =
    (let req = ct_Requests spec; lim = ct_Limits spec in
     container_status status
       (zero_ContainerInfo\<lparr>ContainerInfo.Name := ct_Name spec, ContainerInfo.Image := ct_Image spec, 
       ContainerInfo.CPURequestCores := ParseQuantity K (resourceQuantity K req ResourceCPU), 
       ContainerInfo.MemoryRequestBytes := quantityValue K req ResourceMemory, 
       ContainerInfo.CPULimitCores := ParseQuantity K (resourceQuantity K lim ResourceCPU), 
       ContainerInfo.MemoryLimitBytes := quantityValue K lim ResourceMemory, 
       ContainerInfo.EphemeralStorageRequest := quantityValue K req ResourceEphemeralStorage, 
       ContainerInfo.EphemeralStorageLimit := quantityValue K lim ResourceEphemeralStorage, 
       ContainerInfo.GPURequest := quantityValue K req ResourceGPU, 
       ContainerInfo.GPULimit := quantityValue K lim ResourceGPU, 
       ContainerInfo.Ports := convertContainerPorts (ct_Ports spec)\<rparr>))"

definition convertContainers :: "('q, 's) kube \<Rightarrow> 'q K8sContainer list \<Rightarrow> (string \<rightharpoonup> ContainerStatus) \<Rightarrow> ContainerInfo list" where
  "convertContainers K specs statusMap = map (\<lambda>spec. containerToModel K (statusMap (ct_Name spec)) spec) specs"

definition hasHostPathVolume :: "K8sVolume list \<Rightarrow> bool" where
  "hasHostPathVolume vs = list_ex vol_HostPath vs"

definition hasEmptyDirVolume :: "K8sVolume list \<Rightarrow> bool" where
  "hasEmptyDirVolume vs = list_ex vol_EmptyDir vs"

definition convertPodConditions :: "Condition list \<Rightarrow> PodConditionInfo list" where
  "convertPodConditions = map (\<lambda>c. \<lparr>PodConditionInfo.Type = cond_Type c, Status = cond_Status c,
     Reason = cond_Reason c, Message = cond_Message c\<rparr>)"

definition PodToModel :: "('q, 's) kube \<Rightarrow> 'q K8sPod \<Rightarrow> PodInfo" where
  "PodToModel K pod =
    (let m = pod_Meta pod;
         (kind, name, uid) = (case om_OwnerReferences m of [] \<Rightarrow> ('''', '''', '''') | o1 # _ \<Rightarrow> (or_Kind o1, or_Name o1, or_UID o1))
     in zero_PodInfo\<lparr>PodInfo.Name := om_Name m, PodInfo.UID := om_UID m, PodInfo.Namespace := om_Namespace m, 
       PodInfo.NodeName := pod_NodeName pod, PodInfo.Phase := pod_Phase pod, PodInfo.Reason := pod_Reason pod, 
       PodInfo.QoSClass := pod_QOSClass pod, PodInfo.Labels := om_Labels m, 
       PodInfo.Annotations := FilterAnnotations (om_Annotations m), 
       PodInfo.CreationTimestamp := UnixMilli (om_CreationTimestamp m), 
       PodInfo.PriorityClassName := pod_PriorityClassName pod, PodInfo.Priority := pod_Priority pod, 
       PodInfo.SchedulerName := pod_SchedulerName pod, PodInfo.ServiceAccountName := pod_ServiceAccountName pod, 
       PodInfo.PodIP := pod_PodIP pod, PodInfo.HostIP := pod_HostIP pod, 
       PodInfo.HostNetwork := pod_HostNetwork pod, PodInfo.HasHostPath := hasHostPathVolume (pod_Volumes pod), 
       PodInfo.HasEmptyDir := hasEmptyDirVolume (pod_Volumes pod), PodInfo.OwnerKind := kind, 
       PodInfo.OwnerName := name, PodInfo.OwnerUID := uid, 
       PodInfo.Containers := convertContainers K (pod_Containers pod) (buildStatusMap (pod_ContainerStatuses pod)), 
       PodInfo.InitContainers := convertContainers K (pod_InitContainers pod) (buildStatusMap (pod_InitContainerStatuses pod)), 
       PodInfo.Conditions := convertPodConditions (pod_Conditions pod)\<rparr>)"

section \<open>Annotations\<close>

lemma FilterAnnotations_snoc:
  "FilterAnnotations (m @ [(k, v)]) =
     (if k = ''kubectl.kubernetes.io/last-applied-configuration'' then FilterAnnotations m
      else map_set k (take 1024 v) (FilterAnnotations m))"
  by (simp add: FilterAnnotations_def)

text \<open>
  Annotations are copied without the last applied configuration, which may be large, and
  with values of at most 1024 bytes; every other key is kept, and filtering again changes
  nothing.
\<close>

theorem annotations_filtered:
  assumes "wf_map m"
  shows "wf_map (FilterAnnotations m)
       \<and> map_of (FilterAnnotations m) k =
           (if k = ''kubectl.kubernetes.io/last-applied-configuration'' then None else map_option (take 1024) (map_of m k))
       \<and> (\<forall>v \<in> snd ` set (FilterAnnotations m). length v \<le> 1024)
       \<and> FilterAnnotations (FilterAnnotations m) = FilterAnnotations m"
proof -
  let ?skip = "''kubectl.kubernetes.io/last-applied-configuration''"
  have eq: "FilterAnnotations m = map (\<lambda>(k, v). (k, take 1024 v)) (filter (\<lambda>(k, v). k \<noteq> ?skip) m)"
    if "wf_map m" for m :: strmap
    using that
  proof (induction m rule: rev_induct)
    case Nil
    then show ?case by (simp add: FilterAnnotations_def)
  next
    case (snoc x m)
    obtain k v where x: "x = (k, v)" by (cases x)
    from snoc.prems have wf: "wf_map m" and k: "k \<notin> fst ` set m" by (auto simp: wf_map_def x)
    have "map_set k (take 1024 v) ys = ys @ [(k, take 1024 v)]" if "k \<notin> fst ` set ys" for ys :: strmap
      using that by (induction ys) (auto simp: map_set_def)
    moreover have "k \<notin> fst ` set (FilterAnnotations m)" unfolding snoc.IH [OF wf] using k by force
    ultimately show ?case using snoc.IH [OF wf] by (simp add: FilterAnnotations_snoc x)
  qed
  have wf': "wf_map (FilterAnnotations m)"
    using eq [OF assms] distinct_map_filter [of fst m "\<lambda>(k, v). k \<noteq> ?skip"] assms
    by (simp add: wf_map_def comp_def case_prod_unfold)
  have of: "map_of (FilterAnnotations m) k = (if k = ?skip then None else map_option (take 1024) (map_of m k))"
    unfolding eq [OF assms] by (induction m) auto
  have short: "\<forall>v \<in> snd ` set (FilterAnnotations m). length v \<le> 1024"
    unfolding eq [OF assms] by auto
  have "FilterAnnotations (FilterAnnotations m) = FilterAnnotations m"
    unfolding eq [OF wf'] unfolding eq [OF assms] by (auto simp: filter_map comp_def case_prod_unfold)
  with wf' of short show ?thesis by blast
qed

theorem annotations_filtered_witness:
  "map_of (FilterAnnotations [(''a'', ''x''), (''kubectl.kubernetes.io/last-applied-configuration'', ''y'')]) ''a'' = Some ''x''"
  using annotations_filtered [of "[(''a'', ''x''), (''kubectl.kubernetes.io/last-applied-configuration'', ''y'')]" "''a''"]
  by (simp add: wf_map_def)

section \<open>Provider ids and labels\<close>

text \<open>
  C33. The provider ids of AWS, GCE and Azure are taken apart as they are put together: the
  instance, the zone and the region (the zone without its last letter or its last segment;
  Azure ids carry neither).
\<close>

theorem provider_ids_taken_apart:
  assumes "CHR ''/'' \<notin> set (zone @ [c])" and "CHR ''/'' \<notin> set project" and "CHR ''/'' \<notin> set name"
    and "CHR ''/'' \<notin> set gregion" and "gregion \<noteq> []" and "CHR ''-'' \<notin> set letter" and "CHR ''/'' \<notin> set letter"
  shows "ParseProviderID (''aws:///'' @ (zone @ [c]) @ ''/'' @ rest) = (rest, zone @ [c], zone)
       \<and> ParseProviderID (''gce://'' @ project @ ''/'' @ (gregion @ ''-'' @ letter) @ ''/'' @ name) = (name, gregion @ ''-'' @ letter, gregion)
       \<and> ParseProviderID (''azure:///'' @ path @ ''/'' @ name) = (name, '''', '''')"
proof (intro conjI)
  have trim: "TrimPrefix (p @ s) p = s" for p s by (simp add: TrimPrefix_def)
  let ?az = "zone @ [c]" and ?gz = "gregion @ ''-'' @ letter"
  have aws: "IndexByte (?az @ ''/'' @ rest) CHR ''/'' = Some (length ?az)"
    using IndexByte_append [OF assms(1), of rest] by simp
  show "ParseProviderID (''aws:///'' @ ?az @ ''/'' @ rest) = (rest, ?az, zone)"
  proof -
    have "ParseProviderID (''aws:///'' @ ?az @ ''/'' @ rest) = parseAWSProviderID (''aws:///'' @ ?az @ ''/'' @ rest)"
      by (simp add: ParseProviderID_def HasPrefix_def)
    also have "\<dots> = (rest, ?az, zone)"
      unfolding parseAWSProviderID_def trim Let_def aws by (simp del: append_assoc)
    finally show ?thesis .
  qed
  have split: "split_at CHR ''/'' (project @ ''/'' @ ?gz @ ''/'' @ name) = [project, ?gz, name]"
    using split_at_append [OF assms(2), of "?gz @ ''/'' @ name"] split_at_append [of "CHR ''/''" ?gz name]
      split_at_none [OF assms(3)] assms(4,7) by simp
  have last: "LastIndexByte ?gz CHR ''-'' = Some (length gregion)"
    using LastIndexByte_append [OF assms(6), of gregion] by simp
  show "ParseProviderID (''gce://'' @ project @ ''/'' @ ?gz @ ''/'' @ name) = (name, ?gz, gregion)"
  proof -
    have "ParseProviderID (''gce://'' @ project @ ''/'' @ ?gz @ ''/'' @ name) = parseGCEProviderID (''gce://'' @ project @ ''/'' @ ?gz @ ''/'' @ name)"
      by (simp add: ParseProviderID_def HasPrefix_def)
    also have "\<dots> = (name, ?gz, gregion)"
      unfolding parseGCEProviderID_def trim split Let_def using last assms(5) by simp
    finally show ?thesis .
  qed
  have slash: "LastIndexByte (path @ ''/'' @ name) CHR ''/'' = Some (length path)"
    using LastIndexByte_append [OF assms(3), of path] by simp
  show "ParseProviderID (''azure:///'' @ path @ ''/'' @ name) = (name, '''', '''')"
  proof -
    have "ParseProviderID (''azure:///'' @ path @ ''/'' @ name) = parseAzureProviderID (''azure:///'' @ path @ ''/'' @ name)"
      by (simp add: ParseProviderID_def HasPrefix_def)
    also have "\<dots> = (name, '''', '''')"
      unfolding parseAzureProviderID_def trim Let_def slash by simp
    finally show ?thesis .
  qed
qed

theorem provider_ids_taken_apart_witness:
  "ParseProviderID (''aws:///'' @ (''us-east-1'' @ ''a'') @ ''/'' @ ''i-12'') = (''i-12'', ''us-east-1a'', ''us-east-1'')
   \<and> ParseProviderID (''gce://'' @ ''p'' @ ''/'' @ (''us-central1'' @ ''-'' @ ''a'') @ ''/'' @ ''vm'') = (''vm'', ''us-central1-a'', ''us-central1'')
   \<and> ParseProviderID (''azure:///'' @ ''subscriptions/s'' @ ''/'' @ ''vm'') = (''vm'', '''', '''')"
  using provider_ids_taken_apart [of "''us-east-1''" "CHR ''a''" "''p''" "''vm''" "''us-central1''" "''a''" "''i-12''" "''subscriptions/s''"]
  by simp

lemma lower_idem: "lower (lower c) = lower c"
proof -
  have "of_char (char_of (of_char c + 32 :: nat)) = (of_char c + 32 :: nat)" if "of_char c \<le> (90::nat)"
    using that by simp
  then show ?thesis by (auto simp: lower_def)
qed

lemma ToLower_idem: "ToLower (ToLower s) = ToLower s"
  by (simp add: ToLower_def lower_idem)

text \<open>The capacity type is in lower case whatever label it comes from.\<close>

lemma capacity_type_lower: "ToLower (ExtractCapacityType labels) = ExtractCapacityType labels"
proof -
  have words: "ToLower ''fargate'' = ''fargate''" "ToLower ''on-demand'' = ''on-demand''" "ToLower ''spot'' = ''spot''"
    "ToLower ''preemptible'' = ''preemptible''" "ToLower '''' = ''''"
    by (simp_all add: ToLower_def lower_def)
  show ?thesis unfolding ExtractCapacityType_def by (simp add: words ToLower_idem split: option.split)
qed

section \<open>Pods and their containers\<close>

lemma containerToModel_Name [simp]: "ContainerInfo.Name (containerToModel K st spec) = ct_Name spec"
  by (simp add: containerToModel_def container_status_def Let_def split: option.split)

lemma PodToModel_key [simp]:
  "PodInfo.Namespace (PodToModel K pod) = om_Namespace (pod_Meta pod)" "PodInfo.Name (PodToModel K pod) = om_Name (pod_Meta pod)"
  "PodInfo.NodeName (PodToModel K pod) = pod_NodeName pod" "PodInfo.Phase (PodToModel K pod) = pod_Phase pod"
  "PodInfo.Containers (PodToModel K pod) = convertContainers K (pod_Containers pod) (buildStatusMap (pod_ContainerStatuses pod))"
  by (simp_all add: PodToModel_def Let_def split: list.split)

lemma NodeToModel_key [simp]: "NodeInfo.Name (NodeToModel K node) = om_Name (node_Meta node)"
  by (simp add: NodeToModel_def Let_def case_prod_unfold)

end
