(* ===== verification/Convert_Workload.thy ===== *)
theory Convert_Workload
  imports Convert_Core
begin

text \<open>
  \<^verbatim>\<open>internal/convert\<close>, second part: Deployments, StatefulSets, DaemonSets, ReplicaSets
  (\<^verbatim>\<open>workload.go\<close>), Jobs and CronJobs (\<^verbatim>\<open>autoscaling.go\<close>).
\<close>

definition extractContainerSpecs :: "('q, 's) kube \<Rightarrow> 'q K8sContainer list \<Rightarrow> ContainerSpecInfo list" where
  "extractContainerSpecs K = map (\<lambda>c. let req = ct_Requests c; lim = ct_Limits c in
     \<lparr>ContainerSpecInfo.Name = ct_Name c, ContainerSpecInfo.Image = ct_Image c, 
       ContainerSpecInfo.CPURequestCores = ParseQuantity K (resourceQuantity K req ResourceCPU), 
       ContainerSpecInfo.MemoryRequestBytes = quantityValue K req ResourceMemory, 
       ContainerSpecInfo.CPULimitCores = ParseQuantity K (resourceQuantity K lim ResourceCPU), 
       ContainerSpecInfo.MemoryLimitBytes = quantityValue K lim ResourceMemory, 
       ContainerSpecInfo.GPURequest = quantityValue K req ResourceGPU, 
       ContainerSpecInfo.GPULimit = quantityValue K lim ResourceGPU\<rparr>)"

text \<open>The three condition conversions of \<^verbatim>\<open>workload.go\<close> have the same body.\<close>

definition workload_condition :: "Condition \<Rightarrow> WorkloadConditionInfo" where
  "workload_condition c = \<lparr>WorkloadConditionInfo.Type = cond_Type c, Status = cond_Status c,
     Reason = cond_Reason c, Message = cond_Message c\<rparr>"

definition convertDeploymentConditions :: "Condition list \<Rightarrow> WorkloadConditionInfo list" where
  "convertDeploymentConditions = map workload_condition"

definition convertStatefulSetConditions :: "Condition list \<Rightarrow> WorkloadConditionInfo list" where
  "convertStatefulSetConditions = map workload_condition"

definition convertDaemonSetConditions :: "Condition list \<Rightarrow> WorkloadConditionInfo list" where
  "convertDaemonSetConditions = map workload_condition"

text \<open>\<^verbatim>\<open>*p\<close> or a default, and the labels of a selector that may be nil.\<close>

abbreviation or_default :: "'a \<Rightarrow> 'a option \<Rightarrow> 'a" where
  "or_default d x \<equiv> (case x of None \<Rightarrow> d | Some v \<Rightarrow> v)"

definition selector_labels :: "LabelSelector option \<Rightarrow> strmap" where
  "selector_labels sel = (case sel of None \<Rightarrow> [] | Some s \<Rightarrow> ls_MatchLabels s)"

definition DeploymentToModel :: "('q, 's) kube \<Rightarrow> ('q, 's) K8sDeployment \<Rightarrow> DeploymentInfo" where
  "DeploymentToModel K dep =
    (let m = dep_Meta dep;
         ru_string = (\<lambda>f. case dep_RollingUpdate dep of None \<Rightarrow> ''''
            | Some ru \<Rightarrow> (case f ru of None \<Rightarrow> '''' | Some x \<Rightarrow> IntOrString_String K x))
     in zero_DeploymentInfo\<lparr>DeploymentInfo.Name := om_Name m, DeploymentInfo.UID := om_UID m, 
       DeploymentInfo.Namespace := om_Namespace m, DeploymentInfo.Replicas := or_default 1 (dep_Replicas dep), 
       DeploymentInfo.ReadyReplicas := dep_ReadyReplicas dep, 
       DeploymentInfo.AvailableReplicas := dep_AvailableReplicas dep, 
       DeploymentInfo.UnavailableReplicas := dep_UnavailableReplicas dep, 
       DeploymentInfo.UpdatedReplicas := dep_UpdatedReplicas dep, 
       DeploymentInfo.Strategy := dep_StrategyType dep, 
       DeploymentInfo.ContainerSpecs := extractContainerSpecs K (dep_TemplateContainers dep), 
       DeploymentInfo.Labels := om_Labels m, DeploymentInfo.Annotations := FilterAnnotations (om_Annotations m), 
       DeploymentInfo.CreationTimestamp := UnixMilli (om_CreationTimestamp m), 
       DeploymentInfo.Paused := dep_Paused dep, DeploymentInfo.Selector := selector_labels (dep_Selector dep), 
       DeploymentInfo.MaxSurge := ru_string ru_MaxSurge, 
       DeploymentInfo.MaxUnavailable := ru_string ru_MaxUnavailable, 
       DeploymentInfo.Conditions := convertDeploymentConditions (dep_Conditions dep)\<rparr>)"

definition StatefulSetToModel :: "('q, 's) kube \<Rightarrow> 'q K8sStatefulSet \<Rightarrow> StatefulSetInfo" where
  "StatefulSetToModel K ss =
    (let m = ss_Meta ss in
     zero_StatefulSetInfo\<lparr>StatefulSetInfo.Name := om_Name m, StatefulSetInfo.UID := om_UID m, 
       StatefulSetInfo.Namespace := om_Namespace m, StatefulSetInfo.Replicas := or_default 1 (ss_Replicas ss), 
       StatefulSetInfo.ReadyReplicas := ss_ReadyReplicas ss, 
       StatefulSetInfo.AvailableReplicas := ss_AvailableReplicas ss, 
       StatefulSetInfo.UpdatedReplicas := ss_UpdatedReplicas ss, 
       StatefulSetInfo.Strategy := ss_UpdateStrategyType ss, StatefulSetInfo.ServiceName := ss_ServiceName ss, 
       StatefulSetInfo.PodManagementPolicy := ss_PodManagementPolicy ss, 
       StatefulSetInfo.ContainerSpecs := extractContainerSpecs K (ss_TemplateContainers ss), 
       StatefulSetInfo.Labels := om_Labels m, 
       StatefulSetInfo.Annotations := FilterAnnotations (om_Annotations m), 
       StatefulSetInfo.CreationTimestamp := UnixMilli (om_CreationTimestamp m), 
       StatefulSetInfo.Selector := selector_labels (ss_Selector ss), 
       StatefulSetInfo.Partition := or_default None (ss_RollingUpdatePartition ss), 
       StatefulSetInfo.VolumeClaimTemplates := ss_VolumeClaimTemplates ss, 
       StatefulSetInfo.Conditions := convertStatefulSetConditions (ss_Conditions ss)\<rparr>)"

definition DaemonSetToModel :: "('q, 's) kube \<Rightarrow> 'q K8sDaemonSet \<Rightarrow> DaemonSetInfo" where
  "DaemonSetToModel K ds =
    (let m = ds_Meta ds in
     zero_DaemonSetInfo\<lparr>DaemonSetInfo.Name := om_Name m, DaemonSetInfo.UID := om_UID m, DaemonSetInfo.Namespace := om_Namespace m, 
       DaemonSetInfo.DesiredNumberScheduled := ds_DesiredNumberScheduled ds, 
       DaemonSetInfo.CurrentNumberScheduled := ds_CurrentNumberScheduled ds, 
       DaemonSetInfo.NumberReady := ds_NumberReady ds, 
       DaemonSetInfo.NumberMisscheduled := ds_NumberMisscheduled ds, 
       DaemonSetInfo.UpdatedNumberScheduled := ds_UpdatedNumberScheduled ds, 
       DaemonSetInfo.NumberUnavailable := ds_NumberUnavailable ds, 
       DaemonSetInfo.NumberAvailable := ds_NumberAvailable ds, 
       DaemonSetInfo.Strategy := ds_UpdateStrategyType ds, 
       DaemonSetInfo.ContainerSpecs := extractContainerSpecs K (ds_TemplateContainers ds), 
       DaemonSetInfo.Labels := om_Labels m, DaemonSetInfo.Annotations := FilterAnnotations (om_Annotations m), 
       DaemonSetInfo.CreationTimestamp := UnixMilli (om_CreationTimestamp m), 
       DaemonSetInfo.Selector := selector_labels (ds_Selector ds), 
       DaemonSetInfo.Conditions := convertDaemonSetConditions (ds_Conditions ds)\<rparr>)"

definition ReplicaSetToModel :: "K8sReplicaSet \<Rightarrow> ReplicaSetInfo" where
  "ReplicaSetToModel rs =
    (let m = rs_Meta rs;
         (kind, name, uid) = (case om_OwnerReferences m of [] \<Rightarrow> ('''', '''', '''') | o1 # _ \<Rightarrow> (or_Kind o1, or_Name o1, or_UID o1))
     in zero_ReplicaSetInfo\<lparr>ReplicaSetInfo.Name := om_Name m, ReplicaSetInfo.Namespace := om_Namespace m, 
       ReplicaSetInfo.Replicas := or_default 1 (rs_Replicas rs), 
       ReplicaSetInfo.ReadyReplicas := rs_ReadyReplicas rs, ReplicaSetInfo.Labels := om_Labels m, 
       ReplicaSetInfo.CreationTimestamp := UnixMilli (om_CreationTimestamp m), 
       ReplicaSetInfo.Selector := selector_labels (rs_Selector rs), ReplicaSetInfo.OwnerKind := kind, 
       ReplicaSetInfo.OwnerName := name, ReplicaSetInfo.OwnerUID := uid\<rparr>)"

definition convertJobConditions :: "Condition list \<Rightarrow> JobConditionInfo list" where
  "convertJobConditions = map (\<lambda>c. \<lparr>JobConditionInfo.Type = cond_Type c, Status = cond_Status c,
     Reason = cond_Reason c, Message = cond_Message c\<rparr>)"

fun owner_CronJob :: "OwnerReference list \<Rightarrow> string" where
  "owner_CronJob [] = ''''"
| "owner_CronJob (r # rs) = (if or_Kind r = ''CronJob'' then or_Name r else owner_CronJob rs)"

definition JobToModel :: "('q, 's) kube \<Rightarrow> 'q K8sJob \<Rightarrow> JobInfo" where
  "JobToModel K job =
    (let m = job_Meta job; start = map_option UnixMilli (job_StartTime job);
         fin = map_option UnixMilli (job_CompletionTime job)
     in zero_JobInfo\<lparr>JobInfo.Name := om_Name m, JobInfo.UID := om_UID m, JobInfo.Namespace := om_Namespace m, 
       JobInfo.Completions := job_Completions job, JobInfo.Parallelism := job_Parallelism job, 
       JobInfo.BackoffLimit := job_BackoffLimit job, 
       JobInfo.ActiveDeadlineSeconds := job_ActiveDeadlineSeconds job, 
       JobInfo.TTLSecondsAfterFinished := job_TTLSecondsAfterFinished job, JobInfo.Active := job_Active job, 
       JobInfo.Succeeded := job_Succeeded job, JobInfo.Failed := job_Failed job, 
       JobInfo.ContainerSpecs := extractContainerSpecs K (job_TemplateContainers job), 
       JobInfo.Labels := om_Labels m, JobInfo.Annotations := FilterAnnotations (om_Annotations m), 
       JobInfo.CreationTimestamp := UnixMilli (om_CreationTimestamp m), 
       JobInfo.OwnerCronJob := owner_CronJob (om_OwnerReferences m), JobInfo.StartTime := start, 
       JobInfo.CompletionTime := fin, 
       JobInfo.DurationSeconds := (case (start, fin) of (Some s, Some f) \<Rightarrow> Some (f64_div (f64_of_int (sint (f - s))) (f64_of_int 1000)) | _ \<Rightarrow> None), 
       JobInfo.Conditions := convertJobConditions (job_Conditions job)\<rparr>)"

definition CronJobToModel :: "('q, 's) kube \<Rightarrow> 'q K8sCronJob \<Rightarrow> CronJobInfo" where
  "CronJobToModel K cj =
    (let m = cj_Meta cj in
     zero_CronJobInfo\<lparr>CronJobInfo.Name := om_Name m, CronJobInfo.UID := om_UID m, CronJobInfo.Namespace := om_Namespace m, 
       CronJobInfo.Schedule := cj_Schedule cj, CronJobInfo.ConcurrencyPolicy := cj_ConcurrencyPolicy cj, 
       CronJobInfo.ContainerSpecs := extractContainerSpecs K (cj_TemplateContainers cj), 
       CronJobInfo.Labels := om_Labels m, CronJobInfo.Annotations := FilterAnnotations (om_Annotations m), 
       CronJobInfo.CreationTimestamp := UnixMilli (om_CreationTimestamp m), 
       CronJobInfo.Suspend := or_default False (cj_Suspend cj), 
       CronJobInfo.LastScheduleTime := map_option UnixMilli (cj_LastScheduleTime cj), 
       CronJobInfo.LastSuccessfulTime := map_option UnixMilli (cj_LastSuccessfulTime cj), 
       CronJobInfo.ActiveJobs := cj_Active cj\<rparr>)"

section \<open>Keys\<close>

lemma workload_keys [simp]:
  "DeploymentInfo.Namespace (DeploymentToModel K dep) = om_Namespace (dep_Meta dep)"
  "DeploymentInfo.Name (DeploymentToModel K dep) = om_Name (dep_Meta dep)"
  "StatefulSetInfo.Namespace (StatefulSetToModel K ss) = om_Namespace (ss_Meta ss)"
  "StatefulSetInfo.Name (StatefulSetToModel K ss) = om_Name (ss_Meta ss)"
  "DaemonSetInfo.Namespace (DaemonSetToModel K ds) = om_Namespace (ds_Meta ds)"
  "DaemonSetInfo.Name (DaemonSetToModel K ds) = om_Name (ds_Meta ds)"
  "ReplicaSetInfo.Namespace (ReplicaSetToModel rs) = om_Namespace (rs_Meta rs)"
  "ReplicaSetInfo.Name (ReplicaSetToModel rs) = om_Name (rs_Meta rs)"
  "JobInfo.Namespace (JobToModel K job) = om_Namespace (job_Meta job)"
  "JobInfo.Name (JobToModel K job) = om_Name (job_Meta job)"
  "CronJobInfo.Namespace (CronJobToModel K cj) = om_Namespace (cj_Meta cj)"
  "CronJobInfo.Name (CronJobToModel K cj) = om_Name (cj_Meta cj)"
  by (simp_all add: DeploymentToModel_def StatefulSetToModel_def DaemonSetToModel_def ReplicaSetToModel_def
      JobToModel_def CronJobToModel_def Let_def case_prod_unfold)

end
