(* ===== verification/Kube_Types_More.thy ===== *)
theory Kube_Types_More
  imports Kube_Types
begin

text \<open>
  The API objects of the second group of conversions: autoscalers, disruption budgets,
  services, ingresses, storage, scheduling, and the untyped objects of custom resources.
\<close>

section \<open>Autoscaling and disruption budgets\<close>

record 'q MetricTarget =
  mt_Type :: string
  mt_AverageUtilization :: "int32 option"
  mt_AverageValue :: "'q option"
  mt_Value :: "'q option"

text \<open>One metric of a HorizontalPodAutoscaler: the sources that are set, with name, container and target.\<close>

record 'q MetricSpec =
  ms_Type :: string
  ms_Resource :: "(string \<times> 'q MetricTarget) option"
  ms_ContainerResource :: "(string \<times> string \<times> 'q MetricTarget) option"
  ms_Pods :: "(string \<times> 'q MetricTarget) option"
  ms_Object :: "(string \<times> 'q MetricTarget) option"
  ms_External :: "(string \<times> 'q MetricTarget) option"

record 'q MetricValueStatus =
  mv_AverageUtilization :: "int32 option"
  mv_AverageValue :: "'q option"
  mv_Value :: "'q option"

record 'q MetricStatus =
  mst_Type :: string
  mst_Resource :: "(string \<times> 'q MetricValueStatus) option"
  mst_Pods :: "'q MetricValueStatus option"
  mst_Object :: "'q MetricValueStatus option"
  mst_External :: "'q MetricValueStatus option"

record ScalingPolicy_k =
  sp_Type :: string
  sp_Value :: int32
  sp_PeriodSeconds :: int32

record ScalingRules =
  sr_StabilizationWindowSeconds :: "int32 option"
  sr_SelectPolicy :: "string option"
  sr_Policies :: "ScalingPolicy_k list"

record 'q K8sHPA =
  hpa_Meta :: ObjectMeta
  hpa_TargetKind :: string
  hpa_TargetName :: string
  hpa_TargetAPIVersion :: string
  hpa_MinReplicas :: "int32 option"
  hpa_MaxReplicas :: int32
  hpa_Metrics :: "'q MetricSpec list"
  hpa_Behavior :: "(ScalingRules option \<times> ScalingRules option) option"
  hpa_CurrentReplicas :: int32
  hpa_DesiredReplicas :: int32
  hpa_CurrentMetrics :: "'q MetricStatus list"
  hpa_Conditions :: "Condition list"
  hpa_LastScaleTime :: "Time option"

record 's K8sPDB =
  pdb_Meta :: ObjectMeta
  pdb_Selector :: "LabelSelector option"
  pdb_MinAvailable :: "'s option"
  pdb_MaxUnavailable :: "'s option"
  pdb_CurrentHealthy :: int32
  pdb_DesiredHealthy :: int32
  pdb_DisruptionsAllowed :: int32
  pdb_ExpectedPods :: int32
  pdb_Conditions :: "Condition list"

section \<open>Networking\<close>

record 's K8sServicePort =
  svp_Name :: string
  svp_Protocol :: string
  svp_Port :: int32
  svp_TargetPort :: 's
  svp_NodePort :: int32

record 's K8sService =
  svc_Meta :: ObjectMeta
  svc_Type :: string
  svc_ClusterIP :: string
  svc_ClusterIPs :: "string list"
  svc_ExternalIPs :: "string list"
  svc_Selector :: strmap
  svc_SessionAffinity :: string
  svc_Ports :: "'s K8sServicePort list"
  svc_LoadBalancerClass :: "string option"
  svc_Ingress :: "(string \<times> string) list"

record IngressServiceBackend =
  isb_Name :: string
  isb_PortNumber :: int32
  isb_PortName :: string

record K8sIngressPath =
  ip_Path :: string
  ip_PathType :: "string option"
  ip_Service :: "IngressServiceBackend option"

record K8sIngress =
  ing_Meta :: ObjectMeta
  ing_IngressClassName :: "string option"
  ing_Rules :: "(string \<times> K8sIngressPath list option) list"
  ing_TLS :: "(string list \<times> string) list"
  ing_DefaultBackend :: "IngressServiceBackend option option"
  ing_LoadBalancer :: "(string \<times> string) list"

section \<open>Storage and scheduling\<close>

text \<open>The volume sources that the conversion tells apart; those it only names are booleans.\<close>

record 'q K8sPV =
  pv_Meta :: ObjectMeta
  pv_StorageClassName :: string
  pv_Phase :: string
  pv_MountOptions :: "string list"
  pv_Capacity :: "'q ResourceList"
  pv_AccessModes :: "string list"
  pv_ReclaimPolicy :: string
  pv_VolumeMode :: "string option"
  pv_CSI :: "(string \<times> string \<times> string) option"
  pv_AWSElasticBlockStore :: "(string \<times> int32) option"
  pv_NFS :: "(string \<times> string) option"
  pv_HostPath :: bool
  pv_GCEPersistentDisk :: bool
  pv_AzureDisk :: bool
  pv_AzureFile :: bool
  pv_FC :: bool
  pv_ISCSI :: bool
  pv_Local :: bool
  pv_ClaimRef :: "(string \<times> string \<times> string) option"

record 'q K8sPVC =
  pvc_Meta :: ObjectMeta
  pvc_Phase :: string
  pvc_VolumeName :: string
  pvc_AccessModes :: "string list"
  pvc_StorageClassName :: "string option"
  pvc_VolumeMode :: "string option"
  pvc_Requests :: "'q ResourceList"
  pvc_Capacity :: "'q ResourceList"
  pvc_Conditions :: "Condition list"

record K8sStorageClass =
  sc_Meta :: ObjectMeta
  sc_Provisioner :: string
  sc_Parameters :: strmap
  sc_MountOptions :: "string list"
  sc_ReclaimPolicy :: "string option"
  sc_VolumeBindingMode :: "string option"
  sc_AllowVolumeExpansion :: "bool option"

record K8sPriorityClass =
  pc_Meta :: ObjectMeta
  pc_Value :: int32
  pc_GlobalDefault :: bool
  pc_Description :: string
  pc_PreemptionPolicy :: "string option"

record 'q LimitRangeItem =
  lri_Type :: string
  lri_Default :: "'q ResourceList"
  lri_DefaultRequest :: "'q ResourceList"
  lri_Max :: "'q ResourceList"
  lri_Min :: "'q ResourceList"
  lri_MaxLimitRequestRatio :: "'q ResourceList"

record 'q K8sLimitRange =
  lr_Meta :: ObjectMeta
  lr_Limits :: "'q LimitRangeItem list"

record 'q K8sResourceQuota =
  rq_Meta :: ObjectMeta
  rq_Hard :: "'q ResourceList"
  rq_Used :: "'q ResourceList"

record K8sNamespace =
  ns_Meta :: ObjectMeta
  ns_Phase :: string

section \<open>Untyped objects\<close>

text \<open>
  A value of \<^verbatim>\<open>interface{}\<close> in an untyped object. The getters of \<^verbatim>\<open>unstructured.Unstructured\<close> are of a
  library; what they return for an object is its \<open>u_Meta\<close>.
\<close>

datatype jsonv =
    JNil
  | JBool bool
  | JString string
  | JInt64 int64
  | JInt goint
  | JFloat64 float64
  | JMap "(string \<times> jsonv) list"
  | JList "jsonv list"

record Unstructured =
  u_Meta :: ObjectMeta
  u_Object :: "(string \<times> jsonv) list"

end
