(* ===== verification/Convert_Policy.thy ===== *)
theory Convert_Policy
  imports Convert_Core Kube_Types_More
begin

text \<open>
  \<^verbatim>\<open>internal/convert\<close>, third part: autoscalers and disruption budgets (\<^verbatim>\<open>autoscaling.go\<close>) and the
  conversion of untyped VPA and NodePool objects, whose type assertions are case
  distinctions on \<open>jsonv\<close>.
\<close>

section \<open>HorizontalPodAutoscaler\<close>

definition metricTargetValue :: "('q, 's) kube \<Rightarrow> 'q MetricTarget \<Rightarrow> string" where
  "metricTargetValue K t =
    (if mt_Type t = ''Utilization'' then (case mt_AverageUtilization t of Some n \<Rightarrow> int_to_string (sint n) | None \<Rightarrow> '''')
     else if mt_Type t = ''AverageValue'' then (case mt_AverageValue t of Some q \<Rightarrow> Quantity_String K q | None \<Rightarrow> '''')
     else if mt_Type t = ''Value'' then (case mt_Value t of Some q \<Rightarrow> Quantity_String K q | None \<Rightarrow> '''')
     else '''')"

definition empty_metric :: "string \<Rightarrow> HPAMetricInfo" where
  "empty_metric typ = \<lparr>HPAMetricInfo.Type = typ, HPAMetricInfo.ResourceName = '''', HPAMetricInfo.ContainerName = '''', 
       HPAMetricInfo.MetricName = '''', HPAMetricInfo.TargetType = '''', HPAMetricInfo.TargetValue = ''''\<rparr>"

definition named_metric :: "('q, 's) kube \<Rightarrow> string \<Rightarrow> (string \<times> 'q MetricTarget) option \<Rightarrow> HPAMetricInfo" where
  "named_metric K typ src =
    (case src of None \<Rightarrow> empty_metric typ
     | Some (name, t) \<Rightarrow> (empty_metric typ)\<lparr>HPAMetricInfo.MetricName := name, HPAMetricInfo.TargetType := mt_Type t, 
       HPAMetricInfo.TargetValue := metricTargetValue K t\<rparr>)"

definition convert_metric :: "('q, 's) kube \<Rightarrow> 'q MetricSpec \<Rightarrow> HPAMetricInfo" where
  "convert_metric K m =
    (let typ = ms_Type m in
     if typ = ''Resource'' then
       (case ms_Resource m of None \<Rightarrow> empty_metric typ
        | Some (name, t) \<Rightarrow> (empty_metric typ)\<lparr>HPAMetricInfo.ResourceName := name, HPAMetricInfo.TargetType := mt_Type t, 
       HPAMetricInfo.TargetValue := metricTargetValue K t\<rparr>)
     else if typ = ''ContainerResource'' then
       (case ms_ContainerResource m of None \<Rightarrow> empty_metric typ
        | Some (container, name, t) \<Rightarrow> (empty_metric typ)\<lparr>HPAMetricInfo.ContainerName := container, HPAMetricInfo.ResourceName := name, 
       HPAMetricInfo.TargetType := mt_Type t, HPAMetricInfo.TargetValue := metricTargetValue K t\<rparr>)
     else if typ = ''Pods'' then named_metric K typ (ms_Pods m)
     else if typ = ''Object'' then named_metric K typ (ms_Object m)
     else if typ = ''External'' then named_metric K typ (ms_External m)
     else empty_metric typ)"

definition convertHPAMetrics :: "('q, 's) kube \<Rightarrow> 'q MetricSpec list \<Rightarrow> HPAMetricInfo list" where
  "convertHPAMetrics K = map (convert_metric K)"

definition empty_current :: "string \<Rightarrow> HPACurrentMetricInfo" where
  "empty_current typ = \<lparr>HPACurrentMetricInfo.Type = typ, HPACurrentMetricInfo.ResourceName = '''', 
       HPACurrentMetricInfo.CurrentValue = '''', HPACurrentMetricInfo.CurrentAverageValue = '''', 
       HPACurrentMetricInfo.CurrentUtilization = None\<rparr>"

definition quantity_text :: "('q, 's) kube \<Rightarrow> 'q option \<Rightarrow> string" where
  "quantity_text K q = (case q of None \<Rightarrow> '''' | Some x \<Rightarrow> Quantity_String K x)"

definition convert_current :: "('q, 's) kube \<Rightarrow> 'q MetricStatus \<Rightarrow> HPACurrentMetricInfo" where
  "convert_current K m =
    (let typ = mst_Type m; e = empty_current typ in
     if typ = ''Resource'' then
       (case mst_Resource m of None \<Rightarrow> e
        | Some (name, cur) \<Rightarrow> e\<lparr>HPACurrentMetricInfo.ResourceName := name, 
       HPACurrentMetricInfo.CurrentAverageValue := quantity_text K (mv_AverageValue cur), 
       HPACurrentMetricInfo.CurrentValue := quantity_text K (mv_Value cur), 
       HPACurrentMetricInfo.CurrentUtilization := mv_AverageUtilization cur\<rparr>)
     else if typ = ''Pods'' then
       (case mst_Pods m of None \<Rightarrow> e | Some cur \<Rightarrow> e\<lparr>HPACurrentMetricInfo.CurrentAverageValue := quantity_text K (mv_AverageValue cur)\<rparr>)
     else if typ = ''Object'' then
       (case mst_Object m of None \<Rightarrow> e | Some cur \<Rightarrow> e\<lparr>HPACurrentMetricInfo.CurrentValue := quantity_text K (mv_Value cur)\<rparr>)
     else if typ = ''External'' then
       (case mst_External m of None \<Rightarrow> e
        | Some cur \<Rightarrow> e\<lparr>HPACurrentMetricInfo.CurrentValue := quantity_text K (mv_Value cur), 
       HPACurrentMetricInfo.CurrentAverageValue := quantity_text K (mv_AverageValue cur)\<rparr>)
     else e)"

definition convertHPACurrentMetrics :: "('q, 's) kube \<Rightarrow> 'q MetricStatus list \<Rightarrow> HPACurrentMetricInfo list" where
  "convertHPACurrentMetrics K = map (convert_current K)"

definition convertHPAScalingRules :: "ScalingRules \<Rightarrow> HPAScalingBehavior" where
  "convertHPAScalingRules rules =
     \<lparr>HPAScalingBehavior.StabilizationWindowSeconds = sr_StabilizationWindowSeconds rules, 
       HPAScalingBehavior.Policies = map (\<lambda>p. \<lparr>HPAScalingPolicy.Type = sp_Type p, Value = sp_Value p, PeriodSeconds = sp_PeriodSeconds p\<rparr>) (sr_Policies rules), 
       HPAScalingBehavior.SelectPolicy = (case sr_SelectPolicy rules of None \<Rightarrow> '''' | Some p \<Rightarrow> p)\<rparr>"

definition convertHPAConditions :: "Condition list \<Rightarrow> HPAConditionInfo list" where
  "convertHPAConditions = map (\<lambda>c. \<lparr>HPAConditionInfo.Type = cond_Type c, Status = cond_Status c,
     Reason = cond_Reason c, Message = cond_Message c\<rparr>)"

definition HPAToModel :: "('q, 's) kube \<Rightarrow> 'q K8sHPA \<Rightarrow> HPAInfo" where
  "HPAToModel K hpa =
    (let m = hpa_Meta hpa;
         (up, down) = (case hpa_Behavior hpa of None \<Rightarrow> (None, None) | Some (u, d) \<Rightarrow> (map_option convertHPAScalingRules u, map_option convertHPAScalingRules d))
     in \<lparr>HPAInfo.Name = om_Name m, HPAInfo.UID = om_UID m, HPAInfo.Namespace = om_Namespace m, 
       HPAInfo.TargetKind = hpa_TargetKind hpa, HPAInfo.TargetName = hpa_TargetName hpa, 
       HPAInfo.TargetAPIVersion = hpa_TargetAPIVersion hpa, HPAInfo.MinReplicas = hpa_MinReplicas hpa, 
       HPAInfo.MaxReplicas = hpa_MaxReplicas hpa, HPAInfo.CurrentReplicas = hpa_CurrentReplicas hpa, 
       HPAInfo.DesiredReplicas = hpa_DesiredReplicas hpa, 
       HPAInfo.Metrics = convertHPAMetrics K (hpa_Metrics hpa), 
       HPAInfo.CurrentMetrics = convertHPACurrentMetrics K (hpa_CurrentMetrics hpa), 
       HPAInfo.ScaleUpBehavior = up, HPAInfo.ScaleDownBehavior = down, 
       HPAInfo.Conditions = convertHPAConditions (hpa_Conditions hpa), HPAInfo.Labels = om_Labels m, 
       HPAInfo.Annotations = FilterAnnotations (om_Annotations m), 
       HPAInfo.CreationTimestamp = UnixMilli (om_CreationTimestamp m), 
       HPAInfo.LastScaleTime = map_option UnixMilli (hpa_LastScaleTime hpa)\<rparr>)"

section \<open>PodDisruptionBudget\<close>

definition convertPDBConditions :: "Condition list \<Rightarrow> PDBConditionInfo list" where
  "convertPDBConditions = map (\<lambda>c. \<lparr>PDBConditionInfo.Type = cond_Type c, Status = cond_Status c,
     Reason = cond_Reason c, Message = cond_Message c\<rparr>)"

definition PDBToModel :: "('q, 's) kube \<Rightarrow> 's K8sPDB \<Rightarrow> PDBInfo" where
  "PDBToModel K pdb =
    (let m = pdb_Meta pdb;
         (labels, exprs) = (case pdb_Selector pdb of None \<Rightarrow> ([], [])
            | Some s \<Rightarrow> (ls_MatchLabels s, map (\<lambda>e. \<lparr>LabelSelectorRequirement.Key = lsr_Key e, Operator = lsr_Operator e, Values = lsr_Values e\<rparr>) (ls_MatchExpressions s)));
         text = (\<lambda>x. case x of None \<Rightarrow> '''' | Some v \<Rightarrow> IntOrString_String K v)
     in zero_PDBInfo\<lparr>PDBInfo.Name := om_Name m, PDBInfo.UID := om_UID m, PDBInfo.Namespace := om_Namespace m, 
       PDBInfo.CurrentHealthy := pdb_CurrentHealthy pdb, PDBInfo.DesiredHealthy := pdb_DesiredHealthy pdb, 
       PDBInfo.DisruptionsAllowed := pdb_DisruptionsAllowed pdb, PDBInfo.ExpectedPods := pdb_ExpectedPods pdb, 
       PDBInfo.Labels := om_Labels m, PDBInfo.Annotations := FilterAnnotations (om_Annotations m), 
       PDBInfo.CreationTimestamp := UnixMilli (om_CreationTimestamp m), PDBInfo.MatchLabels := labels, 
       PDBInfo.MatchExpressions := exprs, PDBInfo.MinAvailable := text (pdb_MinAvailable pdb), 
       PDBInfo.MaxUnavailable := text (pdb_MaxUnavailable pdb), 
       PDBInfo.Conditions := convertPDBConditions (pdb_Conditions pdb)\<rparr>)"

section \<open>Untyped objects\<close>

type_synonym jmap = "(string \<times> jsonv) list"

text \<open>\<^verbatim>\<open>m[key].(map[string]interface{})\<close>, \<^verbatim>\<open>m[key].([]interface{})\<close> and \<^verbatim>\<open>m[key].(string)\<close>.\<close>

definition nestedMap :: "jmap \<Rightarrow> string \<Rightarrow> jmap option" where
  "nestedMap obj key = (case map_of obj key of Some (JMap m) \<Rightarrow> Some m | _ \<Rightarrow> None)"

definition nested_list :: "jmap \<Rightarrow> string \<Rightarrow> jsonv list option" where
  "nested_list obj key = (case map_of obj key of Some (JList l) \<Rightarrow> Some l | _ \<Rightarrow> None)"

definition nested_string :: "jmap \<Rightarrow> string \<Rightarrow> string option" where
  "nested_string obj key = (case map_of obj key of Some (JString s) \<Rightarrow> Some s | _ \<Rightarrow> None)"

definition stringVal :: "jmap \<Rightarrow> string \<Rightarrow> string" where
  "stringVal m key = (case nested_string m key of Some s \<Rightarrow> s | None \<Rightarrow> '''')"

text \<open>A loop over a list that skips what is not a map.\<close>

definition each_map :: "(jmap \<Rightarrow> 'a) \<Rightarrow> jsonv list \<Rightarrow> 'a list" where
  "each_map f xs = foldl (\<lambda>out x. case x of JMap m \<Rightarrow> out @ [f m] | _ \<Rightarrow> out) [] xs"

definition parseResourceValues :: "('q, 's) kube \<Rightarrow> jmap \<Rightarrow> string \<Rightarrow> ResourceValues" where
  "parseResourceValues K m key =
    (case nestedMap m key of
       None \<Rightarrow> \<lparr>ResourceValues.CPUCores = f64_zero, MemoryBytes = 0\<rparr>
     | Some bound \<Rightarrow>
         \<lparr>ResourceValues.CPUCores = (case nested_string bound ''cpu'' of Some s \<Rightarrow> ParseQuantityString K s | None \<Rightarrow> f64_zero),
          MemoryBytes = (case nested_string bound ''memory'' of
             Some s \<Rightarrow> f64_to_int64 (float_wide K) (ParseQuantityString K s) | None \<Rightarrow> 0)\<rparr>)"

definition parseVPAContainerRecommendations :: "('q, 's) kube \<Rightarrow> jsonv list \<Rightarrow> VPAContainerRecommendation list" where
  "parseVPAContainerRecommendations K = each_map (\<lambda>cm.
     \<lparr>VPAContainerRecommendation.ContainerName = stringVal cm ''containerName'', 
       VPAContainerRecommendation.LowerBound = parseResourceValues K cm ''lowerBound'', 
       VPAContainerRecommendation.Target = parseResourceValues K cm ''target'', 
       VPAContainerRecommendation.UncappedTarget = parseResourceValues K cm ''uncappedTarget'', 
       VPAContainerRecommendation.UpperBound = parseResourceValues K cm ''upperBound''\<rparr>)"

definition parseVPAConditions :: "jsonv list \<Rightarrow> VPAConditionInfo list" where
  "parseVPAConditions = each_map (\<lambda>cm.
     \<lparr>VPAConditionInfo.Type = stringVal cm ''type'', VPAConditionInfo.Status = stringVal cm ''status'', 
       VPAConditionInfo.Reason = stringVal cm ''reason'', VPAConditionInfo.Message = stringVal cm ''message''\<rparr>)"

definition VPAToModel :: "('q, 's) kube \<Rightarrow> Unstructured \<Rightarrow> VPAInfo" where
  "VPAToModel K obj =
    (let m = u_Meta obj; spec = nestedMap (u_Object obj) ''spec''; status = nestedMap (u_Object obj) ''status'';
         targetRef = Option.bind spec (\<lambda>s. nestedMap s ''targetRef'');
         target = (\<lambda>key. case targetRef of Some t \<Rightarrow> stringVal t key | None \<Rightarrow> '''');
         updatePolicy = Option.bind spec (\<lambda>s. nestedMap s ''updatePolicy'');
         recommendation = Option.bind status (\<lambda>s. nestedMap s ''recommendation'')
     in \<lparr>VPAInfo.Name = om_Name m, VPAInfo.Namespace = om_Namespace m, VPAInfo.TargetKind = target ''kind'', 
       VPAInfo.TargetName = target ''name'', VPAInfo.TargetAPIVersion = target ''apiVersion'', 
       VPAInfo.UpdateMode = (case updatePolicy of Some p \<Rightarrow> stringVal p ''updateMode'' | None \<Rightarrow> ''''), 
       VPAInfo.ContainerRecommendations = (case Option.bind recommendation (\<lambda>r. nested_list r ''containerRecommendations'') of Some l \<Rightarrow> parseVPAContainerRecommendations K l | None \<Rightarrow> []), 
       VPAInfo.Conditions = (case Option.bind status (\<lambda>s. nested_list s ''conditions'') of Some l \<Rightarrow> parseVPAConditions l | None \<Rightarrow> []), 
       VPAInfo.Labels = om_Labels m, VPAInfo.CreationTimestamp = UnixMilli (om_CreationTimestamp m)\<rparr>)"

text \<open>\<^verbatim>\<open>nodePoolToModel\<close> and its helpers, from \<^verbatim>\<open>internal/collector/resource/nodepools.go\<close>.\<close>

definition stringField :: "jmap \<Rightarrow> string \<Rightarrow> string" where
  "stringField m key = (case map_of m key of Some (JString s) \<Rightarrow> s | _ \<Rightarrow> '''')"

definition toInt :: "(float64 \<Rightarrow> int64) \<Rightarrow> jsonv \<Rightarrow> goint option" where
  "toInt wide v = (case v of JInt64 n \<Rightarrow> Some n | JFloat64 x \<Rightarrow> Some (f64_to_int64 wide x) | JInt n \<Rightarrow> Some n | _ \<Rightarrow> None)"

definition string_values :: "jsonv list \<Rightarrow> string list" where
  "string_values xs = foldl (\<lambda>vs v. case v of JString s \<Rightarrow> vs @ [s] | _ \<Rightarrow> vs) [] xs"

definition nodePoolToModel :: "('q, 's) kube \<Rightarrow> Unstructured \<Rightarrow> NodePoolInfo" where
  "nodePoolToModel K obj =
    (let m = u_Meta obj; spec = nestedMap (u_Object obj) ''spec'';
         tmplSpec = Option.bind (Option.bind spec (\<lambda>s. nestedMap s ''template'')) (\<lambda>t. nestedMap t ''spec'');
         limits = Option.bind spec (\<lambda>s. nestedMap s ''limits'');
         limit = (\<lambda>key. Option.bind limits (\<lambda>l. Option.bind (map_of l key) (toInt (float_wide K))))
     in \<lparr>NodePoolInfo.Name = om_Name m, NodePoolInfo.UID = om_UID m, 
       NodePoolInfo.MinReplicas = limit ''minReplicas'', NodePoolInfo.MaxReplicas = limit ''maxReplicas'', 
       NodePoolInfo.NodeClassName = (case Option.bind tmplSpec (\<lambda>t. nestedMap t ''nodeClassRef'') of Some r \<Rightarrow> stringField r ''name'' | None \<Rightarrow> ''''), 
       NodePoolInfo.Labels = om_Labels m, NodePoolInfo.Annotations = om_Annotations m, 
       NodePoolInfo.Taints = (case Option.bind tmplSpec (\<lambda>t. nested_list t ''taints'') of Some l \<Rightarrow> each_map (\<lambda>tm. \<lparr>TaintInfo.Key = stringField tm ''key'', Value = stringField tm ''value'', Effect = stringField tm ''effect''\<rparr>) l | None \<Rightarrow> []), 
       NodePoolInfo.Requirements = (case Option.bind tmplSpec (\<lambda>t. nested_list t ''requirements'') of Some l \<Rightarrow> each_map (\<lambda>rm. \<lparr>NodeSelectorRequirement.Key = stringField rm ''key'', Operator = stringField rm ''operator'', Values = (case nested_list rm ''values'' of Some vs \<Rightarrow> string_values vs | None \<Rightarrow> [])\<rparr>) l | None \<Rightarrow> []), 
       NodePoolInfo.CreationTimestamp = UnixMilli (om_CreationTimestamp m)\<rparr>)"

section \<open>Keys, and a status that is lost\<close>

lemma policy_keys [simp]:
  "HPAInfo.Namespace (HPAToModel K hpa) = om_Namespace (hpa_Meta hpa)" "HPAInfo.Name (HPAToModel K hpa) = om_Name (hpa_Meta hpa)"
  "PDBInfo.Namespace (PDBToModel K pdb) = om_Namespace (pdb_Meta pdb)" "PDBInfo.Name (PDBToModel K pdb) = om_Name (pdb_Meta pdb)"
  "VPAInfo.Namespace (VPAToModel K u) = om_Namespace (u_Meta u)" "VPAInfo.Name (VPAToModel K u) = om_Name (u_Meta u)"
  "NodePoolInfo.Name (nodePoolToModel K u) = om_Name (u_Meta u)"
  by (simp_all add: HPAToModel_def PDBToModel_def VPAToModel_def nodePoolToModel_def Let_def case_prod_unfold)

text \<open>
  The target of a container metric is converted, its current value is not: whatever the
  autoscaler reports for a metric of type ContainerResource, the model has no value.
\<close>

lemma container_metric_status_lost:
  "convert_current K \<lparr>mst_Type = ''ContainerResource'', mst_Resource = r, mst_Pods = p, mst_Object = ob, mst_External = ex\<rparr> =
   empty_current ''ContainerResource''"
  by (simp add: convert_current_def Let_def)

end
