(* ===== verification/Convert_Resources.thy ===== *)
theory Convert_Resources
  imports Convert_Core Kube_Types_More
begin

text \<open>
  \<^verbatim>\<open>internal/convert\<close>, last part: services and ingresses (\<^verbatim>\<open>network.go\<close>), volumes, claims and
  storage classes (\<^verbatim>\<open>storage.go\<close>), priority classes, limit ranges, quotas and namespaces
  (\<^verbatim>\<open>scheduling.go\<close>).
\<close>

section \<open>Networking\<close>

definition load_balancer :: "'s K8sService \<Rightarrow> LoadBalancerInfo" where
  "load_balancer svc =
    (let ann = om_Annotations (svc_Meta svc) in
     \<lparr>LoadBalancerInfo.Ingress = map (\<lambda>(ip, host). \<lparr>LoadBalancerIngress.IP = ip, Hostname = host\<rparr>) (svc_Ingress svc), 
       LoadBalancerInfo.Class = (case svc_LoadBalancerClass svc of None \<Rightarrow> '''' | Some c \<Rightarrow> c), 
       LoadBalancerInfo.AWSLoadBalancerType = map_str ann ''service.beta.kubernetes.io/aws-load-balancer-type'', 
       LoadBalancerInfo.AWSScheme = map_str ann ''service.beta.kubernetes.io/aws-load-balancer-scheme'', 
       LoadBalancerInfo.AWSARNAnnotation = map_str ann ''service.beta.kubernetes.io/aws-load-balancer-arn''\<rparr>)"

definition ServiceToModel :: "('q, 's) kube \<Rightarrow> 's K8sService \<Rightarrow> ServiceInfo" where
  "ServiceToModel K svc =
    (let m = svc_Meta svc in
     zero_ServiceInfo\<lparr>ServiceInfo.Name := om_Name m, ServiceInfo.Namespace := om_Namespace m, ServiceInfo.Type := svc_Type svc, 
       ServiceInfo.ClusterIP := svc_ClusterIP svc, ServiceInfo.ClusterIPs := svc_ClusterIPs svc, 
       ServiceInfo.Selector := svc_Selector svc, ServiceInfo.Labels := om_Labels m, 
       ServiceInfo.Annotations := FilterAnnotations (om_Annotations m), 
       ServiceInfo.CreationTimestamp := UnixMilli (om_CreationTimestamp m), 
       ServiceInfo.SessionAffinity := svc_SessionAffinity svc, ServiceInfo.ExternalIPs := svc_ExternalIPs svc, 
       ServiceInfo.Ports := map (\<lambda>p. \<lparr>ServicePortInfo.Name = svp_Name p, Protocol = svp_Protocol p, Port = svp_Port p, TargetPort = IntOrString_String K (svp_TargetPort p), NodePort = svp_NodePort p\<rparr>) (svc_Ports svc), 
       ServiceInfo.LoadBalancer := (if svc_Type svc = ''LoadBalancer'' then Some (load_balancer svc) else None)\<rparr>)"

definition backend_port :: "IngressServiceBackend \<Rightarrow> string" where
  "backend_port b = (if isb_PortNumber b \<noteq> 0 then int_to_string (sint (isb_PortNumber b)) else isb_PortName b)"

definition ingress_path :: "K8sIngressPath \<Rightarrow> IngressPathInfo" where
  "ingress_path p =
     \<lparr>IngressPathInfo.Path = ip_Path p, 
       IngressPathInfo.PathType = (case ip_PathType p of None \<Rightarrow> '''' | Some t \<Rightarrow> t), 
       IngressPathInfo.BackendService = (case ip_Service p of None \<Rightarrow> '''' | Some b \<Rightarrow> isb_Name b), 
       IngressPathInfo.BackendPort = (case ip_Service p of None \<Rightarrow> '''' | Some b \<Rightarrow> backend_port b)\<rparr>"

definition lb_hostnames :: "(string \<times> string) list \<Rightarrow> string list" where
  "lb_hostnames lbs =
     foldl (\<lambda>hs (ip, host). if host \<noteq> '''' then hs @ [host] else if ip \<noteq> '''' then hs @ [ip] else hs) [] lbs"

definition IngressToModel :: "K8sIngress \<Rightarrow> IngressInfo" where
  "IngressToModel ing =
    (let m = ing_Meta ing in
     \<lparr>IngressInfo.Name = om_Name m, IngressInfo.Namespace = om_Namespace m, 
       IngressInfo.IngressClassName = (case ing_IngressClassName ing of None \<Rightarrow> '''' | Some c \<Rightarrow> c), 
       IngressInfo.Rules = map (\<lambda>(host, http). \<lparr>IngressRuleInfo.Host = host, Paths = (case http of None \<Rightarrow> [] | Some ps \<Rightarrow> map ingress_path ps)\<rparr>) (ing_Rules ing), 
       IngressInfo.TLS = map (\<lambda>(hosts, secret). \<lparr>IngressTLSInfo.Hosts = hosts, SecretName = secret\<rparr>) (ing_TLS ing), 
       IngressInfo.DefaultBackend = (case ing_DefaultBackend ing of Some (Some b) \<Rightarrow> Some \<lparr>IngressBackendInfo.ServiceName = isb_Name b, ServicePort = backend_port b\<rparr> | _ \<Rightarrow> None), 
       IngressInfo.Labels = om_Labels m, IngressInfo.Annotations = FilterAnnotations (om_Annotations m), 
       IngressInfo.CreationTimestamp = UnixMilli (om_CreationTimestamp m), 
       IngressInfo.LoadBalancerHostnames = lb_hostnames (ing_LoadBalancer ing)\<rparr>)"

section \<open>Storage\<close>

definition zero_PVSourceInfo :: PVSourceInfo where
  "zero_PVSourceInfo = \<lparr>PVSourceInfo.Type = '''', PVSourceInfo.CSIDriver = '''', PVSourceInfo.CSIVolumeHandle = '''', 
       PVSourceInfo.CSIFSType = '''', PVSourceInfo.AWSVolumeID = '''', PVSourceInfo.AWSPartition = 0, 
       PVSourceInfo.NFSServer = '''', PVSourceInfo.NFSPath = ''''\<rparr>"

definition extractPVSource :: "'q K8sPV \<Rightarrow> PVSourceInfo" where
  "extractPVSource pv =
    (case pv_CSI pv of Some (driver, handle, fs) \<Rightarrow>
       zero_PVSourceInfo\<lparr>PVSourceInfo.Type := ''csi'', PVSourceInfo.CSIDriver := driver, PVSourceInfo.CSIVolumeHandle := handle, 
       PVSourceInfo.CSIFSType := fs\<rparr>
     | None \<Rightarrow> (case pv_AWSElasticBlockStore pv of Some (volumeID, part) \<Rightarrow>
       zero_PVSourceInfo\<lparr>PVSourceInfo.Type := ''awsElasticBlockStore'', PVSourceInfo.AWSVolumeID := volumeID, 
       PVSourceInfo.AWSPartition := scast part\<rparr>
     | None \<Rightarrow> (case pv_NFS pv of Some (server, path) \<Rightarrow>
       zero_PVSourceInfo\<lparr>PVSourceInfo.Type := ''nfs'', PVSourceInfo.NFSServer := server, PVSourceInfo.NFSPath := path\<rparr>
     | None \<Rightarrow>
       zero_PVSourceInfo\<lparr>PVSourceInfo.Type := (if pv_HostPath pv then ''hostPath'' else if pv_GCEPersistentDisk pv then ''gcePersistentDisk'' else if pv_AzureDisk pv then ''azureDisk'' else if pv_AzureFile pv then ''azureFile'' else if pv_FC pv then ''fc'' else if pv_ISCSI pv then ''iscsi'' else if pv_Local pv then ''local'' else '''')\<rparr>)))"

definition PVToModel :: "('q, 's) kube \<Rightarrow> 'q K8sPV \<Rightarrow> PVInfo" where
  "PVToModel K pv =
    (let m = pv_Meta pv in
     \<lparr>PVInfo.Name = om_Name m, PVInfo.Capacity = quantityValue K (pv_Capacity pv) ResourceStorage, 
       PVInfo.AccessModes = pv_AccessModes pv, PVInfo.ReclaimPolicy = pv_ReclaimPolicy pv, 
       PVInfo.StorageClassName = pv_StorageClassName pv, 
       PVInfo.VolumeMode = (case pv_VolumeMode pv of Some v \<Rightarrow> v | None \<Rightarrow> ''Filesystem''), 
       PVInfo.Phase = pv_Phase pv, PVInfo.MountOptions = pv_MountOptions pv, PVInfo.Source = extractPVSource pv, 
       PVInfo.ClaimRef = (case pv_ClaimRef pv of None \<Rightarrow> None | Some (ns, name, uid) \<Rightarrow> Some \<lparr>PVClaimRefInfo.Namespace = ns, Name = name, UID = uid\<rparr>), 
       PVInfo.Labels = om_Labels m, PVInfo.Annotations = FilterAnnotations (om_Annotations m), 
       PVInfo.CreationTimestamp = UnixMilli (om_CreationTimestamp m)\<rparr>)"

definition convertPVCConditions :: "Condition list \<Rightarrow> PVCConditionInfo list" where
  "convertPVCConditions = map (\<lambda>c. \<lparr>PVCConditionInfo.Type = cond_Type c, Status = cond_Status c,
     Reason = cond_Reason c, Message = cond_Message c\<rparr>)"

definition PVCToModel :: "('q, 's) kube \<Rightarrow> 'q K8sPVC \<Rightarrow> PVCInfo" where
  "PVCToModel K pvc =
    (let m = pvc_Meta pvc in
     \<lparr>PVCInfo.Name = om_Name m, PVCInfo.Namespace = om_Namespace m, PVCInfo.Phase = pvc_Phase pvc, 
       PVCInfo.AccessModes = pvc_AccessModes pvc, 
       PVCInfo.StorageClassName = (case pvc_StorageClassName pvc of None \<Rightarrow> '''' | Some s \<Rightarrow> s), 
       PVCInfo.VolumeMode = (case pvc_VolumeMode pvc of Some v \<Rightarrow> v | None \<Rightarrow> ''Filesystem''), 
       PVCInfo.VolumeName = pvc_VolumeName pvc, 
       PVCInfo.RequestedBytes = quantityValue K (pvc_Requests pvc) ResourceStorage, 
       PVCInfo.CapacityBytes = quantityValue K (pvc_Capacity pvc) ResourceStorage, PVCInfo.MountedByPods = [], 
       PVCInfo.Labels = om_Labels m, PVCInfo.Annotations = FilterAnnotations (om_Annotations m), 
       PVCInfo.CreationTimestamp = UnixMilli (om_CreationTimestamp m), 
       PVCInfo.Conditions = convertPVCConditions (pvc_Conditions pvc)\<rparr>)"

definition StorageClassToModel :: "K8sStorageClass \<Rightarrow> StorageClassInfo" where
  "StorageClassToModel sc =
    (let m = sc_Meta sc in
     \<lparr>StorageClassInfo.Name = om_Name m, StorageClassInfo.Provisioner = sc_Provisioner sc, 
       StorageClassInfo.ReclaimPolicy = (case sc_ReclaimPolicy sc of None \<Rightarrow> '''' | Some p \<Rightarrow> p), 
       StorageClassInfo.VolumeBindingMode = (case sc_VolumeBindingMode sc of None \<Rightarrow> '''' | Some v \<Rightarrow> v), 
       StorageClassInfo.AllowVolumeExpansion = (case sc_AllowVolumeExpansion sc of None \<Rightarrow> False | Some b \<Rightarrow> b), 
       StorageClassInfo.Parameters = sc_Parameters sc, StorageClassInfo.MountOptions = sc_MountOptions sc, 
       StorageClassInfo.Labels = om_Labels m, StorageClassInfo.Annotations = om_Annotations m, 
       StorageClassInfo.IsDefault = (map_str (om_Annotations m) ''storageclass.kubernetes.io/is-default-class'' = ''true'')\<rparr>)"

section \<open>Scheduling\<close>

definition PriorityClassToModel :: "K8sPriorityClass \<Rightarrow> PriorityClassInfo" where
  "PriorityClassToModel pc =
     \<lparr>PriorityClassInfo.Name = om_Name (pc_Meta pc), PriorityClassInfo.Value = pc_Value pc, 
       PriorityClassInfo.GlobalDefault = pc_GlobalDefault pc, 
       PriorityClassInfo.PreemptionPolicy = (case pc_PreemptionPolicy pc of None \<Rightarrow> '''' | Some p \<Rightarrow> p), 
       PriorityClassInfo.Description = pc_Description pc\<rparr>"

definition resourceListToStringMap :: "('q, 's) kube \<Rightarrow> 'q ResourceList \<Rightarrow> strmap" where
  "resourceListToStringMap K rl = foldl (\<lambda>m (k, v). map_set k (Quantity_String K v) m) [] rl"

definition LimitRangeToModel :: "('q, 's) kube \<Rightarrow> 'q K8sLimitRange \<Rightarrow> LimitRangeInfo" where
  "LimitRangeToModel K lr =
     \<lparr>LimitRangeInfo.Name = om_Name (lr_Meta lr), LimitRangeInfo.Namespace = om_Namespace (lr_Meta lr), 
       LimitRangeInfo.Limits = map (\<lambda>l. \<lparr>LimitRangeItemInfo.Type = lri_Type l, DefaultL = resourceListToStringMap K (lri_Default l), DefaultRequest = resourceListToStringMap K (lri_DefaultRequest l), MaxL = resourceListToStringMap K (lri_Max l), MinL = resourceListToStringMap K (lri_Min l), MaxLimitRequestRatio = resourceListToStringMap K (lri_MaxLimitRequestRatio l)\<rparr>) (lr_Limits lr)\<rparr>"

definition ResourceQuotaToModel :: "('q, 's) kube \<Rightarrow> 'q K8sResourceQuota \<Rightarrow> ResourceQuotaInfo" where
  "ResourceQuotaToModel K rq =
     \<lparr>ResourceQuotaInfo.Name = om_Name (rq_Meta rq), ResourceQuotaInfo.Namespace = om_Namespace (rq_Meta rq), 
       ResourceQuotaInfo.Hard = resourceListToStringMap K (rq_Hard rq), 
       ResourceQuotaInfo.Used = resourceListToStringMap K (rq_Used rq), 
       ResourceQuotaInfo.Labels = om_Labels (rq_Meta rq)\<rparr>"

definition NamespaceToModel :: "K8sNamespace \<Rightarrow> NamespaceInfo" where
  "NamespaceToModel ns =
     \<lparr>NamespaceInfo.Name = om_Name (ns_Meta ns), NamespaceInfo.Phase = ns_Phase ns, 
       NamespaceInfo.Labels = om_Labels (ns_Meta ns), 
       NamespaceInfo.Annotations = FilterAnnotations (om_Annotations (ns_Meta ns)), 
       NamespaceInfo.CreationTimestamp = UnixMilli (om_CreationTimestamp (ns_Meta ns))\<rparr>"

section \<open>Keys\<close>

lemma resource_keys [simp]:
  "ServiceInfo.Namespace (ServiceToModel K svc) = om_Namespace (svc_Meta svc)" "ServiceInfo.Name (ServiceToModel K svc) = om_Name (svc_Meta svc)"
  "IngressInfo.Namespace (IngressToModel ing) = om_Namespace (ing_Meta ing)" "IngressInfo.Name (IngressToModel ing) = om_Name (ing_Meta ing)"
  "PVInfo.Name (PVToModel K pv) = om_Name (pv_Meta pv)"
  "PVCInfo.Namespace (PVCToModel K pvc) = om_Namespace (pvc_Meta pvc)" "PVCInfo.Name (PVCToModel K pvc) = om_Name (pvc_Meta pvc)"
  "StorageClassInfo.Name (StorageClassToModel sc) = om_Name (sc_Meta sc)"
  "PriorityClassInfo.Name (PriorityClassToModel pc) = om_Name (pc_Meta pc)"
  "LimitRangeInfo.Namespace (LimitRangeToModel K lr) = om_Namespace (lr_Meta lr)" "LimitRangeInfo.Name (LimitRangeToModel K lr) = om_Name (lr_Meta lr)"
  "ResourceQuotaInfo.Namespace (ResourceQuotaToModel K rq) = om_Namespace (rq_Meta rq)"
  "ResourceQuotaInfo.Name (ResourceQuotaToModel K rq) = om_Name (rq_Meta rq)"
  "NamespaceInfo.Name (NamespaceToModel ns) = om_Name (ns_Meta ns)"
  by (simp_all add: ServiceToModel_def IngressToModel_def PVToModel_def PVCToModel_def StorageClassToModel_def
      PriorityClassToModel_def LimitRangeToModel_def ResourceQuotaToModel_def NamespaceToModel_def Let_def)

end
