(* ===== verification/Collectors.thy ===== *)
theory Collectors
  imports Informers Convert_Workload Convert_Policy Convert_Resources
begin

text \<open>
  The 21 informer collectors of \<^verbatim>\<open>internal/collector/resource\<close>: for each, its event handlers (on
  the store it writes and the metrics) and the collector the registry sees. The handlers run
  in goroutines of their own; \<open>dispatch\<close> runs whichever an event belongs to, so that a list of
  events is an interleaving of the goroutines. The locale \<open>watched_kind\<close> is what one collector
  promises in that company; it is interpreted for all 21, and the last theorem collects them.
\<close>

section \<open>Handlers\<close>

text \<open>
  Of the keys, the first is computed from the converted object (add and update), the second
  from the object itself (delete).
\<close>

definition podKey :: "string \<Rightarrow> string \<Rightarrow> string" where
  "podKey namespace name = namespace @ ''/'' @ name"

definition in_store :: "(Store \<Rightarrow> 'i TypedStore) \<Rightarrow> (('i TypedStore \<Rightarrow> 'i TypedStore) \<Rightarrow> Store \<Rightarrow> Store) \<Rightarrow>
    ('i TypedStore \<times> Metrics \<Rightarrow> 'i TypedStore \<times> Metrics) \<Rightarrow> Store \<times> Metrics \<Rightarrow> Store \<times> Metrics" where
  "in_store get upd h = (\<lambda>(st, m). let (s, m') = h (get st, m) in (upd (\<lambda>_. s) st, m'))"

definition Node_okey :: "'q K8sNode \<Rightarrow> string" where
  "Node_okey x = om_Name (node_Meta x)"

definition NodeCollector_handle :: "('q, 's) kube \<Rightarrow> Time \<Rightarrow> 'q K8sNode informer_event \<Rightarrow> Store \<times> Metrics \<Rightarrow> Store \<times> Metrics" where
  "NodeCollector_handle K now ev =
     in_store Store.Nodes Store.Nodes_update
       (handle_event ''nodes'' (NodeToModel K) NodeInfo.Name Node_okey now ev)"

definition NodeCollector :: "goerror option \<Rightarrow> bool \<Rightarrow> informer \<Rightarrow> Collector" where
  "NodeCollector = informer_Collector ''nodes''"

definition Pod_okey :: "'q K8sPod \<Rightarrow> string" where
  "Pod_okey x = podKey (om_Namespace (pod_Meta x)) (om_Name (pod_Meta x))"

definition PodCollector_handle :: "('q, 's) kube \<Rightarrow> Time \<Rightarrow> 'q K8sPod informer_event \<Rightarrow> Store \<times> Metrics \<Rightarrow> Store \<times> Metrics" where
  "PodCollector_handle K now ev =
     in_store Store.Pods Store.Pods_update
       (handle_event ''pods'' (PodToModel K) (\<lambda>info. podKey (PodInfo.Namespace info) (PodInfo.Name info)) Pod_okey now ev)"

definition PodCollector :: "goerror option \<Rightarrow> bool \<Rightarrow> informer \<Rightarrow> Collector" where
  "PodCollector = informer_Collector ''pods''"

definition Namespace_okey :: "K8sNamespace \<Rightarrow> string" where
  "Namespace_okey x = om_Name (ns_Meta x)"

definition NamespaceCollector_handle :: "('q, 's) kube \<Rightarrow> Time \<Rightarrow> K8sNamespace informer_event \<Rightarrow> Store \<times> Metrics \<Rightarrow> Store \<times> Metrics" where
  "NamespaceCollector_handle K now ev =
     in_store Store.Namespaces Store.Namespaces_update
       (handle_event ''namespaces'' NamespaceToModel NamespaceInfo.Name Namespace_okey now ev)"

definition NamespaceCollector :: "goerror option \<Rightarrow> bool \<Rightarrow> informer \<Rightarrow> Collector" where
  "NamespaceCollector = informer_Collector ''namespaces''"

definition Deployment_okey :: "('q, 's) K8sDeployment \<Rightarrow> string" where
  "Deployment_okey x = nsNameKey (om_Namespace (dep_Meta x)) (om_Name (dep_Meta x))"

definition DeploymentCollector_handle :: "('q, 's) kube \<Rightarrow> Time \<Rightarrow> ('q, 's) K8sDeployment informer_event \<Rightarrow> Store \<times> Metrics \<Rightarrow> Store \<times> Metrics" where
  "DeploymentCollector_handle K now ev =
     in_store Store.Deployments Store.Deployments_update
       (handle_event ''deployments'' (DeploymentToModel K) (\<lambda>info. nsNameKey (DeploymentInfo.Namespace info) (DeploymentInfo.Name info)) Deployment_okey now ev)"

definition DeploymentCollector :: "goerror option \<Rightarrow> bool \<Rightarrow> informer \<Rightarrow> Collector" where
  "DeploymentCollector = informer_Collector ''deployments''"

definition StatefulSet_okey :: "'q K8sStatefulSet \<Rightarrow> string" where
  "StatefulSet_okey x = nsNameKey (om_Namespace (ss_Meta x)) (om_Name (ss_Meta x))"

definition StatefulSetCollector_handle :: "('q, 's) kube \<Rightarrow> Time \<Rightarrow> 'q K8sStatefulSet informer_event \<Rightarrow> Store \<times> Metrics \<Rightarrow> Store \<times> Metrics" where
  "StatefulSetCollector_handle K now ev =
     in_store Store.StatefulSets Store.StatefulSets_update
       (handle_event ''statefulsets'' (StatefulSetToModel K) (\<lambda>info. nsNameKey (StatefulSetInfo.Namespace info) (StatefulSetInfo.Name info)) StatefulSet_okey now ev)"

definition StatefulSetCollector :: "goerror option \<Rightarrow> bool \<Rightarrow> informer \<Rightarrow> Collector" where
  "StatefulSetCollector = informer_Collector ''statefulsets''"

definition DaemonSet_okey :: "'q K8sDaemonSet \<Rightarrow> string" where
  "DaemonSet_okey x = nsNameKey (om_Namespace (ds_Meta x)) (om_Name (ds_Meta x))"

definition DaemonSetCollector_handle :: "('q, 's) kube \<Rightarrow> Time \<Rightarrow> 'q K8sDaemonSet informer_event \<Rightarrow> Store \<times> Metrics \<Rightarrow> Store \<times> Metrics" where
  "DaemonSetCollector_handle K now ev =
     in_store Store.DaemonSets Store.DaemonSets_update
       (handle_event ''daemonsets'' (DaemonSetToModel K) (\<lambda>info. nsNameKey (DaemonSetInfo.Namespace info) (DaemonSetInfo.Name info)) DaemonSet_okey now ev)"

definition DaemonSetCollector :: "goerror option \<Rightarrow> bool \<Rightarrow> informer \<Rightarrow> Collector" where
  "DaemonSetCollector = informer_Collector ''daemonsets''"

definition ReplicaSet_okey :: "K8sReplicaSet \<Rightarrow> string" where
  "ReplicaSet_okey x = nsNameKey (om_Namespace (rs_Meta x)) (om_Name (rs_Meta x))"

definition ReplicaSetCollector_handle :: "('q, 's) kube \<Rightarrow> Time \<Rightarrow> K8sReplicaSet informer_event \<Rightarrow> Store \<times> Metrics \<Rightarrow> Store \<times> Metrics" where
  "ReplicaSetCollector_handle K now ev =
     in_store Store.ReplicaSets Store.ReplicaSets_update
       (handle_event ''replicasets'' ReplicaSetToModel (\<lambda>info. nsNameKey (ReplicaSetInfo.Namespace info) (ReplicaSetInfo.Name info)) ReplicaSet_okey now ev)"

definition ReplicaSetCollector :: "goerror option \<Rightarrow> bool \<Rightarrow> informer \<Rightarrow> Collector" where
  "ReplicaSetCollector = informer_Collector ''replicasets''"

definition Job_okey :: "'q K8sJob \<Rightarrow> string" where
  "Job_okey x = nsNameKey (om_Namespace (job_Meta x)) (om_Name (job_Meta x))"

definition JobCollector_handle :: "('q, 's) kube \<Rightarrow> Time \<Rightarrow> 'q K8sJob informer_event \<Rightarrow> Store \<times> Metrics \<Rightarrow> Store \<times> Metrics" where
  "JobCollector_handle K now ev =
     in_store Store.Jobs Store.Jobs_update
       (handle_event ''jobs'' (JobToModel K) (\<lambda>info. nsNameKey (JobInfo.Namespace info) (JobInfo.Name info)) Job_okey now ev)"

definition JobCollector :: "goerror option \<Rightarrow> bool \<Rightarrow> informer \<Rightarrow> Collector" where
  "JobCollector = informer_Collector ''jobs''"

definition CronJob_okey :: "'q K8sCronJob \<Rightarrow> string" where
  "CronJob_okey x = nsNameKey (om_Namespace (cj_Meta x)) (om_Name (cj_Meta x))"

definition CronJobCollector_handle :: "('q, 's) kube \<Rightarrow> Time \<Rightarrow> 'q K8sCronJob informer_event \<Rightarrow> Store \<times> Metrics \<Rightarrow> Store \<times> Metrics" where
  "CronJobCollector_handle K now ev =
     in_store Store.CronJobs Store.CronJobs_update
       (handle_event ''cronjobs'' (CronJobToModel K) (\<lambda>info. nsNameKey (CronJobInfo.Namespace info) (CronJobInfo.Name info)) CronJob_okey now ev)"

definition CronJobCollector :: "goerror option \<Rightarrow> bool \<Rightarrow> informer \<Rightarrow> Collector" where
  "CronJobCollector = informer_Collector ''cronjobs''"

definition HPA_okey :: "'q K8sHPA \<Rightarrow> string" where
  "HPA_okey x = nsNameKey (om_Namespace (hpa_Meta x)) (om_Name (hpa_Meta x))"

definition HPACollector_handle :: "('q, 's) kube \<Rightarrow> Time \<Rightarrow> 'q K8sHPA informer_event \<Rightarrow> Store \<times> Metrics \<Rightarrow> Store \<times> Metrics" where
  "HPACollector_handle K now ev =
     in_store Store.HPAs Store.HPAs_update
       (handle_event ''hpas'' (HPAToModel K) (\<lambda>info. nsNameKey (HPAInfo.Namespace info) (HPAInfo.Name info)) HPA_okey now ev)"

definition HPACollector :: "goerror option \<Rightarrow> bool \<Rightarrow> informer \<Rightarrow> Collector" where
  "HPACollector = informer_Collector ''hpas''"

definition VPA_okey :: "Unstructured \<Rightarrow> string" where
  "VPA_okey x = nsNameKey (om_Namespace (u_Meta x)) (om_Name (u_Meta x))"

definition VPACollector_handle :: "('q, 's) kube \<Rightarrow> Time \<Rightarrow> Unstructured informer_event \<Rightarrow> Store \<times> Metrics \<Rightarrow> Store \<times> Metrics" where
  "VPACollector_handle K now ev =
     in_store Store.VPAs Store.VPAs_update
       (handle_event ''vpas'' (VPAToModel K) (\<lambda>info. nsNameKey (VPAInfo.Namespace info) (VPAInfo.Name info)) VPA_okey now ev)"

definition VPACollector :: "goerror option \<Rightarrow> bool \<Rightarrow> informer \<Rightarrow> Collector" where
  "VPACollector = informer_Collector ''vpas''"

definition PDB_okey :: "'s K8sPDB \<Rightarrow> string" where
  "PDB_okey x = nsNameKey (om_Namespace (pdb_Meta x)) (om_Name (pdb_Meta x))"

definition PDBCollector_handle :: "('q, 's) kube \<Rightarrow> Time \<Rightarrow> 's K8sPDB informer_event \<Rightarrow> Store \<times> Metrics \<Rightarrow> Store \<times> Metrics" where
  "PDBCollector_handle K now ev =
     in_store Store.PDBs Store.PDBs_update
       (handle_event ''pdbs'' (PDBToModel K) (\<lambda>info. nsNameKey (PDBInfo.Namespace info) (PDBInfo.Name info)) PDB_okey now ev)"

definition PDBCollector :: "goerror option \<Rightarrow> bool \<Rightarrow> informer \<Rightarrow> Collector" where
  "PDBCollector = informer_Collector ''pdbs''"

definition Service_okey :: "'s K8sService \<Rightarrow> string" where
  "Service_okey x = nsNameKey (om_Namespace (svc_Meta x)) (om_Name (svc_Meta x))"

definition ServiceCollector_handle :: "('q, 's) kube \<Rightarrow> Time \<Rightarrow> 's K8sService informer_event \<Rightarrow> Store \<times> Metrics \<Rightarrow> Store \<times> Metrics" where
  "ServiceCollector_handle K now ev =
     in_store Store.Services Store.Services_update
       (handle_event ''services'' (ServiceToModel K) (\<lambda>info. nsNameKey (ServiceInfo.Namespace info) (ServiceInfo.Name info)) Service_okey now ev)"

definition ServiceCollector :: "goerror option \<Rightarrow> bool \<Rightarrow> informer \<Rightarrow> Collector" where
  "ServiceCollector = informer_Collector ''services''"

definition Ingress_okey :: "K8sIngress \<Rightarrow> string" where
  "Ingress_okey x = nsNameKey (om_Namespace (ing_Meta x)) (om_Name (ing_Meta x))"

definition IngressCollector_handle :: "('q, 's) kube \<Rightarrow> Time \<Rightarrow> K8sIngress informer_event \<Rightarrow> Store \<times> Metrics \<Rightarrow> Store \<times> Metrics" where
  "IngressCollector_handle K now ev =
     in_store Store.Ingresses Store.Ingresses_update
       (handle_event ''ingresses'' IngressToModel (\<lambda>info. nsNameKey (IngressInfo.Namespace info) (IngressInfo.Name info)) Ingress_okey now ev)"

definition IngressCollector :: "goerror option \<Rightarrow> bool \<Rightarrow> informer \<Rightarrow> Collector" where
  "IngressCollector = informer_Collector ''ingresses''"

definition PV_okey :: "'q K8sPV \<Rightarrow> string" where
  "PV_okey x = om_Name (pv_Meta x)"

definition PVCollector_handle :: "('q, 's) kube \<Rightarrow> Time \<Rightarrow> 'q K8sPV informer_event \<Rightarrow> Store \<times> Metrics \<Rightarrow> Store \<times> Metrics" where
  "PVCollector_handle K now ev =
     in_store Store.PVs Store.PVs_update
       (handle_event ''pvs'' (PVToModel K) PVInfo.Name PV_okey now ev)"

definition PVCollector :: "goerror option \<Rightarrow> bool \<Rightarrow> informer \<Rightarrow> Collector" where
  "PVCollector = informer_Collector ''pvs''"

definition PVC_okey :: "'q K8sPVC \<Rightarrow> string" where
  "PVC_okey x = nsNameKey (om_Namespace (pvc_Meta x)) (om_Name (pvc_Meta x))"

definition PVCCollector_handle :: "('q, 's) kube \<Rightarrow> Time \<Rightarrow> 'q K8sPVC informer_event \<Rightarrow> Store \<times> Metrics \<Rightarrow> Store \<times> Metrics" where
  "PVCCollector_handle K now ev =
     in_store Store.PVCs Store.PVCs_update
       (handle_event ''pvcs'' (PVCToModel K) (\<lambda>info. nsNameKey (PVCInfo.Namespace info) (PVCInfo.Name info)) PVC_okey now ev)"

definition PVCCollector :: "goerror option \<Rightarrow> bool \<Rightarrow> informer \<Rightarrow> Collector" where
  "PVCCollector = informer_Collector ''pvcs''"

definition StorageClass_okey :: "K8sStorageClass \<Rightarrow> string" where
  "StorageClass_okey x = om_Name (sc_Meta x)"

definition StorageClassCollector_handle :: "('q, 's) kube \<Rightarrow> Time \<Rightarrow> K8sStorageClass informer_event \<Rightarrow> Store \<times> Metrics \<Rightarrow> Store \<times> Metrics" where
  "StorageClassCollector_handle K now ev =
     in_store Store.StorageClasses Store.StorageClasses_update
       (handle_event ''storageclasses'' StorageClassToModel StorageClassInfo.Name StorageClass_okey now ev)"

definition StorageClassCollector :: "goerror option \<Rightarrow> bool \<Rightarrow> informer \<Rightarrow> Collector" where
  "StorageClassCollector = informer_Collector ''storageclasses''"

definition PriorityClass_okey :: "K8sPriorityClass \<Rightarrow> string" where
  "PriorityClass_okey x = om_Name (pc_Meta x)"

definition PriorityClassCollector_handle :: "('q, 's) kube \<Rightarrow> Time \<Rightarrow> K8sPriorityClass informer_event \<Rightarrow> Store \<times> Metrics \<Rightarrow> Store \<times> Metrics" where
  "PriorityClassCollector_handle K now ev =
     in_store Store.PriorityClasses Store.PriorityClasses_update
       (handle_event ''priorityclasses'' PriorityClassToModel PriorityClassInfo.Name PriorityClass_okey now ev)"

definition PriorityClassCollector :: "goerror option \<Rightarrow> bool \<Rightarrow> informer \<Rightarrow> Collector" where
  "PriorityClassCollector = informer_Collector ''priorityclasses''"

definition LimitRange_okey :: "'q K8sLimitRange \<Rightarrow> string" where
  "LimitRange_okey x = nsNameKey (om_Namespace (lr_Meta x)) (om_Name (lr_Meta x))"

definition LimitRangeCollector_handle :: "('q, 's) kube \<Rightarrow> Time \<Rightarrow> 'q K8sLimitRange informer_event \<Rightarrow> Store \<times> Metrics \<Rightarrow> Store \<times> Metrics" where
  "LimitRangeCollector_handle K now ev =
     in_store Store.LimitRanges Store.LimitRanges_update
       (handle_event ''limitranges'' (LimitRangeToModel K) (\<lambda>info. nsNameKey (LimitRangeInfo.Namespace info) (LimitRangeInfo.Name info)) LimitRange_okey now ev)"

definition LimitRangeCollector :: "goerror option \<Rightarrow> bool \<Rightarrow> informer \<Rightarrow> Collector" where
  "LimitRangeCollector = informer_Collector ''limitranges''"

definition ResourceQuota_okey :: "'q K8sResourceQuota \<Rightarrow> string" where
  "ResourceQuota_okey x = nsNameKey (om_Namespace (rq_Meta x)) (om_Name (rq_Meta x))"

definition ResourceQuotaCollector_handle :: "('q, 's) kube \<Rightarrow> Time \<Rightarrow> 'q K8sResourceQuota informer_event \<Rightarrow> Store \<times> Metrics \<Rightarrow> Store \<times> Metrics" where
  "ResourceQuotaCollector_handle K now ev =
     in_store Store.ResourceQuotas Store.ResourceQuotas_update
       (handle_event ''resourcequotas'' (ResourceQuotaToModel K) (\<lambda>info. nsNameKey (ResourceQuotaInfo.Namespace info) (ResourceQuotaInfo.Name info)) ResourceQuota_okey now ev)"

definition ResourceQuotaCollector :: "goerror option \<Rightarrow> bool \<Rightarrow> informer \<Rightarrow> Collector" where
  "ResourceQuotaCollector = informer_Collector ''resourcequotas''"

definition NodePool_okey :: "Unstructured \<Rightarrow> string" where
  "NodePool_okey x = om_Name (u_Meta x)"

definition NodePoolCollector_handle :: "('q, 's) kube \<Rightarrow> Time \<Rightarrow> Unstructured informer_event \<Rightarrow> Store \<times> Metrics \<Rightarrow> Store \<times> Metrics" where
  "NodePoolCollector_handle K now ev =
     in_store Store.NodePools Store.NodePools_update
       (handle_event ''nodepools'' (nodePoolToModel K) NodePoolInfo.Name NodePool_okey now ev)"

definition NodePoolCollector :: "goerror option \<Rightarrow> bool \<Rightarrow> informer \<Rightarrow> Collector" where
  "NodePoolCollector = informer_Collector ''nodepools''"

section \<open>All collectors together\<close>

datatype ('q, 's) resource_event =
    NodeEvent (the_Node: "'q K8sNode informer_event")
  | PodEvent (the_Pod: "'q K8sPod informer_event")
  | NamespaceEvent (the_Namespace: "K8sNamespace informer_event")
  | DeploymentEvent (the_Deployment: "('q, 's) K8sDeployment informer_event")
  | StatefulSetEvent (the_StatefulSet: "'q K8sStatefulSet informer_event")
  | DaemonSetEvent (the_DaemonSet: "'q K8sDaemonSet informer_event")
  | ReplicaSetEvent (the_ReplicaSet: "K8sReplicaSet informer_event")
  | JobEvent (the_Job: "'q K8sJob informer_event")
  | CronJobEvent (the_CronJob: "'q K8sCronJob informer_event")
  | HPAEvent (the_HPA: "'q K8sHPA informer_event")
  | VPAEvent (the_VPA: "Unstructured informer_event")
  | PDBEvent (the_PDB: "'s K8sPDB informer_event")
  | ServiceEvent (the_Service: "'s K8sService informer_event")
  | IngressEvent (the_Ingress: "K8sIngress informer_event")
  | PVEvent (the_PV: "'q K8sPV informer_event")
  | PVCEvent (the_PVC: "'q K8sPVC informer_event")
  | StorageClassEvent (the_StorageClass: "K8sStorageClass informer_event")
  | PriorityClassEvent (the_PriorityClass: "K8sPriorityClass informer_event")
  | LimitRangeEvent (the_LimitRange: "'q K8sLimitRange informer_event")
  | ResourceQuotaEvent (the_ResourceQuota: "'q K8sResourceQuota informer_event")
  | NodePoolEvent (the_NodePool: "Unstructured informer_event")

definition dispatch :: "('q, 's) kube \<Rightarrow> Time \<Rightarrow> ('q, 's) resource_event \<Rightarrow> Store \<times> Metrics \<Rightarrow> Store \<times> Metrics" where
  "dispatch K now ev =
     (case ev of
        NodeEvent e \<Rightarrow> NodeCollector_handle K now e
      | PodEvent e \<Rightarrow> PodCollector_handle K now e
      | NamespaceEvent e \<Rightarrow> NamespaceCollector_handle K now e
      | DeploymentEvent e \<Rightarrow> DeploymentCollector_handle K now e
      | StatefulSetEvent e \<Rightarrow> StatefulSetCollector_handle K now e
      | DaemonSetEvent e \<Rightarrow> DaemonSetCollector_handle K now e
      | ReplicaSetEvent e \<Rightarrow> ReplicaSetCollector_handle K now e
      | JobEvent e \<Rightarrow> JobCollector_handle K now e
      | CronJobEvent e \<Rightarrow> CronJobCollector_handle K now e
      | HPAEvent e \<Rightarrow> HPACollector_handle K now e
      | VPAEvent e \<Rightarrow> VPACollector_handle K now e
      | PDBEvent e \<Rightarrow> PDBCollector_handle K now e
      | ServiceEvent e \<Rightarrow> ServiceCollector_handle K now e
      | IngressEvent e \<Rightarrow> IngressCollector_handle K now e
      | PVEvent e \<Rightarrow> PVCollector_handle K now e
      | PVCEvent e \<Rightarrow> PVCCollector_handle K now e
      | StorageClassEvent e \<Rightarrow> StorageClassCollector_handle K now e
      | PriorityClassEvent e \<Rightarrow> PriorityClassCollector_handle K now e
      | LimitRangeEvent e \<Rightarrow> LimitRangeCollector_handle K now e
      | ResourceQuotaEvent e \<Rightarrow> ResourceQuotaCollector_handle K now e
      | NodePoolEvent e \<Rightarrow> NodePoolCollector_handle K now e)"

text \<open>The events of one kind: the projection of an event on a kind.\<close>

definition objects :: "('e \<Rightarrow> 'o informer_event option) \<Rightarrow> ('o \<Rightarrow> string) \<Rightarrow> (Time \<times> 'e) list \<Rightarrow> (string \<rightharpoonup> 'o)" where
  "objects proj okey evs = fold (\<lambda>(now, e). case proj e of None \<Rightarrow> id | Some ev \<Rightarrow> cluster_event okey ev) evs Map.empty"

definition Node_of :: "('q, 's) resource_event \<Rightarrow> 'q K8sNode informer_event option" where
  "Node_of e = (case e of NodeEvent ev \<Rightarrow> Some ev | _ \<Rightarrow> None)"

definition Pod_of :: "('q, 's) resource_event \<Rightarrow> 'q K8sPod informer_event option" where
  "Pod_of e = (case e of PodEvent ev \<Rightarrow> Some ev | _ \<Rightarrow> None)"

definition Namespace_of :: "('q, 's) resource_event \<Rightarrow> K8sNamespace informer_event option" where
  "Namespace_of e = (case e of NamespaceEvent ev \<Rightarrow> Some ev | _ \<Rightarrow> None)"

definition Deployment_of :: "('q, 's) resource_event \<Rightarrow> ('q, 's) K8sDeployment informer_event option" where
  "Deployment_of e = (case e of DeploymentEvent ev \<Rightarrow> Some ev | _ \<Rightarrow> None)"

definition StatefulSet_of :: "('q, 's) resource_event \<Rightarrow> 'q K8sStatefulSet informer_event option" where
  "StatefulSet_of e = (case e of StatefulSetEvent ev \<Rightarrow> Some ev | _ \<Rightarrow> None)"

definition DaemonSet_of :: "('q, 's) resource_event \<Rightarrow> 'q K8sDaemonSet informer_event option" where
  "DaemonSet_of e = (case e of DaemonSetEvent ev \<Rightarrow> Some ev | _ \<Rightarrow> None)"

definition ReplicaSet_of :: "('q, 's) resource_event \<Rightarrow> K8sReplicaSet informer_event option" where
  "ReplicaSet_of e = (case e of ReplicaSetEvent ev \<Rightarrow> Some ev | _ \<Rightarrow> None)"

definition Job_of :: "('q, 's) resource_event \<Rightarrow> 'q K8sJob informer_event option" where
  "Job_of e = (case e of JobEvent ev \<Rightarrow> Some ev | _ \<Rightarrow> None)"

definition CronJob_of :: "('q, 's) resource_event \<Rightarrow> 'q K8sCronJob informer_event option" where
  "CronJob_of e = (case e of CronJobEvent ev \<Rightarrow> Some ev | _ \<Rightarrow> None)"

definition HPA_of :: "('q, 's) resource_event \<Rightarrow> 'q K8sHPA informer_event option" where
  "HPA_of e = (case e of HPAEvent ev \<Rightarrow> Some ev | _ \<Rightarrow> None)"

definition VPA_of :: "('q, 's) resource_event \<Rightarrow> Unstructured informer_event option" where
  "VPA_of e = (case e of VPAEvent ev \<Rightarrow> Some ev | _ \<Rightarrow> None)"

definition PDB_of :: "('q, 's) resource_event \<Rightarrow> 's K8sPDB informer_event option" where
  "PDB_of e = (case e of PDBEvent ev \<Rightarrow> Some ev | _ \<Rightarrow> None)"

definition Service_of :: "('q, 's) resource_event \<Rightarrow> 's K8sService informer_event option" where
  "Service_of e = (case e of ServiceEvent ev \<Rightarrow> Some ev | _ \<Rightarrow> None)"

definition Ingress_of :: "('q, 's) resource_event \<Rightarrow> K8sIngress informer_event option" where
  "Ingress_of e = (case e of IngressEvent ev \<Rightarrow> Some ev | _ \<Rightarrow> None)"

definition PV_of :: "('q, 's) resource_event \<Rightarrow> 'q K8sPV informer_event option" where
  "PV_of e = (case e of PVEvent ev \<Rightarrow> Some ev | _ \<Rightarrow> None)"

definition PVC_of :: "('q, 's) resource_event \<Rightarrow> 'q K8sPVC informer_event option" where
  "PVC_of e = (case e of PVCEvent ev \<Rightarrow> Some ev | _ \<Rightarrow> None)"

definition StorageClass_of :: "('q, 's) resource_event \<Rightarrow> K8sStorageClass informer_event option" where
  "StorageClass_of e = (case e of StorageClassEvent ev \<Rightarrow> Some ev | _ \<Rightarrow> None)"

definition PriorityClass_of :: "('q, 's) resource_event \<Rightarrow> K8sPriorityClass informer_event option" where
  "PriorityClass_of e = (case e of PriorityClassEvent ev \<Rightarrow> Some ev | _ \<Rightarrow> None)"

definition LimitRange_of :: "('q, 's) resource_event \<Rightarrow> 'q K8sLimitRange informer_event option" where
  "LimitRange_of e = (case e of LimitRangeEvent ev \<Rightarrow> Some ev | _ \<Rightarrow> None)"

definition ResourceQuota_of :: "('q, 's) resource_event \<Rightarrow> 'q K8sResourceQuota informer_event option" where
  "ResourceQuota_of e = (case e of ResourceQuotaEvent ev \<Rightarrow> Some ev | _ \<Rightarrow> None)"

definition NodePool_of :: "('q, 's) resource_event \<Rightarrow> Unstructured informer_event option" where
  "NodePool_of e = (case e of NodePoolEvent ev \<Rightarrow> Some ev | _ \<Rightarrow> None)"

section \<open>One collector among the others\<close>

locale watched_kind = informer_store name conv key okey
  for name :: string and conv :: "'o \<Rightarrow> 'i" and key :: "'i \<Rightarrow> string" and okey :: "'o \<Rightarrow> string" +
  fixes get :: "Store \<Rightarrow> 'i TypedStore"
    and proj :: "'e \<Rightarrow> 'o informer_event option"
    and step :: "Time \<Rightarrow> 'e \<Rightarrow> Store \<times> Metrics \<Rightarrow> Store \<times> Metrics"
  assumes own_event: "proj e = Some ev \<Longrightarrow>
      get (fst (step now e (st, m))) = fst (handle_event name conv key okey now ev (get st, m))"
    and other_event: "proj e = None \<Longrightarrow> get (fst (step now e (st, m))) = get st"
begin

lemma step_mirrors:
  assumes "wf_store (get st)" and "Get (get st) = map_option conv \<circ> c"
  shows "wf_store (get (fst (step now e (st, m))))
       \<and> Get (get (fst (step now e (st, m)))) =
           map_option conv \<circ> (case proj e of None \<Rightarrow> id | Some ev \<Rightarrow> cluster_event okey ev) c"
proof (cases "proj e")
  case None
  then show ?thesis using assms by (simp add: other_event)
next
  case (Some ev)
  then show ?thesis
    using handle_keeps_wf [OF assms(1)] handle_mirrors [OF assms] by (simp add: own_event)
qed

lemma mirror:
  assumes "wf_store (get st)" and "Get (get st) = map_option conv \<circ> c"
  shows "wf_store (get (fst (fold (\<lambda>(now, e). step now e) evs (st, m))))
       \<and> Get (get (fst (fold (\<lambda>(now, e). step now e) evs (st, m)))) =
           map_option conv \<circ> fold (\<lambda>(now, e). case proj e of None \<Rightarrow> id | Some ev \<Rightarrow> cluster_event okey ev) evs c"
  using assms
proof (induction evs arbitrary: st m c)
  case Nil
  then show ?case by simp
next
  case (Cons x evs)
  obtain now e where x: "x = (now, e)" by (cases x)
  obtain st' m' where h: "step now e (st, m) = (st', m')" by fastforce
  from step_mirrors [OF Cons.prems, of now e m] Cons.IH [of st' _ m'] show ?case by (simp add: x h)
qed

lemma mirror_from_empty:
  assumes "get st = NewTypedStore t"
  shows "wf_store (get (fst (fold (\<lambda>(now, e). step now e) evs (st, m))))
       \<and> Get (get (fst (fold (\<lambda>(now, e). step now e) evs (st, m)))) = map_option conv \<circ> objects proj okey evs"
  unfolding objects_def
  by (rule mirror) (simp_all add: assms NewTypedStore_def wf_store_def Get_def fun_eq_iff)

end

lemmas collector_handles = in_store_def
  NodeCollector_handle_def PodCollector_handle_def NamespaceCollector_handle_def DeploymentCollector_handle_def StatefulSetCollector_handle_def
  DaemonSetCollector_handle_def ReplicaSetCollector_handle_def JobCollector_handle_def CronJobCollector_handle_def HPACollector_handle_def
  VPACollector_handle_def PDBCollector_handle_def ServiceCollector_handle_def IngressCollector_handle_def PVCollector_handle_def
  PVCCollector_handle_def StorageClassCollector_handle_def PriorityClassCollector_handle_def LimitRangeCollector_handle_def ResourceQuotaCollector_handle_def
  NodePoolCollector_handle_def

lemmas event_projections =
  Node_of_def Pod_of_def Namespace_of_def Deployment_of_def StatefulSet_of_def DaemonSet_of_def ReplicaSet_of_def
  Job_of_def CronJob_of_def HPA_of_def VPA_of_def PDB_of_def Service_of_def Ingress_of_def
  PV_of_def PVC_of_def StorageClass_of_def PriorityClass_of_def LimitRange_of_def ResourceQuota_of_def NodePool_of_def

lemmas object_keys =
  Node_okey_def Pod_okey_def Namespace_okey_def Deployment_okey_def StatefulSet_okey_def DaemonSet_okey_def ReplicaSet_okey_def
  Job_okey_def CronJob_okey_def HPA_okey_def VPA_okey_def PDB_okey_def Service_okey_def Ingress_okey_def
  PV_okey_def PVC_okey_def StorageClass_okey_def PriorityClass_okey_def LimitRange_okey_def ResourceQuota_okey_def NodePool_okey_def

interpretation nodes: watched_kind "''nodes''" "NodeToModel K" NodeInfo.Name Node_okey Store.Nodes Node_of "dispatch K" for K
  by unfold_locales
    (simp_all add: dispatch_def Node_of_def Node_okey_def collector_handles case_prod_unfold Let_def split: resource_event.splits)

interpretation pods: watched_kind "''pods''" "PodToModel K" "\<lambda>info. podKey (PodInfo.Namespace info) (PodInfo.Name info)" Pod_okey Store.Pods Pod_of "dispatch K" for K
  by unfold_locales
    (simp_all add: dispatch_def Pod_of_def Pod_okey_def collector_handles case_prod_unfold Let_def split: resource_event.splits)

interpretation namespaces: watched_kind "''namespaces''" NamespaceToModel NamespaceInfo.Name Namespace_okey Store.Namespaces Namespace_of "dispatch K" for K
  by unfold_locales
    (simp_all add: dispatch_def Namespace_of_def Namespace_okey_def collector_handles case_prod_unfold Let_def split: resource_event.splits)

interpretation deployments: watched_kind "''deployments''" "DeploymentToModel K" "\<lambda>info. nsNameKey (DeploymentInfo.Namespace info) (DeploymentInfo.Name info)" Deployment_okey Store.Deployments Deployment_of "dispatch K" for K
  by unfold_locales
    (simp_all add: dispatch_def Deployment_of_def Deployment_okey_def collector_handles case_prod_unfold Let_def split: resource_event.splits)

interpretation statefulsets: watched_kind "''statefulsets''" "StatefulSetToModel K" "\<lambda>info. nsNameKey (StatefulSetInfo.Namespace info) (StatefulSetInfo.Name info)" StatefulSet_okey Store.StatefulSets StatefulSet_of "dispatch K" for K
  by unfold_locales
    (simp_all add: dispatch_def StatefulSet_of_def StatefulSet_okey_def collector_handles case_prod_unfold Let_def split: resource_event.splits)

interpretation daemonsets: watched_kind "''daemonsets''" "DaemonSetToModel K" "\<lambda>info. nsNameKey (DaemonSetInfo.Namespace info) (DaemonSetInfo.Name info)" DaemonSet_okey Store.DaemonSets DaemonSet_of "dispatch K" for K
  by unfold_locales
    (simp_all add: dispatch_def DaemonSet_of_def DaemonSet_okey_def collector_handles case_prod_unfold Let_def split: resource_event.splits)

interpretation replicasets: watched_kind "''replicasets''" ReplicaSetToModel "\<lambda>info. nsNameKey (ReplicaSetInfo.Namespace info) (ReplicaSetInfo.Name info)" ReplicaSet_okey Store.ReplicaSets ReplicaSet_of "dispatch K" for K
  by unfold_locales
    (simp_all add: dispatch_def ReplicaSet_of_def ReplicaSet_okey_def collector_handles case_prod_unfold Let_def split: resource_event.splits)

interpretation jobs: watched_kind "''jobs''" "JobToModel K" "\<lambda>info. nsNameKey (JobInfo.Namespace info) (JobInfo.Name info)" Job_okey Store.Jobs Job_of "dispatch K" for K
  by unfold_locales
    (simp_all add: dispatch_def Job_of_def Job_okey_def collector_handles case_prod_unfold Let_def split: resource_event.splits)

interpretation cronjobs: watched_kind "''cronjobs''" "CronJobToModel K" "\<lambda>info. nsNameKey (CronJobInfo.Namespace info) (CronJobInfo.Name info)" CronJob_okey Store.CronJobs CronJob_of "dispatch K" for K
  by unfold_locales
    (simp_all add: dispatch_def CronJob_of_def CronJob_okey_def collector_handles case_prod_unfold Let_def split: resource_event.splits)

interpretation hpas: watched_kind "''hpas''" "HPAToModel K" "\<lambda>info. nsNameKey (HPAInfo.Namespace info) (HPAInfo.Name info)" HPA_okey Store.HPAs HPA_of "dispatch K" for K
  by unfold_locales
    (simp_all add: dispatch_def HPA_of_def HPA_okey_def collector_handles case_prod_unfold Let_def split: resource_event.splits)

interpretation vpas: watched_kind "''vpas''" "VPAToModel K" "\<lambda>info. nsNameKey (VPAInfo.Namespace info) (VPAInfo.Name info)" VPA_okey Store.VPAs VPA_of "dispatch K" for K
  by unfold_locales
    (simp_all add: dispatch_def VPA_of_def VPA_okey_def collector_handles case_prod_unfold Let_def split: resource_event.splits)

interpretation pdbs: watched_kind "''pdbs''" "PDBToModel K" "\<lambda>info. nsNameKey (PDBInfo.Namespace info) (PDBInfo.Name info)" PDB_okey Store.PDBs PDB_of "dispatch K" for K
  by unfold_locales
    (simp_all add: dispatch_def PDB_of_def PDB_okey_def collector_handles case_prod_unfold Let_def split: resource_event.splits)

interpretation services: watched_kind "''services''" "ServiceToModel K" "\<lambda>info. nsNameKey (ServiceInfo.Namespace info) (ServiceInfo.Name info)" Service_okey Store.Services Service_of "dispatch K" for K
  by unfold_locales
    (simp_all add: dispatch_def Service_of_def Service_okey_def collector_handles case_prod_unfold Let_def split: resource_event.splits)

interpretation ingresses: watched_kind "''ingresses''" IngressToModel "\<lambda>info. nsNameKey (IngressInfo.Namespace info) (IngressInfo.Name info)" Ingress_okey Store.Ingresses Ingress_of "dispatch K" for K
  by unfold_locales
    (simp_all add: dispatch_def Ingress_of_def Ingress_okey_def collector_handles case_prod_unfold Let_def split: resource_event.splits)

interpretation pvs: watched_kind "''pvs''" "PVToModel K" PVInfo.Name PV_okey Store.PVs PV_of "dispatch K" for K
  by unfold_locales
    (simp_all add: dispatch_def PV_of_def PV_okey_def collector_handles case_prod_unfold Let_def split: resource_event.splits)

interpretation pvcs: watched_kind "''pvcs''" "PVCToModel K" "\<lambda>info. nsNameKey (PVCInfo.Namespace info) (PVCInfo.Name info)" PVC_okey Store.PVCs PVC_of "dispatch K" for K
  by unfold_locales
    (simp_all add: dispatch_def PVC_of_def PVC_okey_def collector_handles case_prod_unfold Let_def split: resource_event.splits)

interpretation storageclasses: watched_kind "''storageclasses''" StorageClassToModel StorageClassInfo.Name StorageClass_okey Store.StorageClasses StorageClass_of "dispatch K" for K
  by unfold_locales
    (simp_all add: dispatch_def StorageClass_of_def StorageClass_okey_def collector_handles case_prod_unfold Let_def split: resource_event.splits)

interpretation priorityclasses: watched_kind "''priorityclasses''" PriorityClassToModel PriorityClassInfo.Name PriorityClass_okey Store.PriorityClasses PriorityClass_of "dispatch K" for K
  by unfold_locales
    (simp_all add: dispatch_def PriorityClass_of_def PriorityClass_okey_def collector_handles case_prod_unfold Let_def split: resource_event.splits)

interpretation limitranges: watched_kind "''limitranges''" "LimitRangeToModel K" "\<lambda>info. nsNameKey (LimitRangeInfo.Namespace info) (LimitRangeInfo.Name info)" LimitRange_okey Store.LimitRanges LimitRange_of "dispatch K" for K
  by unfold_locales
    (simp_all add: dispatch_def LimitRange_of_def LimitRange_okey_def collector_handles case_prod_unfold Let_def split: resource_event.splits)

interpretation resourcequotas: watched_kind "''resourcequotas''" "ResourceQuotaToModel K" "\<lambda>info. nsNameKey (ResourceQuotaInfo.Namespace info) (ResourceQuotaInfo.Name info)" ResourceQuota_okey Store.ResourceQuotas ResourceQuota_of "dispatch K" for K
  by unfold_locales
    (simp_all add: dispatch_def ResourceQuota_of_def ResourceQuota_okey_def collector_handles case_prod_unfold Let_def split: resource_event.splits)

interpretation nodepools: watched_kind "''nodepools''" "nodePoolToModel K" NodePoolInfo.Name NodePool_okey Store.NodePools NodePool_of "dispatch K" for K
  by unfold_locales
    (simp_all add: dispatch_def NodePool_of_def NodePool_okey_def collector_handles case_prod_unfold Let_def split: resource_event.splits)

section \<open>The stores mirror the cluster\<close>

text \<open>
  C13. After any events of the 21 informers, in any interleaving, every store holds exactly
  the conversions of the objects that the events of its kind leave in the cluster, by their
  keys: what was deleted (also through a tombstone) is gone, what was added or updated is
  there in its last version, and no event of another kind touches it.
\<close>

theorem stores_mirror_cluster:
  fixes K :: "('q, 's) kube" and evs :: "(Time \<times> ('q, 's) resource_event) list" and t :: Time and m :: Metrics
  defines "st \<equiv> fst (fold (\<lambda>(now, e). dispatch K now e) evs (NewStore t, m))"
  shows "Get (Store.Nodes st) = map_option (NodeToModel K) \<circ> objects Node_of Node_okey evs
    \<and> Get (Store.Pods st) = map_option (PodToModel K) \<circ> objects Pod_of Pod_okey evs
    \<and> Get (Store.Namespaces st) = map_option NamespaceToModel \<circ> objects Namespace_of Namespace_okey evs
    \<and> Get (Store.Deployments st) = map_option (DeploymentToModel K) \<circ> objects Deployment_of Deployment_okey evs
    \<and> Get (Store.StatefulSets st) = map_option (StatefulSetToModel K) \<circ> objects StatefulSet_of StatefulSet_okey evs
    \<and> Get (Store.DaemonSets st) = map_option (DaemonSetToModel K) \<circ> objects DaemonSet_of DaemonSet_okey evs
    \<and> Get (Store.ReplicaSets st) = map_option ReplicaSetToModel \<circ> objects ReplicaSet_of ReplicaSet_okey evs
    \<and> Get (Store.Jobs st) = map_option (JobToModel K) \<circ> objects Job_of Job_okey evs
    \<and> Get (Store.CronJobs st) = map_option (CronJobToModel K) \<circ> objects CronJob_of CronJob_okey evs
    \<and> Get (Store.HPAs st) = map_option (HPAToModel K) \<circ> objects HPA_of HPA_okey evs
    \<and> Get (Store.VPAs st) = map_option (VPAToModel K) \<circ> objects VPA_of VPA_okey evs
    \<and> Get (Store.PDBs st) = map_option (PDBToModel K) \<circ> objects PDB_of PDB_okey evs
    \<and> Get (Store.Services st) = map_option (ServiceToModel K) \<circ> objects Service_of Service_okey evs
    \<and> Get (Store.Ingresses st) = map_option IngressToModel \<circ> objects Ingress_of Ingress_okey evs
    \<and> Get (Store.PVs st) = map_option (PVToModel K) \<circ> objects PV_of PV_okey evs
    \<and> Get (Store.PVCs st) = map_option (PVCToModel K) \<circ> objects PVC_of PVC_okey evs
    \<and> Get (Store.StorageClasses st) = map_option StorageClassToModel \<circ> objects StorageClass_of StorageClass_okey evs
    \<and> Get (Store.PriorityClasses st) = map_option PriorityClassToModel \<circ> objects PriorityClass_of PriorityClass_okey evs
    \<and> Get (Store.LimitRanges st) = map_option (LimitRangeToModel K) \<circ> objects LimitRange_of LimitRange_okey evs
    \<and> Get (Store.ResourceQuotas st) = map_option (ResourceQuotaToModel K) \<circ> objects ResourceQuota_of ResourceQuota_okey evs
    \<and> Get (Store.NodePools st) = map_option (nodePoolToModel K) \<circ> objects NodePool_of NodePool_okey evs"
  unfolding st_def
  by (intro conjI;
    (rule nodes.mirror_from_empty [THEN conjunct2]
      | rule pods.mirror_from_empty [THEN conjunct2]
      | rule namespaces.mirror_from_empty [THEN conjunct2]
      | rule deployments.mirror_from_empty [THEN conjunct2]
      | rule statefulsets.mirror_from_empty [THEN conjunct2]
      | rule daemonsets.mirror_from_empty [THEN conjunct2]
      | rule replicasets.mirror_from_empty [THEN conjunct2]
      | rule jobs.mirror_from_empty [THEN conjunct2]
      | rule cronjobs.mirror_from_empty [THEN conjunct2]
      | rule hpas.mirror_from_empty [THEN conjunct2]
      | rule vpas.mirror_from_empty [THEN conjunct2]
      | rule pdbs.mirror_from_empty [THEN conjunct2]
      | rule services.mirror_from_empty [THEN conjunct2]
      | rule ingresses.mirror_from_empty [THEN conjunct2]
      | rule pvs.mirror_from_empty [THEN conjunct2]
      | rule pvcs.mirror_from_empty [THEN conjunct2]
      | rule storageclasses.mirror_from_empty [THEN conjunct2]
      | rule priorityclasses.mirror_from_empty [THEN conjunct2]
      | rule limitranges.mirror_from_empty [THEN conjunct2]
      | rule resourcequotas.mirror_from_empty [THEN conjunct2]
      | rule nodepools.mirror_from_empty [THEN conjunct2]);
    simp add: NewStore_def)

end
