(* ===== verification/Polling.thy ===== *)
theory Polling
  imports Registry
begin

text \<open>
  The goroutine that the two polling collectors (\<^verbatim>\<open>internal/collector/metrics/server.go\<close> and
  \<^verbatim>\<open>internal/collector/gpu/collector.go\<close>) run: it polls at once, closes \<open>synced\<close>, then polls
  on every tick until \<open>stopCh\<close> is closed or the context is done, and closes \<open>doneCh\<close> when it
  ends. The theory holds the events of such a goroutine, its methods on the channels, and
  a locale with the facts that only need what one poll keeps true.
\<close>

section \<open>The goroutine\<close>

datatype run_phase = Idle | FirstPoll | Looping | Exited

record 'd poller =
  coll :: 'd
  phase :: run_phase
  stopCh :: bool
  doneCh :: bool
  synced :: bool
  ctxDone :: bool

definition new_poller :: "'d \<Rightarrow> 'd poller" where
  "new_poller c = \<lparr>coll = c, phase = Idle, stopCh = False, doneCh = False, synced = False, ctxDone = False\<rparr>"

text \<open>
  What can happen: \<^verbatim>\<open>Start\<close> is called; a poll runs (the first one, or one on a tick), with what
  it meets; the loop notices a closed channel, in any order when several are ready; \<^verbatim>\<open>Stop\<close>
  closes \<open>stopCh\<close>; the context is cancelled. An event that is not possible changes nothing.
\<close>

datatype 'e run_event = StartCalled | PollRuns 'e | SeesStop | SeesCtx | StopCalled | CtxCancelled

definition poller_step :: "('e \<Rightarrow> 'd \<Rightarrow> 'd) \<Rightarrow> 'e run_event \<Rightarrow> 'd poller \<Rightarrow> 'd poller" where
  "poller_step poll ev p =
     (case ev of
        StartCalled \<Rightarrow> if phase p = Idle then p\<lparr>phase := FirstPoll\<rparr> else p
      | PollRuns e \<Rightarrow>
          if phase p = FirstPoll then p\<lparr>coll := poll e (coll p), synced := True, phase := Looping\<rparr>
          else if phase p = Looping then p\<lparr>coll := poll e (coll p)\<rparr> else p
      | SeesStop \<Rightarrow> if phase p = Looping \<and> stopCh p then p\<lparr>phase := Exited, doneCh := True\<rparr> else p
      | SeesCtx \<Rightarrow> if phase p = Looping \<and> ctxDone p then p\<lparr>phase := Exited, doneCh := True\<rparr> else p
      | StopCalled \<Rightarrow> p\<lparr>stopCh := True\<rparr>
      | CtxCancelled \<Rightarrow> p\<lparr>ctxDone := True\<rparr>)"

definition run_events :: "('e \<Rightarrow> 'd \<Rightarrow> 'd) \<Rightarrow> 'e run_event list \<Rightarrow> 'd \<Rightarrow> 'd poller" where
  "run_events poll evs c = fold (poller_step poll) evs (new_poller c)"

text \<open>\<^verbatim>\<open>Stop\<close> closes \<open>stopCh\<close> and waits for \<open>doneCh\<close>: it returns in the states where \<open>doneCh\<close> is closed.\<close>

definition Stop_returns :: "'d poller \<Rightarrow> bool" where
  "Stop_returns p \<longleftrightarrow> stopCh p \<and> doneCh p"

text \<open>\<^verbatim>\<open>WaitForSync\<close>: \<open>None\<close> while it waits, else its result. When both channels are closed, Go picks one.\<close>

definition poller_WaitForSync :: "goerror \<Rightarrow> bool \<Rightarrow> 'd poller \<Rightarrow> goerror option option" where
  "poller_WaitForSync ctxErr pick_sync p =
     (if synced p \<and> (\<not> ctxDone p \<or> pick_sync) then Some None
      else if ctxDone p then Some (Some ctxErr)
      else None)"

definition poller_IsHealthy :: "string \<Rightarrow> 'd poller \<Rightarrow> bool \<times> string" where
  "poller_IsHealthy reason p = (if doneCh p then (if stopCh p then (True, '''') else (False, reason)) else (True, ''''))"

section \<open>Facts about every such goroutine\<close>

lemma run_events_Nil [simp]: "run_events poll [] c = new_poller c"
  by (simp add: run_events_def)

lemma run_events_snoc [simp]: "run_events poll (evs @ [ev]) c = poller_step poll ev (run_events poll evs c)"
  by (simp add: run_events_def)

lemma run_events_channels:
  fixes poll :: "'e \<Rightarrow> 'd \<Rightarrow> 'd" and c :: 'd
  defines "p \<equiv> \<lambda>evs. run_events poll evs c"
  shows "(stopCh (p evs) \<longleftrightarrow> StopCalled \<in> set evs) \<and> (ctxDone (p evs) \<longleftrightarrow> CtxCancelled \<in> set evs)
       \<and> (doneCh (p evs) \<longleftrightarrow> phase (p evs) = Exited)
       \<and> (synced (p evs) \<longleftrightarrow> phase (p evs) \<in> {Looping, Exited})
       \<and> (phase (p evs) = Exited \<longrightarrow> stopCh (p evs) \<or> ctxDone (p evs))
       \<and> (phase (p evs) = Idle \<longleftrightarrow> StartCalled \<notin> set evs)"
  unfolding p_def
proof (induction evs rule: rev_induct)
  case Nil
  then show ?case by (simp add: new_poller_def)
next
  case (snoc ev evs)
  then show ?case by (cases ev) (auto simp: poller_step_def)
qed

lemma unhealthy_iff:
  "\<not> fst (poller_IsHealthy reason (run_events poll evs c)) \<longleftrightarrow>
   phase (run_events poll evs c) = Exited \<and> StopCalled \<notin> set evs"
  using run_events_channels [of poll evs c] by (auto simp: poller_IsHealthy_def)

lemma stop_needs_start:
  "StartCalled \<notin> set evs \<Longrightarrow> \<not> Stop_returns (run_events poll evs c)"
  using run_events_channels [of poll evs c] by (auto simp: Stop_returns_def)

lemma stop_returns:
  "phase (run_events poll evs c) = Looping \<Longrightarrow> Stop_returns (run_events poll (evs @ [StopCalled] @ [SeesStop]) c)"
  unfolding append_assoc [symmetric] run_events_snoc by (simp add: poller_step_def Stop_returns_def)

text \<open>The polls that a list of events really runs, in order: those between the start and the end of the goroutine.\<close>

definition polls_of :: "('e \<Rightarrow> 'd \<Rightarrow> 'd) \<Rightarrow> 'd \<Rightarrow> 'e run_event list \<Rightarrow> 'e list" where
  "polls_of poll c evs =
     snd (foldl (\<lambda>(p, es) ev. (poller_step poll ev p,
        case ev of PollRuns e \<Rightarrow> if phase p \<in> {FirstPoll, Looping} then es @ [e] else es | _ \<Rightarrow> es)) (new_poller c, []) evs)"

lemma polls_of_fst:
  "fst (foldl (\<lambda>(p, es) ev. (poller_step poll ev p,
        case ev of PollRuns e \<Rightarrow> if phase p \<in> {FirstPoll, Looping} then es @ [e] else es | _ \<Rightarrow> es)) (new_poller c, []) evs) =
   run_events poll evs c"
  by (induction evs rule: rev_induct) (auto simp: case_prod_unfold)

lemma polls_of_snoc:
  "polls_of poll c (evs @ [ev]) = polls_of poll c evs @
     (case ev of PollRuns e \<Rightarrow> if phase (run_events poll evs c) \<in> {FirstPoll, Looping} then [e] else [] | _ \<Rightarrow> [])"
  using polls_of_fst [of poll c evs] by (simp add: polls_of_def case_prod_unfold split: run_event.split)

text \<open>The state of a collector is that of its polls, one after the other.\<close>

lemma run_events_coll: "coll (run_events poll evs c) = fold poll (polls_of poll c evs) c"
proof (induction evs rule: rev_induct)
  case Nil
  then show ?case by (simp add: polls_of_def new_poller_def)
next
  case (snoc ev evs)
  then show ?case by (cases ev) (auto simp: poller_step_def polls_of_snoc)
qed

locale polling =
  fixes poll :: "'e \<Rightarrow> 'd \<Rightarrow> 'd"
    and inv :: "'d \<Rightarrow> bool"
    and fresh :: 'd
  assumes fresh_inv: "inv fresh"
    and poll_inv: "inv d \<Longrightarrow> inv (poll e d)"
begin

lemma run_inv: "inv (coll (run_events poll evs fresh))"
proof (induction evs rule: rev_induct)
  case Nil
  then show ?case by (simp add: new_poller_def fresh_inv)
next
  case (snoc ev evs)
  then show ?case by (cases ev) (auto simp: poller_step_def poll_inv)
qed

end

end
