(* ===== verification/Metrics_Collector.thy ===== *)
theory Metrics_Collector
  imports Polling Store Observability Convert_Core
begin

text \<open>
  \<^verbatim>\<open>internal/collector/metrics/server.go\<close>: the collector that polls the metrics-server for the
  usage of nodes and pods. The metrics-server client is a library: what its two list calls
  return is part of what a poll meets. The goroutine is that of the theory \<open>Polling\<close>.
\<close>

section \<open>The metrics API\<close>

record 'q UsageNode =
  nm_Name :: string
  nm_Usage :: "'q ResourceList"
  nm_Timestamp :: Time

record 'q UsageContainer =
  cm_Name :: string
  cm_Usage :: "'q ResourceList"

record 'q UsagePod =
  pm_Name :: string
  pm_Namespace :: string
  pm_Containers :: "'q UsageContainer list"
  pm_Timestamp :: Time

text \<open>
  A poll: the two answers of the API, the clock at the \<open>k\<close>-th write of each store, and the
  times at which the poll begins and ends.
\<close>

record 'q metrics_env =
  NodeMetricses_List :: "goerror + 'q UsageNode list"
  PodMetricses_List :: "goerror + 'q UsagePod list"
  node_clock :: "nat \<Rightarrow> Time"
  pod_clock :: "nat \<Rightarrow> Time"
  metrics_begin :: Time
  metrics_end :: Time

definition ListNodeMetrics :: "'q metrics_env \<Rightarrow> goerror + 'q UsageNode list" where
  "ListNodeMetrics e = (case NodeMetricses_List e of Inl err \<Rightarrow> Inl err | Inr list_Items \<Rightarrow> Inr list_Items)"

definition ListPodMetrics :: "'q metrics_env \<Rightarrow> goerror + 'q UsagePod list" where
  "ListPodMetrics e = (case PodMetricses_List e of Inl err \<Rightarrow> Inl err | Inr list_Items \<Rightarrow> Inr list_Items)"

section \<open>The collector\<close>

record MetricsCollector =
  metricsStore :: MetricsStore
  mc_metrics :: Metrics
  pollTotal :: int64
  pollFailed :: int64

definition NewMetricsCollector :: "MetricsStore \<Rightarrow> Metrics \<Rightarrow> MetricsCollector" where
  "NewMetricsCollector ms m = \<lparr>metricsStore = ms, mc_metrics = m, pollTotal = 0, pollFailed = 0\<rparr>"

definition node_usage :: "('q, 's) kube \<Rightarrow> 'q UsageNode \<Rightarrow> NodeMetrics" where
  "node_usage K nm =
     (let memQ = resourceQuantity K (nm_Usage nm) ''memory'' in
      \<lparr>NodeMetrics.Name = nm_Name nm,
       NodeMetrics.CPUUsageCores = ParseQuantity K (resourceQuantity K (nm_Usage nm) ''cpu''),
       NodeMetrics.MemoryUsageBytes = Quantity_Value K memQ,
       NodeMetrics.Timestamp = UnixMilli (nm_Timestamp nm)\<rparr>)"

definition container_usage :: "('q, 's) kube \<Rightarrow> 'q UsageContainer \<Rightarrow> ContainerMetrics" where
  "container_usage K cm =
     (let memQ = resourceQuantity K (cm_Usage cm) ''memory'' in
      \<lparr>ContainerMetrics.Name = cm_Name cm,
       ContainerMetrics.CPUUsageCores = ParseQuantity K (resourceQuantity K (cm_Usage cm) ''cpu''),
       ContainerMetrics.MemoryUsageBytes = Quantity_Value K memQ\<rparr>)"

definition pod_usage :: "('q, 's) kube \<Rightarrow> 'q UsagePod \<Rightarrow> PodMetrics" where
  "pod_usage K pm =
     \<lparr>PodMetrics.Name = pm_Name pm, PodMetrics.Namespace = pm_Namespace pm,
      PodMetrics.Containers = map (container_usage K) (pm_Containers pm),
      PodMetrics.Timestamp = UnixMilli (pm_Timestamp pm)\<rparr>"

definition pod_usage_key :: "'q UsagePod \<Rightarrow> string" where
  "pod_usage_key pm = pm_Namespace pm @ ''/'' @ pm_Name pm"

text \<open>The loop over an answer: the \<open>k\<close>-th element is written at \<open>clock k\<close>.\<close>

fun set_all :: "('a \<Rightarrow> string) \<Rightarrow> ('a \<Rightarrow> 'v) \<Rightarrow> (nat \<Rightarrow> Time) \<Rightarrow> nat \<Rightarrow> 'a list \<Rightarrow> 'v TypedStore \<Rightarrow> 'v TypedStore" where
  "set_all key val clock k [] s = s"
| "set_all key val clock k (x # xs) s = set_all key val clock (Suc k) xs (Set (key x) (val x) (clock k) s)"

definition pollNodeMetrics :: "('q, 's) kube \<Rightarrow> 'q metrics_env \<Rightarrow> MetricsCollector \<Rightarrow> MetricsCollector" where
  "pollNodeMetrics K e c =
     (let c1 = c\<lparr>pollTotal := pollTotal c + 1\<rparr> in
      case ListNodeMetrics e of
        Inl err \<Rightarrow> c1\<lparr>pollFailed := pollFailed c1 + 1\<rparr>
      | Inr nodeMetricsList \<Rightarrow>
          c1\<lparr>metricsStore := (metricsStore c1)\<lparr>NodeMetrics_store :=
            set_all nm_Name (node_usage K) (node_clock e) 0 nodeMetricsList (NodeMetrics_store (metricsStore c1))\<rparr>\<rparr>)"

definition pollPodMetrics :: "('q, 's) kube \<Rightarrow> 'q metrics_env \<Rightarrow> MetricsCollector \<Rightarrow> MetricsCollector" where
  "pollPodMetrics K e c =
     (let c1 = c\<lparr>pollTotal := pollTotal c + 1\<rparr> in
      case ListPodMetrics e of
        Inl err \<Rightarrow> c1\<lparr>pollFailed := pollFailed c1 + 1\<rparr>
      | Inr podMetricsList \<Rightarrow>
          c1\<lparr>metricsStore := (metricsStore c1)\<lparr>PodMetrics_store :=
            set_all pod_usage_key (pod_usage K) (pod_clock e) 0 podMetricsList (PodMetrics_store (metricsStore c1))\<rparr>\<rparr>)"

definition Metrics_poll :: "('q, 's) kube \<Rightarrow> 'q metrics_env \<Rightarrow> MetricsCollector \<Rightarrow> MetricsCollector" where
  "Metrics_poll K e c =
     (let c2 = pollPodMetrics K e (pollNodeMetrics K e c);
          elapsed = time_Sub (metrics_end e) (metrics_begin e);
          m = metric_call (Observe MetricsAPIDuration (duration_Seconds elapsed)) (mc_metrics c2)
      in c2\<lparr>mc_metrics := m\<lparr>LastMetricsCollectMs := Milliseconds elapsed\<rparr>\<rparr>)"

definition Metrics_APICallStats :: "MetricsCollector \<Rightarrow> int64 \<times> int64" where
  "Metrics_APICallStats c = (pollTotal c, pollFailed c)"

definition Metrics_run :: "('q, 's) kube \<Rightarrow> 'q metrics_env run_event \<Rightarrow> MetricsCollector poller \<Rightarrow> MetricsCollector poller" where
  "Metrics_run K = poller_step (Metrics_poll K)"

definition Metrics_IsHealthy :: "MetricsCollector poller \<Rightarrow> bool \<times> string" where
  "Metrics_IsHealthy = poller_IsHealthy ''metrics polling goroutine exited unexpectedly''"

definition metrics_Collector :: "goerror option \<Rightarrow> MetricsCollector poller \<Rightarrow> Collector" where
  "metrics_Collector sync p =
     \<lparr>Collector.Name = ''metrics'', Start = None, Collector_WaitForSync = sync, IsHealthy = Some (Metrics_IsHealthy p),
      APICallStats = Some (Metrics_APICallStats (coll p)), DCGMTargetStats = None\<rparr>"

section \<open>What a poll writes\<close>

text \<open>The last entry of a listing under each key.\<close>

definition last_listed :: "('a \<Rightarrow> string) \<Rightarrow> 'a list \<Rightarrow> (string \<rightharpoonup> 'a)" where
  "last_listed key xs = map_of (rev (map (\<lambda>x. (key x, x)) xs))"

definition listed :: "goerror + 'a list \<Rightarrow> 'a list" where
  "listed r = (case r of Inl _ \<Rightarrow> [] | Inr xs \<Rightarrow> xs)"

lemma last_listed_append: "last_listed key (xs @ ys) = last_listed key xs ++ last_listed key ys"
  by (simp add: last_listed_def)

lemma last_listed_dom: "dom (last_listed key xs) = key ` set xs"
  by (simp add: last_listed_def dom_map_of_conv_image_fst image_image)

lemma set_all_wf: "wf_store s \<Longrightarrow> wf_store (set_all key val clock k xs s)"
  by (induction xs arbitrary: k s) simp_all

lemma set_all_Get:
  assumes "wf_store s"
  shows "Get (set_all key val clock k xs s) = Get s ++ (map_option val \<circ> last_listed key xs)"
  using assms
proof (induction xs arbitrary: k s)
  case Nil
  then show ?case by (simp add: last_listed_def fun_eq_iff map_add_def)
next
  case (Cons x xs)
  have "last_listed key (x # xs) = [key x \<mapsto> x] ++ last_listed key xs"
    using last_listed_append [of key "[x]" xs] by (simp add: last_listed_def)
  then show ?case
    using Cons.IH [of "Set (key x) (val x) (clock k) s" "Suc k"] Cons.prems typed.lookup_put [OF Cons.prems]
    by (auto simp: fun_eq_iff map_add_def split: option.split)
qed

definition metrics_wf :: "MetricsCollector \<Rightarrow> bool" where
  "metrics_wf c \<longleftrightarrow> wf_store (NodeMetrics_store (metricsStore c)) \<and> wf_store (PodMetrics_store (metricsStore c))"

lemmas metrics_poll_defs = Metrics_poll_def pollNodeMetrics_def pollPodMetrics_def ListNodeMetrics_def ListPodMetrics_def Let_def

lemma Metrics_poll_wf: "metrics_wf c \<Longrightarrow> metrics_wf (Metrics_poll K e c)"
  by (simp add: metrics_wf_def metrics_poll_defs set_all_wf split: sum.split)

lemma metrics_wf_fresh: "metrics_wf (NewMetricsCollector (NewMetricsStore t) m)"
  by (simp add: metrics_wf_def NewMetricsCollector_def NewMetricsStore_def NewTypedStore_def wf_store_def)

interpretation metrics_server: polling "Metrics_poll K" metrics_wf "NewMetricsCollector (NewMetricsStore t) m" for K t m
  by unfold_locales
    (rule metrics_wf_fresh, rule Metrics_poll_wf)

lemma Metrics_poll_nodes:
  "metrics_wf c \<Longrightarrow> Get (NodeMetrics_store (metricsStore (Metrics_poll K e c))) =
     Get (NodeMetrics_store (metricsStore c)) ++ (map_option (node_usage K) \<circ> last_listed nm_Name (listed (NodeMetricses_List e)))"
  by (auto simp: metrics_wf_def metrics_poll_defs set_all_Get listed_def last_listed_def fun_eq_iff map_add_def split: sum.split option.split)

lemma Metrics_poll_pods:
  "metrics_wf c \<Longrightarrow> Get (PodMetrics_store (metricsStore (Metrics_poll K e c))) =
     Get (PodMetrics_store (metricsStore c)) ++ (map_option (pod_usage K) \<circ> last_listed pod_usage_key (listed (PodMetricses_List e)))"
  by (auto simp: metrics_wf_def metrics_poll_defs set_all_Get listed_def last_listed_def fun_eq_iff map_add_def split: sum.split option.split)

lemma Metrics_poll_counts:
  "pollTotal (Metrics_poll K e c) = pollTotal c + 2"
  "pollFailed (Metrics_poll K e c) = pollFailed c + of_bool (isl (NodeMetricses_List e)) + of_bool (isl (PodMetricses_List e))"
  by (simp_all add: metrics_poll_defs split: sum.split)

text \<open>What a list of polls leaves: by induction on the polls, from any well-formed state.\<close>

lemma polls_nodes:
  assumes "metrics_wf c"
  shows "Get (NodeMetrics_store (metricsStore (fold (Metrics_poll K) es c))) =
     Get (NodeMetrics_store (metricsStore c)) ++
       (map_option (node_usage K) \<circ> last_listed nm_Name (concat (map (listed \<circ> NodeMetricses_List) es)))"
  using assms
proof (induction es arbitrary: c)
  case Nil
  then show ?case by (simp add: last_listed_def fun_eq_iff map_add_def)
next
  case (Cons e es)
  then show ?case
    by (auto simp: Metrics_poll_wf Metrics_poll_nodes last_listed_append fun_eq_iff map_add_def split: option.split)
qed

lemma polls_pods:
  assumes "metrics_wf c"
  shows "Get (PodMetrics_store (metricsStore (fold (Metrics_poll K) es c))) =
     Get (PodMetrics_store (metricsStore c)) ++
       (map_option (pod_usage K) \<circ> last_listed pod_usage_key (concat (map (listed \<circ> PodMetricses_List) es)))"
  using assms
proof (induction es arbitrary: c)
  case Nil
  then show ?case by (simp add: last_listed_def fun_eq_iff map_add_def)
next
  case (Cons e es)
  then show ?case
    by (auto simp: Metrics_poll_wf Metrics_poll_pods last_listed_append fun_eq_iff map_add_def split: option.split)
qed

lemma polls_counts:
  "Metrics_APICallStats (fold (Metrics_poll K) es c) =
     (pollTotal c + 2 * of_nat (length es),
      pollFailed c + of_nat (length (filter (isl \<circ> NodeMetricses_List) es) + length (filter (isl \<circ> PodMetricses_List) es)))"
  by (induction es arbitrary: c) (auto simp: Metrics_APICallStats_def Metrics_poll_counts algebra_simps)

section \<open>The usage that the stores hold\<close>

text \<open>
  C20. Whatever happens to the goroutine, the usage held for a node or a pod is that of the
  last answer that listed it, over all polls that ran: a failed call keeps what was known,
  and so does an answer that no longer lists the node or pod, since nothing is ever deleted.
  The counters are two calls for every poll and the number of calls that failed.
\<close>

theorem usage_is_last_listed:
  fixes K :: "('q, 's) kube" and t :: Time and m :: Metrics and evs :: "'q metrics_env run_event list"
  defines "fresh \<equiv> NewMetricsCollector (NewMetricsStore t) m"
  defines "c \<equiv> coll (run_events (Metrics_poll K) evs fresh)"
  defines "es \<equiv> polls_of (Metrics_poll K) fresh evs"
  shows "Get (NodeMetrics_store (metricsStore c)) =
           map_option (node_usage K) \<circ> last_listed nm_Name (concat (map (listed \<circ> NodeMetricses_List) es))
       \<and> Get (PodMetrics_store (metricsStore c)) =
           map_option (pod_usage K) \<circ> last_listed pod_usage_key (concat (map (listed \<circ> PodMetricses_List) es))
       \<and> Metrics_APICallStats c =
           (2 * of_nat (length es),
            of_nat (length (filter (isl \<circ> NodeMetricses_List) es) + length (filter (isl \<circ> PodMetricses_List) es)))"
proof -
  have c: "c = fold (Metrics_poll K) es fresh" unfolding c_def es_def by (rule run_events_coll)
  have "metrics_wf fresh" unfolding fresh_def by (rule metrics_wf_fresh)
  moreover have "Get (NodeMetrics_store (metricsStore fresh)) = Map.empty" "Get (PodMetrics_store (metricsStore fresh)) = Map.empty"
    "pollTotal fresh = 0" "pollFailed fresh = 0"
    by (simp_all add: fresh_def NewMetricsCollector_def NewMetricsStore_def NewTypedStore_def Get_def fun_eq_iff)
  ultimately show ?thesis unfolding c by (simp add: polls_nodes polls_pods polls_counts)
qed

end
