(* ===== verification/Gpu_Parser.thy ===== *)
theory Gpu_Parser
  imports Gpu Go_Strings
begin

text \<open>
  \<^verbatim>\<open>internal/collector/gpu/parser.go\<close>: the parser of the Prometheus text that dcgm-exporter
  serves, and the table of devices built from its samples. Texts are lists of bytes. The
  result of converting a float that does not fit an \<^verbatim>\<open>int64\<close> is the parameter \<open>wide\<close>.
\<close>

section \<open>Samples\<close>

definition sentinelThreshold :: float64 where "sentinelThreshold = Fin (10 ^ 15)"
definition mibToBytes :: float64 where "mibToBytes = Fin 1048576"

definition isSentinel :: "float64 \<Rightarrow> bool" where
  "isSentinel v \<longleftrightarrow> f64_less sentinelThreshold v"

definition metricProfGrEngineActive :: string where "metricProfGrEngineActive = ''DCGM_FI_PROF_GR_ENGINE_ACTIVE''"
definition metricProfTensorActive :: string where "metricProfTensorActive = ''DCGM_FI_PROF_PIPE_TENSOR_ACTIVE''"
definition metricDevMemCopyUtil :: string where "metricDevMemCopyUtil = ''DCGM_FI_DEV_MEM_COPY_UTIL''"
definition metricDevGPUUtil :: string where "metricDevGPUUtil = ''DCGM_FI_DEV_GPU_UTIL''"
definition metricDevFBUsed :: string where "metricDevFBUsed = ''DCGM_FI_DEV_FB_USED''"
definition metricDevFBFree :: string where "metricDevFBFree = ''DCGM_FI_DEV_FB_FREE''"
definition metricDevFBTotal :: string where "metricDevFBTotal = ''DCGM_FI_DEV_FB_TOTAL''"
definition metricDevGPUTemp :: string where "metricDevGPUTemp = ''DCGM_FI_DEV_GPU_TEMP''"
definition metricDevPowerUsage :: string where "metricDevPowerUsage = ''DCGM_FI_DEV_POWER_USAGE''"
definition metricDevMIGMode :: string where "metricDevMIGMode = ''DCGM_FI_DEV_MIG_MODE''"

lemmas metric_names =
  metricProfGrEngineActive_def metricProfTensorActive_def metricDevMemCopyUtil_def metricDevGPUUtil_def
  metricDevFBUsed_def metricDevFBFree_def metricDevFBTotal_def metricDevGPUTemp_def metricDevPowerUsage_def
  metricDevMIGMode_def

record dcgmLabels =
  l_gpu :: string
  l_uuid :: string
  l_device :: string
  l_modelName :: string
  l_driverVersion :: string
  l_hostname :: string
  l_podName :: string
  l_namespace :: string
  l_containerName :: string
  l_gpuInstanceID :: string
  l_gpuProfile :: string

definition zero_dcgmLabels :: dcgmLabels where
  "zero_dcgmLabels =
    \<lparr>l_gpu = '''', l_uuid = '''', l_device = '''', l_modelName = '''', l_driverVersion = '''', l_hostname = '''',
     l_podName = '''', l_namespace = '''', l_containerName = '''', l_gpuInstanceID = '''', l_gpuProfile = ''''\<rparr>"

record parsedSample =
  sample_name :: string
  sample_labels :: dcgmLabels
  sample_value :: float64

section \<open>Labels\<close>

abbreviation quote :: char where "quote \<equiv> CHR 0x22"
abbreviation backslash :: char where "backslash \<equiv> CHR 0x5C"

text \<open>The value up to the closing quote, and the text after it (empty when the quote is missing).\<close>

fun read_val :: "string \<Rightarrow> string \<times> string" where
  "read_val [] = ([], [])"
| "read_val [c] = (if c = quote then ([], []) else ([c], []))"
| "read_val (c # d # s) =
     (if c = backslash then
        (let (v, r) = read_val s in
         ((if d = quote then [quote] else if d = backslash then [backslash]
           else if d = CHR ''n'' then [newline] else [backslash, d]) @ v, r))
      else if c = quote then ([], d # s)
      else (let (v, r) = read_val (d # s) in (c # v, r)))"

text \<open>The switch over the label names: new-style names overwrite, old-style ones fill in.\<close>

definition set_label :: "string \<Rightarrow> string \<Rightarrow> dcgmLabels \<Rightarrow> dcgmLabels" where
  "set_label key v l =
     (if key = ''gpu'' then l\<lparr>l_gpu := v\<rparr>
      else if key = ''UUID'' \<or> key = ''uuid'' then l\<lparr>l_uuid := v\<rparr>
      else if key = ''device'' then l\<lparr>l_device := v\<rparr>
      else if key = ''modelName'' then l\<lparr>l_modelName := v\<rparr>
      else if key = ''DCGM_FI_DRIVER_VERSION'' then l\<lparr>l_driverVersion := v\<rparr>
      else if key = ''Hostname'' then l\<lparr>l_hostname := v\<rparr>
      else if key = ''pod'' then l\<lparr>l_podName := v\<rparr>
      else if key = ''namespace'' then l\<lparr>l_namespace := v\<rparr>
      else if key = ''container'' then l\<lparr>l_containerName := v\<rparr>
      else if key = ''pod_name'' then (if l_podName l = '''' then l\<lparr>l_podName := v\<rparr> else l)
      else if key = ''pod_namespace'' then (if l_namespace l = '''' then l\<lparr>l_namespace := v\<rparr> else l)
      else if key = ''container_name'' then (if l_containerName l = '''' then l\<lparr>l_containerName := v\<rparr> else l)
      else if key = ''GPU_I_ID'' then l\<lparr>l_gpuInstanceID := v\<rparr>
      else if key = ''GPU_I_PROFILE'' then l\<lparr>l_gpuProfile := v\<rparr>
      else l)"

lemma read_val_length: "length (snd (read_val s)) \<le> length s"
  by (induction s rule: read_val.induct) (auto simp: case_prod_unfold Let_def)

text \<open>The loop of \<^verbatim>\<open>parseLabels\<close>.\<close>

function labels_loop :: "dcgmLabels \<Rightarrow> string \<Rightarrow> dcgmLabels" where
  "labels_loop l s =
     (case IndexByte s CHR ''='' of
        None \<Rightarrow> l
      | Some eq \<Rightarrow>
          let key = take eq s; s1 = drop (Suc eq) s in
          if s1 = [] \<or> hd s1 \<noteq> quote then l
          else let rv = read_val (tl s1); s2 = snd rv;
                   s3 = (if s2 \<noteq> [] \<and> hd s2 = CHR '','' then tl s2 else s2)
               in labels_loop (set_label key (fst rv) l) s3)"
  by pat_completeness auto
termination
proof (relation "measure (\<lambda>(l, s). length s)", goal_cases)
  case (2 l s eq key s1 rv s2 s3)
  have "length s2 \<le> length (tl s1)" using 2 read_val_length [of "tl s1"] by simp
  moreover have "length s3 \<le> length s2" using 2 by simp
  moreover have "s1 \<noteq> []" "length s1 \<le> length s" using 2 by auto
  ultimately show ?case by (cases s1) auto
qed simp

declare labels_loop.simps [simp del]

definition parseLabels :: "string \<Rightarrow> dcgmLabels" where
  "parseLabels s = labels_loop zero_dcgmLabels s"

section \<open>Lines\<close>

definition parseSampleLine :: "string \<Rightarrow> parsedSample option" where
  "parseSampleLine line =
     (case IndexByte line CHR ''{'' of
        None \<Rightarrow>
          (case Fields line of
             n # w # _ \<Rightarrow> (case ParseFloat w of None \<Rightarrow> None
                | Some v \<Rightarrow> Some \<lparr>sample_name = n, sample_labels = zero_dcgmLabels, sample_value = v\<rparr>)
           | _ \<Rightarrow> None)
      | Some braceStart \<Rightarrow>
          (case LastIndexByte line CHR ''}'' of
             None \<Rightarrow> None
           | Some braceEnd \<Rightarrow>
               if braceEnd \<le> braceStart then None
               else case Fields (TrimSpace (drop (Suc braceEnd) line)) of
                      [] \<Rightarrow> None
                    | w # _ \<Rightarrow> (case ParseFloat w of None \<Rightarrow> None
                        | Some v \<Rightarrow> Some \<lparr>sample_name = take braceStart line,
                             sample_labels = parseLabels (drop (Suc braceStart) (take braceEnd line)), sample_value = v\<rparr>)))"

definition parsePrometheusText :: "string \<Rightarrow> parsedSample list" where
  "parsePrometheusText data =
     foldl (\<lambda>samples l.
        let line = TrimSpace l in
        if line = [] \<or> hd line = CHR ''#'' then samples
        else case parseSampleLine line of None \<Rightarrow> samples | Some s \<Rightarrow> samples @ [s]) [] (scan_lines data)"

section \<open>Devices\<close>

definition getOrCreateGPU :: "(string, GPUDeviceMetrics) gomap \<Rightarrow> string \<Rightarrow> dcgmLabels \<Rightarrow> GPUDeviceMetrics" where
  "getOrCreateGPU gpus key l =
     (case map_of gpus key of
        Some g \<Rightarrow> g
      | None \<Rightarrow> zero_GPUDeviceMetrics\<lparr>GPUDeviceMetrics.GPU := l_gpu l, GPUDeviceMetrics.UUID := l_uuid l,
          GPUDeviceMetrics.Device := l_device l, GPUDeviceMetrics.ModelName := l_modelName l,
          GPUDeviceMetrics.DriverVersion := l_driverVersion l, GPUDeviceMetrics.Hostname := l_hostname l,
          GPUDeviceMetrics.PodName := l_podName l, GPUDeviceMetrics.Namespace := l_namespace l,
          GPUDeviceMetrics.ContainerName := l_containerName l, GPUDeviceMetrics.GPUInstanceID := l_gpuInstanceID l,
          GPUDeviceMetrics.GPUProfile := l_gpuProfile l\<rparr>)"

definition sample_key :: "parsedSample \<Rightarrow> string" where
  "sample_key s = (if l_uuid (sample_labels s) = '''' then l_gpu (sample_labels s) else l_uuid (sample_labels s))"

text \<open>The switch over the metric names; \<open>prof\<close> is \<^verbatim>\<open>hasProf[key]\<close> before the sample.\<close>

definition apply_sample :: "(float64 \<Rightarrow> int64) \<Rightarrow> bool \<Rightarrow> string \<Rightarrow> float64 \<Rightarrow> GPUDeviceMetrics \<Rightarrow> GPUDeviceMetrics" where
  "apply_sample wide prof n v g =
     (if isSentinel v then g
      else if n = metricProfGrEngineActive then g\<lparr>GPUUtilization := Some (f64_mul v (f64_of_int 100))\<rparr>
      else if n = metricDevGPUUtil then (if prof then g else g\<lparr>GPUUtilization := Some v\<rparr>)
      else if n = metricProfTensorActive then g\<lparr>TensorActivePercent := Some (f64_mul v (f64_of_int 100))\<rparr>
      else if n = metricDevMemCopyUtil then g\<lparr>MemCopyUtilPercent := Some v\<rparr>
      else if n = metricDevFBUsed then g\<lparr>MemoryUsedBytes := Some (f64_to_int64 wide (f64_mul v mibToBytes))\<rparr>
      else if n = metricDevFBFree then g\<lparr>MemoryFreeBytes := Some (f64_to_int64 wide (f64_mul v mibToBytes))\<rparr>
      else if n = metricDevFBTotal then g\<lparr>MemoryTotalBytes := Some (f64_to_int64 wide (f64_mul v mibToBytes))\<rparr>
      else if n = metricDevGPUTemp then g\<lparr>Temperature := Some v\<rparr>
      else if n = metricDevPowerUsage then g\<lparr>PowerUsage := Some v\<rparr>
      else if n = metricDevMIGMode then g\<lparr>MIGEnabled := Some (f64_eq v (f64_of_int 1))\<rparr>
      else g)"

type_synonym dcgm_state = "(string, GPUDeviceMetrics) gomap \<times> (string \<Rightarrow> bool)"

definition dcgm_step :: "(float64 \<Rightarrow> int64) \<Rightarrow> dcgm_state \<Rightarrow> parsedSample \<Rightarrow> dcgm_state" where
  "dcgm_step wide = (\<lambda>(gpus, hasProf) s.
     if l_uuid (sample_labels s) = '''' \<and> l_gpu (sample_labels s) = '''' then (gpus, hasProf)
     else let key = sample_key s; g = getOrCreateGPU gpus key (sample_labels s) in
          (map_set key (apply_sample wide (hasProf key) (sample_name s) (sample_value s) g) gpus,
           if sample_name s = metricProfGrEngineActive \<and> \<not> isSentinel (sample_value s) then hasProf(key := True) else hasProf))"

definition fill_total :: "GPUDeviceMetrics \<Rightarrow> GPUDeviceMetrics" where
  "fill_total g =
     (case (MemoryTotalBytes g, MemoryUsedBytes g, MemoryFreeBytes g) of
        (None, Some used, Some free) \<Rightarrow> g\<lparr>MemoryTotalBytes := Some (used + free)\<rparr>
      | _ \<Rightarrow> g)"

definition ParseDCGMMetrics :: "(float64 \<Rightarrow> int64) \<Rightarrow> iter_order \<Rightarrow> string \<Rightarrow> GPUDeviceMetrics list" where
  "ParseDCGMMetrics wide ord data =
     (let (gpus, _) = foldl (dcgm_step wide) ([], \<lambda>_. False) (parsePrometheusText data)
      in map (fill_total \<circ> snd) (map_range ord gpus))"

section \<open>Printing what the parser reads\<close>

text \<open>
  The exposition format, as a printer: label values are escaped, labels are separated by
  commas, every sample is a line. A sample is its name, its labels and the text of its value.
\<close>

fun escape :: "string \<Rightarrow> string" where
  "escape [] = []"
| "escape (c # s) =
     (if c = backslash then [backslash, backslash] else if c = quote then [backslash, quote]
      else if c = newline then [backslash, CHR ''n''] else [c]) @ escape s"

definition print_label :: "string \<times> string \<Rightarrow> string" where
  "print_label = (\<lambda>(k, v). k @ ''='' @ [quote] @ escape v @ [quote])"

fun print_labels :: "(string \<times> string) list \<Rightarrow> string" where
  "print_labels [] = []"
| "print_labels [kv] = print_label kv"
| "print_labels (kv # kw # kvs) = print_label kv @ '','' @ print_labels (kw # kvs)"

type_synonym exposed = "string \<times> (string \<times> string) list \<times> string"

definition print_line :: "exposed \<Rightarrow> string" where
  "print_line = (\<lambda>(n, kvs, w). n @ ''{'' @ print_labels kvs @ ''} '' @ w)"

definition print_exposition :: "exposed list \<Rightarrow> string" where
  "print_exposition ss = concat (map (\<lambda>s. print_line s @ [newline]) ss)"

text \<open>What a printed sample means.\<close>

definition labels_of :: "(string \<times> string) list \<Rightarrow> dcgmLabels" where
  "labels_of kvs = foldl (\<lambda>l (k, v). set_label k v l) zero_dcgmLabels kvs"

definition sample_of :: "exposed \<Rightarrow> parsedSample" where
  "sample_of = (\<lambda>(n, kvs, w). \<lparr>sample_name = n, sample_labels = labels_of kvs, sample_value = the (ParseFloat w)\<rparr>)"

definition printable :: "char \<Rightarrow> bool" where
  "printable c \<longleftrightarrow> (33::nat) \<le> of_char c \<and> of_char c \<le> (126::nat)"

text \<open>A line of the exporter: names and keys of printable characters, a number as its value.\<close>

definition exposed_ok :: "exposed \<Rightarrow> bool" where
  "exposed_ok = (\<lambda>(n, kvs, w).
     n \<noteq> [] \<and> hd n \<noteq> CHR ''#'' \<and> list_all printable n \<and> CHR ''{'' \<notin> set n \<and>
     list_all (\<lambda>(k, v). list_all printable k \<and> CHR ''='' \<notin> set k) kvs \<and>
     w \<noteq> [] \<and> list_all printable w \<and> CHR ''}'' \<notin> set w \<and> ParseFloat w \<noteq> None \<and>
     length (print_line (n, kvs, w)) < MaxScanTokenSize)"

section \<open>Lemmas on labels\<close>

lemma read_val_plain:
  "c \<noteq> backslash \<Longrightarrow> c \<noteq> quote \<Longrightarrow> t \<noteq> [] \<Longrightarrow> read_val (c # t) = (c # fst (read_val t), snd (read_val t))"
  by (cases t) (auto simp: case_prod_unfold Let_def)

lemma read_val_quote: "read_val (quote # r) = ([], r)"
  by (cases r) auto

lemma read_val_escape: "read_val (escape v @ quote # r) = (v, r)"
  by (induction v) (auto simp: read_val_plain read_val_quote)

lemma labels_loop_label:
  assumes "CHR ''='' \<notin> set k"
  shows "labels_loop l (print_label (k, v) @ r) =
         labels_loop (set_label k v l) (if r \<noteq> [] \<and> hd r = CHR '','' then tl r else r)"
proof -
  have "IndexByte (print_label (k, v) @ r) CHR ''='' = Some (length k)"
    using IndexByte_append [OF assms, of "[quote] @ escape v @ [quote] @ r"] by (simp add: print_label_def)
  then show ?thesis
    by (subst labels_loop.simps) (simp add: print_label_def read_val_escape Let_def)
qed

lemma labels_loop_Nil [simp]: "labels_loop l [] = l"
  by (simp add: labels_loop.simps)

lemma labels_loop_print:
  "list_all (\<lambda>(k, v). CHR ''='' \<notin> set k) kvs \<Longrightarrow>
   labels_loop l (print_labels kvs) = foldl (\<lambda>l (k, v). set_label k v l) l kvs"
proof (induction kvs arbitrary: l rule: print_labels.induct)
  case (2 kv)
  obtain k v where "kv = (k, v)" by (cases kv)
  with 2 show ?case using labels_loop_label [of k l v "[]"] by simp
next
  case (3 kv kw kvs)
  obtain k v where "kv = (k, v)" by (cases kv)
  with 3 show ?case by (simp add: labels_loop_label)
qed simp

lemma parseLabels_print:
  "list_all (\<lambda>(k, v). CHR ''='' \<notin> set k) kvs \<Longrightarrow> parseLabels (print_labels kvs) = labels_of kvs"
  by (simp add: parseLabels_def labels_of_def labels_loop_print)

section \<open>Lemmas on white space and lines\<close>

lemma wide_spaces_ends: "w \<in> set wide_spaces \<Longrightarrow> w \<noteq> [] \<and> \<not> printable (hd w) \<and> \<not> printable (last w)"
  by (auto simp: wide_spaces_def printable_def)

lemma printable_not_space [simp]: "printable c \<Longrightarrow> \<not> is_space c" "printable c \<Longrightarrow> c \<noteq> newline"
  by (auto simp: printable_def is_space_def)

lemma find_None: "\<forall>x \<in> set xs. \<not> P x \<Longrightarrow> find P xs = None"
  by (simp add: find_None_iff)

lemma space_len_printable: "printable c \<Longrightarrow> space_len (c # s) = 0"
proof -
  assume c: "printable c"
  have "\<not> HasPrefix (c # s) w" if w: "w \<in> set wide_spaces" for w
    using wide_spaces_ends [OF w] c by (cases w) (auto simp: HasPrefix_def)
  then show ?thesis using c by (simp add: space_len_def find_None)
qed

lemma space_len_end_printable: "printable c \<Longrightarrow> space_len_end (c # s) = 0"
proof -
  assume c: "printable c"
  have "\<not> HasPrefix (c # s) (rev w)" if w: "w \<in> set wide_spaces" for w
    using wide_spaces_ends [OF w] c by (cases w rule: rev_cases) (auto simp: HasPrefix_def)
  then show ?thesis using c by (simp add: space_len_end_def find_None)
qed

lemma TrimSpace_id:
  assumes "s \<noteq> []" and "printable (hd s)" and "printable (last s)"
  shows "TrimSpace s = s"
proof -
  have a: "trim_by space_len s = s" using assms(1,2) by (cases s) (simp_all add: trim_by.simps space_len_printable)
  have "trim_by space_len_end (rev s) = rev s"
    using assms(1,3) by (cases s rule: rev_cases) (simp_all add: trim_by.simps space_len_end_printable)
  with a show ?thesis by (simp add: TrimSpace_def)
qed

lemma TrimSpace_space:
  assumes "w \<noteq> []" and "list_all printable w"
  shows "TrimSpace (CHR '' '' # w) = w"
proof -
  have "trim_by space_len (CHR '' '' # w) = trim_by space_len w"
    by (subst trim_by.simps) (simp add: space_len_def is_space_def)
  then show ?thesis using TrimSpace_id [of w] assms
    by (cases w) (simp_all add: TrimSpace_def list_all_iff)
qed

lemma fields_from_printable:
  "list_all printable w \<Longrightarrow> fields_from acc w = (if acc @ w = [] then [] else [acc @ w])"
proof (induction w arbitrary: acc)
  case Nil
  then show ?case by (simp add: fields_from.simps)
next
  case (Cons c w)
  then show ?case by (subst fields_from.simps) (simp add: space_len_printable)
qed

lemma Fields_printable: "w \<noteq> [] \<Longrightarrow> list_all printable w \<Longrightarrow> Fields w = [w]"
  by (simp add: Fields_def fields_from_printable)

lemma raw_lines_print:
  assumes "\<forall>l \<in> set ls. newline \<notin> set l"
  shows "raw_lines (concat (map (\<lambda>l. l @ [newline]) ls)) = ls"
proof -
  have "split_at newline (concat (map (\<lambda>l. l @ [newline]) ls)) = ls @ [[]]"
    using assms by (induction ls) (auto simp: split_at_append)
  then show ?thesis by (simp add: raw_lines_def)
qed

lemma parseSampleLine_print:
  assumes "exposed_ok s"
  shows "parseSampleLine (print_line s) = Some (sample_of s)"
proof -
  obtain n kvs w where s: "s = (n, kvs, w)" by (cases s)
  let ?a = "n @ ''{'' @ print_labels kvs"
  have ok: "CHR ''{'' \<notin> set n" "w \<noteq> []" "list_all printable w" "CHR ''}'' \<notin> set w" "ParseFloat w \<noteq> None"
    "list_all (\<lambda>(k, v). CHR ''='' \<notin> set k) kvs"
    using assms by (auto simp: exposed_ok_def s list_all_iff)
  define l where "l = n @ CHR ''{'' # print_labels kvs @ ''} '' @ w"
  have line: "print_line s = l" by (simp add: print_line_def s l_def)
  have start: "IndexByte l CHR ''{'' = Some (length n)"
    unfolding l_def using ok(1) by (rule IndexByte_append)
  have fin: "LastIndexByte l CHR ''}'' = Some (length ?a)"
    using LastIndexByte_append [of "CHR ''}''" "CHR '' '' # w" ?a] ok(4) by (simp add: l_def)
  have cut: "drop (Suc (length ?a)) l = CHR '' '' # w" "take (length n) l = n"
    "drop (Suc (length n)) (take (length ?a) l) = print_labels kvs"
    by (simp_all add: l_def)
  obtain v where v: "ParseFloat w = Some v" using ok(5) by auto
  show ?thesis unfolding line parseSampleLine_def start fin
    using ok(2,3) v parseLabels_print [OF ok(6)] cut
    by (simp add: s sample_of_def TrimSpace_space Fields_printable)
qed

lemma escape_no_newline: "newline \<notin> set (escape v)"
  by (induction v) auto

lemma print_labels_no_newline:
  "list_all (\<lambda>(k, v). list_all printable k) kvs \<Longrightarrow> newline \<notin> set (print_labels kvs)"
  by (induction kvs rule: print_labels.induct)
    (auto simp: print_label_def escape_no_newline list_all_iff printable_def)

lemma print_line_shape:
  assumes "exposed_ok s"
  shows "newline \<notin> set (print_line s) \<and> print_line s \<noteq> [] \<and> printable (hd (print_line s)) \<and> printable (last (print_line s))
    \<and> hd (print_line s) \<noteq> CHR ''#'' \<and> length (print_line s) < MaxScanTokenSize"
proof -
  obtain n kvs w where s: "s = (n, kvs, w)" by (cases s)
  have ok: "n \<noteq> []" "hd n \<noteq> CHR ''#''" "list_all printable n" "w \<noteq> []" "list_all printable w"
    "list_all (\<lambda>(k, v). list_all printable k) kvs" "length (print_line s) < MaxScanTokenSize"
    using assms by (auto simp: exposed_ok_def s list_all_iff)
  from ok(3,5) have "newline \<notin> set n" "newline \<notin> set w" by (auto simp: list_all_iff printable_def)
  with ok print_labels_no_newline [OF ok(6)] show ?thesis
    by (auto simp: print_line_def s hd_append list_all_iff)
qed

lemma scan_lines_print:
  assumes "list_all exposed_ok ss"
  shows "scan_lines (print_exposition ss) = map print_line ss"
proof -
  have shape: "newline \<notin> set (print_line s) \<and> length (print_line s) < MaxScanTokenSize \<and> drop_cr (print_line s) = print_line s"
    if "s \<in> set ss" for s
    using print_line_shape [of s] that assms by (auto simp: list_all_iff drop_cr_def printable_def)
  have "raw_lines (print_exposition ss) = map print_line ss"
    using raw_lines_print [of "map print_line ss"] shape by (simp add: print_exposition_def comp_def)
  moreover have "takeWhile (\<lambda>l. length l < MaxScanTokenSize) (map print_line ss) = map print_line ss"
    using shape by (simp add: takeWhile_eq_all_conv)
  ultimately have "scan_lines (print_exposition ss) = map drop_cr (map print_line ss)" by (simp only: scan_lines_def)
  then show ?thesis using shape by simp
qed

lemma parsePrometheusText_print:
  assumes "list_all exposed_ok ss"
  shows "parsePrometheusText (print_exposition ss) = map sample_of ss"
proof -
  let ?step = "\<lambda>samples l. let line = TrimSpace l in
        if line = [] \<or> hd line = CHR ''#'' then samples
        else case parseSampleLine line of None \<Rightarrow> samples | Some s \<Rightarrow> samples @ [s]"
  have "foldl ?step acc (map print_line ss) = acc @ map sample_of ss" for acc
    using assms
  proof (induction ss arbitrary: acc)
    case (Cons s ss)
    then have "exposed_ok s" by simp
    note shape = print_line_shape [OF this] and parse = parseSampleLine_print [OF this]
    from shape have "TrimSpace (print_line s) = print_line s" by (intro TrimSpace_id) auto
    with shape parse Cons show ?case by (simp add: Let_def)
  qed simp
  from this [of "[]"] show ?thesis by (simp add: parsePrometheusText_def scan_lines_print [OF assms])
qed

text \<open>
  C18. The parser reads back everything that is written in the exposition format: the text of
  any list of samples, with any label values (quotes, backslashes and line feeds included),
  is parsed to exactly these samples, in order.
\<close>

theorem exposition_roundtrip:
  assumes "list_all exposed_ok ss"
  shows "parsePrometheusText (print_exposition ss) = map sample_of ss"
  using assms by (rule parsePrometheusText_print)

lemma ParseFloat_small: "n < 2 ^ 53 \<Longrightarrow> ParseFloat (nat_to_string n) = Some (f64_of_int (int n))"
  by (rule ParseFloat_numeral)
    (use f64_round_representable [of "of_int (int n)"] representable_of_int [of "int n"] in
      \<open>cases "n = 0"; simp add: f64_of_int_def\<close>)

theorem exposition_roundtrip_witness:
  "parsePrometheusText (print_exposition [(''DCGM_FI_DEV_GPU_TEMP'', [(''gpu'', ''0''), (''pod'', [quote, newline, backslash])], ''41'')]) =
   [\<lparr>sample_name = ''DCGM_FI_DEV_GPU_TEMP'', sample_labels = zero_dcgmLabels\<lparr>l_gpu := ''0'', l_podName := [quote, newline, backslash]\<rparr>,
     sample_value = f64_of_int 41\<rparr>]"
proof -
  let ?s = "(''DCGM_FI_DEV_GPU_TEMP'', [(''gpu'', ''0''), (''pod'', [quote, newline, backslash])], ''41'') :: exposed"
  have float: "ParseFloat ''41'' = Some (f64_of_int 41)"
    using ParseFloat_small [of 41] by (simp add: nat_to_string.simps char_of_def bit_0)
  have ok: "list_all exposed_ok [?s]"
    by (simp add: exposed_ok_def float printable_def print_line_def print_label_def MaxScanTokenSize_def)
  show ?thesis using exposition_roundtrip [OF ok] float
    by (simp add: sample_of_def labels_of_def set_label_def zero_dcgmLabels_def)
qed

section \<open>The table of devices\<close>

text \<open>
  A reference for what a device reports: identity from the first sample of its key, every
  figure from the last usable sample of its metric, and the profiling counter before the
  coarser utilisation whatever their order.
\<close>

definition keyed :: "parsedSample \<Rightarrow> bool" where
  "keyed s \<longleftrightarrow> \<not> (l_uuid (sample_labels s) = '''' \<and> l_gpu (sample_labels s) = '''')"

definition for_key :: "string \<Rightarrow> parsedSample list \<Rightarrow> parsedSample list" where
  "for_key k ss = filter (\<lambda>s. keyed s \<and> sample_key s = k) ss"

definition last_value :: "string \<Rightarrow> parsedSample list \<Rightarrow> float64 option" where
  "last_value n ss =
     (case filter (\<lambda>s. sample_name s = n \<and> \<not> isSentinel (sample_value s)) (rev ss) of
        [] \<Rightarrow> None | s # _ \<Rightarrow> Some (sample_value s))"

definition new_gpu :: "dcgmLabels \<Rightarrow> GPUDeviceMetrics" where
  "new_gpu l = getOrCreateGPU [] '''' l"

definition reported :: "(float64 \<Rightarrow> int64) \<Rightarrow> dcgmLabels \<Rightarrow> parsedSample list \<Rightarrow> GPUDeviceMetrics" where
  "reported wide l ss =
    (let bytes = (\<lambda>v. f64_to_int64 wide (f64_mul v mibToBytes)); percent = (\<lambda>v. f64_mul v (f64_of_int 100)) in
     (new_gpu l)\<lparr>
       GPUUtilization := (case last_value metricProfGrEngineActive ss of Some v \<Rightarrow> Some (percent v) | None \<Rightarrow> last_value metricDevGPUUtil ss),
       TensorActivePercent := map_option percent (last_value metricProfTensorActive ss),
       MemCopyUtilPercent := last_value metricDevMemCopyUtil ss,
       MemoryUsedBytes := map_option bytes (last_value metricDevFBUsed ss),
       MemoryFreeBytes := map_option bytes (last_value metricDevFBFree ss),
       MemoryTotalBytes := map_option bytes (last_value metricDevFBTotal ss),
       Temperature := last_value metricDevGPUTemp ss,
       PowerUsage := last_value metricDevPowerUsage ss,
       MIGEnabled := map_option (\<lambda>v. f64_eq v (f64_of_int 1)) (last_value metricDevMIGMode ss)\<rparr>)"

lemma last_value_snoc [simp]:
  "last_value n (ss @ [s]) =
     (if sample_name s = n \<and> \<not> isSentinel (sample_value s) then Some (sample_value s) else last_value n ss)"
  by (simp add: last_value_def)

lemma last_value_Nil [simp]: "last_value n [] = None"
  by (simp add: last_value_def)

lemma getOrCreateGPU_eq:
  "getOrCreateGPU gpus k l = (case map_of gpus k of Some g \<Rightarrow> g | None \<Rightarrow> new_gpu l)"
  by (simp add: new_gpu_def getOrCreateGPU_def split: option.split)

lemma metric_names_distinct:
  "distinct [metricProfGrEngineActive, metricProfTensorActive, metricDevMemCopyUtil, metricDevGPUUtil, metricDevFBUsed,
     metricDevFBFree, metricDevFBTotal, metricDevGPUTemp, metricDevPowerUsage, metricDevMIGMode]"
  "distinct [metricDevMIGMode, metricDevPowerUsage, metricDevGPUTemp, metricDevFBTotal, metricDevFBFree,
     metricDevFBUsed, metricDevGPUUtil, metricDevMemCopyUtil, metricProfTensorActive, metricProfGrEngineActive]"
  by (simp_all add: metric_names)

lemma new_gpu_figures [simp]:
  "GPUUtilization (new_gpu l) = None" "TensorActivePercent (new_gpu l) = None" "MemCopyUtilPercent (new_gpu l) = None"
  "MemoryUsedBytes (new_gpu l) = None" "MemoryFreeBytes (new_gpu l) = None" "MemoryTotalBytes (new_gpu l) = None"
  "Temperature (new_gpu l) = None" "PowerUsage (new_gpu l) = None" "MIGEnabled (new_gpu l) = None"
  by (simp_all add: new_gpu_def getOrCreateGPU_def zero_GPUDeviceMetrics_def)

lemma apply_sample_fields:
  "GPUUtilization (apply_sample wide prof n v g) =
     (if isSentinel v then GPUUtilization g else if n = metricProfGrEngineActive then Some (f64_mul v (f64_of_int 100))
      else if n = metricDevGPUUtil \<and> \<not> prof then Some v else GPUUtilization g)"
  "TensorActivePercent (apply_sample wide prof n v g) =
     (if n = metricProfTensorActive \<and> \<not> isSentinel v then Some (f64_mul v (f64_of_int 100)) else TensorActivePercent g)"
  "MemCopyUtilPercent (apply_sample wide prof n v g) =
     (if n = metricDevMemCopyUtil \<and> \<not> isSentinel v then Some v else MemCopyUtilPercent g)"
  "MemoryUsedBytes (apply_sample wide prof n v g) =
     (if n = metricDevFBUsed \<and> \<not> isSentinel v then Some (f64_to_int64 wide (f64_mul v mibToBytes)) else MemoryUsedBytes g)"
  "MemoryFreeBytes (apply_sample wide prof n v g) =
     (if n = metricDevFBFree \<and> \<not> isSentinel v then Some (f64_to_int64 wide (f64_mul v mibToBytes)) else MemoryFreeBytes g)"
  "MemoryTotalBytes (apply_sample wide prof n v g) =
     (if n = metricDevFBTotal \<and> \<not> isSentinel v then Some (f64_to_int64 wide (f64_mul v mibToBytes)) else MemoryTotalBytes g)"
  "Temperature (apply_sample wide prof n v g) = (if n = metricDevGPUTemp \<and> \<not> isSentinel v then Some v else Temperature g)"
  "PowerUsage (apply_sample wide prof n v g) = (if n = metricDevPowerUsage \<and> \<not> isSentinel v then Some v else PowerUsage g)"
  "MIGEnabled (apply_sample wide prof n v g) =
     (if n = metricDevMIGMode \<and> \<not> isSentinel v then Some (f64_eq v (f64_of_int 1)) else MIGEnabled g)"
  using metric_names_distinct by (simp_all add: apply_sample_def)

lemma apply_sample_identity [simp]:
  "GPU (apply_sample wide prof n v g) = GPU g" "UUID (apply_sample wide prof n v g) = UUID g"
  "Device (apply_sample wide prof n v g) = Device g" "ModelName (apply_sample wide prof n v g) = ModelName g"
  "DriverVersion (apply_sample wide prof n v g) = DriverVersion g" "Hostname (apply_sample wide prof n v g) = Hostname g"
  "PodName (apply_sample wide prof n v g) = PodName g" "Namespace (apply_sample wide prof n v g) = Namespace g"
  "ContainerName (apply_sample wide prof n v g) = ContainerName g" "GPUInstanceID (apply_sample wide prof n v g) = GPUInstanceID g"
  "GPUProfile (apply_sample wide prof n v g) = GPUProfile g" "Timestamp (apply_sample wide prof n v g) = Timestamp g"
  by (simp_all add: apply_sample_def)

lemma reported_fields [simp]:
  "GPUUtilization (reported wide l ss) =
     (case last_value metricProfGrEngineActive ss of Some v \<Rightarrow> Some (f64_mul v (f64_of_int 100)) | None \<Rightarrow> last_value metricDevGPUUtil ss)"
  "TensorActivePercent (reported wide l ss) = map_option (\<lambda>v. f64_mul v (f64_of_int 100)) (last_value metricProfTensorActive ss)"
  "MemCopyUtilPercent (reported wide l ss) = last_value metricDevMemCopyUtil ss"
  "MemoryUsedBytes (reported wide l ss) = map_option (\<lambda>v. f64_to_int64 wide (f64_mul v mibToBytes)) (last_value metricDevFBUsed ss)"
  "MemoryFreeBytes (reported wide l ss) = map_option (\<lambda>v. f64_to_int64 wide (f64_mul v mibToBytes)) (last_value metricDevFBFree ss)"
  "MemoryTotalBytes (reported wide l ss) = map_option (\<lambda>v. f64_to_int64 wide (f64_mul v mibToBytes)) (last_value metricDevFBTotal ss)"
  "Temperature (reported wide l ss) = last_value metricDevGPUTemp ss"
  "PowerUsage (reported wide l ss) = last_value metricDevPowerUsage ss"
  "MIGEnabled (reported wide l ss) = map_option (\<lambda>v. f64_eq v (f64_of_int 1)) (last_value metricDevMIGMode ss)"
  by (simp_all add: reported_def Let_def)

lemma reported_identity:
  "GPU (reported wide l ss) = GPU (new_gpu l)" "UUID (reported wide l ss) = UUID (new_gpu l)"
  "Device (reported wide l ss) = Device (new_gpu l)" "ModelName (reported wide l ss) = ModelName (new_gpu l)"
  "DriverVersion (reported wide l ss) = DriverVersion (new_gpu l)" "Hostname (reported wide l ss) = Hostname (new_gpu l)"
  "PodName (reported wide l ss) = PodName (new_gpu l)" "Namespace (reported wide l ss) = Namespace (new_gpu l)"
  "ContainerName (reported wide l ss) = ContainerName (new_gpu l)" "GPUInstanceID (reported wide l ss) = GPUInstanceID (new_gpu l)"
  "GPUProfile (reported wide l ss) = GPUProfile (new_gpu l)" "Timestamp (reported wide l ss) = Timestamp (new_gpu l)"
  by (simp_all add: reported_def Let_def)

lemma reported_Nil: "reported wide l [] = new_gpu l"
  by (rule GPUDeviceMetrics.equality) (simp_all add: reported_def Let_def)

lemma apply_sample_reported:
  "apply_sample wide (last_value metricProfGrEngineActive ss \<noteq> None) (sample_name s) (sample_value s) (reported wide l ss) =
   reported wide l (ss @ [s])"
  by (rule GPUDeviceMetrics.equality) (auto simp: reported_identity apply_sample_fields split: option.split)

definition device_of :: "(float64 \<Rightarrow> int64) \<Rightarrow> parsedSample list \<Rightarrow> GPUDeviceMetrics" where
  "device_of wide ss = reported wide (sample_labels (hd ss)) ss"

lemma for_key_snoc [simp]:
  "for_key k (ss @ [s]) = for_key k ss @ (if keyed s \<and> sample_key s = k then [s] else [])"
  by (simp add: for_key_def)

lemma for_key_empty: "for_key k ss = [] \<longleftrightarrow> k \<notin> sample_key ` set (filter keyed ss)"
  by (auto simp: for_key_def filter_empty_conv)

text \<open>What the loop over the samples keeps true.\<close>

definition table_ok :: "(float64 \<Rightarrow> int64) \<Rightarrow> parsedSample list \<Rightarrow> dcgm_state \<Rightarrow> bool" where
  "table_ok wide ss = (\<lambda>(gpus, hasProf).
     wf_map gpus \<and>
     (\<forall>k. map_of gpus k = (if for_key k ss = [] then None else Some (device_of wide (for_key k ss)))) \<and>
     (\<forall>k. hasProf k = (last_value metricProfGrEngineActive (for_key k ss) \<noteq> None)))"

lemma dcgm_step_ok:
  assumes "table_ok wide ss st"
  shows "table_ok wide (ss @ [s]) (dcgm_step wide st s)"
proof (cases "keyed s")
  case False
  with assms show ?thesis by (simp add: table_ok_def dcgm_step_def keyed_def case_prod_unfold)
next
  case True
  obtain gpus hasProf where st: "st = (gpus, hasProf)" by (cases st)
  let ?k = "sample_key s" and ?ys = "for_key (sample_key s) ss"
  let ?g = "getOrCreateGPU gpus ?k (sample_labels s)"
  have wf: "wf_map gpus" and of: "\<And>k. map_of gpus k = (if for_key k ss = [] then None else Some (device_of wide (for_key k ss)))"
    and prof: "\<And>k. hasProf k = (last_value metricProfGrEngineActive (for_key k ss) \<noteq> None)"
    using assms by (auto simp: table_ok_def st)
  have g: "?g = reported wide (sample_labels (hd (?ys @ [s]))) ?ys"
    by (simp add: getOrCreateGPU_eq of device_of_def reported_Nil hd_append)
  have step: "apply_sample wide (hasProf ?k) (sample_name s) (sample_value s) ?g = device_of wide (?ys @ [s])"
    unfolding g prof apply_sample_reported device_of_def ..
  from True have nk: "\<not> (l_uuid (sample_labels s) = '''' \<and> l_gpu (sample_labels s) = '''')" by (simp add: keyed_def)
  have "dcgm_step wide st s =
      (map_set ?k (device_of wide (?ys @ [s])) gpus,
       if sample_name s = metricProfGrEngineActive \<and> \<not> isSentinel (sample_value s) then hasProf(?k := True) else hasProf)"
    unfolding dcgm_step_def st prod.case if_not_P [OF nk] Let_def step ..
  then show ?thesis using True wf of prof by (simp add: table_ok_def)
qed

lemma dcgm_table_ok: "table_ok wide ss (foldl (dcgm_step wide) ([], \<lambda>_. False) ss)"
proof (induction ss rule: rev_induct)
  case Nil
  then show ?case by (simp add: table_ok_def for_key_def)
next
  case (snoc s ss)
  then show ?case by (simp add: dcgm_step_ok)
qed



text \<open>
  One line of 65536 bytes or more ends the scan without an error: every sample after it is
  lost, and the devices are those of the text before it.
\<close>

theorem long_line_ends_scan:
  fixes before after :: "string list"
  assumes "\<forall>l \<in> set (before @ [long] @ after). newline \<notin> set l" and "MaxScanTokenSize \<le> length long"
  defines "text \<equiv> \<lambda>ls. concat (map (\<lambda>l. l @ [newline]) ls)"
  shows "ParseDCGMMetrics wide ord (text (before @ [long] @ after)) = ParseDCGMMetrics wide ord (text before)"
proof -
  have "takeWhile (\<lambda>l. length l < MaxScanTokenSize) (before @ [long] @ after) =
        takeWhile (\<lambda>l. length l < MaxScanTokenSize) before"
    using assms(2) by (induction before) auto
  moreover have "raw_lines (text (before @ [long] @ after)) = before @ [long] @ after" "raw_lines (text before) = before"
    unfolding text_def using assms(1) by (intro raw_lines_print; simp)+
  ultimately have "scan_lines (text (before @ [long] @ after)) = scan_lines (text before)"
    by (simp only: scan_lines_def)
  then show ?thesis by (simp only: ParseDCGMMetrics_def parsePrometheusText_def)
qed

theorem long_line_ends_scan_witness:
  "ParseDCGMMetrics (\<lambda>_. 0) (\<lambda>n. [0..<n]) (concat (map (\<lambda>l. l @ [newline]) ([] @ [replicate 65536 CHR ''x''] @ [''a{gpu=1} 1'']))) =
   ParseDCGMMetrics (\<lambda>_. 0) (\<lambda>n. [0..<n]) []"
  using long_line_ends_scan [of "[]" "replicate 65536 CHR ''x''" "[''a{gpu=1} 1'']" "\<lambda>_. 0" "\<lambda>n. [0..<n]"]
  by (simp add: MaxScanTokenSize_def)

text \<open>
  A reading that is not a number passes the filter for blank values: the comparison with
  the threshold is false for \<^verbatim>\<open>NaN\<close>, and the device reports it.
\<close>

theorem nan_reading_reported:
  "map Temperature (ParseDCGMMetrics wide (\<lambda>n. [0..<n]) (print_exposition [(metricDevGPUTemp, [(''gpu'', ''0'')], ''NaN'')])) = [Some NaN]"
proof -
  let ?s = "(metricDevGPUTemp, [(''gpu'', ''0'')], ''NaN'') :: exposed"
  have float: "ParseFloat ''NaN'' = Some NaN"
    by (simp add: ParseFloat_def float_special_def ToLower_def lower_def char_of_def bit_0)
  have "list_all exposed_ok [?s]"
    by (simp add: exposed_ok_def float printable_def print_line_def print_label_def MaxScanTokenSize_def metric_names)
  then have parse: "parsePrometheusText (print_exposition [?s]) = [sample_of ?s]"
    using parsePrometheusText_print [of "[?s]"] by simp
  show ?thesis unfolding ParseDCGMMetrics_def parse
    by (simp add: metric_names Let_def sample_of_def labels_of_def set_label_def dcgm_step_def zero_dcgmLabels_def float
        sample_key_def getOrCreateGPU_def apply_sample_def isSentinel_def sentinelThreshold_def map_set_def fill_total_def
        zero_GPUDeviceMetrics_def)
qed

end
