(* ===== verification/Gpu_Collector.thy ===== *)
theory Gpu_Collector
  imports Gpu_Parser Polling
begin

text \<open>
  \<^verbatim>\<open>internal/collector/gpu\<close>: the scraper of dcgm-exporter endpoints and the collector that
  polls them. The HTTP client and \<^verbatim>\<open>endpointsFn\<close> are parameters; the goroutine is that of the
  theory \<open>Polling\<close>.
\<close>

section \<open>Scraping\<close>

text \<open>
  \<open>new_request\<close>: why \<^verbatim>\<open>http.NewRequestWithContext\<close> rejects a URL; \<open>client_Do\<close>: the answer to a
  GET, the status code and what \<^verbatim>\<open>io.ReadAll\<close> gives for its body.
\<close>

record scrape_net =
  new_request :: "string \<Rightarrow> goerror option"
  client_Do :: "string \<Rightarrow> goerror + goint \<times> (goerror + string)"

definition scrapeEndpoint :: "scrape_net \<Rightarrow> string \<Rightarrow> goerror + string" where
  "scrapeEndpoint nt endpoint =
    (let url = TrimRight endpoint CHR ''/'' @ ''/metrics'' in
     case new_request nt url of
       Some err \<Rightarrow> Inl (Errorf (''creating request for '' @ url @ '': '' @ error_text err) (Some err))
     | None \<Rightarrow>
        (case client_Do nt url of
           Inl err \<Rightarrow> Inl (Errorf (''scraping '' @ url @ '': '' @ error_text err) (Some err))
         | Inr (status, body) \<Rightarrow>
             if status \<noteq> 200 then Inl (Errorf (''unexpected status '' @ int_to_string (sint status) @ '' from '' @ url) None)
             else (case body of
                 Inl err \<Rightarrow> Inl (Errorf (''reading response from '' @ url @ '': '' @ error_text err) (Some err))
               | Inr b \<Rightarrow> Inr b)))"

text \<open>The \<^verbatim>\<open>k\<close>-th table of devices is listed in the order \<open>ord k\<close>. \<open>ParseDCGMMetrics\<close> has no error.\<close>

fun scrape_all :: "scrape_net \<Rightarrow> (float64 \<Rightarrow> int64) \<Rightarrow> (nat \<Rightarrow> iter_order) \<Rightarrow> nat \<Rightarrow> string list \<Rightarrow> GPUDeviceMetrics list" where
  "scrape_all nt wide ord k [] = []"
| "scrape_all nt wide ord k (e # es) =
     (case scrapeEndpoint nt e of
        Inl err \<Rightarrow> scrape_all nt wide ord (Suc k) es
      | Inr body \<Rightarrow> ParseDCGMMetrics wide (ord k) body @ scrape_all nt wide ord (Suc k) es)"

definition ScrapeGPUMetrics ::
  "scrape_net \<Rightarrow> (float64 \<Rightarrow> int64) \<Rightarrow> (nat \<Rightarrow> iter_order) \<Rightarrow> string list \<Rightarrow> goerror + GPUDeviceMetrics list" where
  "ScrapeGPUMetrics nt wide ord endpoints = Inr (scrape_all nt wide ord 0 endpoints)"

section \<open>The collector\<close>

record GPUMetricsCollector =
  gpu_metrics :: "GPUDeviceMetrics list"
  scrapeTotal :: int64
  scrapeFailed :: int64
  lastTargets :: int64
  lastUpTargets :: int64

definition NewGPUMetricsCollector :: GPUMetricsCollector where
  "NewGPUMetricsCollector =
     \<lparr>gpu_metrics = [], scrapeTotal = 0, scrapeFailed = 0, lastTargets = 0, lastUpTargets = 0\<rparr>"

text \<open>What a poll meets: the endpoints, the \<^verbatim>\<open>GPUMetricsAPI\<close>, the clock.\<close>

record gpu_poll_env =
  endpointsFn :: "string list"
  gpu_api :: "string list \<Rightarrow> goerror + GPUDeviceMetrics list"
  gpu_now :: Time

definition GPU_poll :: "gpu_poll_env \<Rightarrow> GPUMetricsCollector \<Rightarrow> GPUMetricsCollector" where
  "GPU_poll e c =
    (let endpoints = endpointsFn e in
     if endpoints = [] then c\<lparr>lastTargets := 0, lastUpTargets := 0\<rparr>
     else
       let c1 = c\<lparr>lastTargets := len endpoints, scrapeTotal := scrapeTotal c + len endpoints\<rparr> in
       case gpu_api e endpoints of
         Inl err \<Rightarrow> c1\<lparr>scrapeFailed := scrapeFailed c1 + len endpoints, lastUpTargets := 0\<rparr>
       | Inr ms \<Rightarrow> c1\<lparr>lastUpTargets := len endpoints,
                      gpu_metrics := map (\<lambda>m. m\<lparr>GPUDeviceMetrics.Timestamp := UnixMilli (gpu_now e)\<rparr>) ms\<rparr>)"

definition GetGPUMetrics :: "GPUMetricsCollector \<Rightarrow> GPUDeviceMetrics list" where
  "GetGPUMetrics c = gpu_metrics c"

definition GPU_APICallStats :: "GPUMetricsCollector \<Rightarrow> int64 \<times> int64" where
  "GPU_APICallStats c = (scrapeTotal c, scrapeFailed c)"

definition GPU_DCGMTargetStats :: "GPUMetricsCollector \<Rightarrow> goint \<times> goint" where
  "GPU_DCGMTargetStats c = (lastTargets c, lastUpTargets c)"

definition GPU_run :: "gpu_poll_env run_event \<Rightarrow> GPUMetricsCollector poller \<Rightarrow> GPUMetricsCollector poller" where
  "GPU_run = poller_step GPU_poll"

definition GPU_IsHealthy :: "GPUMetricsCollector poller \<Rightarrow> bool \<times> string" where
  "GPU_IsHealthy = poller_IsHealthy ''GPU metrics polling goroutine exited unexpectedly''"

text \<open>The collector as the registry sees it, with the answer \<open>sync\<close> of \<^verbatim>\<open>WaitForSync\<close>.\<close>

definition gpu_Collector :: "goerror option \<Rightarrow> GPUMetricsCollector poller \<Rightarrow> Collector" where
  "gpu_Collector sync p =
     \<lparr>Name = ''gpu'', Start = None, Collector_WaitForSync = sync, IsHealthy = Some (GPU_IsHealthy p),
      APICallStats = Some (GPU_APICallStats (coll p)), DCGMTargetStats = Some (GPU_DCGMTargetStats (coll p))\<rparr>"

section \<open>Polling dcgm-exporter\<close>

text \<open>A poll through the client that \<^verbatim>\<open>main\<close> installs.\<close>

record dcgm_env =
  dcgm_net :: scrape_net
  dcgm_endpoints :: "string list"
  dcgm_wide :: "float64 \<Rightarrow> int64"
  dcgm_orders :: "nat \<Rightarrow> iter_order"
  dcgm_now :: Time

definition dcgm_poll :: "dcgm_env \<Rightarrow> GPUMetricsCollector \<Rightarrow> GPUMetricsCollector" where
  "dcgm_poll e = GPU_poll \<lparr>endpointsFn = dcgm_endpoints e,
     gpu_api = ScrapeGPUMetrics (dcgm_net e) (dcgm_wide e) (dcgm_orders e), gpu_now = dcgm_now e\<rparr>"

interpretation dcgm: polling dcgm_poll
  "\<lambda>c. scrapeFailed c = 0 \<and> lastUpTargets c = lastTargets c" NewGPUMetricsCollector
  by unfold_locales
    (auto simp: NewGPUMetricsCollector_def dcgm_poll_def GPU_poll_def ScrapeGPUMetrics_def Let_def)

lemma scrape_all_failed:
  "\<forall>ep \<in> set eps. \<exists>err. scrapeEndpoint nt ep = Inl err \<Longrightarrow> scrape_all nt wide ord k eps = []"
  by (induction eps arbitrary: k) auto

lemma run_events_last_poll:
  assumes "phase (run_events poll evs c) \<in> {FirstPoll, Looping}"
  shows "coll (run_events poll (evs @ [PollRuns e]) c) = poll e (coll (run_events poll evs c))"
  using assms by (auto simp: poller_step_def)

text \<open>
  No failure to scrape an exporter is ever visible: the client skips endpoints that fail
  and returns no error, so that in every reachable state of the collector the number of
  failed calls is 0 and all targets count as up; after a poll in which every endpoint
  fails, the report still says that all are up, while no device is left.
\<close>

theorem gpu_failures_invisible:
  assumes "phase (run_events dcgm_poll evs NewGPUMetricsCollector) \<in> {FirstPoll, Looping}"
    and "dcgm_endpoints e \<noteq> []" and "\<forall>ep \<in> set (dcgm_endpoints e). \<exists>err. scrapeEndpoint (dcgm_net e) ep = Inl err"
  defines "c \<equiv> coll (run_events dcgm_poll (evs @ [PollRuns e]) NewGPUMetricsCollector)"
  shows "snd (GPU_APICallStats c) = 0 \<and> GPU_DCGMTargetStats c = (len (dcgm_endpoints e), len (dcgm_endpoints e)) \<and> GetGPUMetrics c = []"
proof -
  have c: "c = dcgm_poll e (coll (run_events dcgm_poll evs NewGPUMetricsCollector))"
    unfolding c_def by (rule run_events_last_poll [OF assms(1)])
  have "scrapeFailed c = 0" unfolding c_def using dcgm.run_inv by blast
  then show ?thesis
    unfolding c using assms(2) scrape_all_failed [OF assms(3)]
    by (simp add: dcgm_poll_def GPU_poll_def ScrapeGPUMetrics_def Let_def GPU_APICallStats_def GPU_DCGMTargetStats_def GetGPUMetrics_def)
qed

theorem gpu_failures_invisible_witness:
  "let nt = \<lparr>new_request = (\<lambda>_. None), client_Do = (\<lambda>_. Inl (Errorf ''connection refused'' None))\<rparr>;
       e = \<lparr>dcgm_net = nt, dcgm_endpoints = [''http://10.0.0.5:9400''], dcgm_wide = (\<lambda>_. 0), dcgm_orders = (\<lambda>_ n. [0..<n]), dcgm_now = 0\<rparr>;
       c = coll (run_events dcgm_poll ([StartCalled] @ [PollRuns e]) NewGPUMetricsCollector)
   in snd (GPU_APICallStats c) = 0 \<and> GPU_DCGMTargetStats c = (1, 1) \<and> GetGPUMetrics c = []"
proof -
  let ?nt = "\<lparr>new_request = (\<lambda>_. None), client_Do = (\<lambda>_. Inl (Errorf ''connection refused'' None))\<rparr>"
  let ?e = "\<lparr>dcgm_net = ?nt, dcgm_endpoints = [''http://10.0.0.5:9400''], dcgm_wide = (\<lambda>_. 0), dcgm_orders = (\<lambda>_ n. [0..<n]), dcgm_now = 0\<rparr>"
  have "phase (run_events dcgm_poll [StartCalled] NewGPUMetricsCollector) \<in> {FirstPoll, Looping}"
    by (simp add: run_events_def poller_step_def new_poller_def)
  moreover have "\<exists>err. scrapeEndpoint ?nt ''http://10.0.0.5:9400'' = Inl err"
    by (simp add: scrapeEndpoint_def Let_def)
  ultimately show ?thesis using gpu_failures_invisible [of "[StartCalled]" ?e] by (simp add: Let_def len_def)
qed

end
