(* ===== verification/Discovery.thy ===== *)
theory Discovery
  imports Convert_Core Builder
begin

text \<open>
  \<^verbatim>\<open>internal/discovery\<close>: what the agent finds out about the cluster when it starts: optional API
  groups, the cloud provider, the endpoints of dcgm-exporter, and the check of a resource in
  three phases. The Kubernetes clients are library code: their answers are the fields of
  a record \<open>cluster_api\<close>, those of one moment.
\<close>

section \<open>The clients\<close>

text \<open>
  \<open>Nodes_List1\<close> is the list call with \<^verbatim>\<open>Limit: 1\<close>; \<open>Pods_List\<close> is given the label selector;
  \<open>AccessReview\<close> verb, group and resource.
\<close>

record 'q cluster_api =
  ServerGroups :: "goerror + string list"
  ServerResourcesForGroupVersion :: "string \<Rightarrow> goerror + string list"
  Nodes_List1 :: "goerror + 'q K8sNode list"
  Nodes_List :: "goerror + 'q K8sNode list"
  Pods_List :: "string \<Rightarrow> goerror + 'q K8sPod list"
  AccessReview :: "string \<Rightarrow> string \<Rightarrow> string \<Rightarrow> goerror + bool"

text \<open>\<^verbatim>\<open>%q\<close> on printable ASCII: quotes and backslashes are escaped.\<close>

definition quoted :: "string \<Rightarrow> string" where
  "quoted s = ''\"'' @ concat (map (\<lambda>c. if c = CHR ''\"'' \<or> c = CHR 0x5C then [CHR 0x5C, c] else [c]) s) @ ''\"''"

section \<open>Provider\<close>

definition providerFromID :: "string \<Rightarrow> string" where
  "providerFromID providerID =
     (if HasPrefix providerID ''aws://'' then ''aws''
      else if HasPrefix providerID ''gce://'' then ''gcp''
      else if HasPrefix providerID ''azure://'' then ''azure''
      else '''')"

definition providerFromLabels :: "strmap \<Rightarrow> string" where
  "providerFromLabels labels =
     (if map_of labels ''eks.amazonaws.com/nodegroup'' \<noteq> None then ''aws''
      else if map_of labels ''eks.amazonaws.com/capacityType'' \<noteq> None then ''aws''
      else if map_of labels ''cloud.google.com/gke-nodepool'' \<noteq> None then ''gcp''
      else if map_of labels ''kubernetes.azure.com/agentpool'' \<noteq> None then ''azure''
      else '''')"

definition DetectProvider :: "'q K8sNode list \<Rightarrow> string" where
  "DetectProvider nodes =
     (case nodes of
        [] \<Rightarrow> ''unknown''
      | node # _ \<Rightarrow>
          let provider = providerFromID (node_ProviderID node) in
          if provider \<noteq> '''' then provider
          else let provider = providerFromLabels (om_Labels (node_Meta node)) in
               if provider \<noteq> '''' then provider else ''unknown'')"

section \<open>dcgm-exporter\<close>

text \<open>The outcome of the loop over the keys of \<^verbatim>\<open>Allocatable\<close> does not depend on their order.\<close>

definition node_has_gpu :: "('q, 's) kube \<Rightarrow> 'q K8sNode \<Rightarrow> bool" where
  "node_has_gpu K node =
     ((case map_of (node_Allocatable node) ''nvidia.com/gpu'' of Some q \<Rightarrow> 0 <s Quantity_Value K q | None \<Rightarrow> False)
      \<or> list_ex (\<lambda>(rName, q). HasPrefix rName ''nvidia.com/mig-'') (node_Allocatable node))"

definition dcgm_selectors :: "string list" where
  "dcgm_selectors = [''app=nvidia-dcgm-exporter'', ''app.kubernetes.io/name=dcgm-exporter'']"

definition pod_ips :: "'q K8sPod list \<Rightarrow> string list" where
  "pod_ips pods = filter (\<lambda>ip. ip \<noteq> '''') (map pod_PodIP pods)"

fun try_selectors :: "'q cluster_api \<Rightarrow> string list \<Rightarrow> bool \<times> string list" where
  "try_selectors api [] = (False, [])"
| "try_selectors api (sel # sels) =
     (case Pods_List api sel of
        Inl err \<Rightarrow> try_selectors api sels
      | Inr pods \<Rightarrow>
          let endpoints = pod_ips pods in
          if pods = [] then try_selectors api sels
          else if endpoints \<noteq> [] then (True, endpoints) else try_selectors api sels)"

definition detectDCGMExporter :: "('q, 's) kube \<Rightarrow> 'q cluster_api \<Rightarrow> bool \<times> string list" where
  "detectDCGMExporter K api =
     (case Nodes_List api of
        Inl err \<Rightarrow> (False, [])
      | Inr nodes \<Rightarrow> if \<not> list_ex (node_has_gpu K) nodes then (False, []) else try_selectors api dcgm_selectors)"

definition DetectDCGMEndpoints :: "('q, 's) kube \<Rightarrow> 'q cluster_api \<Rightarrow> bool \<times> string list" where
  "DetectDCGMEndpoints K api = detectDCGMExporter K api"

section \<open>Capabilities\<close>

record Capabilities =
  cap_MetricsServer :: bool
  cap_VPA :: bool
  cap_Karpenter :: bool
  cap_Provider :: string
  cap_DCGMExporter :: bool
  cap_DCGMExporterEndpoints :: "string list"

definition Detect :: "('q, 's) kube \<Rightarrow> 'q cluster_api \<Rightarrow> goerror + Capabilities" where
  "Detect K api =
     (case ServerGroups api of
        Inl err \<Rightarrow> Inl (Errorf (''discovery: failed to list server groups: '' @ error_text err) (Some err))
      | Inr groups \<Rightarrow>
          let provider = (case Nodes_List1 api of Inr (node # _) \<Rightarrow> DetectProvider [node] | _ \<Rightarrow> ''unknown'');
              (dcgm, endpoints) = detectDCGMExporter K api
          in Inr \<lparr>cap_MetricsServer = ''metrics.k8s.io'' \<in> set groups, cap_VPA = ''autoscaling.k8s.io'' \<in> set groups,
                  cap_Karpenter = ''karpenter.sh'' \<in> set groups, cap_Provider = provider,
                  cap_DCGMExporter = dcgm, cap_DCGMExporterEndpoints = endpoints\<rparr>)"

section \<open>Checking a resource\<close>

definition HasAPIGroup :: "'q cluster_api \<Rightarrow> string \<Rightarrow> goerror + bool" where
  "HasAPIGroup api grp =
     (case ServerGroups api of
        Inl err \<Rightarrow> Inl (Errorf (''discovery: failed to list server groups: '' @ error_text err) (Some err))
      | Inr groups \<Rightarrow> Inr (list_ex (\<lambda>g. g = grp) groups))"

definition hasResource :: "'q cluster_api \<Rightarrow> string \<Rightarrow> string \<Rightarrow> string \<Rightarrow> goerror + bool" where
  "hasResource api grp version resource =
     (let groupVersion = (if grp \<noteq> '''' then grp @ ''/'' @ version else version) in
      case ServerResourcesForGroupVersion api groupVersion of
        Inl err \<Rightarrow> Inr False
      | Inr resources \<Rightarrow> Inr (list_ex (\<lambda>r. r = resource) resources))"

definition checkAccess :: "'q cluster_api \<Rightarrow> string \<Rightarrow> string \<Rightarrow> string \<Rightarrow> goerror + bool" where
  "checkAccess api grp resource verb =
     (case AccessReview api verb grp resource of
        Inl err \<Rightarrow> Inl (Errorf (''SelfSubjectAccessReview for '' @ grp @ ''/'' @ resource @ '' verb='' @ verb @ '': '' @ error_text err) (Some err))
      | Inr allowed \<Rightarrow> Inr allowed)"

fun verbs_allowed :: "'q cluster_api \<Rightarrow> string \<Rightarrow> string \<Rightarrow> string list \<Rightarrow> goerror + bool" where
  "verbs_allowed api grp resource [] = Inr True"
| "verbs_allowed api grp resource (verb # verbs) =
     (case checkAccess api grp resource verb of
        Inl err \<Rightarrow> Inl err
      | Inr allowed \<Rightarrow> if allowed then verbs_allowed api grp resource verbs else Inr False)"

definition CanListWatch :: "'q cluster_api \<Rightarrow> string \<Rightarrow> string \<Rightarrow> goerror + bool" where
  "CanListWatch api grp resource = verbs_allowed api grp resource [''list'', ''watch'']"

definition CheckResource :: "'q cluster_api \<Rightarrow> string \<Rightarrow> string \<Rightarrow> string \<Rightarrow> goerror + bool" where
  "CheckResource api grp version resource =
     (case HasAPIGroup api grp of
        Inl err \<Rightarrow> Inl (Errorf (''discovery: phase 1 check API group '' @ quoted grp @ '': '' @ error_text err) (Some err))
      | Inr groupExists \<Rightarrow>
        if \<not> groupExists then Inr False
        else (case hasResource api grp version resource of
            Inl err \<Rightarrow> Inl (Errorf (''discovery: phase 2 check resource '' @ quoted resource @ '' in '' @ grp @ ''/'' @ version @ '': '' @ error_text err) (Some err))
          | Inr resourceExists \<Rightarrow>
            if \<not> resourceExists then Inr False
            else (case CanListWatch api grp resource of
                Inl err \<Rightarrow> Inl (Errorf (''discovery: phase 3 RBAC check for '' @ quoted resource @ '': '' @ error_text err) (Some err))
              | Inr canAccess \<Rightarrow> Inr canAccess)))"

section \<open>What detection answers\<close>

lemma try_selectors_cases:
  "try_selectors api sels = (True, eps) \<Longrightarrow>
     eps \<noteq> [] \<and> (\<exists>pre sel post pods. sels = pre @ sel # post \<and> Pods_List api sel = Inr pods \<and> eps = pod_ips pods
       \<and> (\<forall>s \<in> set pre. case Pods_List api s of Inl _ \<Rightarrow> True | Inr ps \<Rightarrow> pod_ips ps = []))"
proof (induction sels)
  case Nil
  then show ?case by simp
next
  case (Cons s sels)
  show ?case
  proof (cases "\<exists>pods. Pods_List api s = Inr pods \<and> pod_ips pods \<noteq> []")
    case True
    then obtain pods where p: "Pods_List api s = Inr pods" "pod_ips pods \<noteq> []" by blast
    then have "pods \<noteq> []" by (auto simp: pod_ips_def)
    with p Cons.prems have "eps = pod_ips pods" by (simp add: Let_def)
    with p show ?thesis by (intro conjI exI [of _ "[]"] exI [of _ s] exI [of _ sels] exI [of _ pods]) auto
  next
    case False
    then have skip: "case Pods_List api s of Inl _ \<Rightarrow> True | Inr ps \<Rightarrow> pod_ips ps = []" by (auto split: sum.split)
    with Cons.prems have "try_selectors api sels = (True, eps)" by (auto simp: Let_def split: sum.splits if_splits)
    from Cons.IH [OF this] obtain pre sel post pods where
      "eps \<noteq> []" "sels = pre @ sel # post" "Pods_List api sel = Inr pods" "eps = pod_ips pods"
      "\<forall>s \<in> set pre. case Pods_List api s of Inl _ \<Rightarrow> True | Inr ps \<Rightarrow> pod_ips ps = []" by blast
    with skip show ?thesis by (intro conjI exI [of _ "s # pre"] exI [of _ sel] exI [of _ post] exI [of _ pods]) auto
  qed
qed

lemma try_selectors_none: "fst (try_selectors api sels) = False \<Longrightarrow> snd (try_selectors api sels) = []"
  by (induction sels) (auto simp: Let_def split: sum.splits if_splits)


text \<open>
  C29. The check of a resource is positive exactly when the group, the version's resource
  and both verbs are there; it is an error only when the groups cannot be listed, or when an
  access review of a resource that exists fails before a verb is denied. An unknown
  group or version is no error.
\<close>

theorem check_resource_phases:
  "(CheckResource api grp version resource = Inr True \<longleftrightarrow>
      (\<exists>gs rs. ServerGroups api = Inr gs \<and> grp \<in> set gs
         \<and> ServerResourcesForGroupVersion api (if grp = '''' then version else grp @ ''/'' @ version) = Inr rs \<and> resource \<in> set rs
         \<and> AccessReview api ''list'' grp resource = Inr True \<and> AccessReview api ''watch'' grp resource = Inr True))
   \<and> (isl (CheckResource api grp version resource) \<longleftrightarrow>
      isl (ServerGroups api) \<or>
      (\<exists>gs rs. ServerGroups api = Inr gs \<and> grp \<in> set gs
         \<and> ServerResourcesForGroupVersion api (if grp = '''' then version else grp @ ''/'' @ version) = Inr rs \<and> resource \<in> set rs
         \<and> (isl (AccessReview api ''list'' grp resource) \<or>
            AccessReview api ''list'' grp resource = Inr True \<and> isl (AccessReview api ''watch'' grp resource))))"
  unfolding CheckResource_def HasAPIGroup_def hasResource_def CanListWatch_def
  by (auto simp: checkAccess_def Let_def list_ex_iff split: sum.split if_split)

text \<open>
  The provider found at the start and the provider of a snapshot agree on a node exactly
  when its provider ID has one of the three known prefixes. Otherwise the start falls back
  on labels and on \<open>unknown\<close>, while the snapshot leaves the provider empty.
\<close>

theorem provider_detection_agrees:
  "(DetectProvider (node # nodes) = deriveProvider (NodeInfo.ProviderID (NodeToModel K node)) \<longleftrightarrow>
      HasPrefix (node_ProviderID node) ''aws://'' \<or> HasPrefix (node_ProviderID node) ''gce://'' \<or> HasPrefix (node_ProviderID node) ''azure://'')
   \<and> (deriveProvider (NodeInfo.ProviderID (NodeToModel K node)) = '''' \<longleftrightarrow>
      DetectProvider (node # nodes) \<noteq> deriveProvider (NodeInfo.ProviderID (NodeToModel K node)))"
proof -
  have id: "NodeInfo.ProviderID (NodeToModel K node) = node_ProviderID node"
    by (simp add: NodeToModel_def Let_def case_prod_unfold)
  show ?thesis unfolding id by (simp add: deriveProvider_def providerFromID_def DetectProvider_def Let_def)
qed

end
