(* ===== verification/Cloud.thy ===== *)
theory Cloud
  imports Go_Strings
begin

text \<open>
  \<^verbatim>\<open>internal/cloud/metadata.go\<close>: the metadata of the cloud instance the agent runs on, asked of
  the instance metadata services of AWS, GCP and Azure in turn. The HTTP client, \<^verbatim>\<open>io.ReadAll\<close> and
  the JSON decoder are library code: they are the fields of a record \<open>imds\<close>, over a type
  \<open>'b\<close> of response bodies.
\<close>

section \<open>The metadata services\<close>

record imds_request =
  req_Method :: string
  req_URL :: string
  req_Header :: "(string \<times> string) list"

record AwsDocument =
  aws_AccountID :: string
  aws_Region :: string
  aws_AvailabilityZone :: string
  aws_InstanceType :: string
  aws_InstanceID :: string

record AzureCompute =
  az_SubscriptionID :: string
  az_Location :: string
  az_VMSize :: string
  az_VMID :: string

text \<open>
  \<open>imds_NewRequest\<close>: why \<^verbatim>\<open>http.NewRequestWithContext\<close> rejects a URL; \<open>imds_Do\<close>: the status
  code and the body of the answer.
\<close>

record 'b imds =
  imds_NewRequest :: "string \<Rightarrow> goerror option"
  imds_Do :: "imds_request \<Rightarrow> goerror + goint \<times> 'b"
  io_ReadAll :: "'b \<Rightarrow> goerror + string"
  Decode_aws :: "'b \<Rightarrow> goerror + AwsDocument"
  Decode_azure :: "'b \<Rightarrow> goerror + AzureCompute"

record CloudMetadata =
  AccountID :: string
  Region :: string
  Zone :: string
  InstanceType :: string
  InstanceID :: string
  Provider :: string

definition no_CloudMetadata :: CloudMetadata where
  "no_CloudMetadata = \<lparr>AccountID = '''', Region = '''', Zone = '''', InstanceType = '''', InstanceID = '''', Provider = ''''\<rparr>"

definition awsIMDSBase :: string where "awsIMDSBase = ''http://169.254.169.254''"
definition gcpMetadataBase :: string where "gcpMetadataBase = ''http://metadata.google.internal/computeMetadata/v1''"
definition azureIMDSBase :: string where "azureIMDSBase = ''http://169.254.169.254''"

text \<open>What every probe does with one request: the body of an answer with status 200, else an error that \<open>bad\<close> words.\<close>

definition imds_body :: "'b imds \<Rightarrow> imds_request \<Rightarrow> (goint \<Rightarrow> string) \<Rightarrow> goerror + 'b" where
  "imds_body nt req bad =
     (case imds_NewRequest nt (req_URL req) of
        Some err \<Rightarrow> Inl err
      | None \<Rightarrow>
          (case imds_Do nt req of
             Inl err \<Rightarrow> Inl err
           | Inr (status, body) \<Rightarrow> if status \<noteq> 200 then Inl (Errorf (bad status) None) else Inr body))"

section \<open>AWS\<close>

definition detectAWSURL :: "'b imds \<Rightarrow> string \<Rightarrow> goerror + CloudMetadata" where
  "detectAWSURL nt base =
     (case imds_body nt \<lparr>req_Method = ''PUT'', req_URL = base @ ''/latest/api/token'',
                        req_Header = [(''X-aws-ec2-metadata-token-ttl-seconds'', ''60'')]\<rparr>
                      (\<lambda>st. ''IMDS token request returned '' @ int_to_string (sint st)) of
        Inl err \<Rightarrow> Inl err
      | Inr tokenBody \<Rightarrow>
        (case io_ReadAll nt tokenBody of
           Inl err \<Rightarrow> Inl err
         | Inr token \<Rightarrow>
           (case imds_body nt \<lparr>req_Method = ''GET'', req_URL = base @ ''/latest/dynamic/instance-identity/document'',
                              req_Header = [(''X-aws-ec2-metadata-token'', token)]\<rparr>
                            (\<lambda>st. ''IMDS identity document returned '' @ int_to_string (sint st)) of
              Inl err \<Rightarrow> Inl err
            | Inr docBody \<Rightarrow>
              (case Decode_aws nt docBody of
                 Inl err \<Rightarrow> Inl err
               | Inr doc \<Rightarrow>
                   Inr \<lparr>AccountID = aws_AccountID doc, Region = aws_Region doc, Zone = aws_AvailabilityZone doc,
                        InstanceType = aws_InstanceType doc, InstanceID = aws_InstanceID doc, Provider = ''aws''\<rparr>))))"

definition detectAWS :: "'b imds \<Rightarrow> goerror + CloudMetadata" where
  "detectAWS nt = detectAWSURL nt awsIMDSBase"

section \<open>GCP\<close>

definition gcp_get :: "'b imds \<Rightarrow> string \<Rightarrow> string \<Rightarrow> goerror + string" where
  "gcp_get nt base path =
     (case imds_body nt \<lparr>req_Method = ''GET'', req_URL = base @ path, req_Header = [(''Metadata-Flavor'', ''Google'')]\<rparr>
                      (\<lambda>st. ''GCP metadata '' @ path @ '' returned '' @ int_to_string (sint st)) of
        Inl err \<Rightarrow> Inl err
      | Inr body \<Rightarrow> io_ReadAll nt body)"

text \<open>The last element of a slash-separated path.\<close>

definition after_slash :: "string \<Rightarrow> string" where
  "after_slash path = (case LastIndexByte path CHR ''/'' of Some i \<Rightarrow> drop (Suc i) path | None \<Rightarrow> path)"

definition gcp_region :: "string \<Rightarrow> string" where
  "gcp_region zone = (case LastIndexByte zone CHR ''-'' of Some i \<Rightarrow> if i > 0 then take i zone else zone | None \<Rightarrow> zone)"

definition detectGCPURL :: "'b imds \<Rightarrow> string \<Rightarrow> goerror + CloudMetadata" where
  "detectGCPURL nt base =
     (case gcp_get nt base ''/project/project-id'' of
        Inl err \<Rightarrow> Inl err
      | Inr projectID \<Rightarrow>
        (case gcp_get nt base ''/instance/zone'' of
           Inl err \<Rightarrow> Inl err
         | Inr zonePath \<Rightarrow>
           let zone = after_slash zonePath; region = gcp_region zone in
           (case gcp_get nt base ''/instance/machine-type'' of
              Inl err \<Rightarrow> Inl err
            | Inr machineTypePath \<Rightarrow>
                Inr \<lparr>AccountID = projectID, Region = region, Zone = zone, InstanceType = after_slash machineTypePath,
                     InstanceID = '''', Provider = ''gcp''\<rparr>)))"

definition detectGCP :: "'b imds \<Rightarrow> goerror + CloudMetadata" where
  "detectGCP nt = detectGCPURL nt gcpMetadataBase"

section \<open>Azure\<close>

definition detectAzureURL :: "'b imds \<Rightarrow> string \<Rightarrow> goerror + CloudMetadata" where
  "detectAzureURL nt base =
     (case imds_body nt \<lparr>req_Method = ''GET'', req_URL = base @ ''/metadata/instance?api-version=2021-02-01'',
                        req_Header = [(''Metadata'', ''true'')]\<rparr>
                      (\<lambda>st. ''azure IMDS returned '' @ int_to_string (sint st)) of
        Inl err \<Rightarrow> Inl err
      | Inr body \<Rightarrow>
        (case Decode_azure nt body of
           Inl err \<Rightarrow> Inl err
         | Inr doc \<Rightarrow>
             Inr \<lparr>AccountID = az_SubscriptionID doc, Region = az_Location doc, Zone = '''', InstanceType = az_VMSize doc,
                  InstanceID = az_VMID doc, Provider = ''azure''\<rparr>))"

definition detectAzure :: "'b imds \<Rightarrow> goerror + CloudMetadata" where
  "detectAzure nt = detectAzureURL nt azureIMDSBase"

section \<open>Detection\<close>

fun first_detected :: "(goerror + CloudMetadata) list \<Rightarrow> CloudMetadata" where
  "first_detected [] = no_CloudMetadata"
| "first_detected (Inl err # ps) = first_detected ps"
| "first_detected (Inr md # ps) = md"

definition DetectCloudMetadata :: "'b imds \<Rightarrow> CloudMetadata" where
  "DetectCloudMetadata nt = first_detected [detectAWS nt, detectGCP nt, detectAzure nt]"

section \<open>What detection answers\<close>

lemma detectAWS_provider: "detectAWS nt = Inr md \<Longrightarrow> Provider md = ''aws''"
  by (auto simp: detectAWS_def detectAWSURL_def split: sum.splits)

lemma detectGCP_provider: "detectGCP nt = Inr md \<Longrightarrow> Provider md = ''gcp''"
  by (auto simp: detectGCP_def detectGCPURL_def Let_def split: sum.splits)

lemma detectAzure_provider: "detectAzure nt = Inr md \<Longrightarrow> Provider md = ''azure''"
  by (auto simp: detectAzure_def detectAzureURL_def split: sum.splits)

text \<open>
  Detection never fails: the provider it names is that of the first service, in the
  order AWS, GCP, Azure, that answers, with the metadata that service gives; with no
  answer every field is empty.
\<close>

theorem cloud_detection_exact:
  "Provider (DetectCloudMetadata nt) =
     (if isl (detectAWS nt) then if isl (detectGCP nt) then if isl (detectAzure nt) then '''' else ''azure'' else ''gcp'' else ''aws'')
   \<and> Inr (DetectCloudMetadata nt) =
     (if isl (detectAWS nt) then if isl (detectGCP nt) then if isl (detectAzure nt) then Inr no_CloudMetadata
      else detectAzure nt else detectGCP nt else detectAWS nt)"
  using detectAWS_provider [of nt] detectGCP_provider [of nt] detectAzure_provider [of nt]
  by (cases "detectAWS nt"; cases "detectGCP nt"; cases "detectAzure nt")
    (simp_all add: DetectCloudMetadata_def no_CloudMetadata_def)

text \<open>
  A GCP zone comes back from the path the service gives it in: a zone \<open>region-z\<close> under
  any path is reported as that zone, and its region as \<open>region\<close>, whatever dashes the region
  itself has; a machine type likewise.
\<close>

theorem gcp_paths_taken_apart:
  assumes "gcp_get nt base ''/project/project-id'' = Inr project"
    and "gcp_get nt base ''/instance/zone'' = Inr (path @ ''/'' @ region @ ''-'' @ z)"
    and "gcp_get nt base ''/instance/machine-type'' = Inr (path' @ ''/'' @ machine)"
    and "region \<noteq> ''''" and "CHR ''/'' \<notin> set region \<union> set z \<union> set machine" and "CHR ''-'' \<notin> set z"
  shows "detectGCPURL nt base =
     Inr \<lparr>AccountID = project, Region = region, Zone = region @ ''-'' @ z, InstanceType = machine, InstanceID = '''', Provider = ''gcp''\<rparr>"
proof -
  have "after_slash (path @ ''/'' @ region @ ''-'' @ z) = region @ ''-'' @ z"
    using LastIndexByte_append [of "CHR ''/''" "region @ ''-'' @ z" path] assms(5) by (simp add: after_slash_def)
  moreover have "after_slash (path' @ ''/'' @ machine) = machine"
    using LastIndexByte_append [of "CHR ''/''" machine path'] assms(5) by (simp add: after_slash_def)
  moreover have "gcp_region (region @ ''-'' @ z) = region"
    using LastIndexByte_append [OF assms(6), of region] assms(4) by (simp add: gcp_region_def)
  ultimately show ?thesis using assms(1-3) by (simp add: detectGCPURL_def Let_def)
qed

theorem gcp_paths_taken_apart_witness:
  "let nt = \<lparr>imds_NewRequest = (\<lambda>_. None),
        imds_Do = (\<lambda>req. Inr (200, if req_URL req = ''b/project/project-id'' then ''acme''
                     else if req_URL req = ''b/instance/zone'' then ''projects/1/zones/us-central1-a'' else ''projects/1/machineTypes/e2-small'')),
        io_ReadAll = Inr, Decode_aws = (\<lambda>_. Inl (Errorf ''EOF'' None)), Decode_azure = (\<lambda>_. Inl (Errorf ''EOF'' None))\<rparr>
   in detectGCPURL nt ''b'' = Inr \<lparr>AccountID = ''acme'', Region = ''us-central1'', Zone = ''us-central1-a'',
        InstanceType = ''e2-small'', InstanceID = '''', Provider = ''gcp''\<rparr>"
proof -
  let ?nt = "\<lparr>imds_NewRequest = (\<lambda>_. None),
        imds_Do = (\<lambda>req. Inr (200, if req_URL req = ''b/project/project-id'' then ''acme''
                     else if req_URL req = ''b/instance/zone'' then ''projects/1/zones/us-central1-a'' else ''projects/1/machineTypes/e2-small'')),
        io_ReadAll = Inr, Decode_aws = (\<lambda>_. Inl (Errorf ''EOF'' None)), Decode_azure = (\<lambda>_. Inl (Errorf ''EOF'' None))\<rparr>"
  show ?thesis
    using gcp_paths_taken_apart [of ?nt "''b''" "''acme''" "''projects/1/zones''" "''us-central1''" "''a''" "''projects/1/machineTypes''" "''e2-small''"]
    by (simp add: gcp_get_def imds_body_def)
qed

end
