(* ===== verification/Health_Server.thy ===== *)
theory Health_Server
  imports Agent
begin

text \<open>
  \<^verbatim>\<open>internal/health/server.go\<close>: the HTTP server with the health, readiness, metrics and debug
  endpoints. The routing is that of \<^verbatim>\<open>http.ServeMux\<close> on clean paths; the Prometheus and
  \<^verbatim>\<open>pprof\<close> handlers and the JSON encoding of a snapshot are library code: their pages are
  given by a record \<open>pages\<close>.
\<close>

section \<open>Routes\<close>

datatype handler = Healthz | Readyz | MetricsPage | Pprof string | DebugSnapshot | DebugStore

record Server =
  routes :: "(string \<times> handler) list"
  Addr :: string
  ReadTimeout :: Duration
  WriteTimeout :: Duration
  IdleTimeout :: Duration
  MaxHeaderBytes :: goint
  serving :: bool

definition public_routes :: "(string \<times> handler) list" where
  "public_routes = [(''/healthz'', Healthz), (''/readyz'', Readyz), (''/metrics'', MetricsPage)]"

definition debug_routes :: "(string \<times> handler) list" where
  "debug_routes =
    [(''/debug/pprof/'', Pprof ''Index''), (''/debug/pprof/cmdline'', Pprof ''Cmdline''),
     (''/debug/pprof/profile'', Pprof ''Profile''), (''/debug/pprof/symbol'', Pprof ''Symbol''),
     (''/debug/pprof/trace'', Pprof ''Trace''), (''/debug/snapshot'', DebugSnapshot), (''/debug/store'', DebugStore)]"

definition NewServer :: "goint \<Rightarrow> bool \<Rightarrow> Server" where
  "NewServer port enableDebug =
     \<lparr>routes = public_routes @ (if enableDebug then debug_routes else []),
      Addr = '':'' @ int_to_string (sint port), ReadTimeout = 10 * Second, WriteTimeout = 30 * Second,
      IdleTimeout = 60 * Second, MaxHeaderBytes = push_bit 20 1, serving = False\<rparr>"

text \<open>\<open>listen\<close> is \<^verbatim>\<open>net.Listen\<close>: the address that it is bound to, or an error.\<close>

definition Server_Start :: "(string \<Rightarrow> goerror + string) \<Rightarrow> Server \<Rightarrow> goerror option \<times> Server" where
  "Server_Start listen s =
     (case listen (Addr s) of
        Inl err \<Rightarrow> (Some (Errorf (''health server listen: '' @ error_text err) (Some err)), s)
      | Inr bound \<Rightarrow> (None, s\<lparr>Addr := bound, serving := True\<rparr>))"

definition Server_Stop :: "goerror option \<Rightarrow> Server \<Rightarrow> goerror option \<times> Server" where
  "Server_Stop shutdown s = (shutdown, s\<lparr>serving := False\<rparr>)"

text \<open>
  \<^verbatim>\<open>ServeMux\<close>: a pattern that ends in a slash matches the paths below it, another one only
  itself; the longest pattern that matches is taken.
\<close>

definition pattern_matches :: "string \<Rightarrow> string \<Rightarrow> bool" where
  "pattern_matches pat path \<longleftrightarrow> (if pat \<noteq> [] \<and> last pat = CHR ''/'' then HasPrefix path pat else path = pat)"

definition mux_handler :: "(string \<times> handler) list \<Rightarrow> string \<Rightarrow> handler option" where
  "mux_handler rs path =
     map_option snd (foldl (\<lambda>best (pat, h). if pattern_matches pat path
              then (case best of Some (p, _) \<Rightarrow> if length p < length pat then Some (pat, h) else best | None \<Rightarrow> Some (pat, h))
              else best) None rs)"

section \<open>Handlers\<close>

record response =
  status :: goint
  content_type :: "string option"
  body :: string

record pages =
  metrics_page :: response
  pprof_page :: "string \<Rightarrow> response"
  not_found :: response
  encode_json :: "ClusterSnapshot \<Rightarrow> string"

definition newline :: string where
  "newline = [char_of (10::nat)]"

text \<open>\<^verbatim>\<open>encoding/json\<close> sorts the keys of a map by their bytes; the keys here need no escaping.\<close>

fun bytes_le :: "string \<Rightarrow> string \<Rightarrow> bool" where
  "bytes_le [] t = True"
| "bytes_le (c # s) [] = False"
| "bytes_le (c # s) (d # t) = (of_char c < (of_char d :: nat) \<or> c = d \<and> bytes_le s t)"

fun insert_key :: "string \<times> 'v \<Rightarrow> (string \<times> 'v) list \<Rightarrow> (string \<times> 'v) list" where
  "insert_key e [] = [e]"
| "insert_key e (f # fs) = (if bytes_le (fst e) (fst f) then e # f # fs else f # insert_key e fs)"

definition sort_keys :: "(string \<times> 'v) list \<Rightarrow> (string \<times> 'v) list" where
  "sort_keys m = foldr insert_key m []"

fun join_comma :: "string list \<Rightarrow> string" where
  "join_comma [] = []"
| "join_comma [s] = s"
| "join_comma (s # t # ss) = s @ '','' @ join_comma (t # ss)"

definition json_object :: "('v \<Rightarrow> string) \<Rightarrow> (string, 'v) gomap \<Rightarrow> string" where
  "json_object val m = ''{'' @ join_comma (map (\<lambda>(k, v). ''\"'' @ k @ ''\":'' @ val v) (sort_keys m)) @ ''}'' @ newline"

definition handleHealthz :: response where
  "handleHealthz = \<lparr>status = 200, content_type = Some ''application/json'',
     body = json_object (\<lambda>v. ''\"'' @ v @ ''\"'') [(''status'', ''ok'')]\<rparr>"

definition handleReadyz :: "bool \<Rightarrow> response" where
  "handleReadyz rdy = \<lparr>status = if rdy then 200 else 503, content_type = Some ''application/json'',
     body = json_object (\<lambda>v. if v then ''true'' else ''false'') [(''ready'', rdy)]\<rparr>"

definition handleDebugSnapshot :: "(ClusterSnapshot \<Rightarrow> string) \<Rightarrow> ClusterSnapshot option \<Rightarrow> response" where
  "handleDebugSnapshot enc snap =
     (case snap of
        None \<Rightarrow> \<lparr>status = 204, content_type = None, body = []\<rparr>
      | Some s \<Rightarrow> \<lparr>status = 200, content_type = Some ''application/json'', body = enc s @ newline\<rparr>)"

definition handleDebugStore :: "(string, goint) gomap \<Rightarrow> response" where
  "handleDebugStore counts = \<lparr>status = 200, content_type = Some ''application/json'',
     body = json_object (\<lambda>v. int_to_string (sint v)) counts\<rparr>"

definition serve :: "pages \<Rightarrow> Server \<Rightarrow> Agent \<Rightarrow> Store \<Rightarrow> string \<Rightarrow> response" where
  "serve pg s a st path =
     (case mux_handler (routes s) path of
        None \<Rightarrow> not_found pg
      | Some Healthz \<Rightarrow> handleHealthz
      | Some Readyz \<Rightarrow> handleReadyz (IsReady a)
      | Some MetricsPage \<Rightarrow> metrics_page pg
      | Some (Pprof name) \<Rightarrow> pprof_page pg name
      | Some DebugSnapshot \<Rightarrow> handleDebugSnapshot (encode_json pg) (LatestSnapshot a)
      | Some DebugStore \<Rightarrow> handleDebugStore (ItemCounts st))"

section \<open>What is served\<close>

lemma exact_pattern: "last pat \<noteq> CHR ''/'' \<Longrightarrow> pattern_matches pat path \<longleftrightarrow> path = pat"
  by (simp add: pattern_matches_def)

lemma under_pprof: "pattern_matches ''/debug/pprof/'' path \<longleftrightarrow> HasPrefix path ''/debug/pprof/''"
  by (simp add: pattern_matches_def)

lemma pprof_paths:
  "HasPrefix ''/debug/pprof/cmdline'' ''/debug/pprof/''" "HasPrefix ''/debug/pprof/profile'' ''/debug/pprof/''"
  "HasPrefix ''/debug/pprof/symbol'' ''/debug/pprof/''" "HasPrefix ''/debug/pprof/trace'' ''/debug/pprof/''"
  "HasPrefix ''/debug/pprof/'' ''/debug/pprof/''"
  "\<not> HasPrefix ''/healthz'' ''/debug/pprof/''" "\<not> HasPrefix ''/readyz'' ''/debug/pprof/''" "\<not> HasPrefix ''/metrics'' ''/debug/pprof/''"
  "\<not> HasPrefix ''/debug/snapshot'' ''/debug/pprof/''" "\<not> HasPrefix ''/debug/store'' ''/debug/pprof/''"
  by (simp_all add: HasPrefix_def)

text \<open>A path that no pattern but one matches is routed to that one; a path that none matches, nowhere.\<close>

lemma mux_public: "mux_handler public_routes path = map_of public_routes path"
  by (simp add: mux_handler_def public_routes_def exact_pattern)

text \<open>Debugging never hides or changes a public route.\<close>

lemma mux_all:
  "mux_handler (public_routes @ debug_routes) path =
     (case map_of (public_routes @ debug_routes) path of
        Some h \<Rightarrow> Some h
      | None \<Rightarrow> if HasPrefix path ''/debug/pprof/'' then Some (Pprof ''Index'') else None)"
proof (cases "path \<in> set (map fst (public_routes @ debug_routes))")
  case True
  then have "path \<in> {''/healthz'', ''/readyz'', ''/metrics'', ''/debug/pprof/'', ''/debug/pprof/cmdline'', ''/debug/pprof/profile'',
      ''/debug/pprof/symbol'', ''/debug/pprof/trace'', ''/debug/snapshot'', ''/debug/store''}"
    by (auto simp: public_routes_def debug_routes_def)
  then show ?thesis
    by (elim insertE emptyE)
      (simp_all add: mux_handler_def public_routes_def debug_routes_def exact_pattern under_pprof pprof_paths)
next
  case False
  then have "map_of (public_routes @ debug_routes) path = None"
    by (simp add: map_of_eq_None_iff image_Un del: map_of_append)
  moreover have "mux_handler (public_routes @ debug_routes) path =
      (if HasPrefix path ''/debug/pprof/'' then Some (Pprof ''Index'') else None)"
    using False by (simp add: mux_handler_def public_routes_def debug_routes_def exact_pattern under_pprof)
  ultimately show ?thesis by (simp del: map_of_append)
qed

lemma routes_off: "mux_handler (routes (NewServer port False)) = map_of public_routes"
  by (simp add: NewServer_def mux_public fun_eq_iff)

lemma routes_on:
  "mux_handler (routes (NewServer port True)) path =
     (case map_of (public_routes @ debug_routes) path of
        Some h \<Rightarrow> Some h | None \<Rightarrow> if HasPrefix path ''/debug/pprof/'' then Some (Pprof ''Index'') else None)"
  by (simp add: NewServer_def mux_all)

lemma route_names:
  "fst ` set public_routes = {''/healthz'', ''/readyz'', ''/metrics''}"
  "fst ` set debug_routes = {''/debug/pprof/'', ''/debug/pprof/cmdline'', ''/debug/pprof/profile'', ''/debug/pprof/symbol'',
     ''/debug/pprof/trace'', ''/debug/snapshot'', ''/debug/store''}"
  by (simp_all add: public_routes_def debug_routes_def)

lemma routed_on:
  "path \<in> dom (mux_handler (routes (NewServer port True))) \<longleftrightarrow>
     path \<in> fst ` set public_routes \<or> path \<in> fst ` set debug_routes \<or> HasPrefix path ''/debug/pprof/''"
proof -
  have "map_of (public_routes @ debug_routes) path \<noteq> None \<longleftrightarrow> path \<in> fst ` set public_routes \<or> path \<in> fst ` set debug_routes"
    by (simp add: map_of_eq_None_iff image_Un del: map_of_append)
  then show ?thesis by (auto simp: domIff routes_on simp del: map_of_append split: option.split)
qed

lemma public_map: "map_of public_routes = [''/healthz'' \<mapsto> Healthz, ''/readyz'' \<mapsto> Readyz, ''/metrics'' \<mapsto> MetricsPage]"
proof -
  have "map_of [(a, x), (b, y), (c, z)] = [a \<mapsto> x, b \<mapsto> y, c \<mapsto> z]" if "a \<noteq> b" "a \<noteq> c" "b \<noteq> c" for a b c :: string and x y z :: handler
    using that by (auto simp: fun_eq_iff)
  then show ?thesis unfolding public_routes_def by simp
qed


text \<open>\<open>ready\<close> is only written before the loop.\<close>

interpretation stays_ready: snapshot_invariant ready
  by unfold_locales (simp add: doSnapshot_fields)

lemma ready_before_loop:
  "ready (become_ready e a)" "ready (snd (start_collectors e a)) = ready a" "ready (fst (stop_collectors x)) = ready (fst x)"
  by (simp_all add: become_ready_def start_collectors_def stop_collectors_def logStoreCounts_def case_prod_unfold Let_def split: option.split)

text \<open>
  C36. The readiness probe of an agent that has not run yet answers 503; after \<open>Run\<close> has started
  it answers 200 exactly when not all collectors failed to start, and keeps doing so:
  also when the first synchronisation timed out, and after the agent has stopped.
\<close>

theorem readiness_follows_start:
  "status (serve pg (NewServer port dbg) (NewAgent cfg reg b tr sm ec m now) st ''/readyz'') = 503
   \<and> status (serve pg (NewServer port dbg) (fst (Run e evs (NewAgent cfg reg b tr sm ec m now))) st ''/readyz'') =
       (if all_failed e (NewAgent cfg reg b tr sm ec m now) then 503 else 200)"
proof -
  let ?a0 = "NewAgent cfg reg b tr sm ec m now"
  have route: "mux_handler (routes (NewServer port dbg)) ''/readyz'' = Some Readyz"
    by (cases dbg) (simp_all add: NewServer_def mux_public mux_all, simp_all add: public_routes_def debug_routes_def)
  then have probe: "status (serve pg (NewServer port dbg) a st ''/readyz'') = (if ready a then 200 else 503)" for a
    by (simp add: serve_def handleReadyz_def IsReady_def)
  have fresh: "\<not> ready ?a0" by (simp add: NewAgent_def)
  have "ready (fst (Run e evs ?a0)) \<longleftrightarrow> \<not> all_failed e ?a0"
  proof (cases "all_failed e ?a0")
    case True
    then show ?thesis
      using fresh by (auto simp: Run_def all_failed_def case_prod_unfold ready_before_loop split: option.splits start_error.splits)
  next
    case False
    let ?a = "doSnapshot (first_env e) (become_ready e (snd (start_collectors e ?a0)))"
    have run: "state (stateMachine ?a) = StateRunning" by (simp add: doSnapshot_fields before_loop_fields)
    have "ready ?a" by (simp add: doSnapshot_fields ready_before_loop)
    from stays_ready.run_loop_kept [OF run this, of evs] False show ?thesis
      by (simp add: Run_loop ready_before_loop)
  qed
  with probe fresh show ?thesis by simp
qed

end
