(* ===== verification/Main_Program.thy ===== *)
theory Main_Program
  imports Agent Collectors Metrics_Collector Gpu_Collector Discovery Cloud Health_Server
begin

text \<open>
  \<^verbatim>\<open>cmd/agent/main.go\<close>: how the program puts its parts together, from the configuration to
  the return of \<^verbatim>\<open>main\<close>. Signals and the memory monitor run beside it: a signal is the
  event \<open>CtxDone\<close> of the agent's loop, the monitor touches nothing of the other parts. What
  the program meets (environment, clients, network, clocks) is a record \<open>main_env\<close>.
\<close>

section \<open>Which collectors are registered\<close>

text \<open>
  The collectors as \<^verbatim>\<open>main\<close> has just made them: the answers that starting and
  synchronising each will give, by name, and the states of their goroutines.
\<close>

record collector_answers =
  add_handler_error :: "string \<Rightarrow> goerror option"
  cache_synced :: "string \<Rightarrow> bool"
  informer_state :: "string \<Rightarrow> informer"
  metrics_sync :: "goerror option"
  metrics_state :: "MetricsCollector poller"
  gpu_sync :: "goerror option"
  gpu_state :: "GPUMetricsCollector poller"

definition core_collectors :: "((goerror option \<Rightarrow> bool \<Rightarrow> informer \<Rightarrow> Collector) \<times> string) list" where
  "core_collectors =
    [(NodeCollector, ''nodes''), (PodCollector, ''pods''), (NamespaceCollector, ''namespaces''),
     (DeploymentCollector, ''deployments''), (StatefulSetCollector, ''statefulsets''), (DaemonSetCollector, ''daemonsets''),
     (ReplicaSetCollector, ''replicasets''), (JobCollector, ''jobs''), (CronJobCollector, ''cronjobs''), (HPACollector, ''hpas''),
     (PDBCollector, ''pdbs''), (ServiceCollector, ''services''), (IngressCollector, ''ingresses''), (PVCollector, ''pvs''),
     (PVCCollector, ''pvcs''), (StorageClassCollector, ''storageclasses''), (PriorityClassCollector, ''priorityclasses''),
     (LimitRangeCollector, ''limitranges''), (ResourceQuotaCollector, ''resourcequotas'')]"

definition new_collector :: "collector_answers \<Rightarrow> (goerror option \<Rightarrow> bool \<Rightarrow> informer \<Rightarrow> Collector) \<times> string \<Rightarrow> Collector" where
  "new_collector w = (\<lambda>(mk, n). mk (add_handler_error w n) (cache_synced w n) (informer_state w n))"

definition gpu_enabled :: "Capabilities \<Rightarrow> Config \<Rightarrow> bool" where
  "gpu_enabled caps cfg \<longleftrightarrow> (cap_DCGMExporter caps \<or> 0 < length (DCGMExporterEndpoints cfg)) \<and> GPUMetricsEnabled cfg"

definition main_collectors :: "collector_answers \<Rightarrow> Capabilities \<Rightarrow> Config \<Rightarrow> Collector list" where
  "main_collectors w caps cfg =
     map (new_collector w) core_collectors
     @ (if cap_VPA caps then [new_collector w (VPACollector, ''vpas'')] else [])
     @ (if cap_Karpenter caps then [new_collector w (NodePoolCollector, ''nodepools'')] else [])
     @ (if cap_MetricsServer caps then [metrics_Collector (metrics_sync w) (metrics_state w)] else [])
     @ (if gpu_enabled caps cfg then [gpu_Collector (gpu_sync w) (gpu_state w)] else [])"

definition main_registry :: "collector_answers \<Rightarrow> Capabilities \<Rightarrow> Config \<Rightarrow> Registry" where
  "main_registry w caps cfg = foldl (\<lambda>r c. Register c r) NewRegistry (main_collectors w caps cfg)"

section \<open>The endpoints of dcgm-exporter\<close>

definition endpoint_url :: "Config \<Rightarrow> string \<Rightarrow> string" where
  "endpoint_url cfg ip = ''http://'' @ ip @ '':'' @ int_to_string (sint (DCGMExporterPort cfg))"

text \<open>\<^verbatim>\<open>endpointsFn\<close>: the endpoints of the environment, or those of the moment of the poll.\<close>

definition main_endpoints :: "('q, 's) kube \<Rightarrow> Config \<Rightarrow> 'q cluster_api \<Rightarrow> string list" where
  "main_endpoints K cfg api =
     (if 0 < length (DCGMExporterEndpoints cfg) then map (endpoint_url cfg) (DCGMExporterEndpoints cfg)
      else map (endpoint_url cfg) (snd (DetectDCGMEndpoints K api)))"

section \<open>The program\<close>

text \<open>\<^verbatim>\<open>buildKubeConfig\<close>: where the REST configuration comes from, \<open>None\<close> when the program exits.\<close>

datatype kube_source = InCluster | Kubeconfig string

definition buildKubeConfig :: "goerror option \<Rightarrow> environ \<Rightarrow> string \<Rightarrow> (string \<Rightarrow> goerror option) \<Rightarrow> kube_source option" where
  "buildKubeConfig in_cluster env home_file from_file =
     (case in_cluster of
        None \<Rightarrow> Some InCluster
      | Some err \<Rightarrow>
          let kubeconfig = (if env ''KUBECONFIG'' = '''' then home_file else env ''KUBECONFIG'') in
          (case from_file kubeconfig of Some err \<Rightarrow> None | None \<Rightarrow> Some (Kubeconfig kubeconfig)))"

record ('q, 'b) main_env =
  environment :: environ
  Version :: string
  in_cluster_error :: "goerror option"
  RecommendedHomeFile :: string
  from_file_error :: "string \<Rightarrow> goerror option"
  api_at_start :: "'q cluster_api"
  ServerVersion :: "goerror + string"
  metadata_services :: "'b imds"
  collector_world :: collector_answers
  net_Listen :: "string \<Rightarrow> goerror + string"
  Shutdown_error :: "goerror option"
  time_at_start :: Time
  agent_run :: run_env

datatype main_outcome = ExitFailure string | MainReturns Agent run_result Server

definition main_config :: "('q, 'b) main_env \<Rightarrow> Config" where
  "main_config e = (Load (environment e))\<lparr>AgentVersion := ResolveAgentVersion (environment e) (Version e)\<rparr>"

definition main_agent :: "('q, 'b) main_env \<Rightarrow> Capabilities \<Rightarrow> Agent" where
  "main_agent e caps =
    (let cfg0 = main_config e;
         cfg = (case ServerVersion e of Inl vErr \<Rightarrow> cfg0 | Inr v \<Rightarrow> cfg0\<lparr>KubernetesVersion := v\<rparr>);
         cloudMeta = DetectCloudMetadata (metadata_services e); now = time_at_start e;
         registry = main_registry (collector_world e) caps cfg;
         gpuProvider = (if gpu_enabled caps cfg then Some (GetGPUMetrics NewGPUMetricsCollector) else None);
         builder = NewSnapshotBuilder (NewStore now) (NewMetricsStore now) cfg (Some NewMetrics) NewErrorCollector
                     (Some main_pipeline) gpuProvider (CloudMetadata.AccountID cloudMeta);
         transportClient = NewClient cfg (Some NewMetrics) (Some NewErrorCollector)
     in NewAgent cfg registry builder transportClient NewStateMachine NewErrorCollector NewMetrics now)"

definition main :: "('q, 's) kube \<Rightarrow> ('q, 'b) main_env \<Rightarrow> event list \<Rightarrow> main_outcome" where
  "main K e evs =
     (if Validate (main_config e) \<noteq> None then ExitFailure ''invalid configuration''
      else if buildKubeConfig (in_cluster_error e) (environment e) (RecommendedHomeFile e) (from_file_error e) = None
        then ExitFailure ''failed to build kubernetes config''
      else case Detect K (api_at_start e) of
        Inl err \<Rightarrow> ExitFailure ''failed to detect cluster capabilities''
      | Inr caps \<Rightarrow>
          let ag = main_agent e caps; cfg = Agent.config ag in
          (case Server_Start (net_Listen e) (NewServer (HealthPort cfg) (DebugEndpoints cfg)) of
             (Some err, srv) \<Rightarrow> ExitFailure ''failed to start health server''
           | (None, srv) \<Rightarrow>
               let (ag', r) = Run (agent_run e) evs ag
               in MainReturns ag' r (if r = StillRunning then srv else snd (Server_Stop (Shutdown_error e) srv))))"

section \<open>What is registered\<close>

lemma foldl_Register: "collectors (foldl (\<lambda>r c. Register c r) r cs) = collectors r @ cs"
  by (induction cs arbitrary: r) (simp_all add: Register_def)

lemma main_registry_collectors: "collectors (main_registry w caps cfg) = main_collectors w caps cfg"
  by (simp add: main_registry_def foldl_Register NewRegistry_def)

lemmas informer_collectors =
  NodeCollector_def PodCollector_def NamespaceCollector_def DeploymentCollector_def StatefulSetCollector_def
  DaemonSetCollector_def ReplicaSetCollector_def JobCollector_def CronJobCollector_def HPACollector_def VPACollector_def
  PDBCollector_def ServiceCollector_def IngressCollector_def PVCollector_def PVCCollector_def StorageClassCollector_def
  PriorityClassCollector_def LimitRangeCollector_def ResourceQuotaCollector_def NodePoolCollector_def

lemma informer_Collector_Name: "Collector.Name (informer_Collector n s c i) = n"
  by (simp add: informer_Collector_def)

lemma main_names:
  "map Collector.Name (main_collectors w caps cfg) =
     map snd core_collectors @ (if cap_VPA caps then [''vpas''] else []) @ (if cap_Karpenter caps then [''nodepools''] else [])
     @ (if cap_MetricsServer caps then [''metrics''] else []) @ (if gpu_enabled caps cfg then [''gpu''] else [])"
  by (simp add: main_collectors_def core_collectors_def new_collector_def informer_collectors informer_Collector_Name
      metrics_Collector_def gpu_Collector_def)

lemma optional_names:
  assumes "distinct (A @ [a, b, c, d])" and "w \<notin> set (A @ [a, b, c, d])"
  shows "distinct (A @ (if p then [a] else []) @ (if q then [b] else []) @ (if r then [c] else []) @ (if s then [d] else []))"
    and "(set A \<union> {w, a, b}) - set (A @ (if p then [a] else []) @ (if q then [b] else []) @ (if r then [c] else []) @ (if s then [d] else [])) =
         {w} \<union> (if p then {} else {a}) \<union> (if q then {} else {b})"
  using assms by auto

lemma core_names:
  "distinct (map snd core_collectors @ [''vpas'', ''nodepools'', ''metrics'', ''gpu''])"
  "''custom_workloads'' \<notin> set (map snd core_collectors @ [''vpas'', ''nodepools'', ''metrics'', ''gpu''])"
  by (simp_all add: core_collectors_def)

lemma store_names: "set (map fst (ItemCounts st)) = set (map snd core_collectors) \<union> {''custom_workloads'', ''vpas'', ''nodepools''}"
proof -
  have gen: "xs = A @ [w, h, v] @ B @ [n] \<Longrightarrow> ys = A @ [h] @ B \<Longrightarrow> set xs = set ys \<union> {w, v, n}"
    for xs ys A B :: "string list" and w h v n :: string
    by auto
  let ?c = "map snd core_collectors"
  show ?thesis
    by (rule gen [where A = "take 9 ?c" and h = "''hpas''" and B = "drop 10 ?c"]) (simp_all add: ItemCounts_def core_collectors_def)
qed


text \<open>
  The program exits at once, without an agent, when the configuration is invalid, no
  cluster configuration is found, the API groups cannot be listed or the health port is
  taken; otherwise it runs the agent, and its answer is that of \<^verbatim>\<open>Run\<close>. No other failure
  (version, cloud metadata, nodes, exporters) keeps it from running.
\<close>

theorem main_exits_only_at_start:
  "(\<exists>why. main K e evs = ExitFailure why) \<longleftrightarrow>
     Validate (main_config e) \<noteq> None
     \<or> buildKubeConfig (in_cluster_error e) (environment e) (RecommendedHomeFile e) (from_file_error e) = None
     \<or> isl (ServerGroups (api_at_start e))
     \<or> isl (net_Listen e ('':'' @ int_to_string (sint (HealthPort (main_config e)))))"
proof -
  have port: "HealthPort (Agent.config (main_agent e caps)) = HealthPort (main_config e)" for caps
    by (simp add: main_agent_def NewAgent_def Let_def split: sum.split)
  have detect: "isl (Detect K (api_at_start e)) \<longleftrightarrow> isl (ServerGroups (api_at_start e))"
    by (simp add: Detect_def Let_def case_prod_unfold split: sum.split)
  have listen: "(\<exists>err srv. Server_Start (net_Listen e) (NewServer p d) = (Some err, srv)) \<longleftrightarrow> isl (net_Listen e ('':'' @ int_to_string (sint p)))" for p d
    by (simp add: Server_Start_def NewServer_def split: sum.split)
  show ?thesis
  proof (cases "Detect K (api_at_start e)")
    case (Inl err)
    then show ?thesis using detect by (simp add: main_def)
  next
    case (Inr caps)
    let ?start = "Server_Start (net_Listen e) (NewServer (HealthPort (main_config e)) (DebugEndpoints (Agent.config (main_agent e caps))))"
    obtain err srv where s: "?start = (err, srv)" by fastforce
    have "err \<noteq> None \<longleftrightarrow> isl (net_Listen e ('':'' @ int_to_string (sint (HealthPort (main_config e)))))"
      using listen [of "HealthPort (main_config e)" "DebugEndpoints (Agent.config (main_agent e caps))"] s by auto
    then show ?thesis using detect Inr s
      by (cases err) (auto simp: main_def port Let_def case_prod_unfold)
  qed
qed

end
