(* ===== verification/System.thy ===== *)
theory System
  imports Main_Program
begin

text \<open>
  The whole program as a transition system. Its goroutines (the informers, the two polling
  collectors and the agent's own) share the stores, the metrics and the usage data; every
  step of this theory is what one of them does between two moments at which another may
  run. In particular a build of a snapshot is a sequence of reads with any steps of the
  others in between. The events of the cluster are kept as a history, which no step reads.
\<close>

section \<open>The store that the events leave\<close>

definition after_events :: "('q, 's) kube \<Rightarrow> Time \<Rightarrow> Metrics \<Rightarrow> (Time \<times> ('q, 's) resource_event) list \<Rightarrow> Store" where
  "after_events K t m evs = fst (fold (\<lambda>(now, e). dispatch K now e) evs (NewStore t, m))"

section \<open>Reading the stores one by one\<close>

datatype store_kind =
    Of_Nodes | Of_Pods | Of_Namespaces | Of_Deployments | Of_StatefulSets | Of_DaemonSets | Of_ReplicaSets | Of_Jobs
  | Of_CronJobs | Of_CustomWorkloads | Of_HPAs | Of_VPAs | Of_PDBs | Of_Services | Of_Ingresses
  | Of_PVs | Of_PVCs | Of_StorageClasses | Of_PriorityClasses | Of_LimitRanges | Of_ResourceQuotas | Of_NodePools

definition all_kinds :: "store_kind list" where
  "all_kinds = [Of_Nodes, Of_Pods, Of_Namespaces, Of_Deployments, Of_StatefulSets, Of_DaemonSets, Of_ReplicaSets, Of_Jobs,
     Of_CronJobs, Of_CustomWorkloads, Of_HPAs, Of_VPAs, Of_PDBs, Of_Services, Of_Ingresses,
     Of_PVs, Of_PVCs, Of_StorageClasses, Of_PriorityClasses, Of_LimitRanges, Of_ResourceQuotas, Of_NodePools]"

text \<open>What one goroutine of \<^verbatim>\<open>readStores\<close> does: it takes one store of \<open>src\<close> over into \<open>dst\<close>.\<close>

fun copy_kind :: "store_kind \<Rightarrow> Store \<Rightarrow> Store \<Rightarrow> Store" where
  "copy_kind Of_Nodes src dst = dst\<lparr>Store.Nodes := Store.Nodes src\<rparr>"
| "copy_kind Of_Pods src dst = dst\<lparr>Store.Pods := Store.Pods src\<rparr>"
| "copy_kind Of_Namespaces src dst = dst\<lparr>Store.Namespaces := Store.Namespaces src\<rparr>"
| "copy_kind Of_Deployments src dst = dst\<lparr>Store.Deployments := Store.Deployments src\<rparr>"
| "copy_kind Of_StatefulSets src dst = dst\<lparr>Store.StatefulSets := Store.StatefulSets src\<rparr>"
| "copy_kind Of_DaemonSets src dst = dst\<lparr>Store.DaemonSets := Store.DaemonSets src\<rparr>"
| "copy_kind Of_ReplicaSets src dst = dst\<lparr>Store.ReplicaSets := Store.ReplicaSets src\<rparr>"
| "copy_kind Of_Jobs src dst = dst\<lparr>Store.Jobs := Store.Jobs src\<rparr>"
| "copy_kind Of_CronJobs src dst = dst\<lparr>Store.CronJobs := Store.CronJobs src\<rparr>"
| "copy_kind Of_CustomWorkloads src dst = dst\<lparr>Store.CustomWorkloads := Store.CustomWorkloads src\<rparr>"
| "copy_kind Of_HPAs src dst = dst\<lparr>Store.HPAs := Store.HPAs src\<rparr>"
| "copy_kind Of_VPAs src dst = dst\<lparr>Store.VPAs := Store.VPAs src\<rparr>"
| "copy_kind Of_PDBs src dst = dst\<lparr>Store.PDBs := Store.PDBs src\<rparr>"
| "copy_kind Of_Services src dst = dst\<lparr>Store.Services := Store.Services src\<rparr>"
| "copy_kind Of_Ingresses src dst = dst\<lparr>Store.Ingresses := Store.Ingresses src\<rparr>"
| "copy_kind Of_PVs src dst = dst\<lparr>Store.PVs := Store.PVs src\<rparr>"
| "copy_kind Of_PVCs src dst = dst\<lparr>Store.PVCs := Store.PVCs src\<rparr>"
| "copy_kind Of_StorageClasses src dst = dst\<lparr>Store.StorageClasses := Store.StorageClasses src\<rparr>"
| "copy_kind Of_PriorityClasses src dst = dst\<lparr>Store.PriorityClasses := Store.PriorityClasses src\<rparr>"
| "copy_kind Of_LimitRanges src dst = dst\<lparr>Store.LimitRanges := Store.LimitRanges src\<rparr>"
| "copy_kind Of_ResourceQuotas src dst = dst\<lparr>Store.ResourceQuotas := Store.ResourceQuotas src\<rparr>"
| "copy_kind Of_NodePools src dst = dst\<lparr>Store.NodePools := Store.NodePools src\<rparr>"

text \<open>The stores agree on a kind.\<close>

definition same_kind :: "store_kind \<Rightarrow> Store \<Rightarrow> Store \<Rightarrow> bool" where
  "same_kind k a b \<longleftrightarrow> copy_kind k a b = b"

section \<open>The state\<close>

text \<open>What a build is for, with what the rest of it meets: \<open>Run\<close> builds once to log the counts, once at once, and on every tick.\<close>

datatype build_purpose = ForCounts run_env | ForFirst snap_env | ForTick Time snap_env

datatype build_stage = ReadingStores | NodeUsageRead | PodUsageRead | GpuRead | PodsMerged | ReadingTimes

text \<open>
  A build in progress: the stores it has still to read, what it has read (the fields of \<open>view\<close>
  and the inputs of the builder), and the versions of the pods it has read.
\<close>

record build_run =
  purpose :: build_purpose
  stage :: build_stage
  unread :: "store_kind list"
  view :: build_view
  usage_read :: MetricsStore
  gpu_read :: "GPUDeviceMetrics list option"
  versions_read :: "string \<Rightarrow> nat"

datatype main_phase = MainIdle | Building build_run | Waiting | MainReturned "goerror option"

text \<open>
  \<open>pod_versions\<close>: a number for the array behind the containers of the pod stored under a key;
  storing the pod anew gives it a new array. \<open>shown_versions\<close>: the arrays that the pods of the latest
  snapshot have. \<open>history\<close>, \<open>polls\<close>, \<open>begun\<close>, \<open>shown_from\<close> and \<open>shown_to\<close>
  record the events so far, the polls of the metrics-server so far, how many events there were when
  the build in progress began, and when the build of the latest snapshot began and
  ended; no step depends on them.
\<close>

record ('q, 's) system =
  sys_store :: Store
  pod_versions :: "string \<Rightarrow> nat"
  sys_metrics :: Metrics
  sys_usage :: "MetricsCollector poller"
  sys_gpu :: "GPUMetricsCollector poller"
  sys_agent :: Agent
  main_phase :: main_phase
  shown_versions :: "string \<Rightarrow> nat"
  history :: "(Time \<times> ('q, 's) resource_event) list"
  polls :: "'q metrics_env list"
  begun :: nat
  shown_from :: nat
  shown_to :: nat

definition main_system :: "('q, 'b) main_env \<Rightarrow> Capabilities \<Rightarrow> ('q, 's) system" where
  "main_system e caps =
     \<lparr>sys_store = NewStore (time_at_start e), pod_versions = (\<lambda>_. 0), sys_metrics = NewMetrics,
      sys_usage = new_poller (NewMetricsCollector (NewMetricsStore (time_at_start e)) NewMetrics),
      sys_gpu = new_poller NewGPUMetricsCollector, sys_agent = main_agent e caps, main_phase = MainIdle,
      shown_versions = (\<lambda>_. 0), history = [], polls = [], begun = 0, shown_from = 0, shown_to = 0\<rparr>"

section \<open>Steps of the collectors\<close>

text \<open>The key of the pod that an event stores anew or deletes.\<close>

definition changed_pod :: "('q, 's) resource_event \<Rightarrow> string option" where
  "changed_pod ev =
     (case Pod_of ev of None \<Rightarrow> None
      | Some (Added w) \<Rightarrow> (case w of Obj x \<Rightarrow> Some (Pod_okey x) | _ \<Rightarrow> None)
      | Some (Updated w) \<Rightarrow> (case w of Obj x \<Rightarrow> Some (Pod_okey x) | _ \<Rightarrow> None)
      | Some (Deleted w) \<Rightarrow> (case w of Obj x \<Rightarrow> Some (Pod_okey x) | Tombstone t \<Rightarrow> map_option Pod_okey t | OtherObject \<Rightarrow> None))"

definition new_version :: "string option \<Rightarrow> (string \<Rightarrow> nat) \<Rightarrow> (string \<Rightarrow> nat)" where
  "new_version k vs = (case k of None \<Rightarrow> vs | Some key \<Rightarrow> vs(key := Suc (vs key)))"

definition informer_act :: "('q, 's) kube \<Rightarrow> Time \<Rightarrow> ('q, 's) resource_event \<Rightarrow> ('q, 's) system \<Rightarrow> ('q, 's) system" where
  "informer_act K now ev s =
     (let (st, m) = dispatch K now ev (sys_store s, sys_metrics s)
      in s\<lparr>sys_store := st, sys_metrics := m, pod_versions := new_version (changed_pod ev) (pod_versions s),
           history := history s @ [(now, ev)]\<rparr>)"

definition usage_act :: "('q, 's) kube \<Rightarrow> 'q metrics_env run_event \<Rightarrow> ('q, 's) system \<Rightarrow> ('q, 's) system" where
  "usage_act K ev s =
     (let p = sys_usage s; p' = Metrics_run K ev (p\<lparr>coll := (coll p)\<lparr>mc_metrics := sys_metrics s\<rparr>\<rparr>)
      in s\<lparr>sys_usage := p', sys_metrics := mc_metrics (coll p'),
           polls := (case ev of PollRuns e \<Rightarrow> if phase p \<in> {FirstPoll, Looping} then polls s @ [e] else polls s | _ \<Rightarrow> polls s)\<rparr>)"

definition gpu_act :: "gpu_poll_env run_event \<Rightarrow> ('q, 's) system \<Rightarrow> ('q, 's) system" where
  "gpu_act ev s = s\<lparr>sys_gpu := GPU_run ev (sys_gpu s)\<rparr>"

section \<open>Steps of a build\<close>

definition planned_view :: "build_purpose \<Rightarrow> build_view" where
  "planned_view p = (case p of ForCounts e \<Rightarrow> counts_view e | ForFirst e \<Rightarrow> env_view e | ForTick now e \<Rightarrow> env_view e)"

definition begin_build :: "build_purpose \<Rightarrow> ('q, 's) system \<Rightarrow> ('q, 's) system" where
  "begin_build p s =
     (let b = builder (sys_agent s)
      in s\<lparr>main_phase := Building \<lparr>purpose = p, stage = ReadingStores, unread = all_kinds, view = planned_view p,
             usage_read = SnapshotBuilder.metricsStore b, gpu_read = gpuCollector b, versions_read = (\<lambda>_. 0)\<rparr>,
           begun := length (history s)\<rparr>)"

text \<open>One of the 22 goroutines of \<^verbatim>\<open>readStores\<close> reads its store.\<close>

definition read_kind :: "store_kind \<Rightarrow> ('q, 's) system \<Rightarrow> build_run \<Rightarrow> build_run" where
  "read_kind k s r =
     (if stage r = ReadingStores \<and> k \<in> set (unread r)
      then r\<lparr>unread := remove1 k (unread r),
             view := (view r)\<lparr>read_store := copy_kind k (sys_store s) (read_store (view r))\<rparr>,
             versions_read := (if k = Of_Pods then pod_versions s else versions_read r)\<rparr>
      else r)"

text \<open>The builder with the usage and GPU data that this build has read.\<close>

definition run_builder :: "('q, 's) system \<Rightarrow> build_run \<Rightarrow> SnapshotBuilder" where
  "run_builder s r = (builder (sys_agent s))\<lparr>SnapshotBuilder.metricsStore := usage_read r, gpuCollector := gpu_read r\<rparr>"

text \<open>
  The merges write into the arrays of the containers of the pods that were read. A stored pod that is
  still the one that was read has the same array, and so has a pod of the latest snapshot
  when that snapshot had read it too: both show the figures at once. The goroutines of the model
  do not read the containers until the merges are done, so that one step stands for all of them.
\<close>

definition merge_into :: "SnapshotBuilder \<Rightarrow> build_view \<Rightarrow> PodInfo \<Rightarrow> PodInfo" where
  "merge_into b v p = p\<lparr>PodInfo.Containers := PodInfo.Containers (hd (merged_pods b v [p]))\<rparr>"

definition merge_back :: "SnapshotBuilder \<Rightarrow> build_run \<Rightarrow> (string \<Rightarrow> nat) \<Rightarrow> PodInfo TypedStore \<Rightarrow> PodInfo TypedStore" where
  "merge_back b r vs ts = ts\<lparr>items := map (\<lambda>(k, p).
     (k, if versions_read r k = vs k then merge_into b (view r) p else p)) (items ts)\<rparr>"

definition merge_shown :: "SnapshotBuilder \<Rightarrow> build_run \<Rightarrow> (string \<Rightarrow> nat) \<Rightarrow> Agent \<Rightarrow> Agent" where
  "merge_shown b r vs a = a\<lparr>latestSnapshot := map_option (\<lambda>snap. snap\<lparr>ClusterSnapshot.Pods := map (\<lambda>p.
     if versions_read r (pod_id p) = vs (pod_id p) then merge_into b (view r) p else p) (ClusterSnapshot.Pods snap)\<rparr>)
     (latestSnapshot a)\<rparr>"

definition build_agent :: "('q, 's) system \<Rightarrow> build_run \<Rightarrow> Agent" where
  "build_agent s r = (sys_agent s)\<lparr>Agent.metrics := sys_metrics s, builder := run_builder s r\<rparr>"

definition main_result :: "run_result \<Rightarrow> main_phase" where
  "main_result r = (case r of StillRunning \<Rightarrow> Waiting | Returned x \<Rightarrow> MainReturned x)"

text \<open>The rest of \<^verbatim>\<open>Build\<close> after its last read of a store, and what the agent does with the snapshot.\<close>

definition finish_build :: "('q, 's) system \<Rightarrow> build_run \<Rightarrow> ('q, 's) system" where
  "finish_build s r =
     (let a = build_agent s r; v = view r in
      case purpose r of
        ForCounts e \<Rightarrow>
          let a' = become_ready (e\<lparr>counts_view := v\<rparr>) a
          in begin_build (ForFirst (first_env e)) (s\<lparr>sys_agent := a', sys_metrics := Agent.metrics a'\<rparr>)
      | ForFirst e \<Rightarrow>
          let a' = doSnapshot (e\<lparr>env_view := v\<rparr>) a
          in s\<lparr>sys_agent := a', sys_metrics := Agent.metrics a', main_phase := Waiting, shown_versions := versions_read r,
               shown_from := begun s, shown_to := length (history s)\<rparr>
      | ForTick now e \<Rightarrow>
          let (a', res) = stop_collectors (loop_step (Tick now (e\<lparr>env_view := v\<rparr>)) a)
          in s\<lparr>sys_agent := a', sys_metrics := Agent.metrics a', main_phase := main_result res, shown_versions := versions_read r,
               shown_from := begun s, shown_to := length (history s)\<rparr>)"

text \<open>The reads of \<^verbatim>\<open>Build\<close> after \<^verbatim>\<open>wg.Wait()\<close>, one after the other, and its end.\<close>

definition build_next :: "('q, 's) system \<Rightarrow> build_run \<Rightarrow> ('q, 's) system" where
  "build_next s r =
     (case stage r of
        ReadingStores \<Rightarrow>
          if unread r = [] then s\<lparr>main_phase := Building (r\<lparr>stage := NodeUsageRead, usage_read := (usage_read r)
              \<lparr>NodeMetrics_store := NodeMetrics_store (MetricsCollector.metricsStore (coll (sys_usage s)))\<rparr>\<rparr>)\<rparr>
          else s
      | NodeUsageRead \<Rightarrow> s\<lparr>main_phase := Building (r\<lparr>stage := PodUsageRead, usage_read := (usage_read r)
              \<lparr>PodMetrics_store := PodMetrics_store (MetricsCollector.metricsStore (coll (sys_usage s)))\<rparr>\<rparr>)\<rparr>
      | PodUsageRead \<Rightarrow> s\<lparr>main_phase := Building (r\<lparr>stage := GpuRead,
              gpu_read := map_option (\<lambda>_. GetGPUMetrics (coll (sys_gpu s))) (gpu_read r)\<rparr>)\<rparr>
      | GpuRead \<Rightarrow> s\<lparr>main_phase := Building (r\<lparr>stage := PodsMerged\<rparr>),
              sys_store := Store.Pods_update (merge_back (run_builder s r) r (pod_versions s)) (sys_store s),
              sys_agent := merge_shown (run_builder s r) r (shown_versions s) (sys_agent s)\<rparr>
      | PodsMerged \<Rightarrow> s\<lparr>main_phase := Building (r\<lparr>stage := ReadingTimes, unread := all_kinds,
              view := (view r)\<lparr>reread_nodes := Store.Nodes (sys_store s)\<rparr>\<rparr>)\<rparr>
      | ReadingTimes \<Rightarrow>
          (case unread r of
             k # ks \<Rightarrow> s\<lparr>main_phase := Building (r\<lparr>unread := ks,
                 view := (view r)\<lparr>late_store := copy_kind k (sys_store s) (late_store (view r))\<rparr>\<rparr>)\<rparr>
           | [] \<Rightarrow> finish_build s r))"

section \<open>Steps of the agent's loop\<close>

definition takes_snapshot :: "Time \<Rightarrow> Agent \<Rightarrow> bool" where
  "takes_snapshot now a \<longleftrightarrow> state (stateMachine a) = StateRunning
     \<or> state (stateMachine a) = StateBackoff \<and> IsBackoffExpired now (stateMachine a)"

definition start_act :: "run_env \<Rightarrow> ('q, 's) system \<Rightarrow> ('q, 's) system" where
  "start_act e s =
     (if main_phase s \<noteq> MainIdle then s
      else if all_failed e (sys_agent s)
        then (let (a, res) = Run e [] (sys_agent s) in s\<lparr>sys_agent := a, main_phase := main_result res\<rparr>)
      else begin_build (ForCounts e) (s\<lparr>sys_agent := snd (start_collectors e (sys_agent s))\<rparr>))"

text \<open>An event of the loop that builds nothing.\<close>

definition loop_act :: "event \<Rightarrow> ('q, 's) system \<Rightarrow> ('q, 's) system" where
  "loop_act ev s = (let (a, res) = stop_collectors (loop_step ev (sys_agent s))
     in s\<lparr>sys_agent := a, main_phase := main_result res\<rparr>)"

definition tick_act :: "Time \<Rightarrow> snap_env \<Rightarrow> ('q, 's) system \<Rightarrow> ('q, 's) system" where
  "tick_act now e s =
     (if main_phase s \<noteq> Waiting then s
      else if takes_snapshot now (sys_agent s) then begin_build (ForTick now e) s
      else loop_act (Tick now e) s)"

section \<open>The transition system\<close>

datatype ('q, 's) act =
    InformerEvent Time "('q, 's) resource_event"
  | UsagePoller "'q metrics_env run_event"
  | GpuPoller "gpu_poll_env run_event"
  | MainStarts run_env
  | ReadsKind store_kind
  | BuildNext
  | TickFires Time snap_env
  | ContextDone goerror

definition sys_step :: "('q, 's) kube \<Rightarrow> ('q, 's) act \<Rightarrow> ('q, 's) system \<Rightarrow> ('q, 's) system" where
  "sys_step K act s =
     (case act of
        InformerEvent now ev \<Rightarrow> informer_act K now ev s
      | UsagePoller ev \<Rightarrow> usage_act K ev s
      | GpuPoller ev \<Rightarrow> gpu_act ev s
      | MainStarts e \<Rightarrow> start_act e s
      | ReadsKind k \<Rightarrow> (case main_phase s of Building r \<Rightarrow> s\<lparr>main_phase := Building (read_kind k s r)\<rparr> | _ \<Rightarrow> s)
      | BuildNext \<Rightarrow> (case main_phase s of Building r \<Rightarrow> build_next s r | _ \<Rightarrow> s)
      | TickFires now e \<Rightarrow> tick_act now e s
      | ContextDone err \<Rightarrow> if main_phase s = Waiting then loop_act (CtxDone err) s else s)"

text \<open>The orders in which the maps of a build are iterated are permutations.\<close>

definition view_ok :: "build_view \<Rightarrow> bool" where
  "view_ok v \<longleftrightarrow> (\<forall>i. order_ok (orders v i))"

definition act_ok :: "('q, 's) act \<Rightarrow> bool" where
  "act_ok act =
     (case act of
        MainStarts e \<Rightarrow> view_ok (counts_view e) \<and> view_ok (env_view (first_env e))
      | TickFires now e \<Rightarrow> view_ok (env_view e)
      | _ \<Rightarrow> True)"

inductive reachable :: "('q, 's) kube \<Rightarrow> ('q, 's) system \<Rightarrow> ('q, 's) system \<Rightarrow> bool" for K s0 where
  reachable_start: "reachable K s0 s0"
| reachable_step: "reachable K s0 s \<Longrightarrow> act_ok act \<Longrightarrow> reachable K s0 (sys_step K act s)"

lemma reachable_run:
  assumes "reachable K s0 s" and "list_all act_ok acts"
  shows "reachable K s0 (fold (sys_step K) acts s)"
  using assms by (induction acts arbitrary: s) (auto intro: reachable_step)

text \<open>An invariant of the system: it holds at the start and every step keeps it.\<close>

locale system_invariant =
  fixes K :: "('q, 's) kube" and start :: "('q, 's) system \<Rightarrow> bool" and inv :: "('q, 's) system \<Rightarrow> bool"
  assumes holds_at_start: "start s \<Longrightarrow> inv s"
    and kept: "inv s \<Longrightarrow> act_ok act \<Longrightarrow> inv (sys_step K act s)"
begin

lemma reachable_inv: "reachable K s0 s \<Longrightarrow> start s0 \<Longrightarrow> inv s"
  by (induction rule: reachable.induct) (auto intro: holds_at_start kept)

end

section \<open>An example\<close>

text \<open>A pod, and the operations of the library on quantities that are whole numbers.\<close>

definition example_kube :: "(nat, string) kube" where
  "example_kube = \<lparr>AsApproximateFloat64 = (\<lambda>n. f64_of_int (int n)), Quantity_Value = of_nat, Quantity_String = nat_to_string,
     zero_Quantity = 0, resource_ParseQuantity = (\<lambda>_. None), IntOrString_String = (\<lambda>s. s), float_wide = (\<lambda>_. 0)\<rparr>"

definition example_pod :: "string \<Rightarrow> string \<Rightarrow> nat K8sPod" where
  "example_pod name node = \<lparr>pod_Meta = zero_ObjectMeta\<lparr>om_Namespace := ''prod'', om_Name := name\<rparr>, pod_NodeName = node,
     pod_PriorityClassName = '''', pod_Priority = None, pod_SchedulerName = '''', pod_ServiceAccountName = '''',
     pod_HostNetwork = False, pod_Volumes = [], pod_Containers = [], pod_InitContainers = [], pod_Phase = ''Running'',
     pod_Reason = '''', pod_QOSClass = '''', pod_PodIP = '''', pod_HostIP = '''', pod_ContainerStatuses = [],
     pod_InitContainerStatuses = [], pod_Conditions = []\<rparr>"

definition example_events :: "(Time \<times> (nat, string) resource_event) list" where
  "example_events = [(1, PodEvent (Added (Obj (example_pod ''web-1'' ''node-a'')))), (2, PodEvent (Added (Obj (example_pod ''web-2'' ''node-a'')))),
     (3, PodEvent (Deleted (Tombstone (Some (example_pod ''web-1'' ''node-a'')))))]"

text \<open>A program in a cluster that offers nothing beside the core API, on no known cloud.\<close>

definition offline :: goerror where
  "offline = Errorf ''offline'' None"

definition example_collectors :: collector_answers where
  "example_collectors = \<lparr>add_handler_error = (\<lambda>_. None), cache_synced = (\<lambda>_. True), informer_state = (\<lambda>_. new_informer),
     metrics_sync = None, metrics_state = new_poller (NewMetricsCollector (NewMetricsStore 0) NewMetrics),
     gpu_sync = None, gpu_state = new_poller NewGPUMetricsCollector\<rparr>"

definition example_main :: "(nat, string) main_env" where
  "example_main = \<lparr>environment = (\<lambda>_. ''''), Version = ''1.0'', in_cluster_error = None, RecommendedHomeFile = '''',
     from_file_error = (\<lambda>_. None),
     api_at_start = \<lparr>ServerGroups = Inr [], ServerResourcesForGroupVersion = (\<lambda>_. Inr []), Nodes_List1 = Inr [], Nodes_List = Inr [],
       Pods_List = (\<lambda>_. Inr []), AccessReview = (\<lambda>_ _ _. Inr True)\<rparr>,
     ServerVersion = Inl offline,
     metadata_services = \<lparr>imds_NewRequest = (\<lambda>_. Some offline), imds_Do = (\<lambda>_. Inl offline), io_ReadAll = (\<lambda>_. Inl offline),
       Decode_aws = (\<lambda>_. Inl offline), Decode_azure = (\<lambda>_. Inl offline)\<rparr>,
     collector_world = example_collectors, net_Listen = Inr, Shutdown_error = None, time_at_start = 0,
     agent_run = example_run 200\<rparr>"

definition example_caps :: Capabilities where
  "example_caps = \<lparr>cap_MetricsServer = False, cap_VPA = False, cap_Karpenter = False, cap_Provider = '''', cap_DCGMExporter = False,
     cap_DCGMExporterEndpoints = []\<rparr>"

lemma example_main_starts: "\<not> all_failed (example_run 200) (main_agent example_main example_caps)"
proof -
  have cs: "collectors (registry (main_agent example_main example_caps)) =
      main_collectors example_collectors example_caps (main_config example_main)"
    by (simp add: main_agent_def NewAgent_def main_registry_collectors example_main_def Let_def)
  have "Start c = None" if "c \<in> set (main_collectors example_collectors example_caps cfg)" for c cfg
    using that
    by (auto simp: main_collectors_def core_collectors_def new_collector_def informer_collectors informer_Collector_def
        metrics_Collector_def gpu_Collector_def example_collectors_def)
  then have "filter (\<lambda>(n, err). err \<noteq> None) (map (\<lambda>c. (Collector.Name c, Start c)) (main_collectors example_collectors example_caps cfg)) = []" for cfg
    by (auto simp: filter_empty_conv)
  moreover have "arrivals (forward 0) xs = xs" for xs :: "(string \<times> goerror option) list"
    by (simp add: arrivals_def forward_def map_nth)
  ultimately show ?thesis
    unfolding all_failed_def StartAll_def foldl_failed cs Let_def by (simp add: example_run_def)
qed

lemma example_run_views [simp]: "view_ok (counts_view (example_run code))" "view_ok (env_view (first_env (example_run code)))"
  by (simp_all add: view_ok_def example_run_def example_env_def)

section \<open>The stores, up to usage figures\<close>

text \<open>
  Builds write usage and GPU figures into the containers of stored pods. \<open>bare\<close> takes them
  away; what is left is what the informers have written.
\<close>

definition bare_container :: "ContainerInfo \<Rightarrow> ContainerInfo" where
  "bare_container c = c\<lparr>ContainerInfo.CPUUsageCores := None, ContainerInfo.MemoryUsageBytes := None,
     ContainerInfo.GPUUtilizationPercent := None, ContainerInfo.GPUMemoryUsedBytes := None\<rparr>"

definition bare :: "PodInfo \<Rightarrow> PodInfo" where
  "bare p = p\<lparr>PodInfo.Containers := map bare_container (PodInfo.Containers p)\<rparr>"

definition bare_pods :: "PodInfo TypedStore \<Rightarrow> PodInfo TypedStore" where
  "bare_pods ts = ts\<lparr>items := map (\<lambda>(k, p). (k, bare p)) (items ts)\<rparr>"

definition plain :: "Store \<Rightarrow> Store" where
  "plain st = st\<lparr>Store.Pods := bare_pods (Store.Pods st)\<rparr>"

lemma bare_container_merge [simp]:
  "bare_container (merge_container l c) = bare_container c"
  "bare_container (merge_gpu_container cg c) = bare_container c"
  by (cases cg; simp add: bare_container_def merge_container_def merge_gpu_container_def split: option.split)+

lemma bare_merge_pod [simp]:
  "bare (merge_pod l p) = bare p" "bare (merge_gpu_pod l' p) = bare p"
  by (simp_all add: bare_def merge_pod_def merge_gpu_pod_def comp_def split: option.split)

lemma bare_merged_pods: "map bare (merged_pods b v ps) = map bare ps"
  by (simp add: merged_pods_def mergePodMetrics_map mergeGPUContainerMetrics_def Let_def split: option.split)

lemma bare_merge_into [simp]: "bare (merge_into b v p) = bare p"
proof -
  obtain q where "merged_pods b v [p] = [q]" "bare q = bare p" using bare_merged_pods [of b v "[p]"] by auto
  then have "bare (hd (merged_pods b v [p])) = bare p" by simp
  then have "map bare_container (PodInfo.Containers (hd (merged_pods b v [p]))) = map bare_container (PodInfo.Containers p)"
    by (metis bare_def PodInfo.select_convs PodInfo.surjective PodInfo.update_convs)
  then show ?thesis by (simp add: bare_def merge_into_def)
qed

lemma merge_shown_fields [simp]:
  "builder (merge_shown b r vs a) = builder a" "stateMachine (merge_shown b r vs a) = stateMachine a"
  "ready (merge_shown b r vs a) = ready a" "registry (merge_shown b r vs a) = registry a"
  "snapshotsTotal (merge_shown b r vs a) = snapshotsTotal a" "snapshotsSent (merge_shown b r vs a) = snapshotsSent a"
  "snapshotsFailed (merge_shown b r vs a) = snapshotsFailed a" "Agent.metrics (merge_shown b r vs a) = Agent.metrics a"
  "latestSnapshot (merge_shown b r vs a) = None \<longleftrightarrow> latestSnapshot a = None"
  by (simp_all add: merge_shown_def)

lemma bare_merge_back [simp]: "bare_pods (merge_back b r vs ts) = bare_pods ts"
  by (simp add: bare_pods_def merge_back_def comp_def case_prod_unfold)

lemma bare_idem [simp]: "bare (bare p) = bare p" "bare_pods (bare_pods ts) = bare_pods ts"
  by (simp_all add: bare_def bare_container_def bare_pods_def comp_def case_prod_unfold)

lemma bare_PodToModel [simp]: "bare (PodToModel K pod) = PodToModel K pod"
proof -
  have "bare_container (containerToModel K st spec) = containerToModel K st spec" for st spec
    by (simp add: bare_container_def containerToModel_def container_status_def zero_ContainerInfo_def Let_def split: option.split)
  then have "map bare_container (PodInfo.Containers (PodToModel K pod)) = PodInfo.Containers (PodToModel K pod)"
    by (simp add: convertContainers_def)
  then show ?thesis by (simp add: bare_def)
qed

lemma map_set_map: "map_set k (f v) (map (\<lambda>(k, p). (k, f p)) m) = map (\<lambda>(k, p). (k, f p)) (map_set k v m)"
  by (induction m) (auto simp: map_set_def)

lemma map_del_map: "map_del k (map (\<lambda>(k, p). (k, f p)) m) = map (\<lambda>(k, p). (k, f p)) (map_del k m)"
  by (induction m) (auto simp: map_del_def)

lemma bare_pods_ops:
  "bare_pods (Set k p now ts) = Set k (bare p) now (bare_pods ts)"
  "bare_pods (Delete k now ts) = Delete k now (bare_pods ts)"
  by (simp_all add: bare_pods_def Set_def set_items_def Delete_def delete_items_def stamp_def map_set_map map_del_map)

lemma handle_event_store: "fst (handle_event name conv key okey now ev (s, m)) = fst (handle_event name conv key okey now ev (s, m'))"
  by (simp add: handle_event_def store_object_def Let_def split: informer_event.split watched.split option.split)

lemma bare_handle_event:
  "bare_pods (fst (handle_event name (PodToModel K) key okey now ev (ts, m))) =
   fst (handle_event name (PodToModel K) key okey now ev (bare_pods ts, m))"
  by (simp add: handle_event_def store_object_def bare_pods_ops Let_def split: informer_event.split watched.split option.split)

lemma plain_dispatch: "plain (fst (dispatch K now ev (st, m))) = fst (dispatch K now ev (plain st, m'))"
  by (cases ev)
    (simp_all add: dispatch_def collector_handles plain_def case_prod_unfold Let_def bare_handle_event
      handle_event_store [where m = m and m' = m'])

end
