(* ===== verification/Published.thy ===== *)
theory Published
  imports System
begin

text \<open>
  What a published snapshot shows of the cluster, in the whole program: the invariant that ties
  the stores, a build in progress and the latest snapshot to the history of events.
\<close>

section \<open>Moments\<close>

text \<open>The first \<open>n\<close> events, for some \<open>n\<close> from \<open>i\<close> to \<open>j\<close>, satisfy \<open>P\<close>.\<close>

definition at_some_moment :: "'e list \<Rightarrow> nat \<Rightarrow> nat \<Rightarrow> ('e list \<Rightarrow> bool) \<Rightarrow> bool" where
  "at_some_moment h i j P \<longleftrightarrow> list_ex (\<lambda>n. P (take n h)) [i..<Suc j]"

lemma at_some_moment_iff: "at_some_moment h i j P \<longleftrightarrow> (\<exists>n. i \<le> n \<and> n \<le> j \<and> P (take n h))"
  by (auto simp: at_some_moment_def list_ex_iff)

lemma at_this_moment: "i \<le> length h \<Longrightarrow> P h \<Longrightarrow> at_some_moment h i (length h) P"
  by (auto simp: at_some_moment_iff)

lemma at_some_moment_later:
  assumes "at_some_moment h i j P" and "j \<le> length h" and "j \<le> j'"
  shows "at_some_moment (h @ xs) i j' P"
proof -
  obtain n where "i \<le> n" "n \<le> j" "P (take n h)" using assms(1) by (auto simp: at_some_moment_iff)
  moreover have "take n (h @ xs) = take n h" using calculation(2) assms(2) by simp
  ultimately show ?thesis using assms(3) by (auto simp: at_some_moment_iff intro!: exI [of _ n])
qed

lemma at_some_moment_mono:
  "at_some_moment h i j P \<Longrightarrow> (\<And>evs. P evs \<Longrightarrow> Q evs) \<Longrightarrow> at_some_moment h i j Q"
  by (auto simp: at_some_moment_iff)

section \<open>Kinds\<close>

lemma same_kind_simps [simp]:
  "same_kind Of_Nodes a b \<longleftrightarrow> Store.Nodes a = Store.Nodes b"
  "same_kind Of_Pods a b \<longleftrightarrow> Store.Pods a = Store.Pods b"
  "same_kind Of_Namespaces a b \<longleftrightarrow> Store.Namespaces a = Store.Namespaces b"
  "same_kind Of_Deployments a b \<longleftrightarrow> Store.Deployments a = Store.Deployments b"
  "same_kind Of_StatefulSets a b \<longleftrightarrow> Store.StatefulSets a = Store.StatefulSets b"
  "same_kind Of_DaemonSets a b \<longleftrightarrow> Store.DaemonSets a = Store.DaemonSets b"
  "same_kind Of_ReplicaSets a b \<longleftrightarrow> Store.ReplicaSets a = Store.ReplicaSets b"
  "same_kind Of_Jobs a b \<longleftrightarrow> Store.Jobs a = Store.Jobs b"
  "same_kind Of_CronJobs a b \<longleftrightarrow> Store.CronJobs a = Store.CronJobs b"
  "same_kind Of_CustomWorkloads a b \<longleftrightarrow> Store.CustomWorkloads a = Store.CustomWorkloads b"
  "same_kind Of_HPAs a b \<longleftrightarrow> Store.HPAs a = Store.HPAs b"
  "same_kind Of_VPAs a b \<longleftrightarrow> Store.VPAs a = Store.VPAs b"
  "same_kind Of_PDBs a b \<longleftrightarrow> Store.PDBs a = Store.PDBs b"
  "same_kind Of_Services a b \<longleftrightarrow> Store.Services a = Store.Services b"
  "same_kind Of_Ingresses a b \<longleftrightarrow> Store.Ingresses a = Store.Ingresses b"
  "same_kind Of_PVs a b \<longleftrightarrow> Store.PVs a = Store.PVs b"
  "same_kind Of_PVCs a b \<longleftrightarrow> Store.PVCs a = Store.PVCs b"
  "same_kind Of_StorageClasses a b \<longleftrightarrow> Store.StorageClasses a = Store.StorageClasses b"
  "same_kind Of_PriorityClasses a b \<longleftrightarrow> Store.PriorityClasses a = Store.PriorityClasses b"
  "same_kind Of_LimitRanges a b \<longleftrightarrow> Store.LimitRanges a = Store.LimitRanges b"
  "same_kind Of_ResourceQuotas a b \<longleftrightarrow> Store.ResourceQuotas a = Store.ResourceQuotas b"
  "same_kind Of_NodePools a b \<longleftrightarrow> Store.NodePools a = Store.NodePools b"
  by (cases b; simp add: same_kind_def; blast)+

lemma all_kinds_UNIV [simp]: "k \<in> set all_kinds"
  by (cases k) (simp_all add: all_kinds_def)

lemma same_kind_plain_copy:
  "same_kind k (plain (copy_kind k' a b)) c \<longleftrightarrow> (if k = k' then same_kind k (plain a) c else same_kind k (plain b) c)"
  by (cases k; cases k'; simp add: plain_def)

section \<open>What a build takes from the stores\<close>

text \<open>The objects that a list of events leaves in the cluster, as a multiset.\<close>

definition cluster_objects :: "(string \<rightharpoonup> 'o) \<Rightarrow> 'o multiset" where
  "cluster_objects c = image_mset (\<lambda>k. the (c k)) (mset_set (dom c))"

text \<open>The workloads, budgets and services as the conversion leaves them, before the enrichment.\<close>

definition plain_Deployment :: "DeploymentInfo \<Rightarrow> DeploymentInfo" where
  "plain_Deployment d = d\<lparr>DeploymentInfo.TotalCPURequest := f64_zero, DeploymentInfo.TotalMemoryRequest := 0,
     DeploymentInfo.TotalCPULimit := f64_zero, DeploymentInfo.TotalMemoryLimit := 0,
     DeploymentInfo.TotalCPUUsage := None, DeploymentInfo.TotalMemoryUsage := None\<rparr>"

definition plain_StatefulSet :: "StatefulSetInfo \<Rightarrow> StatefulSetInfo" where
  "plain_StatefulSet s = s\<lparr>StatefulSetInfo.TotalCPURequest := f64_zero, StatefulSetInfo.TotalMemoryRequest := 0,
     StatefulSetInfo.TotalCPULimit := f64_zero, StatefulSetInfo.TotalMemoryLimit := 0,
     StatefulSetInfo.TotalCPUUsage := None, StatefulSetInfo.TotalMemoryUsage := None\<rparr>"

definition plain_DaemonSet :: "DaemonSetInfo \<Rightarrow> DaemonSetInfo" where
  "plain_DaemonSet ds = ds\<lparr>DaemonSetInfo.TotalCPURequest := f64_zero, DaemonSetInfo.TotalMemoryRequest := 0,
     DaemonSetInfo.TotalCPULimit := f64_zero, DaemonSetInfo.TotalMemoryLimit := 0,
     DaemonSetInfo.TotalCPUUsage := None, DaemonSetInfo.TotalMemoryUsage := None\<rparr>"

definition plain_Job :: "JobInfo \<Rightarrow> JobInfo" where
  "plain_Job j = j\<lparr>JobInfo.TotalCPURequest := f64_zero, JobInfo.TotalMemoryRequest := 0,
     JobInfo.TotalCPUUsage := None, JobInfo.TotalMemoryUsage := None\<rparr>"

definition plain_PDB :: "PDBInfo \<Rightarrow> PDBInfo" where
  "plain_PDB p = p\<lparr>PDBInfo.TargetWorkloads := []\<rparr>"

definition plain_Service :: "ServiceInfo \<Rightarrow> ServiceInfo" where
  "plain_Service s = s\<lparr>ServiceInfo.TargetWorkloads := []\<rparr>"

lemma plain_enriched [simp]:
  "plain_Deployment (aggregate_Deployment f d) = plain_Deployment d"
  "plain_StatefulSet (aggregate_StatefulSet f s) = plain_StatefulSet s"
  "plain_DaemonSet (aggregate_DaemonSet f ds) = plain_DaemonSet ds"
  "plain_Job (aggregate_Job f j) = plain_Job j"
  "plain_PDB (target_PDB g p) = plain_PDB p"
  "plain_Service (target_Service g v) = plain_Service v"
  by (simp_all add: plain_Deployment_def aggregate_Deployment_def plain_StatefulSet_def aggregate_StatefulSet_def
      plain_DaemonSet_def aggregate_DaemonSet_def plain_Job_def aggregate_Job_def plain_PDB_def target_PDB_def
      plain_Service_def target_Service_def Let_def split: prod.split)

lemma plain_converted [simp]:
  "plain_Deployment (DeploymentToModel K d) = DeploymentToModel K d"
  "plain_StatefulSet (StatefulSetToModel K ss) = StatefulSetToModel K ss"
  "plain_DaemonSet (DaemonSetToModel K ds) = DaemonSetToModel K ds"
  "plain_Job (JobToModel K j) = JobToModel K j"
  by (simp_all add: plain_Deployment_def DeploymentToModel_def zero_DeploymentInfo_def plain_StatefulSet_def StatefulSetToModel_def
      zero_StatefulSetInfo_def plain_DaemonSet_def DaemonSetToModel_def zero_DaemonSetInfo_def plain_Job_def JobToModel_def
      zero_JobInfo_def Let_def case_prod_unfold)

lemma plain_converted_policy [simp]:
  "plain_PDB (PDBToModel K pdb) = PDBToModel K pdb" "plain_Service (ServiceToModel K svc) = ServiceToModel K svc"
  by (simp_all add: plain_PDB_def PDBToModel_def zero_PDBInfo_def plain_Service_def ServiceToModel_def zero_ServiceInfo_def
      Let_def case_prod_unfold split: option.split)

lemmas enricher_defs = NewOwnershipEnricher_def Ownership_Enrich_def NewAggregationEnricher_def Aggregation_Enrich_def
  NewTargetsEnricher_def Targets_Enrich_def NewMountsEnricher_def Mounts_Enrich_def

definition plain_kinds :: "ClusterSnapshot \<Rightarrow> ClusterSnapshot" where
  "plain_kinds snap = snap\<lparr>ClusterSnapshot.Pods := map disown (ClusterSnapshot.Pods snap),
     ClusterSnapshot.Deployments := map plain_Deployment (ClusterSnapshot.Deployments snap),
     ClusterSnapshot.StatefulSets := map plain_StatefulSet (ClusterSnapshot.StatefulSets snap),
     ClusterSnapshot.DaemonSets := map plain_DaemonSet (ClusterSnapshot.DaemonSets snap),
     ClusterSnapshot.Jobs := map plain_Job (ClusterSnapshot.Jobs snap),
     ClusterSnapshot.PDBs := map plain_PDB (ClusterSnapshot.PDBs snap),
     ClusterSnapshot.Services := map plain_Service (ClusterSnapshot.Services snap)\<rparr>"

lemma plain_kinds_Enrich [simp]:
  "plain_kinds (fst (Enrich (NewOwnershipEnricher rss) snap)) = plain_kinds snap"
  "plain_kinds (fst (Enrich NewAggregationEnricher snap)) = plain_kinds snap"
  "plain_kinds (fst (Enrich NewTargetsEnricher snap)) = plain_kinds snap"
  "plain_kinds (fst (Enrich NewMountsEnricher snap)) = plain_kinds snap"
  by (simp_all add: enricher_defs plain_kinds_def comp_def Let_def)

lemma plain_kinds_enriched:
  assumes "pipeline b = Some main_pipeline"
  shows "plain_kinds (fst (build_enriched b v)) = plain_kinds (fst (build_filled b v))"
proof -
  have "plain_kinds (fst (run_enricher dur e sm)) = plain_kinds (fst sm)"
    if "\<And>s. plain_kinds (fst (Enrich e s)) = plain_kinds s" for dur e sm
    using that by (cases sm) (simp add: run_enricher_def)
  then show ?thesis
    using assms by (simp add: build_enriched_def build_filled_def main_pipeline_run Let_def case_prod_unfold)
qed

section \<open>What a snapshot shows\<close>

definition reflects :: "'x list \<Rightarrow> ('o \<Rightarrow> 'x) \<Rightarrow> (string \<rightharpoonup> 'o) \<Rightarrow> bool" where
  "reflects xs conv c \<longleftrightarrow> mset xs = image_mset conv (cluster_objects c)"

text \<open>
  Each kind is that of some moment between the first \<open>i\<close> and the first \<open>j\<close> events, the moments
  may differ. Of the nodes, the names: all of one moment, and each of some moment.
\<close>

definition snapshot_reflects :: "('q, 's) kube \<Rightarrow> (Time \<times> ('q, 's) resource_event) list \<Rightarrow> nat \<Rightarrow> nat \<Rightarrow> ClusterSnapshot \<Rightarrow> bool" where
  "snapshot_reflects K h i j snap \<longleftrightarrow>
    (let s = plain_kinds snap; moment = at_some_moment h i j; names = map NodeInfo.Name (ClusterSnapshot.Nodes s) in
     moment (\<lambda>evs. reflects (map bare (ClusterSnapshot.Pods s)) (disown \<circ> PodToModel K) (objects Pod_of Pod_okey evs))
     \<and> moment (\<lambda>evs. dom (objects Node_of Node_okey evs) \<subseteq> set names)
     \<and> list_all (\<lambda>n. moment (\<lambda>evs. n \<in> dom (objects Node_of Node_okey evs))) names
     \<and> moment (\<lambda>evs. reflects (ClusterSnapshot.Namespaces s) NamespaceToModel (objects Namespace_of Namespace_okey evs))
     \<and> moment (\<lambda>evs. reflects (ClusterSnapshot.Deployments s) (DeploymentToModel K) (objects Deployment_of Deployment_okey evs))
     \<and> moment (\<lambda>evs. reflects (ClusterSnapshot.StatefulSets s) (StatefulSetToModel K) (objects StatefulSet_of StatefulSet_okey evs))
     \<and> moment (\<lambda>evs. reflects (ClusterSnapshot.DaemonSets s) (DaemonSetToModel K) (objects DaemonSet_of DaemonSet_okey evs))
     \<and> moment (\<lambda>evs. reflects (ClusterSnapshot.Jobs s) (JobToModel K) (objects Job_of Job_okey evs))
     \<and> moment (\<lambda>evs. reflects (ClusterSnapshot.CronJobs s) (CronJobToModel K) (objects CronJob_of CronJob_okey evs))
     \<and> moment (\<lambda>evs. reflects (ClusterSnapshot.HPAs s) (HPAToModel K) (objects HPA_of HPA_okey evs))
     \<and> moment (\<lambda>evs. reflects (ClusterSnapshot.VPAs s) (VPAToModel K) (objects VPA_of VPA_okey evs))
     \<and> moment (\<lambda>evs. reflects (ClusterSnapshot.PDBs s) (PDBToModel K) (objects PDB_of PDB_okey evs))
     \<and> moment (\<lambda>evs. reflects (ClusterSnapshot.Services s) (ServiceToModel K) (objects Service_of Service_okey evs))
     \<and> moment (\<lambda>evs. reflects (ClusterSnapshot.Ingresses s) IngressToModel (objects Ingress_of Ingress_okey evs))
     \<and> moment (\<lambda>evs. reflects (ClusterSnapshot.PVs s) (PVToModel K) (objects PV_of PV_okey evs))
     \<and> moment (\<lambda>evs. reflects (ClusterSnapshot.PVCs s) (PVCToModel K) (objects PVC_of PVC_okey evs))
     \<and> moment (\<lambda>evs. reflects (ClusterSnapshot.StorageClasses s) StorageClassToModel (objects StorageClass_of StorageClass_okey evs))
     \<and> moment (\<lambda>evs. reflects (ClusterSnapshot.PriorityClasses s) PriorityClassToModel (objects PriorityClass_of PriorityClass_okey evs))
     \<and> moment (\<lambda>evs. reflects (ClusterSnapshot.LimitRanges s) (LimitRangeToModel K) (objects LimitRange_of LimitRange_okey evs))
     \<and> moment (\<lambda>evs. reflects (ClusterSnapshot.ResourceQuotas s) (ResourceQuotaToModel K) (objects ResourceQuota_of ResourceQuota_okey evs))
     \<and> moment (\<lambda>evs. reflects (ClusterSnapshot.NodePools s) (nodePoolToModel K) (objects NodePool_of NodePool_okey evs)))"

lemma Values_mirror:
  assumes "wf_store s" and "Get s = map_option conv \<circ> c" and "order_ok ord"
  shows "mset (Store.Values ord s) = image_mset conv (cluster_objects c)"
proof -
  have "dom (Get s) = dom c" by (auto simp: assms(2) dom_def)
  moreover have "finite (dom c)" using calculation finite_dom_map_of [of "items s"] by (simp add: Get_map_of)
  ultimately show ?thesis unfolding Values_mset [OF assms(1,3)] cluster_objects_def multiset.map_comp
    by (auto simp: assms(2) intro!: image_mset_cong)
qed

context watched_kind
begin

lemma reflects_after:
  assumes "order_ok ord" and "get (NewStore t) = NewTypedStore t"
  shows "reflects (Store.Values ord (get (fst (fold (\<lambda>(now, e). step now e) evs (NewStore t, m))))) conv (objects proj okey evs)"
  using mirror_from_empty [OF assms(2), of evs m] assms(1) unfolding reflects_def by (intro Values_mirror) blast+

end

text \<open>The kinds of a build, before the enrichment, are the values of the stores it has read.\<close>

lemma build_kinds:
  assumes "pipeline b = Some main_pipeline"
  shows "ClusterSnapshot.Namespaces (plain_kinds (fst (Build b v))) = Store.Values (orders v 2) (Store.Namespaces (read_store v))"
    and "ClusterSnapshot.Deployments (plain_kinds (fst (Build b v))) = map plain_Deployment (Store.Values (orders v 3) (Store.Deployments (read_store v)))"
    and "ClusterSnapshot.StatefulSets (plain_kinds (fst (Build b v))) = map plain_StatefulSet (Store.Values (orders v 4) (Store.StatefulSets (read_store v)))"
    and "ClusterSnapshot.DaemonSets (plain_kinds (fst (Build b v))) = map plain_DaemonSet (Store.Values (orders v 5) (Store.DaemonSets (read_store v)))"
    and "ClusterSnapshot.Jobs (plain_kinds (fst (Build b v))) = map plain_Job (Store.Values (orders v 6) (Store.Jobs (read_store v)))"
    and "ClusterSnapshot.CronJobs (plain_kinds (fst (Build b v))) = Store.Values (orders v 7) (Store.CronJobs (read_store v))"
    and "ClusterSnapshot.HPAs (plain_kinds (fst (Build b v))) = Store.Values (orders v 9) (Store.HPAs (read_store v))"
    and "ClusterSnapshot.VPAs (plain_kinds (fst (Build b v))) = Store.Values (orders v 10) (Store.VPAs (read_store v))"
    and "ClusterSnapshot.PDBs (plain_kinds (fst (Build b v))) = map plain_PDB (Store.Values (orders v 11) (Store.PDBs (read_store v)))"
    and "ClusterSnapshot.Services (plain_kinds (fst (Build b v))) = map plain_Service (Store.Values (orders v 12) (Store.Services (read_store v)))"
    and "ClusterSnapshot.Ingresses (plain_kinds (fst (Build b v))) = Store.Values (orders v 13) (Store.Ingresses (read_store v))"
    and "ClusterSnapshot.PVs (plain_kinds (fst (Build b v))) = Store.Values (orders v 14) (Store.PVs (read_store v))"
    and "ClusterSnapshot.PVCs (plain_kinds (fst (Build b v))) = Store.Values (orders v 15) (Store.PVCs (read_store v))"
    and "ClusterSnapshot.StorageClasses (plain_kinds (fst (Build b v))) = Store.Values (orders v 16) (Store.StorageClasses (read_store v))"
    and "ClusterSnapshot.PriorityClasses (plain_kinds (fst (Build b v))) = Store.Values (orders v 17) (Store.PriorityClasses (read_store v))"
    and "ClusterSnapshot.LimitRanges (plain_kinds (fst (Build b v))) = Store.Values (orders v 18) (Store.LimitRanges (read_store v))"
    and "ClusterSnapshot.ResourceQuotas (plain_kinds (fst (Build b v))) = Store.Values (orders v 19) (Store.ResourceQuotas (read_store v))"
    and "ClusterSnapshot.NodePools (plain_kinds (fst (Build b v))) = Store.Values (orders v 20) (Store.NodePools (read_store v))"
proof -
  have keep: "X (plain_kinds (fst (Build b v))) = X (plain_kinds (fst (build_filled b v)))"
    if "X (plain_kinds (fst (Build b v))) = X (plain_kinds (fst (build_enriched b v)))" for X :: "ClusterSnapshot \<Rightarrow> 'x"
    using that plain_kinds_enriched [OF assms] by simp
  note filled = plain_kinds_def build_filled_def readStores_def backfillReferencedNodes_def Let_def case_prod_unfold
  show "ClusterSnapshot.Namespaces (plain_kinds (fst (Build b v))) = Store.Values (orders v 2) (Store.Namespaces (read_store v))"
    "ClusterSnapshot.Deployments (plain_kinds (fst (Build b v))) = map plain_Deployment (Store.Values (orders v 3) (Store.Deployments (read_store v)))"
    "ClusterSnapshot.StatefulSets (plain_kinds (fst (Build b v))) = map plain_StatefulSet (Store.Values (orders v 4) (Store.StatefulSets (read_store v)))"
    "ClusterSnapshot.DaemonSets (plain_kinds (fst (Build b v))) = map plain_DaemonSet (Store.Values (orders v 5) (Store.DaemonSets (read_store v)))"
    "ClusterSnapshot.Jobs (plain_kinds (fst (Build b v))) = map plain_Job (Store.Values (orders v 6) (Store.Jobs (read_store v)))"
    "ClusterSnapshot.CronJobs (plain_kinds (fst (Build b v))) = Store.Values (orders v 7) (Store.CronJobs (read_store v))"
    "ClusterSnapshot.HPAs (plain_kinds (fst (Build b v))) = Store.Values (orders v 9) (Store.HPAs (read_store v))"
    "ClusterSnapshot.VPAs (plain_kinds (fst (Build b v))) = Store.Values (orders v 10) (Store.VPAs (read_store v))"
    "ClusterSnapshot.PDBs (plain_kinds (fst (Build b v))) = map plain_PDB (Store.Values (orders v 11) (Store.PDBs (read_store v)))"
    "ClusterSnapshot.Services (plain_kinds (fst (Build b v))) = map plain_Service (Store.Values (orders v 12) (Store.Services (read_store v)))"
    "ClusterSnapshot.Ingresses (plain_kinds (fst (Build b v))) = Store.Values (orders v 13) (Store.Ingresses (read_store v))"
    "ClusterSnapshot.PVs (plain_kinds (fst (Build b v))) = Store.Values (orders v 14) (Store.PVs (read_store v))"
    "ClusterSnapshot.PVCs (plain_kinds (fst (Build b v))) = Store.Values (orders v 15) (Store.PVCs (read_store v))"
    "ClusterSnapshot.StorageClasses (plain_kinds (fst (Build b v))) = Store.Values (orders v 16) (Store.StorageClasses (read_store v))"
    "ClusterSnapshot.PriorityClasses (plain_kinds (fst (Build b v))) = Store.Values (orders v 17) (Store.PriorityClasses (read_store v))"
    "ClusterSnapshot.LimitRanges (plain_kinds (fst (Build b v))) = Store.Values (orders v 18) (Store.LimitRanges (read_store v))"
    "ClusterSnapshot.ResourceQuotas (plain_kinds (fst (Build b v))) = Store.Values (orders v 19) (Store.ResourceQuotas (read_store v))"
    "ClusterSnapshot.NodePools (plain_kinds (fst (Build b v))) = Store.Values (orders v 20) (Store.NodePools (read_store v))"
    by (subst keep, simp add: plain_kinds_def, simp add: filled)+
qed

lemma Values_bare_pods:
  assumes "order_ok ord"
  shows "Store.Values ord (bare_pods ts) = map bare (Store.Values ord ts)"
proof -
  have "set (ord n) = {..<n}" for n using assms by (metis atLeast0LessThan atLeast_upt order_ok_def set_mset_mset)
  then show ?thesis by (simp add: Values_map map_range_def bare_pods_def case_prod_unfold)
qed

lemma build_pods_plain:
  assumes "pipeline b = Some main_pipeline" and "order_ok (orders v 1)"
  shows "map bare (ClusterSnapshot.Pods (plain_kinds (fst (Build b v)))) =
         map disown (Store.Values (orders v 1) (bare_pods (Store.Pods (read_store v))))"
proof -
  have swap: "map bare (map disown ps) = map disown (map bare ps)" for ps
    by (simp add: bare_def disown_def set_pod_owner_def)
  have "ClusterSnapshot.Pods (plain_kinds (fst (Build b v))) = map disown (ClusterSnapshot.Pods (fst (Build b v)))"
    by (simp add: plain_kinds_def)
  also have "\<dots> = map disown (merged_pods b v (Store.Values (orders v 1) (Store.Pods (read_store v))))"
    using assms(1) by (intro build_pods) simp
  finally show ?thesis by (simp only: swap bare_merged_pods Values_bare_pods [OF assms(2)])
qed

lemma build_node_names:
  assumes "pipeline b = Some main_pipeline" and "view_ok v"
  defines "names \<equiv> NodeInfo.Name ` set (ClusterSnapshot.Nodes (plain_kinds (fst (Build b v))))"
    and "read \<equiv> \<lambda>ord ts. NodeInfo.Name ` set (Store.Values ord ts)"
  shows "read (orders v 0) (Store.Nodes (read_store v)) \<subseteq> names"
    and "names \<subseteq> read (orders v 0) (Store.Nodes (read_store v)) \<union> read (orders v 24) (reread_nodes v)"
proof -
  let ?snap = "(fst (readStores v zero_ClusterSnapshot))
     \<lparr>ClusterSnapshot.Nodes := merged_nodes b v (Store.Values (orders v 0) (Store.Nodes (read_store v))),
      ClusterSnapshot.Pods := merged_pods b v (Store.Values (orders v 1) (Store.Pods (read_store v)))\<rparr>"
  have ord: "order_ok (orders v 25)" using assms(2) by (simp add: view_ok_def)
  have "ClusterSnapshot.Nodes (plain_kinds (fst (Build b v))) = ClusterSnapshot.Nodes (fst (backfillReferencedNodes v ?snap (SnapshotBuilder.metrics b)))"
    using assms(1) build_nodes [of b v] by (simp add: plain_kinds_def build_filled_def readStores_def Let_def)
  also have "\<dots> = merged_nodes b v (Store.Values (orders v 0) (Store.Nodes (read_store v))) @
      some_of (index_by NodeInfo.Name (Store.Values (orders v 24) (reread_nodes v))) (map fst (map_range (orders v 25) (missing_nodes ?snap)))"
    by (simp add: backfill_Nodes [OF ord])
  finally have nodes: "names = read (orders v 0) (Store.Nodes (read_store v)) \<union>
      NodeInfo.Name ` set (some_of (index_by NodeInfo.Name (Store.Values (orders v 24) (reread_nodes v))) (map fst (map_range (orders v 25) (missing_nodes ?snap))))"
    unfolding names_def read_def set_map [symmetric] by (simp only: map_append set_append merged_nodes_Name)
  then show "read (orders v 0) (Store.Nodes (read_store v)) \<subseteq> names" by blast
  show "names \<subseteq> read (orders v 0) (Store.Nodes (read_store v)) \<union> read (orders v 24) (reread_nodes v)"
    unfolding nodes read_def set_some_of by (auto dest: index_by_SomeD)
qed

lemma objects_key: "objects proj okey evs k = Some x \<Longrightarrow> okey x = k"
proof (induction evs arbitrary: k x rule: rev_induct)
  case (snoc e evs)
  then show ?case
    by (cases e)
      (auto simp: objects_def cluster_event_def split: option.splits informer_event.splits watched.splits if_splits)
qed (simp add: objects_def)

context watched_kind
begin

lemma keys_after:
  assumes "order_ok ord" and "get (NewStore t) = NewTypedStore t"
  shows "key ` set (Store.Values ord (get (fst (fold (\<lambda>(now, e). step now e) evs (NewStore t, m))))) = dom (objects proj okey evs)"
proof -
  let ?c = "objects proj okey evs" and ?s = "get (fst (fold (\<lambda>(now, e). step now e) evs (NewStore t, m)))"
  have wf: "wf_store ?s" and get: "Get ?s = map_option conv \<circ> ?c" using mirror_from_empty [OF assms(2)] by blast+
  show ?thesis
  proof (intro set_eqI iffI)
    fix k assume "k \<in> key ` set (Store.Values ord ?s)"
    then obtain k' x where "?c k' = Some x" "k = key (conv x)" by (auto simp: Values_member [OF wf assms(1)] get)
    then show "k \<in> dom ?c" using objects_key [of proj okey evs k' x] by (simp add: key_conv dom_def)
  next
    fix k assume "k \<in> dom ?c"
    then obtain x where x: "?c k = Some x" by blast
    then have "conv x \<in> set (Store.Values ord ?s)" unfolding Values_member [OF wf assms(1)] by (auto simp: get)
    moreover have "k = key (conv x)" using objects_key [OF x] by (simp add: key_conv)
    ultimately show "k \<in> key ` set (Store.Values ord ?s)" by blast
  qed
qed

end


section \<open>A build shows the cluster\<close>

lemma plain_fields [simp]:
  "Store.Pods (plain st) = bare_pods (Store.Pods st)"
  "Store.Nodes (plain st) = Store.Nodes st"
  "Store.Namespaces (plain st) = Store.Namespaces st"
  "Store.Deployments (plain st) = Store.Deployments st"
  "Store.StatefulSets (plain st) = Store.StatefulSets st"
  "Store.DaemonSets (plain st) = Store.DaemonSets st"
  "Store.ReplicaSets (plain st) = Store.ReplicaSets st"
  "Store.Jobs (plain st) = Store.Jobs st"
  "Store.CronJobs (plain st) = Store.CronJobs st"
  "Store.CustomWorkloads (plain st) = Store.CustomWorkloads st"
  "Store.HPAs (plain st) = Store.HPAs st"
  "Store.VPAs (plain st) = Store.VPAs st"
  "Store.PDBs (plain st) = Store.PDBs st"
  "Store.Services (plain st) = Store.Services st"
  "Store.Ingresses (plain st) = Store.Ingresses st"
  "Store.PVs (plain st) = Store.PVs st"
  "Store.PVCs (plain st) = Store.PVCs st"
  "Store.StorageClasses (plain st) = Store.StorageClasses st"
  "Store.PriorityClasses (plain st) = Store.PriorityClasses st"
  "Store.LimitRanges (plain st) = Store.LimitRanges st"
  "Store.ResourceQuotas (plain st) = Store.ResourceQuotas st"
  "Store.NodePools (plain st) = Store.NodePools st"
  by (simp_all add: plain_def)

lemma reflects_map: "reflects xs conv c \<Longrightarrow> (\<And>x. f (conv x) = conv x) \<Longrightarrow> reflects (map f xs) conv c"
  by (simp add: reflects_def multiset.map_comp comp_def)

lemma NewStore_kinds [simp]:
  "Store.Pods (NewStore t) = NewTypedStore t"
  "Store.Nodes (NewStore t) = NewTypedStore t"
  "Store.Namespaces (NewStore t) = NewTypedStore t"
  "Store.Deployments (NewStore t) = NewTypedStore t"
  "Store.StatefulSets (NewStore t) = NewTypedStore t"
  "Store.DaemonSets (NewStore t) = NewTypedStore t"
  "Store.ReplicaSets (NewStore t) = NewTypedStore t"
  "Store.Jobs (NewStore t) = NewTypedStore t"
  "Store.CronJobs (NewStore t) = NewTypedStore t"
  "Store.CustomWorkloads (NewStore t) = NewTypedStore t"
  "Store.HPAs (NewStore t) = NewTypedStore t"
  "Store.VPAs (NewStore t) = NewTypedStore t"
  "Store.PDBs (NewStore t) = NewTypedStore t"
  "Store.Services (NewStore t) = NewTypedStore t"
  "Store.Ingresses (NewStore t) = NewTypedStore t"
  "Store.PVs (NewStore t) = NewTypedStore t"
  "Store.PVCs (NewStore t) = NewTypedStore t"
  "Store.StorageClasses (NewStore t) = NewTypedStore t"
  "Store.PriorityClasses (NewStore t) = NewTypedStore t"
  "Store.LimitRanges (NewStore t) = NewTypedStore t"
  "Store.ResourceQuotas (NewStore t) = NewTypedStore t"
  "Store.NodePools (NewStore t) = NewTypedStore t"
  by (simp_all add: NewStore_def)


lemmas kinds_reflect =
  namespaces.reflects_after deployments.reflects_after statefulsets.reflects_after daemonsets.reflects_after
  jobs.reflects_after cronjobs.reflects_after hpas.reflects_after vpas.reflects_after
  pdbs.reflects_after services.reflects_after ingresses.reflects_after pvs.reflects_after
  pvcs.reflects_after storageclasses.reflects_after priorityclasses.reflects_after limitranges.reflects_after
  resourcequotas.reflects_after nodepools.reflects_after

text \<open>Every store that a build has read, and the nodes it has read again, are those of some moment.\<close>

definition view_reflects :: "('q, 's) kube \<Rightarrow> Time \<Rightarrow> (Time \<times> ('q, 's) resource_event) list \<Rightarrow> nat \<Rightarrow> nat \<Rightarrow> build_view \<Rightarrow> bool" where
  "view_reflects K t h i j v \<longleftrightarrow>
     (\<forall>k. at_some_moment h i j (\<lambda>evs. same_kind k (plain (read_store v)) (plain (after_events K t NewMetrics evs))))
     \<and> at_some_moment h i j (\<lambda>evs. reread_nodes v = Store.Nodes (after_events K t NewMetrics evs))"

lemma build_reflects:
  fixes K :: "('q, 's) kube"
  assumes p: "pipeline b = Some main_pipeline" and v: "view_ok v" and r: "view_reflects K t h i j v"
  shows "snapshot_reflects K h i j (fst (Build b v))"
proof -
  let ?at = "at_some_moment h i j" and ?st = "\<lambda>evs. after_events K t NewMetrics evs"
  have ord: "order_ok (orders v n)" for n using v by (simp add: view_ok_def)
  have kind: "?at Q" if "\<And>evs. same_kind k (plain (read_store v)) (plain (?st evs)) \<Longrightarrow> Q evs" for k Q
    using r that by (auto simp: view_reflects_def intro: at_some_moment_mono)
  note R = kinds_reflect [OF ord, folded after_events_def] reflects_map
  have node_keys: "NodeInfo.Name ` set (Store.Values (orders v n) (Store.Nodes (?st evs))) = dom (objects Node_of Node_okey evs)" for n evs
    by (simp add: nodes.keys_after [OF ord, folded after_events_def])
  show ?thesis
    unfolding snapshot_reflects_def Let_def build_kinds [OF p] build_pods_plain [OF p ord]
  proof (intro conjI)
    show "?at (\<lambda>evs. reflects (map disown (Store.Values (orders v 1) (bare_pods (Store.Pods (read_store v)))))
        (disown \<circ> PodToModel K) (objects Pod_of Pod_okey evs))"
    proof (rule kind [of Of_Pods])
      fix evs assume "same_kind Of_Pods (plain (read_store v)) (plain (?st evs))"
      then have "bare_pods (Store.Pods (read_store v)) = bare_pods (Store.Pods (?st evs))" by simp
      moreover have "reflects (Store.Values (orders v 1) (Store.Pods (?st evs))) (PodToModel K) (objects Pod_of Pod_okey evs)"
        by (simp add: pods.reflects_after [OF ord, folded after_events_def])
      ultimately show "reflects (map disown (Store.Values (orders v 1) (bare_pods (Store.Pods (read_store v)))))
          (disown \<circ> PodToModel K) (objects Pod_of Pod_okey evs)"
        by (simp add: Values_bare_pods [OF ord] reflects_def multiset.map_comp comp_def)
    qed
    show "?at (\<lambda>evs. dom (objects Node_of Node_okey evs) \<subseteq> set (map NodeInfo.Name (ClusterSnapshot.Nodes (plain_kinds (fst (Build b v))))))"
      using build_node_names(1) [OF p v] by (intro kind [of Of_Nodes]) (simp add: node_keys)
    show "list_all (\<lambda>n. ?at (\<lambda>evs. n \<in> dom (objects Node_of Node_okey evs)))
        (map NodeInfo.Name (ClusterSnapshot.Nodes (plain_kinds (fst (Build b v)))))"
    proof -
      have "?at (\<lambda>evs. n \<in> dom (objects Node_of Node_okey evs))"
        if "n \<in> NodeInfo.Name ` set (ClusterSnapshot.Nodes (plain_kinds (fst (Build b v))))" for n
      proof -
        from that build_node_names(2) [OF p v]
        consider "n \<in> NodeInfo.Name ` set (Store.Values (orders v 0) (Store.Nodes (read_store v)))"
          | "n \<in> NodeInfo.Name ` set (Store.Values (orders v 24) (reread_nodes v))" by blast
        then show ?thesis
        proof cases
          case 1
          then show ?thesis by (intro kind [of Of_Nodes]) (simp add: node_keys)
        next
          case 2
          have "?at (\<lambda>evs. reread_nodes v = Store.Nodes (?st evs))" using r by (simp add: view_reflects_def)
          then show ?thesis by (rule at_some_moment_mono) (use 2 node_keys in auto)
        qed
      qed
      then show ?thesis by (simp add: list_all_iff)
    qed
  qed (rule kind [of Of_Namespaces], simp add: R, rule kind [of Of_Deployments], simp add: R, rule kind [of Of_StatefulSets], simp add: R,
      rule kind [of Of_DaemonSets], simp add: R, rule kind [of Of_Jobs], simp add: R, rule kind [of Of_CronJobs], simp add: R,
      rule kind [of Of_HPAs], simp add: R, rule kind [of Of_VPAs], simp add: R, rule kind [of Of_PDBs], simp add: R,
      rule kind [of Of_Services], simp add: R, rule kind [of Of_Ingresses], simp add: R, rule kind [of Of_PVs], simp add: R,
      rule kind [of Of_PVCs], simp add: R, rule kind [of Of_StorageClasses], simp add: R, rule kind [of Of_PriorityClasses], simp add: R,
      rule kind [of Of_LimitRanges], simp add: R, rule kind [of Of_ResourceQuotas], simp add: R, rule kind [of Of_NodePools], simp add: R)
qed

section \<open>The invariant\<close>

text \<open>What holds of a build in progress.\<close>

definition build_inv :: "('q, 's) kube \<Rightarrow> Time \<Rightarrow> ('q, 's) system \<Rightarrow> build_run \<Rightarrow> bool" where
  "build_inv K t s r \<longleftrightarrow>
     begun s \<le> length (history s) \<and> view_ok (view r)
     \<and> (\<forall>k. stage r = ReadingStores \<and> k \<in> set (unread r)
          \<or> at_some_moment (history s) (begun s) (length (history s))
              (\<lambda>evs. same_kind k (plain (read_store (view r))) (plain (after_events K t NewMetrics evs))))
     \<and> (stage r = ReadingTimes \<longrightarrow> at_some_moment (history s) (begun s) (length (history s))
              (\<lambda>evs. reread_nodes (view r) = Store.Nodes (after_events K t NewMetrics evs)))
     \<and> (case purpose r of ForCounts e \<Rightarrow> view_ok (env_view (first_env e)) | ForFirst e \<Rightarrow> True
        | ForTick now e \<Rightarrow> takes_snapshot now (sys_agent s))"

definition shown_inv :: "('q, 's) kube \<Rightarrow> ('q, 's) system \<Rightarrow> bool" where
  "shown_inv K s \<longleftrightarrow> (\<forall>snap. latestSnapshot (sys_agent s) = Some snap \<longrightarrow>
     shown_from s \<le> shown_to s \<and> shown_to s \<le> length (history s)
     \<and> snapshot_reflects K (history s) (shown_from s) (shown_to s) snap)"

definition base_inv :: "('q, 's) kube \<Rightarrow> Time \<Rightarrow> ('q, 's) system \<Rightarrow> bool" where
  "base_inv K t s \<longleftrightarrow> plain (sys_store s) = plain (after_events K t NewMetrics (history s))
     \<and> pipeline (builder (sys_agent s)) = Some main_pipeline \<and> shown_inv K s"

definition cluster_inv :: "('q, 's) kube \<Rightarrow> Time \<Rightarrow> ('q, 's) system \<Rightarrow> bool" where
  "cluster_inv K t s \<longleftrightarrow> base_inv K t s \<and> (\<forall>r. main_phase s = Building r \<longrightarrow> build_inv K t s r)"

lemma after_events_snoc: "after_events K t m (evs @ [(now, ev)]) = fst (dispatch K now ev (after_events K t m evs, snd (fold (\<lambda>(now, e). dispatch K now e) evs (NewStore t, m))))"
  by (simp add: after_events_def)

lemma snapshot_reflects_later:
  assumes "snapshot_reflects K h i j snap" and "j \<le> length h"
  shows "snapshot_reflects K (h @ xs) i j snap"
proof -
  have later: "at_some_moment h i j P \<Longrightarrow> at_some_moment (h @ xs) i j P" for P
    using at_some_moment_later assms(2) by blast
  then have "list_all (\<lambda>n. at_some_moment (h @ xs) i j (P n)) ns" if "list_all (\<lambda>n. at_some_moment h i j (P n)) ns" for P and ns :: "string list"
    using that by (auto simp: list_all_iff)
  with later assms(1) show ?thesis unfolding snapshot_reflects_def Let_def by (elim conjE, intro conjI) assumption+
qed

lemma informer_act_inv:
  assumes "cluster_inv K t s"
  shows "cluster_inv K t (informer_act K now ev s)"
proof -
  let ?s = "informer_act K now ev s"
  have s: "history ?s = history s @ [(now, ev)]" "sys_agent ?s = sys_agent s" "main_phase ?s = main_phase s" "begun ?s = begun s"
    "shown_from ?s = shown_from s" "shown_to ?s = shown_to s" "sys_store ?s = fst (dispatch K now ev (sys_store s, sys_metrics s))"
    by (simp_all add: informer_act_def case_prod_unfold Let_def)
  have "plain (sys_store ?s) = plain (after_events K t NewMetrics (history ?s))"
    using assms unfolding s after_events_snoc cluster_inv_def base_inv_def by (metis plain_dispatch)
  moreover have "shown_inv K ?s"
    using assms by (auto simp: cluster_inv_def base_inv_def shown_inv_def s snapshot_reflects_later)
  moreover have "build_inv K t ?s r" if "build_inv K t s r" for r
    using that unfolding build_inv_def s
    by (elim conjE, intro conjI) (auto intro: at_some_moment_later)
  ultimately show ?thesis using assms by (auto simp: cluster_inv_def base_inv_def s)
qed

lemma inv_frame [simp]:
  "build_inv K t (s\<lparr>main_phase := p\<rparr>) r \<longleftrightarrow> build_inv K t s r"
  "build_inv K t (s\<lparr>sys_store := st\<rparr>) r \<longleftrightarrow> build_inv K t s r"
  "build_inv K t (s\<lparr>sys_metrics := m\<rparr>) r \<longleftrightarrow> build_inv K t s r"
  "build_inv K t (s\<lparr>sys_usage := u\<rparr>) r \<longleftrightarrow> build_inv K t s r"
  "build_inv K t (s\<lparr>sys_gpu := g\<rparr>) r \<longleftrightarrow> build_inv K t s r"
  "base_inv K t (s\<lparr>main_phase := p\<rparr>) \<longleftrightarrow> base_inv K t s"
  "base_inv K t (s\<lparr>sys_metrics := m\<rparr>) \<longleftrightarrow> base_inv K t s"
  "base_inv K t (s\<lparr>sys_usage := u\<rparr>) \<longleftrightarrow> base_inv K t s"
  "base_inv K t (s\<lparr>sys_gpu := g\<rparr>) \<longleftrightarrow> base_inv K t s"
  "base_inv K t (s\<lparr>begun := n\<rparr>) \<longleftrightarrow> base_inv K t s"
  "base_inv K t (s\<lparr>polls := es\<rparr>) \<longleftrightarrow> base_inv K t s"
  "build_inv K t (s\<lparr>polls := es\<rparr>) r \<longleftrightarrow> build_inv K t s r"
  by (simp_all add: build_inv_def base_inv_def shown_inv_def cong: build_purpose.case_cong)

lemma base_inv_agent:
  assumes "base_inv K t s" and "pipeline (builder a) = pipeline (builder (sys_agent s))" and "latestSnapshot a = latestSnapshot (sys_agent s)"
  shows "base_inv K t (s\<lparr>sys_agent := a\<rparr>)"
  using assms by (simp add: base_inv_def shown_inv_def)

lemma begin_build_inv:
  assumes "base_inv K t s" and "view_ok (planned_view p)"
    and "case p of ForCounts e \<Rightarrow> view_ok (env_view (first_env e)) | ForFirst e \<Rightarrow> True | ForTick now e \<Rightarrow> takes_snapshot now (sys_agent s)"
  shows "cluster_inv K t (begin_build p s)"
  using assms by (simp add: cluster_inv_def begin_build_def build_inv_def Let_def split: build_purpose.splits)

lemma read_kind_inv:
  assumes "base_inv K t s" and "build_inv K t s r"
  shows "build_inv K t s (read_kind k s r)"
proof (cases "stage r = ReadingStores \<and> k \<in> set (unread r)")
  case True
  have now: "at_some_moment (history s) (begun s) (length (history s))
      (\<lambda>evs. same_kind k (plain (sys_store s)) (plain (after_events K t NewMetrics evs)))"
    using assms by (intro at_this_moment) (simp_all add: base_inv_def build_inv_def same_kind_def Let_def, cases k, simp_all)
  have "k' \<in> set (remove1 k (unread r))
      \<or> at_some_moment (history s) (begun s) (length (history s))
          (\<lambda>evs. same_kind k' (plain (copy_kind k (sys_store s) (read_store (view r)))) (plain (after_events K t NewMetrics evs)))" for k'
    using assms(2) now by (cases "k' = k") (auto simp: build_inv_def same_kind_plain_copy)
  then show ?thesis
    using assms(2) True by (auto simp: build_inv_def read_kind_def view_ok_def)
next
  case False
  then show ?thesis using assms(2) by (auto simp: read_kind_def)
qed

lemma snapshot_steps_builder [simp]:
  "builder (snd (agent_build v a)) = builder a"
  "builder (snd (populateHealth e snap a)) = builder a"
  "builder (snd (agent_send e snap a)) = builder a"
  by (simp_all add: agent_build_def populateHealth_def agent_send_def Let_def case_prod_unfold)

lemma doSnapshot_builder [simp]: "builder (doSnapshot e a) = builder a"
  by (simp add: doSnapshot_def Let_def case_prod_unfold split: sum.split)

lemma become_ready_builder [simp]: "builder (become_ready e a) = builder a"
  by (simp add: become_ready_def logStoreCounts_def Let_def split: option.split)

lemma start_collectors_builder [simp]: "builder (snd (start_collectors e a)) = builder a"
  by (simp add: start_collectors_def Let_def case_prod_unfold)

lemma stop_collectors_builder [simp]: "builder (fst (stop_collectors x)) = builder (fst x)"
  by (simp add: stop_collectors_def case_prod_unfold)

lemma fst_loop_step:
  "fst (loop_step (Tick now e) a) =
     (if takes_snapshot now a
      then doSnapshot e (a\<lparr>stateMachine := (if state (stateMachine a) = StateRunning then stateMachine a
             else TransitionTo StateRunning ''backoff expired'' (stateMachine a))\<rparr>)
      else a)"
  "fst (loop_step (CtxDone err) a) = a"
  by (cases "state (stateMachine a)"; simp add: takes_snapshot_def loop_step_def Let_def if_distrib [of fst])
    (simp add: loop_step_def)

lemma loop_step_builder [simp]: "builder (fst (loop_step ev a)) = builder a"
  by (cases ev) (simp_all add: fst_loop_step)

lemma plain_kinds_Health:
  "ClusterSnapshot.Pods (plain_kinds (snap\<lparr>ClusterSnapshot.Health := x\<rparr>)) = ClusterSnapshot.Pods (plain_kinds snap)"
  "ClusterSnapshot.Nodes (plain_kinds (snap\<lparr>ClusterSnapshot.Health := x\<rparr>)) = ClusterSnapshot.Nodes (plain_kinds snap)"
  "ClusterSnapshot.Namespaces (plain_kinds (snap\<lparr>ClusterSnapshot.Health := x\<rparr>)) = ClusterSnapshot.Namespaces (plain_kinds snap)"
  "ClusterSnapshot.Deployments (plain_kinds (snap\<lparr>ClusterSnapshot.Health := x\<rparr>)) = ClusterSnapshot.Deployments (plain_kinds snap)"
  "ClusterSnapshot.StatefulSets (plain_kinds (snap\<lparr>ClusterSnapshot.Health := x\<rparr>)) = ClusterSnapshot.StatefulSets (plain_kinds snap)"
  "ClusterSnapshot.DaemonSets (plain_kinds (snap\<lparr>ClusterSnapshot.Health := x\<rparr>)) = ClusterSnapshot.DaemonSets (plain_kinds snap)"
  "ClusterSnapshot.Jobs (plain_kinds (snap\<lparr>ClusterSnapshot.Health := x\<rparr>)) = ClusterSnapshot.Jobs (plain_kinds snap)"
  "ClusterSnapshot.CronJobs (plain_kinds (snap\<lparr>ClusterSnapshot.Health := x\<rparr>)) = ClusterSnapshot.CronJobs (plain_kinds snap)"
  "ClusterSnapshot.HPAs (plain_kinds (snap\<lparr>ClusterSnapshot.Health := x\<rparr>)) = ClusterSnapshot.HPAs (plain_kinds snap)"
  "ClusterSnapshot.VPAs (plain_kinds (snap\<lparr>ClusterSnapshot.Health := x\<rparr>)) = ClusterSnapshot.VPAs (plain_kinds snap)"
  "ClusterSnapshot.PDBs (plain_kinds (snap\<lparr>ClusterSnapshot.Health := x\<rparr>)) = ClusterSnapshot.PDBs (plain_kinds snap)"
  "ClusterSnapshot.Services (plain_kinds (snap\<lparr>ClusterSnapshot.Health := x\<rparr>)) = ClusterSnapshot.Services (plain_kinds snap)"
  "ClusterSnapshot.Ingresses (plain_kinds (snap\<lparr>ClusterSnapshot.Health := x\<rparr>)) = ClusterSnapshot.Ingresses (plain_kinds snap)"
  "ClusterSnapshot.PVs (plain_kinds (snap\<lparr>ClusterSnapshot.Health := x\<rparr>)) = ClusterSnapshot.PVs (plain_kinds snap)"
  "ClusterSnapshot.PVCs (plain_kinds (snap\<lparr>ClusterSnapshot.Health := x\<rparr>)) = ClusterSnapshot.PVCs (plain_kinds snap)"
  "ClusterSnapshot.StorageClasses (plain_kinds (snap\<lparr>ClusterSnapshot.Health := x\<rparr>)) = ClusterSnapshot.StorageClasses (plain_kinds snap)"
  "ClusterSnapshot.PriorityClasses (plain_kinds (snap\<lparr>ClusterSnapshot.Health := x\<rparr>)) = ClusterSnapshot.PriorityClasses (plain_kinds snap)"
  "ClusterSnapshot.LimitRanges (plain_kinds (snap\<lparr>ClusterSnapshot.Health := x\<rparr>)) = ClusterSnapshot.LimitRanges (plain_kinds snap)"
  "ClusterSnapshot.ResourceQuotas (plain_kinds (snap\<lparr>ClusterSnapshot.Health := x\<rparr>)) = ClusterSnapshot.ResourceQuotas (plain_kinds snap)"
  "ClusterSnapshot.NodePools (plain_kinds (snap\<lparr>ClusterSnapshot.Health := x\<rparr>)) = ClusterSnapshot.NodePools (plain_kinds snap)"
  by (simp_all add: plain_kinds_def)

lemma snapshot_reflects_Health [simp]:
  "snapshot_reflects K h i j (snap\<lparr>ClusterSnapshot.Health := x\<rparr>) \<longleftrightarrow> snapshot_reflects K h i j snap"
  unfolding snapshot_reflects_def Let_def plain_kinds_Health by (rule refl)

lemma snapshot_reflects_Pods:
  assumes "map bare (map disown ps) = map bare (map disown (ClusterSnapshot.Pods snap))"
  shows "snapshot_reflects K h i j (snap\<lparr>ClusterSnapshot.Pods := ps\<rparr>) \<longleftrightarrow> snapshot_reflects K h i j snap"
proof -
  have "plain_kinds (snap\<lparr>ClusterSnapshot.Pods := ps\<rparr>) = (plain_kinds snap)\<lparr>ClusterSnapshot.Pods := map disown ps\<rparr>"
    by (simp add: plain_kinds_def)
  moreover have "ClusterSnapshot.Pods (plain_kinds snap) = map disown (ClusterSnapshot.Pods snap)" by (simp add: plain_kinds_def)
  ultimately show ?thesis
    using assms unfolding snapshot_reflects_def Let_def by (cases "plain_kinds snap") (simp only: ClusterSnapshot.simps)
qed

lemma bare_disown: "bare (disown p) = disown (bare p)"
  by (simp add: bare_def disown_def set_pod_owner_def)

lemma merge_shown_reflects:
  assumes "\<forall>snap. latestSnapshot a = Some snap \<longrightarrow> snapshot_reflects K h i j snap"
  shows "\<forall>snap. latestSnapshot (merge_shown b r vs a) = Some snap \<longrightarrow> snapshot_reflects K h i j snap"
  using assms by (auto simp: merge_shown_def snapshot_reflects_Pods bare_disown)

lemma populateHealth_snapshot: "\<exists>x. fst (populateHealth e snap a) = snap\<lparr>ClusterSnapshot.Health := x\<rparr>"
  unfolding populateHealth_def Let_def case_prod_unfold fst_conv by blast

lemma sent_snapshot_reflects:
  "snapshot_reflects K h i j (fst (sent_snapshot e a)) \<longleftrightarrow>
   snapshot_reflects K h i j (fst (Build ((builder a)\<lparr>SnapshotBuilder.metrics := Some (Agent.metrics a)\<rparr>) (env_view e)))"
proof -
  obtain snap a1 where b: "agent_build (env_view e) a = (snap, a1)" by fastforce
  obtain x where "fst (sent_snapshot e a) = snap\<lparr>ClusterSnapshot.Health := x\<rparr>"
    unfolding sent_snapshot_def b Let_def prod.case using populateHealth_snapshot by blast
  moreover have "snap = fst (Build ((builder a)\<lparr>SnapshotBuilder.metrics := Some (Agent.metrics a)\<rparr>) (env_view e))"
    using b by (simp add: agent_build_def Let_def case_prod_unfold)
  ultimately show ?thesis by (simp only: snapshot_reflects_Health)
qed

text \<open>What a finished build publishes.\<close>

lemma view_reflects_end:
  assumes "build_inv K t s r" and "stage r = ReadingTimes"
  shows "view_reflects K t (history s) (begun s) (length (history s)) (view r)"
  using assms by (simp add: build_inv_def view_reflects_def)

lemma build_agent_reflects:
  assumes "base_inv K t s" and "build_inv K t s r" and "stage r = ReadingTimes"
    and "env_view e = view r" and "builder a = builder (build_agent s r)"
  shows "snapshot_reflects K (history s) (begun s) (length (history s)) (fst (sent_snapshot e a))"
  unfolding sent_snapshot_reflects assms(4)
  using assms(1,2,5) by (intro build_reflects [OF _ _ view_reflects_end [OF assms(2,3)]])
    (simp_all add: base_inv_def build_inv_def build_agent_def run_builder_def)

lemma build_agent_fields [simp]:
  "pipeline (builder (build_agent s r)) = pipeline (builder (sys_agent s))"
  "latestSnapshot (build_agent s r) = latestSnapshot (sys_agent s)"
  "stateMachine (build_agent s r) = stateMachine (sys_agent s)"
  by (simp_all add: build_agent_def run_builder_def)

lemma published_base_inv:
  assumes "base_inv K t s" and "build_inv K t s r" and "stage r = ReadingTimes"
    and "env_view e = view r" and "builder a = builder (build_agent s r)"
    and "builder a' = builder a" and "latestSnapshot a' = Some (fst (sent_snapshot e a))"
  shows "base_inv K t (s\<lparr>sys_agent := a', sys_metrics := m, main_phase := p, shown_versions := vs, shown_from := begun s,
     shown_to := length (history s)\<rparr>)"
  using assms(1,2) build_agent_reflects [OF assms(1-5)] assms(5-7)
  by (simp add: base_inv_def shown_inv_def build_inv_def)

lemma takes_snapshot_build_agent [simp]: "takes_snapshot now (build_agent s r) = takes_snapshot now (sys_agent s)"
  by (simp add: takes_snapshot_def)

lemma stop_collectors_latest [simp]: "latestSnapshot (fst (stop_collectors x)) = latestSnapshot (fst x)"
  by (simp add: stop_collectors_def case_prod_unfold)

lemma main_result_not_building [simp]: "main_result res \<noteq> Building r"
  by (simp add: main_result_def split: run_result.split)

lemma finish_build_inv:
  assumes "base_inv K t s" and "build_inv K t s r" and "stage r = ReadingTimes"
  shows "cluster_inv K t (finish_build s r)"
proof (cases "purpose r")
  case (ForCounts e)
  let ?a = "become_ready (e\<lparr>counts_view := view r\<rparr>) (build_agent s r)"
  have "base_inv K t (s\<lparr>sys_agent := ?a, sys_metrics := Agent.metrics ?a\<rparr>)"
    using base_inv_agent [OF assms(1), of ?a] by (simp add: before_loop_fields)
  then show ?thesis using assms(2) ForCounts
    by (simp add: finish_build_def Let_def build_inv_def begin_build_inv planned_view_def)
next
  case (ForFirst e)
  let ?e = "e\<lparr>env_view := view r\<rparr>"
  show ?thesis
    using published_base_inv [OF assms, of ?e "build_agent s r" "doSnapshot ?e (build_agent s r)"] ForFirst
    by (simp add: finish_build_def Let_def cluster_inv_def doSnapshot_fields)
next
  case (ForTick now e)
  let ?e = "e\<lparr>env_view := view r\<rparr>"
  have "takes_snapshot now (build_agent s r)" using assms(2) ForTick by (simp add: build_inv_def)
  then obtain sm where a: "fst (loop_step (Tick now ?e) (build_agent s r)) = doSnapshot ?e ((build_agent s r)\<lparr>stateMachine := sm\<rparr>)"
    unfolding fst_loop_step by (simp only: if_True)
  then show ?thesis
    using published_base_inv [OF assms, of ?e "(build_agent s r)\<lparr>stateMachine := sm\<rparr>"
        "fst (stop_collectors (loop_step (Tick now ?e) (build_agent s r)))"] ForTick
    by (simp add: finish_build_def Let_def cluster_inv_def doSnapshot_fields case_prod_unfold)
qed

lemma cluster_inv_building:
  "base_inv K t s \<Longrightarrow> build_inv K t s r \<Longrightarrow> cluster_inv K t (s\<lparr>main_phase := Building r\<rparr>)"
  by (simp add: cluster_inv_def)

lemma build_inv_advance:
  assumes "build_inv K t s r" and "stage r \<noteq> ReadingStores \<or> unread r = []" and "stage r' \<noteq> ReadingStores"
    and "stage r' = ReadingTimes \<Longrightarrow> at_some_moment (history s) (begun s) (length (history s))
              (\<lambda>evs. reread_nodes (view r') = Store.Nodes (after_events K t NewMetrics evs))"
    and "purpose r' = purpose r" and "read_store (view r') = read_store (view r)" and "orders (view r') = orders (view r)"
  shows "build_inv K t s r'"
  using assms unfolding build_inv_def view_ok_def by auto

lemma build_next_inv:
  assumes "base_inv K t s" and "build_inv K t s r" and "main_phase s = Building r"
  shows "cluster_inv K t (build_next s r)"
proof (cases "stage r")
  case ReadingStores
  with assms show ?thesis
    by (cases "unread r")
      (auto simp: build_next_def cluster_inv_def intro!: cluster_inv_building build_inv_advance [OF assms(2)])
next
  case GpuRead
  have "\<forall>snap. latestSnapshot (merge_shown b r vs (sys_agent s)) = Some snap \<longrightarrow>
      snapshot_reflects K (history s) (shown_from s) (shown_to s) snap" for b vs
    using assms(1) by (intro merge_shown_reflects) (simp add: base_inv_def shown_inv_def)
  moreover have "latestSnapshot (sys_agent s) \<noteq> None \<Longrightarrow> shown_from s \<le> shown_to s \<and> shown_to s \<le> length (history s)"
    using assms(1) by (auto simp: base_inv_def shown_inv_def)
  ultimately have "base_inv K t (s\<lparr>main_phase := p, sys_store := Store.Pods_update (merge_back b r vs) (sys_store s),
      sys_agent := merge_shown b r vs' (sys_agent s)\<rparr>)" for p b vs vs'
    using assms(1) merge_shown_fields(9) [of b r vs' "sys_agent s"]
    by (auto simp: base_inv_def shown_inv_def plain_def simp del: merge_shown_fields(9))
  moreover have "build_inv K t (s\<lparr>main_phase := p, sys_store := x, sys_agent := merge_shown b r vs (sys_agent s)\<rparr>) (r\<lparr>stage := PodsMerged\<rparr>)" for p x b vs
    using assms(2) GpuRead by (cases "purpose r") (simp_all add: build_inv_def takes_snapshot_def)
  ultimately show ?thesis using GpuRead by (simp add: build_next_def cluster_inv_def)
next
  case PodsMerged
  have "Store.Nodes (sys_store s) = Store.Nodes (after_events K t NewMetrics (history s))"
    using assms(1) plain_fields(2) by (metis base_inv_def)
  then have "at_some_moment (history s) (begun s) (length (history s))
      (\<lambda>evs. Store.Nodes (sys_store s) = Store.Nodes (after_events K t NewMetrics evs))"
    using assms(2) by (intro at_this_moment) (simp_all add: build_inv_def)
  with assms PodsMerged show ?thesis
    by (auto simp: build_next_def intro!: cluster_inv_building build_inv_advance [OF assms(2)])
next
  case ReadingTimes
  show ?thesis
  proof (cases "unread r")
    case Nil
    with ReadingTimes assms show ?thesis by (simp add: build_next_def finish_build_inv)
  next
    case (Cons k ks)
    have "at_some_moment (history s) (begun s) (length (history s))
        (\<lambda>evs. reread_nodes (view r) = Store.Nodes (after_events K t NewMetrics evs))"
      using assms(2) ReadingTimes by (simp add: build_inv_def)
    with Cons ReadingTimes assms show ?thesis
      by (auto simp: build_next_def intro!: cluster_inv_building build_inv_advance [OF assms(2)])
  qed
qed (use assms in \<open>auto simp: build_next_def intro!: cluster_inv_building build_inv_advance [OF assms(2)]\<close>)

lemma loop_act_inv:
  assumes "base_inv K t s" and "\<And>now e. ev = Tick now e \<Longrightarrow> \<not> takes_snapshot now (sys_agent s)"
  shows "cluster_inv K t (loop_act ev s)"
proof -
  have "fst (loop_step ev (sys_agent s)) = sys_agent s"
    using assms(2) by (cases ev) (simp_all add: fst_loop_step)
  then show ?thesis
    using base_inv_agent [OF assms(1), of "fst (stop_collectors (loop_step ev (sys_agent s)))"]
    by (simp add: loop_act_def cluster_inv_def case_prod_unfold Let_def)
qed

lemma Run_all_failed:
  assumes "all_failed e a"
  shows "fst (Run e [] a) = snd (start_collectors e a)" and "\<exists>x. snd (Run e [] a) = Returned x"
  using assms by (auto simp: Run_def all_failed_def Let_def case_prod_unfold split: option.splits start_error.splits)

lemma start_act_inv:
  assumes "cluster_inv K t s" and "view_ok (counts_view e)" and "view_ok (env_view (first_env e))"
  shows "cluster_inv K t (start_act e s)"
proof -
  let ?a = "snd (start_collectors e (sys_agent s))"
  have base: "base_inv K t (s\<lparr>sys_agent := ?a\<rparr>)"
    using assms(1) by (intro base_inv_agent) (simp_all add: cluster_inv_def)
  with assms begin_build_inv [OF base, of "ForCounts e"] Run_all_failed [of e "sys_agent s"] show ?thesis
    by (auto simp: start_act_def planned_view_def cluster_inv_def case_prod_unfold Let_def)
qed

lemma main_pipeline_builder: "pipeline (builder (main_agent e caps)) = Some main_pipeline"
  by (simp add: main_agent_def NewAgent_def NewSnapshotBuilder_def Let_def)

lemma main_agent_latest: "latestSnapshot (main_agent e caps) = None"
  by (simp add: main_agent_def NewAgent_def Let_def)

lemma cluster_inv_start: "cluster_inv K (time_at_start e) (main_system e caps)"
  using main_agent_latest [of e caps] main_pipeline_builder [of e caps]
  by (simp add: main_system_def cluster_inv_def base_inv_def shown_inv_def after_events_def)

lemma poll_act_inv:
  assumes "cluster_inv K t s"
  shows "cluster_inv K t (usage_act K ev s)" and "cluster_inv K t (gpu_act ev' s)"
  using assms by (simp_all add: cluster_inv_def usage_act_def gpu_act_def Let_def)

lemma cluster_inv_step:
  assumes inv: "cluster_inv K t s" and ok: "act_ok act"
  shows "cluster_inv K t (sys_step K act s)"
proof -
  have base: "base_inv K t s" using inv by (simp add: cluster_inv_def)
  show ?thesis
  proof (cases act)
    case (ReadsKind k)
    with inv show ?thesis by (simp add: sys_step_def cluster_inv_def read_kind_inv split: main_phase.split)
  next
    case BuildNext
    have "cluster_inv K t (build_next s r)" if "main_phase s = Building r" for r
      using inv that by (intro build_next_inv) (simp_all add: cluster_inv_def)
    with inv BuildNext show ?thesis by (auto simp: sys_step_def split: main_phase.split)
  next
    case (TickFires now e)
    with inv ok base show ?thesis
      by (auto simp: sys_step_def tick_act_def act_ok_def planned_view_def intro!: loop_act_inv begin_build_inv)
  next
    case (ContextDone err)
    with inv base show ?thesis by (auto simp: sys_step_def intro!: loop_act_inv)
  qed (use inv ok in \<open>simp_all add: sys_step_def act_ok_def informer_act_inv start_act_inv poll_act_inv\<close>)
qed

lemma dispatch_Pods:
  "Store.Pods (fst (dispatch K now ev (st, m))) =
     (case Pod_of ev of None \<Rightarrow> Store.Pods st
      | Some e \<Rightarrow> fst (handle_event ''pods'' (PodToModel K) (\<lambda>info. podKey (PodInfo.Namespace info) (PodInfo.Name info)) Pod_okey now e (Store.Pods st, m)))"
  by (cases "Pod_of ev") (simp_all add: pods.own_event pods.other_event)

interpretation cluster: system_invariant K "\<lambda>s. s = main_system e caps" "cluster_inv K (time_at_start e)" for K e caps
  by unfold_locales (simp_all add: cluster_inv_start cluster_inv_step)

lemma example_objects:
  "objects Pod_of Pod_okey example_events = [''prod/web-2'' \<mapsto> example_pod ''web-2'' ''node-a'']"
  by (simp add: objects_def example_events_def event_projections cluster_event_def Pod_okey_def podKey_def example_pod_def fun_eq_iff)

end
