(* ===== verification/Build_Progress.thy ===== *)
theory Build_Progress
  imports Published
begin

text \<open>
  A build always ends: what the other goroutines do leaves it alone, and each of its own steps
  brings it nearer to its end.
\<close>

section \<open>The steps that a build has left\<close>

definition build_left :: "build_run \<Rightarrow> nat" where
  "build_left r =
     (case stage r of ReadingStores \<Rightarrow> length (unread r) + 28 | NodeUsageRead \<Rightarrow> 27 | PodUsageRead \<Rightarrow> 26
      | GpuRead \<Rightarrow> 25 | PodsMerged \<Rightarrow> 24 | ReadingTimes \<Rightarrow> length (unread r) + 1)"

text \<open>A step of the build that is possible: a read of a store that is still to be read, or the next in line.\<close>

definition next_own :: "build_run \<Rightarrow> ('q, 's) act" where
  "next_own r = (if stage r = ReadingStores \<and> unread r \<noteq> [] then ReadsKind (hd (unread r)) else BuildNext)"

definition own_act :: "('q, 's) act \<Rightarrow> bool" where
  "own_act act = (case act of ReadsKind k \<Rightarrow> True | BuildNext \<Rightarrow> True | _ \<Rightarrow> False)"

definition advances :: "('q, 's) kube \<Rightarrow> ('q, 's) act \<Rightarrow> ('q, 's) system \<Rightarrow> build_run \<Rightarrow> bool" where
  "advances K act s r \<longleftrightarrow>
     build_left r = 1 \<and> sys_step K act s = finish_build s r
     \<or> (case main_phase (sys_step K act s) of
          Building r' \<Rightarrow> purpose r' = purpose r \<and> build_left r' + 1 = build_left r | _ \<Rightarrow> False)"

lemma all_kinds_length [simp]: "length all_kinds = 22"
  by (simp add: all_kinds_def)

lemma read_kind_advances:
  assumes "main_phase s = Building r"
  shows "main_phase (sys_step K (ReadsKind k) s) = Building r \<or> advances K (ReadsKind k) s r"
    and "stage r = ReadingStores \<Longrightarrow> k \<in> set (unread r) \<Longrightarrow> advances K (ReadsKind k) s r"
proof -
  have "Suc (length (unread r) - Suc 0) = length (unread r)" if "k \<in> set (unread r)"
    using that by (cases "unread r") auto
  then show "stage r = ReadingStores \<Longrightarrow> k \<in> set (unread r) \<Longrightarrow> advances K (ReadsKind k) s r"
    using assms by (auto simp: advances_def sys_step_def read_kind_def build_left_def length_remove1)
  then show "main_phase (sys_step K (ReadsKind k) s) = Building r \<or> advances K (ReadsKind k) s r"
    using assms by (auto simp: sys_step_def read_kind_def)
qed

lemma build_next_advances:
  assumes "main_phase s = Building r" and "stage r \<noteq> ReadingStores \<or> unread r = []"
  shows "advances K BuildNext s r"
  using assms
  by (cases "stage r"; cases "unread r") (simp_all add: advances_def sys_step_def build_next_def build_left_def)

lemma other_acts_leave_build:
  assumes "main_phase s = Building r" and "\<not> own_act act"
  shows "main_phase (sys_step K act s) = Building r"
  using assms
  by (cases act)
    (simp_all add: own_act_def sys_step_def informer_act_def usage_act_def gpu_act_def start_act_def tick_act_def Let_def case_prod_unfold)



section \<open>The end of a build\<close>

text \<open>What the steps of a build leave alone until its end: of the agent, all but the figures in the latest snapshot.\<close>

definition same_run :: "('q, 's) system \<Rightarrow> ('q, 's) system \<Rightarrow> bool" where
  "same_run s s' \<longleftrightarrow> (sys_agent s')\<lparr>latestSnapshot := None\<rparr> = (sys_agent s)\<lparr>latestSnapshot := None\<rparr>
     \<and> history s' = history s \<and> begun s' = begun s \<and> sys_metrics s' = sys_metrics s"

lemma same_run_fields:
  assumes "same_run s s'"
  shows "ready (sys_agent s') = ready (sys_agent s)" "stateMachine (sys_agent s') = stateMachine (sys_agent s)"
    "builder (sys_agent s') = builder (sys_agent s)" "snapshotsTotal (sys_agent s') = snapshotsTotal (sys_agent s)"
    "history s' = history s" "begun s' = begun s"
proof -
  have "(sys_agent s')\<lparr>latestSnapshot := None\<rparr> = (sys_agent s)\<lparr>latestSnapshot := None\<rparr>" using assms by (simp add: same_run_def)
  then show "ready (sys_agent s') = ready (sys_agent s)" "stateMachine (sys_agent s') = stateMachine (sys_agent s)"
    "builder (sys_agent s') = builder (sys_agent s)" "snapshotsTotal (sys_agent s') = snapshotsTotal (sys_agent s)"
    by (cases "sys_agent s"; cases "sys_agent s'"; simp)+
  show "history s' = history s" "begun s' = begun s" using assms by (simp_all add: same_run_def)
qed

lemma own_step_same_run:
  assumes "main_phase s = Building r" and "build_left r \<noteq> 1"
  shows "same_run s (sys_step K (next_own r) s)"
  using assms
  by (cases "stage r"; cases "unread r")
    (simp_all add: same_run_def next_own_def sys_step_def build_next_def build_left_def merge_shown_def)

lemma same_run_trans: "same_run s s' \<Longrightarrow> same_run s' s'' \<Longrightarrow> same_run s s''"
  by (simp add: same_run_def)

lemma next_own_advances: "main_phase s = Building r \<Longrightarrow> advances K (next_own r) s r"
  using read_kind_advances(2) build_next_advances by (fastforce simp: next_own_def)

lemma build_left_pos: "build_left r \<noteq> 0"
  by (simp add: build_left_def split: build_stage.split)

lemma build_finishes:
  assumes "main_phase s = Building r"
  shows "\<exists>acts s' r'. list_all own_act acts \<and> length acts = build_left r \<and> fold (sys_step K) acts s = finish_build s' r'
     \<and> purpose r' = purpose r \<and> same_run s s'"
  using assms
proof (induction "build_left r" arbitrary: s r)
  case 0
  then show ?case using build_left_pos [of r] by simp
next
  case (Suc n)
  have own: "own_act (next_own r)" by (simp add: own_act_def next_own_def)
  from next_own_advances [OF Suc.prems, of K] consider
      "build_left r = 1" "sys_step K (next_own r) s = finish_build s r"
    | r' where "main_phase (sys_step K (next_own r) s) = Building r'" "purpose r' = purpose r" "build_left r' + 1 = build_left r"
    unfolding advances_def by (auto split: main_phase.splits)
  then show ?case
  proof cases
    case 1
    then show ?thesis using own by (intro exI [of _ "[next_own r]"] exI [of _ s] exI [of _ r]) (simp add: same_run_def)
  next
    case 2
    with Suc.hyps obtain acts s' r'' where "list_all own_act acts" "length acts = build_left r'"
      "fold (sys_step K) acts (sys_step K (next_own r) s) = finish_build s' r''" "purpose r'' = purpose r'"
      "same_run (sys_step K (next_own r) s) s'"
      by (metis Suc_eq_plus1 add_right_cancel)
    moreover have "same_run s (sys_step K (next_own r) s)"
      using 2 build_left_pos [of r'] by (intro own_step_same_run [OF Suc.prems]) simp
    ultimately show ?thesis using 2 own
      by (intro exI [of _ "next_own r # acts"] exI [of _ s'] exI [of _ r'']) (auto intro: same_run_trans)
  qed
qed

lemma become_ready_ready: "ready (become_ready e a)"
  by (simp add: become_ready_def Let_def)

lemma own_acts_ok: "list_all own_act acts \<Longrightarrow> list_all act_ok acts"
  by (auto simp: list_all_iff own_act_def act_ok_def split: act.splits)

lemma first_publication:
  fixes s :: "('q, 's) system"
  assumes "main_phase s = MainIdle" and "\<not> all_failed e (sys_agent s)"
  shows "\<exists>acts :: ('q, 's) act list. list_all own_act acts \<and> length acts = 100 \<and>
     (let s' = fold (sys_step K) (MainStarts e # acts) s in
        main_phase s' = Waiting \<and> latestSnapshot (sys_agent s') \<noteq> None \<and> ready (sys_agent s')
        \<and> state (stateMachine (sys_agent s')) = StateRunning
        \<and> history s' = history s \<and> shown_from s' = length (history s) \<and> shown_to s' = length (history s))"
proof -
  let ?s1 = "sys_step K (MainStarts e) s"
  obtain r1 where r1: "main_phase ?s1 = Building r1" "purpose r1 = ForCounts e" "build_left r1 = 50"
    and h1: "history ?s1 = history s"
    using assms by (simp add: sys_step_def start_act_def begin_build_def build_left_def Let_def)
  obtain acts1 s1' r1' where a1: "list_all own_act acts1" "length acts1 = 50" "fold (sys_step K) acts1 ?s1 = finish_build s1' r1'"
    "purpose r1' = ForCounts e" "same_run ?s1 s1'"
    using build_finishes [OF r1(1), of K] r1 by auto
  let ?s2 = "finish_build s1' r1'"
  obtain r2 where r2: "main_phase ?s2 = Building r2" "purpose r2 = ForFirst (first_env e)" "build_left r2 = 50"
    "history ?s2 = history s" "begun ?s2 = length (history s)" "ready (sys_agent ?s2)"
    "state (stateMachine (sys_agent ?s2)) = StateRunning"
    using a1(4) same_run_fields [OF a1(5)] h1
    by (simp add: finish_build_def begin_build_def build_left_def before_loop_fields become_ready_ready Let_def)
  obtain acts2 s2' r2' where a2: "list_all own_act acts2" "length acts2 = 50" "fold (sys_step K) acts2 ?s2 = finish_build s2' r2'"
    "purpose r2' = ForFirst (first_env e)" "same_run ?s2 s2'"
    using build_finishes [OF r2(1), of K] r2 by auto
  have "main_phase (finish_build s2' r2') = Waiting" "latestSnapshot (sys_agent (finish_build s2' r2')) \<noteq> None"
    "ready (sys_agent (finish_build s2' r2'))" "state (stateMachine (sys_agent (finish_build s2' r2'))) = StateRunning"
    "history (finish_build s2' r2') = history s" "shown_from (finish_build s2' r2') = length (history s)"
    "shown_to (finish_build s2' r2') = length (history s)"
    using a2(4) same_run_fields [OF a2(5)] r2(4-) by (simp_all add: finish_build_def doSnapshot_fields build_agent_def Let_def)
  with a1 a2 show ?thesis
    by (intro exI [of _ "acts1 @ acts2"]) (simp add: Let_def)
qed

lemma reachable_publication:
  assumes "reachable K s0 s" and "main_phase s = MainIdle" and "\<not> all_failed e (sys_agent s)"
    and "view_ok (counts_view e)" and "view_ok (env_view (first_env e))"
  shows "\<exists>s'. reachable K s0 s' \<and> main_phase s' = Waiting \<and> latestSnapshot (sys_agent s') \<noteq> None \<and> history s' = history s"
proof -
  obtain acts where acts: "list_all own_act acts"
    and end_state: "let s' = fold (sys_step K) (MainStarts e # acts) s
      in main_phase s' = Waiting \<and> latestSnapshot (sys_agent s') \<noteq> None \<and> history s' = history s"
    using first_publication [OF assms(2,3), of K] unfolding Let_def by blast
  have "reachable K s0 (fold (sys_step K) (MainStarts e # acts) s)"
    using assms(1) own_acts_ok [OF acts] assms(4,5) by (intro reachable_run) (simp_all add: act_ok_def)
  with end_state show ?thesis unfolding Let_def by blast
qed

section \<open>The first snapshot\<close>

text \<open>The steps of the collectors' goroutines.\<close>

definition collector_act :: "('q, 's) act \<Rightarrow> bool" where
  "collector_act act = (case act of InformerEvent now ev \<Rightarrow> True | UsagePoller ev \<Rightarrow> True | GpuPoller ev \<Rightarrow> True | _ \<Rightarrow> False)"

lemma collector_acts_leave_agent:
  "list_all collector_act acts \<Longrightarrow>
   main_phase (fold (sys_step K) acts s) = main_phase s \<and> sys_agent (fold (sys_step K) acts s) = sys_agent s"
proof (induction acts arbitrary: s)
  case (Cons act acts)
  have "main_phase (sys_step K act s) = main_phase s \<and> sys_agent (sys_step K act s) = sys_agent s"
    using Cons.prems
    by (cases act) (simp_all add: collector_act_def sys_step_def informer_act_def usage_act_def gpu_act_def Let_def case_prod_unfold)
  with Cons show ?case by simp
qed simp

lemma collector_acts_ok: "list_all collector_act acts \<Longrightarrow> list_all act_ok acts"
  by (auto simp: list_all_iff collector_act_def act_ok_def split: act.splits)

text \<open>
  C7. Whatever the collectors have done before, once the agent runs and not all collectors fail to
  start, it comes to publish a first snapshot by 101 steps of its own and then waits for a tick,
  ready and running; when nothing else happens meanwhile, the snapshot shows the cluster
  as it is.
\<close>

theorem first_snapshot_published:
  fixes K :: "('q, 's) kube" and env :: "('q, 'b) main_env" and caps :: Capabilities
  assumes "list_all collector_act before" and "\<not> all_failed e (main_agent env caps)"
    and "view_ok (counts_view e)" and "view_ok (env_view (first_env e))"
  shows "\<exists>acts :: ('q, 's) act list. list_all own_act acts \<and> length acts = 100 \<and>
     (let s = fold (sys_step K) (before @ MainStarts e # acts) (main_system env caps); n = length (history s) in
        main_phase s = Waiting \<and> ready (sys_agent s) \<and> state (stateMachine (sys_agent s)) = StateRunning
        \<and> history s = history (fold (sys_step K) before (main_system env caps))
        \<and> (\<exists>snap. latestSnapshot (sys_agent s) = Some snap \<and> snapshot_reflects K (history s) n n snap))"
proof -
  let ?s0 = "fold (sys_step K) before (main_system env caps)"
  have s0: "main_phase ?s0 = MainIdle" "sys_agent ?s0 = main_agent env caps"
    using collector_acts_leave_agent [OF assms(1), of K "main_system env caps"] by (simp_all add: main_system_def)
  obtain acts where acts: "list_all own_act acts" "length acts = 100"
    and end_state: "let s = fold (sys_step K) (MainStarts e # acts) ?s0 in main_phase s = Waiting \<and> latestSnapshot (sys_agent s) \<noteq> None
        \<and> ready (sys_agent s) \<and> state (stateMachine (sys_agent s)) = StateRunning
        \<and> history s = history ?s0 \<and> shown_from s = length (history ?s0) \<and> shown_to s = length (history ?s0)"
    using first_publication [of ?s0 e K] s0 assms(2) by auto
  let ?all = "before @ MainStarts e # acts" and ?s = "fold (sys_step K) (MainStarts e # acts) ?s0"
  have "list_all act_ok ?all"
    using collector_acts_ok [OF assms(1)] own_acts_ok [OF acts(1)] assms(3,4) by (simp add: act_ok_def)
  then have "reachable K (main_system env caps) (fold (sys_step K) ?all (main_system env caps))"
    by (intro reachable_run reachable_start)
  from cluster.reachable_inv [OF this refl] have "shown_inv K ?s" by (simp add: cluster_inv_def base_inv_def)
  then have "\<exists>snap. latestSnapshot (sys_agent ?s) = Some snap \<and> snapshot_reflects K (history ?s) (length (history ?s)) (length (history ?s)) snap"
    using end_state unfolding shown_inv_def Let_def by (metis option.exhaust)
  with acts end_state show ?thesis by (intro exI [of _ acts]) (simp add: Let_def)
qed

theorem first_snapshot_published_witness:
  "\<exists>acts :: (nat, string) act list. length acts = 100 \<and>
     latestSnapshot (sys_agent (fold (sys_step example_kube)
       (map (\<lambda>(now, ev). InformerEvent now ev) example_events @ MainStarts (example_run 200) # acts)
       (main_system example_main example_caps))) \<noteq> None"
proof -
  let ?before = "map (\<lambda>(now, ev). InformerEvent now ev) example_events :: (nat, string) act list"
  have h: "list_all collector_act ?before" "view_ok (counts_view (example_run 200))" "view_ok (env_view (first_env (example_run 200)))"
    by (simp_all add: example_events_def collector_act_def view_ok_def example_run_def example_env_def)
  show ?thesis
    using first_snapshot_published [OF h(1) example_main_starts h(2,3), of example_kube] unfolding Let_def by (metis option.distinct(1))
qed

end
