(* ===== verification/Running_Agent.thy ===== *)
theory Running_Agent
  imports Build_Progress
begin

text \<open>
  The agent inside the running program: which of its states go with which phase of the main
  goroutine, what the probes of the health server answer there, and when \<^verbatim>\<open>Run\<close> returns.
\<close>

section \<open>The phases\<close>

text \<open>Before the first synchronisation is over; after it; and once a snapshot has been published.\<close>

definition fresh :: "Agent \<Rightarrow> bool" where
  "fresh a \<longleftrightarrow> \<not> ready a \<and> latestSnapshot a = None \<and> state (stateMachine a) = StateStarting
     \<and> snapshotsTotal a = 0 \<and> snapshotsSent a = 0 \<and> snapshotsFailed a = 0"

definition opened :: "Agent \<Rightarrow> bool" where
  "opened a \<longleftrightarrow> ready a \<and> state (stateMachine a) = StateRunning \<and> snapshotsTotal a = snapshotsSent a + snapshotsFailed a"

definition phase_inv :: "('q, 's) system \<Rightarrow> bool" where
  "phase_inv s \<longleftrightarrow>
    (let a = sys_agent s; live = opened a \<and> latestSnapshot a \<noteq> None in
     case main_phase s of
       MainIdle \<Rightarrow> fresh a
     | Building r \<Rightarrow> (case purpose r of ForCounts e \<Rightarrow> fresh a | ForFirst e \<Rightarrow> opened a \<and> latestSnapshot a = None | ForTick now e \<Rightarrow> live)
     | Waiting \<Rightarrow> live
     | MainReturned x \<Rightarrow> x \<noteq> None \<and> (fresh a \<or> live))"

lemma opened_doSnapshot:
  assumes "opened a"
  shows "opened (doSnapshot e a)"
  using assms by (simp add: opened_def doSnapshot_fields)

lemma opened_become_ready:
  assumes "fresh a"
  shows "opened (become_ready e a)"
  using assms by (simp add: opened_def fresh_def before_loop_fields become_ready_ready)

lemma build_agent_phase [simp]:
  "fresh (build_agent s r) \<longleftrightarrow> fresh (sys_agent s)" "opened (build_agent s r) \<longleftrightarrow> opened (sys_agent s)"
  by (simp_all add: fresh_def opened_def build_agent_def)

lemma merge_shown_phase [simp]:
  "fresh (merge_shown b r vs a) \<longleftrightarrow> fresh a" "opened (merge_shown b r vs a) \<longleftrightarrow> opened a"
  "(\<exists>y. latestSnapshot (merge_shown b r vs a) = Some y) \<longleftrightarrow> (\<exists>y. latestSnapshot a = Some y)"
  by (simp_all add: fresh_def opened_def) (simp add: merge_shown_def)

lemma start_collectors_phase: "fresh a \<Longrightarrow> fresh (snd (start_collectors e a))"
  by (simp add: fresh_def) (simp add: start_collectors_def SetCancelFunc_def Let_def case_prod_unfold)

text \<open>A tick of a running agent takes a snapshot, and the loop goes on.\<close>

lemma loop_step_running:
  assumes "opened a"
  shows "loop_step (Tick now e) a = (doSnapshot e a, StillRunning)"
  using assms opened_doSnapshot [OF assms, of e] by (simp add: loop_step_def opened_def Let_def)

lemma stop_collectors_running [simp]: "stop_collectors (a, StillRunning) = (a, StillRunning)"
  by (simp add: stop_collectors_def)

lemma finish_build_phase:
  assumes "phase_inv s" and "main_phase s = Building r"
  shows "phase_inv (finish_build s r)"
proof (cases "purpose r")
  case (ForCounts e)
  with assms show ?thesis
    by (simp add: phase_inv_def finish_build_def begin_build_def opened_become_ready before_loop_fields Let_def) (simp add: fresh_def)
next
  case (ForFirst e)
  with assms show ?thesis
    by (simp add: phase_inv_def finish_build_def opened_doSnapshot doSnapshot_fields(6) Let_def)
next
  case (ForTick now e)
  with assms show ?thesis
    by (simp add: phase_inv_def finish_build_def loop_step_running opened_doSnapshot doSnapshot_fields(6) main_result_def Let_def)
qed

lemma build_next_phase:
  assumes "phase_inv s" and "main_phase s = Building r"
  shows "phase_inv (build_next s r)"
  using assms finish_build_phase [OF assms]
  by (cases "stage r"; cases "unread r"; cases "purpose r") (simp_all add: build_next_def phase_inv_def Let_def)

lemma start_act_phase:
  assumes "phase_inv s"
  shows "phase_inv (start_act e s)"
proof (cases "main_phase s = MainIdle \<and> all_failed e (sys_agent s)")
  case True
  then obtain x where "snd (Run e [] (sys_agent s)) = Returned (Some x)"
    by (auto simp: Run_def all_failed_def Let_def case_prod_unfold split: option.splits start_error.splits)
  with True assms show ?thesis
    by (simp add: start_act_def phase_inv_def Run_all_failed case_prod_unfold main_result_def start_collectors_phase Let_def)
qed (use assms in \<open>auto simp: start_act_def phase_inv_def begin_build_def start_collectors_phase Let_def\<close>)

lemma waiting_agent:
  assumes "phase_inv s" and "main_phase s = Waiting"
  shows "opened (sys_agent s)" and "latestSnapshot (sys_agent s) \<noteq> None" and "takes_snapshot now (sys_agent s)"
  using assms by (simp_all add: phase_inv_def opened_def takes_snapshot_def Let_def)

lemma phase_inv_step:
  assumes "phase_inv s"
  shows "phase_inv (sys_step K act s)"
proof (cases act)
  case (InformerEvent now ev)
  with assms show ?thesis by (simp add: sys_step_def informer_act_def phase_inv_def Let_def case_prod_unfold)
next
  case (UsagePoller ev)
  with assms show ?thesis by (simp add: sys_step_def usage_act_def phase_inv_def Let_def)
next
  case (GpuPoller ev)
  with assms show ?thesis by (simp add: sys_step_def gpu_act_def phase_inv_def)
next
  case (MainStarts e)
  with assms show ?thesis by (simp add: sys_step_def start_act_phase)
next
  case (ReadsKind k)
  with assms show ?thesis by (auto simp: sys_step_def phase_inv_def read_kind_def split: main_phase.splits)
next
  case BuildNext
  with assms show ?thesis by (auto simp: sys_step_def build_next_phase split: main_phase.splits)
next
  case (TickFires now e)
  with assms waiting_agent [OF assms] show ?thesis
    by (auto simp: sys_step_def tick_act_def phase_inv_def begin_build_def Let_def)
next
  case (ContextDone err)
  with assms waiting_agent [OF assms] show ?thesis
    by (auto simp: sys_step_def loop_act_def loop_step_def stop_collectors_def phase_inv_def main_result_def opened_def Let_def)
qed

lemma phase_inv_start: "phase_inv (main_system e caps)"
  by (simp add: phase_inv_def main_system_def fresh_def main_agent_def NewAgent_def NewStateMachine_def Let_def)

interpretation phases: system_invariant K "\<lambda>s. s = main_system e caps" phase_inv for K e caps
  by unfold_locales (simp_all add: phase_inv_start phase_inv_step)

section \<open>What the probes see\<close>

text \<open>
  C8. In every reachable state the agent is ready exactly when it is in its running state, and otherwise
  it is still starting: it never backs off, stops or exits. It is ready from the end of the first synchronisation
  on, and a snapshot is there from the end of the first build for the backend on; \<^verbatim>\<open>/readyz\<close> and
  \<^verbatim>\<open>/debug/snapshot\<close> tell the one and the other. Every snapshot is counted once, as
  sent or as failed. \<^verbatim>\<open>Run\<close> returns with an error or not at all.
\<close>

theorem running_agent_phases:
  assumes "reachable K (main_system env caps) s"
  defines "a \<equiv> sys_agent s"
  shows "state (stateMachine a) = (if ready a then StateRunning else StateStarting)
       \<and> snapshotsTotal a = snapshotsSent a + snapshotsFailed a
       \<and> (case main_phase s of
            MainIdle \<Rightarrow> \<not> ready a
          | Building r \<Rightarrow> (ready a \<longleftrightarrow> (\<forall>e. purpose r \<noteq> ForCounts e)) \<and> (latestSnapshot a \<noteq> None \<longleftrightarrow> (\<exists>now e. purpose r = ForTick now e))
          | Waiting \<Rightarrow> ready a \<and> latestSnapshot a \<noteq> None
          | MainReturned x \<Rightarrow> x \<noteq> None \<and> (ready a \<longleftrightarrow> latestSnapshot a \<noteq> None))
       \<and> status (serve pg (NewServer port dbg) a st ''/readyz'') = (if ready a then 200 else 503)
       \<and> status (serve pg (NewServer port True) a st ''/debug/snapshot'') = (if latestSnapshot a = None then 204 else 200)"
proof -
  have inv: "phase_inv s" by (rule phases.reachable_inv [OF assms(1) refl])
  have "state (stateMachine a) = (if ready a then StateRunning else StateStarting) \<and> snapshotsTotal a = snapshotsSent a + snapshotsFailed a"
    using inv by (auto simp: a_def phase_inv_def fresh_def opened_def Let_def split: main_phase.splits build_purpose.splits)
  moreover have "case main_phase s of MainIdle \<Rightarrow> \<not> ready a
      | Building r \<Rightarrow> (ready a \<longleftrightarrow> (\<forall>e. purpose r \<noteq> ForCounts e)) \<and> (latestSnapshot a \<noteq> None \<longleftrightarrow> (\<exists>now e. purpose r = ForTick now e))
      | Waiting \<Rightarrow> ready a \<and> latestSnapshot a \<noteq> None
      | MainReturned x \<Rightarrow> x \<noteq> None \<and> (ready a \<longleftrightarrow> latestSnapshot a \<noteq> None)"
    using inv by (auto simp: a_def phase_inv_def fresh_def opened_def Let_def split: main_phase.splits build_purpose.splits)
  moreover have "mux_handler (routes (NewServer port dbg)) ''/readyz'' = Some Readyz" for port dbg
    by (cases dbg) (simp_all add: NewServer_def mux_public mux_all, simp_all add: public_routes_def debug_routes_def)
  moreover have "mux_handler (routes (NewServer port True)) ''/debug/snapshot'' = Some DebugSnapshot" for port
    by (simp add: NewServer_def mux_all, simp add: public_routes_def debug_routes_def)
  ultimately show ?thesis
    by (simp add: serve_def handleReadyz_def IsReady_def handleDebugSnapshot_def LatestSnapshot_def split: option.split)
qed

text \<open>A program that has published its first snapshot.\<close>

theorem running_agent_phases_witness:
  "\<exists>s. reachable example_kube (main_system example_main example_caps) s \<and> main_phase s = Waiting
     \<and> (\<forall>pg. status (serve pg (NewServer 8080 True) (sys_agent s) (sys_store s) ''/readyz'') = 200
          \<and> status (serve pg (NewServer 8080 True) (sys_agent s) (sys_store s) ''/debug/snapshot'') = 200)"
proof -
  let ?s0 = "main_system example_main example_caps :: (nat, string) system"
  obtain s where s: "reachable example_kube ?s0 s" "main_phase s = Waiting"
    using reachable_publication [OF reachable_start, of ?s0 "example_run 200" example_kube] example_main_starts
    by (auto simp: main_system_def view_ok_def example_run_def example_env_def)
  from running_agent_phases [OF s(1)] s(2)
  have "ready (sys_agent s)" "latestSnapshot (sys_agent s) \<noteq> None" by simp_all
  with running_agent_phases [OF s(1)] s show ?thesis by (intro exI [of _ s]) (simp only: if_True if_False simp_thms)
qed

end
