(* ===== verification/Fair_Runs.thy ===== *)
theory Fair_Runs
  imports Running_Agent
begin

text \<open>
  Endless runs of the program. When the main goroutine is not starved (it takes a step again and
  again, and the ticker keeps firing while it waits), newer and newer snapshots are published,
  whatever the other goroutines do in between.
\<close>

section \<open>Steps of the main goroutine\<close>

definition progresses :: "('q, 's) act \<Rightarrow> ('q, 's) system \<Rightarrow> bool" where
  "progresses act s =
     (case main_phase s of
        MainIdle \<Rightarrow> (case act of MainStarts e \<Rightarrow> True | _ \<Rightarrow> False)
      | Building r \<Rightarrow>
          (case act of
             ReadsKind k \<Rightarrow> stage r = ReadingStores \<and> k \<in> set (unread r)
           | BuildNext \<Rightarrow> stage r \<noteq> ReadingStores \<or> unread r = []
           | _ \<Rightarrow> False)
      | Waiting \<Rightarrow> (case act of TickFires now e \<Rightarrow> True | _ \<Rightarrow> False)
      | MainReturned x \<Rightarrow> False)"

definition is_run :: "('q, 's) kube \<Rightarrow> (nat \<Rightarrow> ('q, 's) system) \<Rightarrow> (nat \<Rightarrow> ('q, 's) act) \<Rightarrow> bool" where
  "is_run K st act \<longleftrightarrow> (\<forall>n. act_ok (act n) \<and> st (Suc n) = sys_step K (act n) (st n))"

definition fair :: "(nat \<Rightarrow> ('q, 's) system) \<Rightarrow> (nat \<Rightarrow> ('q, 's) act) \<Rightarrow> bool" where
  "fair st act \<longleftrightarrow> (\<forall>n. \<exists>m\<ge>n. progresses (act m) (st m))"

text \<open>
  A measure that no step increases and every step of the main goroutine decreases leads to
  the goal.
\<close>

lemma fair_run_leads_to:
  fixes \<mu> :: "('q, 's) system \<Rightarrow> nat"
  assumes run: "is_run K st act" and fair: "fair st act" and start: "P (st n)"
    and safe: "\<And>s act. P s \<Longrightarrow> act_ok act \<Longrightarrow> Q (sys_step K act s) \<or> P (sys_step K act s) \<and> \<mu> (sys_step K act s) \<le> \<mu> s"
    and live: "\<And>s act. P s \<Longrightarrow> act_ok act \<Longrightarrow> progresses act s \<Longrightarrow> Q (sys_step K act s) \<or> P (sys_step K act s) \<and> \<mu> (sys_step K act s) < \<mu> s"
  shows "\<exists>m>n. Q (st m)"
  using start
proof (induction "\<mu> (st n)" arbitrary: n rule: less_induct)
  case less
  have next_state: "st (Suc i) = sys_step K (act i) (st i)" "act_ok (act i)" for i using run by (simp_all add: is_run_def)
  obtain m where m: "n \<le> m" "progresses (act m) (st m)" using fair by (auto simp: fair_def)
  have until: "(\<exists>i. n < i \<and> i \<le> n + d \<and> Q (st i)) \<or> P (st (n + d)) \<and> \<mu> (st (n + d)) \<le> \<mu> (st n)" for d
  proof (induction d)
    case (Suc d)
    from Suc.IH show ?case
    proof (elim disjE)
      assume "P (st (n + d)) \<and> \<mu> (st (n + d)) \<le> \<mu> (st n)"
      with safe [of "st (n + d)" "act (n + d)"] next_state [of "n + d"]
      have "Q (st (n + Suc d)) \<or> P (st (n + Suc d)) \<and> \<mu> (st (n + Suc d)) \<le> \<mu> (st n)" by auto
      then show ?thesis by auto
    qed (blast intro: le_trans [OF _ add_le_mono [OF order_refl lessI [THEN less_imp_le]]])
  qed (use less.prems in simp)
  show ?case
  proof (cases "\<exists>i>n. Q (st i)")
    case False
    then have "P (st m)" "\<mu> (st m) \<le> \<mu> (st n)" using until [of "m - n"] m(1) by auto
    moreover have "\<not> Q (st (Suc m))" using False m(1) by (simp add: le_imp_less_Suc)
    ultimately have "P (st (Suc m))" "\<mu> (st (Suc m)) < \<mu> (st n)"
      using live [of "st m" "act m"] next_state [of m] m(2) by simp_all
    from less.hyps [OF this(2,1)] obtain i where "i > Suc m" "Q (st i)" by blast
    with m(1) False show ?thesis by simp
  qed simp
qed

section \<open>The measure\<close>

text \<open>The steps that the main goroutine has left, at most, until it publishes a snapshot whose build began after \<open>h\<close> events.\<close>

definition steps_to_fresh :: "nat \<Rightarrow> ('q, 's) system \<Rightarrow> nat" where
  "steps_to_fresh h s =
     (case main_phase s of
        MainIdle \<Rightarrow> 200
      | Building r \<Rightarrow>
          (case purpose r of ForCounts e \<Rightarrow> build_left r + 60 | _ \<Rightarrow> if h \<le> begun s then build_left r else build_left r + 51)
      | Waiting \<Rightarrow> 51
      | MainReturned x \<Rightarrow> 0)"

definition published_since :: "nat \<Rightarrow> ('q, 's) system \<Rightarrow> bool" where
  "published_since h s \<longleftrightarrow> latestSnapshot (sys_agent s) \<noteq> None \<and> h \<le> shown_from s"

definition has_seen :: "nat \<Rightarrow> ('q, 's) system \<Rightarrow> bool" where
  "has_seen h s \<longleftrightarrow> phase_inv s \<and> h \<le> length (history s)"

lemma history_grows: "length (history s) \<le> length (history (sys_step K act s))"
  by (cases act)
    (auto simp: sys_step_def informer_act_def usage_act_def gpu_act_def start_act_def tick_act_def loop_act_def begin_build_def
      build_next_def finish_build_def Let_def case_prod_unfold
      split: main_phase.split build_stage.split list.split build_purpose.split)

lemma has_seen_step: "has_seen h s \<Longrightarrow> has_seen h (sys_step K act s)"
  using history_grows le_trans by (fastforce simp: has_seen_def phase_inv_step)

lemma begin_build_phase [simp]:
  "main_phase (begin_build p s) = Building r \<longleftrightarrow> r = \<lparr>purpose = p, stage = ReadingStores, unread = all_kinds, view = planned_view p,
      usage_read = SnapshotBuilder.metricsStore (builder (sys_agent s)), gpu_read = gpuCollector (builder (sys_agent s)), versions_read = (\<lambda>_. 0)\<rparr>"
  by (auto simp: begin_build_def Let_def)

text \<open>A step during a build leaves it alone, brings it nearer to its end, or ends it.\<close>

definition nearer :: "('q, 's) system \<Rightarrow> build_run \<Rightarrow> ('q, 's) system \<Rightarrow> bool" where
  "nearer s r s' \<longleftrightarrow> (\<exists>r'. main_phase s' = Building r' \<and> purpose r' = purpose r \<and> build_left r' + 1 = build_left r \<and> begun s' = begun s)"

lemma build_next_cases:
  "main_phase s = Building r \<Longrightarrow>
   (if stage r \<noteq> ReadingStores \<or> unread r = [] then build_next s r = finish_build s r \<or> nearer s r (build_next s r) else build_next s r = s)"
  by (cases "stage r"; cases "unread r") (simp_all add: build_next_def nearer_def build_left_def)

lemma read_kind_cases:
  assumes "main_phase s = Building r"
  shows "if stage r = ReadingStores \<and> k \<in> set (unread r) then nearer s r (sys_step K (ReadsKind k) s) else sys_step K (ReadsKind k) s = s"
proof -
  have "Suc (length (unread r) - Suc 0) = length (unread r)" if "k \<in> set (unread r)"
    using that by (cases "unread r") auto
  then show ?thesis using assms by (auto simp: nearer_def sys_step_def read_kind_def build_left_def length_remove1)
qed

lemma building_step:
  assumes "main_phase s = Building r"
  shows "main_phase (sys_step K act s) = Building r \<and> begun (sys_step K act s) = begun s \<and> \<not> progresses act s
     \<or> nearer s r (sys_step K act s) \<or> sys_step K act s = finish_build s r"
proof (cases act)
  case (ReadsKind k)
  with read_kind_cases [OF assms, of k K] assms show ?thesis by (auto simp: progresses_def split: if_splits)
next
  case BuildNext
  with build_next_cases [OF assms] assms show ?thesis by (auto simp: progresses_def sys_step_def split: if_splits)
qed (use assms in \<open>simp_all add: progresses_def sys_step_def informer_act_def usage_act_def gpu_act_def start_act_def tick_act_def
    Let_def case_prod_unfold\<close>)

lemma begin_build_left [simp]: "build_left \<lparr>purpose = p, stage = ReadingStores, unread = all_kinds, view = v, usage_read = u, gpu_read = g, versions_read = vs\<rparr> = 50"
  by (simp add: build_left_def)

lemma steps_to_fresh_begin:
  assumes "h \<le> length (history s)"
  shows "steps_to_fresh h (begin_build p s) = (case p of ForCounts e \<Rightarrow> 110 | _ \<Rightarrow> 50)"
  using assms by (simp add: steps_to_fresh_def begin_build_def Let_def split: build_purpose.split)

lemma finish_build_fresh:
  assumes "has_seen h s" and "main_phase s = Building r"
  shows "published_since h (finish_build s r) \<or> steps_to_fresh h (finish_build s r) < steps_to_fresh h s"
proof (cases "purpose r")
  case (ForCounts e)
  with assms show ?thesis
    by (simp add: finish_build_def Let_def steps_to_fresh_begin has_seen_def)
      (simp add: steps_to_fresh_def)
next
  case (ForFirst e)
  with assms build_left_pos [of r] show ?thesis
    by (auto simp: finish_build_def Let_def published_since_def steps_to_fresh_def doSnapshot_fields)
next
  case (ForTick now e)
  with assms build_left_pos [of r] show ?thesis
    by (auto simp: finish_build_def Let_def published_since_def steps_to_fresh_def has_seen_def phase_inv_def loop_step_running
        doSnapshot_fields main_result_def)
qed

lemma steps_to_fresh_building:
  assumes "has_seen h s" and "main_phase s = Building r"
  shows "published_since h (sys_step K act s) \<or> steps_to_fresh h (sys_step K act s) < steps_to_fresh h s
     \<or> \<not> progresses act s \<and> steps_to_fresh h (sys_step K act s) = steps_to_fresh h s"
  using building_step [OF assms(2), of K act]
proof (elim disjE)
  assume "sys_step K act s = finish_build s r"
  then show ?thesis using finish_build_fresh [OF assms] by auto
next
  assume "nearer s r (sys_step K act s)"
  then show ?thesis using assms(2) by (cases "purpose r") (auto simp: nearer_def steps_to_fresh_def)
qed (use assms(2) in \<open>simp add: steps_to_fresh_def\<close>)

lemma steps_to_fresh_step:
  assumes "has_seen h s"
  shows "published_since h (sys_step K act s) \<or> steps_to_fresh h (sys_step K act s) < steps_to_fresh h s
     \<or> \<not> progresses act s \<and> steps_to_fresh h (sys_step K act s) = steps_to_fresh h s"
proof (cases "main_phase s")
  case (Building r)
  then show ?thesis using steps_to_fresh_building [OF assms] by blast
next
  case MainIdle
  have "steps_to_fresh h (start_act e s) < 200" for e
  proof (cases "all_failed e (sys_agent s)")
    case True
    then obtain x where "snd (Run e [] (sys_agent s)) = Returned x" using Run_all_failed(2) by blast
    with True MainIdle show ?thesis by (simp add: start_act_def case_prod_unfold main_result_def steps_to_fresh_def Let_def)
  next
    case False
    with MainIdle assms show ?thesis by (simp add: start_act_def steps_to_fresh_begin has_seen_def)
  qed
  with MainIdle show ?thesis
    by (cases act) (simp_all add: sys_step_def steps_to_fresh_def progresses_def informer_act_def usage_act_def gpu_act_def tick_act_def
        Let_def case_prod_unfold)
next
  case Waiting
  then have takes: "takes_snapshot now (sys_agent s)" for now using assms by (intro waiting_agent) (simp_all add: has_seen_def)
  have "steps_to_fresh h (tick_act now e s) < 51" for now e
    using Waiting assms takes by (simp add: tick_act_def steps_to_fresh_begin has_seen_def)
  with Waiting show ?thesis
    by (cases act) (simp_all add: sys_step_def steps_to_fresh_def progresses_def informer_act_def usage_act_def gpu_act_def start_act_def
        loop_act_def loop_step_def stop_collectors_def main_result_def Let_def case_prod_unfold)
next
  case (MainReturned x)
  then show ?thesis
    by (cases act) (simp_all add: sys_step_def steps_to_fresh_def progresses_def informer_act_def usage_act_def gpu_act_def start_act_def
        tick_act_def Let_def case_prod_unfold)
qed

section \<open>Snapshots keep coming\<close>

lemma run_reachable:
  assumes "is_run K st act" and "reachable K s0 (st 0)"
  shows "reachable K s0 (st n)"
  using assms by (induction n) (auto simp: is_run_def intro: reachable_step)

text \<open>
  C3. In every endless run in which the main goroutine is not starved, whatever the informers and
  pollers do meanwhile: after every moment comes one at which a snapshot is published
  whose build began after that moment, and which shows the cluster as it was during that build.
\<close>

theorem fresh_snapshots_keep_coming:
  fixes K :: "('q, 's) kube"
  assumes "is_run K st act" and "fair st act" and "reachable K (main_system env caps) (st 0)"
  shows "\<exists>m>n. \<exists>snap. latestSnapshot (sys_agent (st m)) = Some snap
     \<and> length (history (st n)) \<le> shown_from (st m)
     \<and> snapshot_reflects K (history (st m)) (shown_from (st m)) (shown_to (st m)) snap"
proof -
  let ?h = "length (history (st n))"
  have "has_seen ?h (st n)"
    using phases.reachable_inv [OF run_reachable [OF assms(1,3)] refl, of n] by (simp add: has_seen_def)
  then have "\<exists>m>n. published_since ?h (st m)"
  proof (rule fair_run_leads_to [OF assms(1,2), where \<mu> = "steps_to_fresh ?h" and P = "has_seen ?h"])
    fix s :: "('q, 's) system" and act assume seen: "has_seen ?h s"
    show "published_since ?h (sys_step K act s) \<or> has_seen ?h (sys_step K act s) \<and> steps_to_fresh ?h (sys_step K act s) \<le> steps_to_fresh ?h s"
      using steps_to_fresh_step [OF seen, of K act] has_seen_step [OF seen, of K act] by linarith
    show "published_since ?h (sys_step K act s) \<or> has_seen ?h (sys_step K act s) \<and> steps_to_fresh ?h (sys_step K act s) < steps_to_fresh ?h s"
      if "progresses act s"
      using steps_to_fresh_step [OF seen, of K act] has_seen_step [OF seen, of K act] that by blast
  qed
  then obtain m snap where m: "m > n" "latestSnapshot (sys_agent (st m)) = Some snap" "?h \<le> shown_from (st m)"
    by (auto simp: published_since_def)
  moreover have "shown_inv K (st m)"
    using cluster.reachable_inv [OF run_reachable [OF assms(1,3)] refl, of m] by (simp add: cluster_inv_def base_inv_def)
  ultimately show ?thesis by (auto simp: shown_inv_def)
qed

section \<open>A run\<close>

text \<open>The main goroutine alone, with a ticker that always fires at once.\<close>

definition main_act :: "run_env \<Rightarrow> ('q, 's) system \<Rightarrow> ('q, 's) act" where
  "main_act e s = (case main_phase s of MainIdle \<Rightarrow> MainStarts e | Building r \<Rightarrow> next_own r | _ \<Rightarrow> TickFires 0 (first_env e))"

primrec lone_run :: "('q, 's) kube \<Rightarrow> run_env \<Rightarrow> ('q, 's) system \<Rightarrow> nat \<Rightarrow> ('q, 's) system" where
  "lone_run K e s 0 = s"
| "lone_run K e s (Suc n) = (let s' = lone_run K e s n in sys_step K (main_act e s') s')"

lemma main_act_progresses: "(\<And>x. main_phase s \<noteq> MainReturned x) \<Longrightarrow> progresses (main_act e s) s"
  by (cases "main_phase s") (auto simp: progresses_def main_act_def next_own_def)

text \<open>\<^verbatim>\<open>Run\<close> returns only when its context is done or all collectors fail to start.\<close>

lemma returns_only:
  assumes "phase_inv s" and "main_phase (sys_step K act s) = MainReturned x"
  shows "main_phase s = MainReturned x \<or> (\<exists>err. act = ContextDone err) \<or> (\<exists>e. act = MainStarts e \<and> main_phase s = MainIdle \<and> all_failed e (sys_agent s))"
proof (cases "main_phase s")
  case (Building r)
  have "main_phase (finish_build s r) \<noteq> MainReturned x"
    using assms(1) Building
    by (cases "purpose r") (auto simp: finish_build_def begin_build_def phase_inv_def loop_step_running main_result_def Let_def)
  with building_step [OF Building, of K act] assms(2) show ?thesis by (auto simp: nearer_def)
next
  case Waiting
  then show ?thesis
    using assms waiting_agent [OF assms(1)] 
    by (cases act) (auto simp: sys_step_def informer_act_def usage_act_def gpu_act_def start_act_def tick_act_def begin_build_def
        Let_def case_prod_unfold)
qed (use assms in \<open>cases act; auto simp: sys_step_def informer_act_def usage_act_def gpu_act_def start_act_def tick_act_def begin_build_def
        Let_def case_prod_unfold split: if_splits\<close>)+

lemma idle_only:
  assumes "main_phase (sys_step K act s) = MainIdle"
  shows "main_phase s = MainIdle \<and> (\<forall>e. act \<noteq> MainStarts e)"
proof (cases "main_phase s")
  case (Building r)
  have "main_phase (finish_build s r) \<noteq> MainIdle"
    by (auto simp: finish_build_def begin_build_def main_result_def Let_def case_prod_unfold split: build_purpose.split run_result.split)
  with building_step [OF Building, of K act] assms show ?thesis by (auto simp: nearer_def)
qed (use assms in \<open>cases act; auto simp: sys_step_def informer_act_def usage_act_def gpu_act_def start_act_def tick_act_def loop_act_def
        begin_build_def main_result_def Let_def case_prod_unfold split: if_splits run_result.splits\<close>)+

lemma main_act_ok: "view_ok (counts_view e) \<Longrightarrow> view_ok (env_view (first_env e)) \<Longrightarrow> act_ok (main_act e s)"
  by (simp add: main_act_def next_own_def act_ok_def split: main_phase.split)

lemma lone_run_fair:
  fixes s0 :: "('q, 's) system"
  assumes "view_ok (counts_view e)" and "view_ok (env_view (first_env e))" and "phase_inv s0" and "main_phase s0 = MainIdle"
    and "\<not> all_failed e (sys_agent s0)"
  shows "is_run K (lone_run K e s0) (main_act e \<circ> lone_run K e s0)" and "fair (lone_run K e s0) (main_act e \<circ> lone_run K e s0)"
proof -
  let ?st = "lone_run K e s0"
  have inv: "phase_inv (?st n)" for n by (induction n) (simp_all add: assms(3) phase_inv_step Let_def)
  have "(main_phase (?st n) = MainIdle \<longrightarrow> n = 0) \<and> (\<forall>x. main_phase (?st n) \<noteq> MainReturned x)" for n
  proof (induction n)
    case (Suc n)
    have idle: "main_phase (?st n) = MainIdle \<Longrightarrow> main_act e (?st n) = MainStarts e \<and> ?st n = s0"
      using Suc by (auto simp: main_act_def)
    have "main_act e (?st n) \<noteq> ContextDone err" for err by (simp add: main_act_def next_own_def split: main_phase.split)
    moreover have "main_act e (?st n) = MainStarts e' \<Longrightarrow> main_phase (?st n) = MainIdle \<and> e' = e" for e'
      by (simp add: main_act_def next_own_def split: main_phase.splits if_splits)
    ultimately have "main_phase (?st (Suc n)) \<noteq> MainReturned x" for x
      using returns_only [OF inv, of K "main_act e (?st n)" n x] idle Suc assms(5) by (auto simp: Let_def)
    moreover have "main_phase (?st (Suc n)) \<noteq> MainIdle"
      using idle_only [of K "main_act e (?st n)" "?st n"] idle by (auto simp: Let_def)
    ultimately show ?case by simp
  qed (simp add: assms(4))
  then have "progresses (main_act e (?st n)) (?st n)" for n by (intro main_act_progresses) blast
  then show "fair ?st (main_act e \<circ> ?st)" by (auto simp: fair_def)
  show "is_run K ?st (main_act e \<circ> ?st)" by (simp add: is_run_def main_act_ok assms(1,2) Let_def)
qed

theorem fresh_snapshots_keep_coming_witness:
  "\<exists>m>100. \<exists>snap. latestSnapshot (sys_agent (lone_run example_kube (example_run 200) (main_system example_main example_caps) m)) = Some snap"
proof -
  let ?s0 = "main_system example_main example_caps :: (nat, string) system" and ?e = "example_run 200"
  let ?st = "lone_run example_kube ?e ?s0"
  have e: "view_ok (counts_view ?e)" "view_ok (env_view (first_env ?e))" by (simp_all add: view_ok_def example_run_def example_env_def)
  have s0: "phase_inv ?s0" "main_phase ?s0 = MainIdle" "\<not> all_failed ?e (sys_agent ?s0)"
    using phase_inv_start example_main_starts by (simp_all add: main_system_def)
  have "reachable example_kube ?s0 (?st 0)" by (simp add: reachable_start)
  from fresh_snapshots_keep_coming [OF lone_run_fair [OF e s0] this, of 100] show ?thesis by blast
qed

end
