(* ===== verification/Metric_Calls.thy ===== *)
theory Metric_Calls
  imports Published
begin

text \<open>
  The calls on the metrics that the whole program makes: every goroutine works on the same
  \<^verbatim>\<open>*Metrics\<close>, and each of its calls fits the metric it is made on.
\<close>

section \<open>The calls of each part\<close>

lemma handle_event_calls [simp]:
  "calls_ok (snd (handle_event name conv key okey now ev (s, m))) \<longleftrightarrow> calls_ok m"
  by (simp add: handle_event_def store_object_def count_event_def Let_def split: informer_event.split watched.split option.split)

lemma dispatch_calls: "calls_ok (snd (dispatch K now ev (st, m))) \<longleftrightarrow> calls_ok m"
  by (cases ev) (simp_all add: dispatch_def collector_handles case_prod_unfold Let_def)

lemma Metrics_poll_calls: "calls_ok (mc_metrics (Metrics_poll K e c)) \<longleftrightarrow> calls_ok (mc_metrics c)"
  by (simp add: metrics_poll_defs split: sum.split)

lemma poller_calls: "calls_ok (mc_metrics (coll (Metrics_run K ev p))) \<longleftrightarrow> calls_ok (mc_metrics (coll p))"
  by (simp add: Metrics_run_def poller_step_def Metrics_poll_calls split: run_event.split)

lemma backfill_calls: "calls_ok_opt (snd (backfillReferencedNodes v snap m)) \<longleftrightarrow> calls_ok_opt m"
  by (simp add: backfillReferencedNodes_def Let_def split: prod.split)

lemma run_enricher_calls: "calls_ok_opt (snd (run_enricher dur e sm)) \<longleftrightarrow> calls_ok_opt (snd sm)"
  by (cases sm) (simp add: run_enricher_def)

lemma build_calls:
  assumes "calls_ok_opt (SnapshotBuilder.metrics b)" and "pipeline b = Some main_pipeline"
  shows "calls_ok_opt (snd (Build b v))"
  using assms
  by (simp add: Build_def build_enriched_def main_pipeline_run run_enricher_calls backfill_calls case_prod_unfold Let_def)

lemma send_loop_calls: "calls_ok_opt (send_metrics (send_loop nt cfg sid compressed left k s)) \<longleftrightarrow> calls_ok_opt (send_metrics s)"
proof (induction left arbitrary: k s)
  case (Suc left)
  then show ?case
    by (simp add: Let_def case_prod_unfold split: option.split sum.split)
qed simp

lemma Send_calls:
  assumes "calls_ok_opt (Client.metrics c)"
  shows "calls_ok_opt (Client.metrics (fst (snd (Send nt clk snap c))))"
  using assms
  by (simp add: Send_def send_loop_calls Let_def case_prod_unfold split: sum.split option.split)

section \<open>The calls of the agent\<close>

lemma agent_build_calls:
  assumes "calls_ok (Agent.metrics a)" and "pipeline (builder a) = Some main_pipeline"
  shows "calls_ok (Agent.metrics (snd (agent_build v a)))"
  using assms build_calls [of "(builder a)\<lparr>SnapshotBuilder.metrics := Some (Agent.metrics a)\<rparr>" v]
  by (auto simp: agent_build_def Let_def case_prod_unfold pred_option_def split: option.split)

lemma agent_send_calls:
  assumes "calls_ok (Agent.metrics a)"
  shows "calls_ok (Agent.metrics (snd (agent_send e snap a)))"
  using assms Send_calls [of "(transport a)\<lparr>Client.metrics := Some (Agent.metrics a), Client.errorCollector := Some (errorCollector a)\<rparr>"
      "env_net e" "env_clock e" snap]
  by (auto simp: agent_send_def Let_def case_prod_unfold pred_option_def split: option.split)

lemma populateHealth_metrics [simp]: "Agent.metrics (snd (populateHealth e snap a)) = Agent.metrics a"
  by (simp add: populateHealth_def Let_def case_prod_unfold)

lemma doSnapshot_calls:
  assumes "calls_ok (Agent.metrics a)" and "pipeline (builder a) = Some main_pipeline"
  shows "calls_ok (Agent.metrics (doSnapshot e a))"
  using agent_build_calls [OF assms]
  by (simp add: doSnapshot_def Let_def case_prod_unfold agent_send_calls split: sum.split)

lemma become_ready_calls:
  assumes "calls_ok (Agent.metrics a)" and "pipeline (builder a) = Some main_pipeline"
  shows "calls_ok (Agent.metrics (become_ready e a))"
  using assms by (simp add: become_ready_def logStoreCounts_def Let_def agent_build_calls split: option.split)

section \<open>The calls of the program\<close>

definition calls_inv :: "('q, 's) system \<Rightarrow> bool" where
  "calls_inv s \<longleftrightarrow> calls_ok (sys_metrics s) \<and> pipeline (builder (sys_agent s)) = Some main_pipeline"

lemma begin_build_shared [simp]:
  "sys_metrics (begin_build p s) = sys_metrics s" "sys_agent (begin_build p s) = sys_agent s"
  by (simp_all add: begin_build_def Let_def)

lemma loop_act_shared [simp]:
  "sys_metrics (loop_act ev s) = sys_metrics s" "builder (sys_agent (loop_act ev s)) = builder (sys_agent s)"
  by (simp_all add: loop_act_def Let_def case_prod_unfold)

lemma stop_collectors_metrics [simp]: "Agent.metrics (fst (stop_collectors x)) = Agent.metrics (fst x)"
  by (simp add: stop_collectors_def case_prod_unfold)

lemma finish_build_calls:
  assumes "calls_inv s"
  shows "calls_inv (finish_build s r)"
proof -
  let ?a = "build_agent s r"
  have a: "calls_ok (Agent.metrics ?a)" "pipeline (builder ?a) = Some main_pipeline"
    using assms by (simp_all add: calls_inv_def build_agent_def run_builder_def)
  have "calls_ok (Agent.metrics (fst (loop_step (Tick now e) ?a)))" for now e
    using a by (simp add: fst_loop_step doSnapshot_calls)
  with a show ?thesis
    by (simp add: calls_inv_def finish_build_def Let_def case_prod_unfold doSnapshot_calls become_ready_calls split: build_purpose.split)
qed

lemma build_next_calls:
  assumes "calls_inv s"
  shows "calls_inv (build_next s r)"
  using assms finish_build_calls [OF assms, of r]
  by (cases "stage r"; cases "unread r") (simp_all add: build_next_def calls_inv_def)

lemma calls_inv_step:
  assumes "calls_inv s"
  shows "calls_inv (sys_step K act s)"
proof (cases act)
  case (InformerEvent now ev)
  with assms show ?thesis
    by (simp add: sys_step_def informer_act_def calls_inv_def dispatch_calls Let_def case_prod_unfold)
next
  case (UsagePoller ev)
  with assms show ?thesis by (simp add: sys_step_def usage_act_def calls_inv_def poller_calls Let_def)
next
  case (MainStarts e)
  have "Agent.builder (fst (Run e [] a)) = builder a" for a :: Agent
    by (simp add: Run_def Let_def case_prod_unfold split: option.split start_error.split)
  with MainStarts assms show ?thesis
    by (simp add: sys_step_def start_act_def calls_inv_def Let_def case_prod_unfold)
next
  case BuildNext
  with assms show ?thesis by (simp add: sys_step_def build_next_calls split: main_phase.split)
qed (use assms in \<open>simp_all add: sys_step_def gpu_act_def tick_act_def calls_inv_def split: main_phase.split\<close>)

lemma calls_inv_start: "calls_inv (main_system e caps)"
  by (simp add: calls_inv_def main_system_def main_pipeline_builder)

interpretation typed_calls: system_invariant K "\<lambda>s. s = main_system e caps" calls_inv for K e caps
  by unfold_locales (simp_all add: calls_inv_start calls_inv_step)



end
