(* ===== verification/Usage_Origin.thy ===== *)
theory Usage_Origin
  imports Build_Progress
begin

text \<open>
  Where the usage figures of a published snapshot come from, in the whole program: polls
  write the usage store, builds read it, and merge what they find into containers that the
  stored pods share with the snapshot.
\<close>

section \<open>Figures that the metrics-server reported\<close>

text \<open>
  A container of the name, in a pod of the key, either has no figures or those that one answer
  of the metrics-server gives for it.
\<close>

definition usage_of_report :: "('q, 's) kube \<Rightarrow> 'q metrics_env list \<Rightarrow> string \<Rightarrow> string \<Rightarrow> float64 option \<Rightarrow> int64 option \<Rightarrow> bool" where
  "usage_of_report K es key name cpu mem \<longleftrightarrow>
     cpu = None \<and> mem = None
     \<or> list_ex (\<lambda>e. list_ex (\<lambda>pm. pod_usage_key pm = key \<and>
          list_ex (\<lambda>cm. cm_Name cm = name \<and> cpu = Some (ContainerMetrics.CPUUsageCores (container_usage K cm))
              \<and> mem = Some (ContainerMetrics.MemoryUsageBytes (container_usage K cm))) (pm_Containers pm))
        (listed (PodMetricses_List e))) es"

definition pod_reported :: "('q, 's) kube \<Rightarrow> 'q metrics_env list \<Rightarrow> PodInfo \<Rightarrow> bool" where
  "pod_reported K es p \<longleftrightarrow> list_all (\<lambda>c. usage_of_report K es (pod_id p) (ContainerInfo.Name c)
     (ContainerInfo.CPUUsageCores c) (ContainerInfo.MemoryUsageBytes c)) (PodInfo.Containers p)"

text \<open>A usage store holds what was listed.\<close>

definition holds_listed :: "('e \<Rightarrow> goerror + 'x list) \<Rightarrow> ('x \<Rightarrow> 'm) \<Rightarrow> 'e list \<Rightarrow> 'm TypedStore \<Rightarrow> bool" where
  "holds_listed lst conv es ts \<longleftrightarrow> (\<forall>m \<in> snd ` set (items ts). \<exists>e \<in> set es. \<exists>x \<in> set (listed (lst e)). m = conv x)"

abbreviation usage_reported :: "('q, 's) kube \<Rightarrow> 'q metrics_env list \<Rightarrow> PodMetrics TypedStore \<Rightarrow> bool" where
  "usage_reported K \<equiv> holds_listed PodMetricses_List (pod_usage K)"

lemma usage_of_report_more: "usage_of_report K es key name cpu mem \<Longrightarrow> usage_of_report K (es @ es') key name cpu mem"
  by (auto simp: usage_of_report_def)

lemma pod_reported_more: "pod_reported K es p \<Longrightarrow> pod_reported K (es @ es') p"
  by (auto simp: pod_reported_def list_all_iff usage_of_report_more)

lemma holds_listed_more: "holds_listed lst conv es ts \<Longrightarrow> holds_listed lst conv (es @ es') ts"
  by (fastforce simp: holds_listed_def)

lemma holds_listed_empty [simp]: "holds_listed lst conv es (NewTypedStore t)"
  by (simp add: holds_listed_def NewTypedStore_def)

section \<open>Merging\<close>

lemma index_by_SomeD': "index_by key xs k = Some x \<Longrightarrow> x \<in> set xs \<and> key x = k"
  using index_by_SomeD by metis

lemma merge_container_reported:
  assumes "pm \<in> set (listed (PodMetricses_List e))" and "e \<in> set es" and "pod_usage_key pm = key"
    and "usage_of_report K es key (ContainerInfo.Name c) (ContainerInfo.CPUUsageCores c) (ContainerInfo.MemoryUsageBytes c)"
  defines "c' \<equiv> merge_container (index_by ContainerMetrics.Name (PodMetrics.Containers (pod_usage K pm))) c"
  shows "usage_of_report K es key (ContainerInfo.Name c') (ContainerInfo.CPUUsageCores c') (ContainerInfo.MemoryUsageBytes c')"
proof (cases "index_by ContainerMetrics.Name (PodMetrics.Containers (pod_usage K pm)) (ContainerInfo.Name c)")
  case None
  then show ?thesis using assms(4) by (simp add: c'_def merge_container_def)
next
  case (Some m)
  from index_by_SomeD' [OF this] obtain cm where "cm \<in> set (pm_Containers pm)" "m = container_usage K cm" "cm_Name cm = ContainerInfo.Name c"
    by (auto simp: pod_usage_def container_usage_def Let_def)
  with assms(1-3) Some show ?thesis
    unfolding usage_of_report_def list_ex_iff c'_def merge_container_def by auto
qed

lemma merge_pod_reported:
  assumes "usage_reported K es ts" and "pod_reported K es p" and "order_ok ord"
  shows "pod_reported K es (merge_pod (index_by (\<lambda>m. ns_name (PodMetrics.Namespace m) (PodMetrics.Name m)) (Store.Values ord ts)) p)"
proof (cases "index_by (\<lambda>m. ns_name (PodMetrics.Namespace m) (PodMetrics.Name m)) (Store.Values ord ts) (pod_id p)")
  case None
  then show ?thesis using assms(2) by (simp add: merge_pod_def)
next
  case (Some m)
  from index_by_SomeD' [OF this] have m: "m \<in> snd ` set (items ts)" "ns_name (PodMetrics.Namespace m) (PodMetrics.Name m) = pod_id p"
    by (simp_all add: Values_set [OF assms(3)])
  with assms(1) obtain e pm where pm: "e \<in> set es" "pm \<in> set (listed (PodMetricses_List e))" "m = pod_usage K pm"
    unfolding holds_listed_def by blast
  with m(2) have key: "pod_usage_key pm = pod_id p" by (simp add: pod_usage_key_def pod_usage_def ns_name_def)
  let ?c = "merge_container (index_by ContainerMetrics.Name (PodMetrics.Containers (pod_usage K pm)))"
  have "usage_of_report K es (pod_id p) (ContainerInfo.Name c) (ContainerInfo.CPUUsageCores (?c c)) (ContainerInfo.MemoryUsageBytes (?c c))"
    if "c \<in> set (PodInfo.Containers p)" for c
    using merge_container_reported [OF pm(2,1) key, of K c] assms(2) that by (simp add: pod_reported_def list_all_iff)
  then show ?thesis
    using Some pm(3) by (simp add: merge_pod_def pod_reported_def list_all_iff) (simp add: pod_id_def)
qed

lemma merge_gpu_container_usage [simp]:
  "ContainerInfo.CPUUsageCores (merge_gpu_container cg c) = ContainerInfo.CPUUsageCores c"
  "ContainerInfo.MemoryUsageBytes (merge_gpu_container cg c) = ContainerInfo.MemoryUsageBytes c"
  by (cases cg; simp add: merge_gpu_container_def)+

lemma merge_gpu_pod_reported [simp]: "pod_reported K es (merge_gpu_pod l p) \<longleftrightarrow> pod_reported K es p"
  by (simp add: pod_reported_def merge_gpu_pod_def list_all_iff pod_id_def)

lemma merged_pods_reported:
  assumes "usage_reported K es (PodMetrics_store (SnapshotBuilder.metricsStore b))" and "\<forall>p \<in> set ps. pod_reported K es p" and "view_ok v"
  shows "\<forall>p \<in> set (merged_pods b v ps). pod_reported K es p"
proof -
  have ord: "order_ok (orders v 23)" using assms(3) by (simp add: view_ok_def)
  have "pod_reported K es (merge_pod (index_by (\<lambda>m. ns_name (PodMetrics.Namespace m) (PodMetrics.Name m))
      (Store.Values (orders v 23) (PodMetrics_store (SnapshotBuilder.metricsStore b)))) p)" if "p \<in> set ps" for p
    using assms(2) that by (intro merge_pod_reported [OF assms(1) _ ord]) simp
  then show ?thesis
    by (auto simp: merged_pods_def mergePodMetrics_map mergeGPUContainerMetrics_def Let_def split: option.split)
qed

lemma pod_reported_containers:
  "pod_id q = pod_id p \<Longrightarrow> PodInfo.Containers q = PodInfo.Containers p \<Longrightarrow> pod_reported K es q \<longleftrightarrow> pod_reported K es p"
  by (simp add: pod_reported_def)

lemma merge_into_reported:
  assumes "usage_reported K es (PodMetrics_store (SnapshotBuilder.metricsStore b))" and "view_ok v" and "pod_reported K es p"
  shows "pod_reported K es (merge_into b v p)"
proof -
  obtain q where q: "merged_pods b v [p] = [q]" using bare_merged_pods [of b v "[p]"] by auto
  have "pod_reported K es q" using merged_pods_reported [OF assms(1), of "[p]" v] assms(2,3) q by simp
  moreover have "pod_id q = pod_id p" using merged_pod_containers(3,4) [of b v p] q by (simp add: pod_id_def)
  ultimately show ?thesis
    unfolding merge_into_def q list.sel by (subst pod_reported_containers [of _ q]) (simp_all add: pod_id_def)
qed

lemma merge_back_reported:
  assumes "usage_reported K es (PodMetrics_store (SnapshotBuilder.metricsStore b))" and "view_ok (view r)"
    and "\<forall>p \<in> snd ` set (items ts). pod_reported K es p"
  shows "\<forall>p \<in> snd ` set (items (merge_back b r vs ts)). pod_reported K es p"
  using assms(3) merge_into_reported [OF assms(1,2)] by (auto simp: merge_back_def)

lemma merge_shown_reported:
  assumes "usage_reported K es (PodMetrics_store (SnapshotBuilder.metricsStore b))" and "view_ok (view r)"
    and "\<forall>snap. latestSnapshot a = Some snap \<longrightarrow> (\<forall>p \<in> set (ClusterSnapshot.Pods snap). pod_reported K es p)"
  shows "\<forall>snap. latestSnapshot (merge_shown b r vs a) = Some snap \<longrightarrow> (\<forall>p \<in> set (ClusterSnapshot.Pods snap). pod_reported K es p)"
  using assms(3) merge_into_reported [OF assms(1,2)] by (auto simp: merge_shown_def)

lemma build_reported:
  assumes "pipeline b = Some main_pipeline" and "usage_reported K es (PodMetrics_store (SnapshotBuilder.metricsStore b))"
    and "view_ok v" and "\<forall>p \<in> snd ` set (items (Store.Pods (read_store v))). pod_reported K es p"
  shows "\<forall>p \<in> set (ClusterSnapshot.Pods (fst (Build b v))). pod_reported K es p"
proof
  fix p assume "p \<in> set (ClusterSnapshot.Pods (fst (Build b v)))"
  then have "disown p \<in> disown ` set (ClusterSnapshot.Pods (fst (Build b v)))" by (rule imageI)
  also have "\<dots> = disown ` set (merged_pods b v (Store.Values (orders v 1) (Store.Pods (read_store v))))"
    unfolding set_map [symmetric] using assms(1) by (subst build_pods) simp_all
  finally obtain q where q: "q \<in> set (merged_pods b v (Store.Values (orders v 1) (Store.Pods (read_store v))))" "disown p = disown q"
    by blast
  have "pod_reported K es q"
    using merged_pods_reported [OF assms(2), of "Store.Values (orders v 1) (Store.Pods (read_store v))" v] q(1) assms(3,4)
      Values_set [of "orders v 1" "Store.Pods (read_store v)"]
    by (auto simp: view_ok_def)
  moreover have "pod_id p = pod_id q" "PodInfo.Containers p = PodInfo.Containers q"
    using q(2) disown_fields by (metis pod_id_def)+
  ultimately show "pod_reported K es p" using pod_reported_containers by blast
qed

section \<open>The invariant\<close>

definition origin_build :: "('q, 's) kube \<Rightarrow> 'q metrics_env list \<Rightarrow> build_run \<Rightarrow> bool" where
  "origin_build K es r \<longleftrightarrow> view_ok (view r)
     \<and> (stage r = ReadingStores \<and> Of_Pods \<in> set (unread r)
        \<or> (\<forall>p \<in> snd ` set (items (Store.Pods (read_store (view r)))). pod_reported K es p))
     \<and> (stage r \<in> {PodUsageRead, GpuRead, PodsMerged, ReadingTimes} \<longrightarrow> usage_reported K es (PodMetrics_store (usage_read r)))
     \<and> (\<forall>e. purpose r = ForCounts e \<longrightarrow> view_ok (env_view (first_env e)))"

definition origin_base :: "('q, 's) kube \<Rightarrow> ('q, 's) system \<Rightarrow> bool" where
  "origin_base K s \<longleftrightarrow>
     usage_reported K (polls s) (PodMetrics_store (MetricsCollector.metricsStore (coll (sys_usage s))))
     \<and> (\<forall>p \<in> snd ` set (items (Store.Pods (sys_store s))). pod_reported K (polls s) p)
     \<and> pipeline (builder (sys_agent s)) = Some main_pipeline
     \<and> (\<forall>snap. latestSnapshot (sys_agent s) = Some snap \<longrightarrow> (\<forall>p \<in> set (ClusterSnapshot.Pods snap). pod_reported K (polls s) p))"

definition origin_inv :: "('q, 's) kube \<Rightarrow> ('q, 's) system \<Rightarrow> bool" where
  "origin_inv K s \<longleftrightarrow> origin_base K s \<and> (\<forall>r. main_phase s = Building r \<longrightarrow> origin_build K (polls s) r)"

lemma map_set_values: "snd ` set (map_set k v m) \<subseteq> insert v (snd ` set m)"
  by (induction m) (auto simp: map_set_def)

lemma map_del_values: "snd ` set (map_del k m) \<subseteq> snd ` set m"
  by (induction m) (auto simp: map_del_def)

lemma set_all_reported:
  assumes "holds_listed lst conv es ts" and "\<forall>x \<in> set xs. \<exists>e \<in> set es. x \<in> set (listed (lst e))"
  shows "holds_listed lst conv es (set_all key conv clock k xs ts)"
  using assms
proof (induction xs arbitrary: k ts)
  case (Cons x xs)
  have "holds_listed lst conv es (Set (key x) (conv x) (clock k) ts)"
    using Cons.prems map_set_values [of "key x" "conv x" "items ts"]
    by (fastforce simp: holds_listed_def Set_def set_items_def stamp_def)
  with Cons show ?case by simp
qed simp

lemma poll_reported:
  assumes "usage_reported K es (PodMetrics_store (MetricsCollector.metricsStore c))"
  shows "usage_reported K (es @ [e]) (PodMetrics_store (MetricsCollector.metricsStore (Metrics_poll K e c)))"
  using assms holds_listed_more [OF assms, of "[e]"]
  by (auto simp: metrics_poll_defs listed_def intro!: set_all_reported split: sum.splits)

lemma PodToModel_reported: "pod_reported K es (PodToModel K' pod)"
proof -
  have "pod_reported K es (bare p)" for p
    by (simp add: pod_reported_def usage_of_report_def bare_def bare_container_def list_all_iff)
  from this [of "PodToModel K' pod"] show ?thesis by simp
qed

lemma dispatch_reported:
  assumes "\<forall>p \<in> snd ` set (items (Store.Pods st)). pod_reported K es p"
  shows "\<forall>p \<in> snd ` set (items (Store.Pods (fst (dispatch K now ev (st, m))))). pod_reported K es p"
proof -
  have set: "\<forall>p \<in> snd ` set (items (Set key (PodToModel K x) now (Store.Pods st))). pod_reported K es p" for key x
    using assms PodToModel_reported map_set_values [of key "PodToModel K x" "items (Store.Pods st)"]
    by (fastforce simp: Set_def set_items_def stamp_def)
  have del: "\<forall>p \<in> snd ` set (items (Delete key now (Store.Pods st))). pod_reported K es p" for key
    using assms map_del_values [of key "items (Store.Pods st)"] by (fastforce simp: Delete_def delete_items_def stamp_def)
  show ?thesis
    unfolding dispatch_Pods using assms set del
    by (simp add: handle_event_def store_object_def Let_def split: option.split informer_event.split watched.split)
qed

lemma origin_frame [simp]:
  "origin_base K (s\<lparr>main_phase := p\<rparr>) \<longleftrightarrow> origin_base K s"
  "origin_base K (s\<lparr>sys_metrics := m\<rparr>) \<longleftrightarrow> origin_base K s"
  "origin_base K (s\<lparr>sys_gpu := g\<rparr>) \<longleftrightarrow> origin_base K s"
  "origin_base K (s\<lparr>begun := n\<rparr>) \<longleftrightarrow> origin_base K s"
  "origin_base K (s\<lparr>shown_from := n\<rparr>) \<longleftrightarrow> origin_base K s"
  "origin_base K (s\<lparr>shown_to := n\<rparr>) \<longleftrightarrow> origin_base K s"
  "origin_base K (s\<lparr>shown_versions := vs\<rparr>) \<longleftrightarrow> origin_base K s"
  by (simp_all add: origin_base_def)

lemma informer_act_origin:
  assumes "origin_inv K s"
  shows "origin_inv K (informer_act K now ev s)"
proof -
  let ?s = "informer_act K now ev s"
  have s: "polls ?s = polls s" "sys_agent ?s = sys_agent s" "main_phase ?s = main_phase s" "sys_usage ?s = sys_usage s"
    "sys_store ?s = fst (dispatch K now ev (sys_store s, sys_metrics s))"
    by (simp_all add: informer_act_def case_prod_unfold Let_def)
  have "\<forall>p \<in> snd ` set (items (Store.Pods (sys_store ?s))). pod_reported K (polls s) p"
    unfolding s(5) using assms by (intro dispatch_reported) (auto simp only: origin_inv_def origin_base_def)
  with assms show ?thesis unfolding origin_inv_def origin_base_def s(1-4) by blast
qed

lemma origin_build_more: "origin_build K es r \<Longrightarrow> origin_build K (es @ es') r"
  by (auto simp: origin_build_def pod_reported_more holds_listed_more)

lemma usage_act_origin:
  assumes "origin_inv K s"
  shows "origin_inv K (usage_act K ev s)"
proof -
  let ?s = "usage_act K ev s"
  have "\<exists>es. polls ?s = polls s @ es" by (cases ev) (auto simp: usage_act_def Let_def)
  then obtain es where es: "polls ?s = polls s @ es" ..
  have "usage_reported K (polls ?s) (PodMetrics_store (MetricsCollector.metricsStore (coll (sys_usage ?s))))"
    using assms poll_reported [of K "polls s" "(coll (sys_usage s))\<lparr>mc_metrics := sys_metrics s\<rparr>"]
    by (simp add: origin_inv_def origin_base_def usage_act_def Metrics_run_def poller_step_def Let_def split: run_event.split)
  then show ?thesis
    using assms unfolding origin_inv_def origin_base_def es
    by (auto simp: usage_act_def Let_def intro: origin_build_more pod_reported_more)
qed

lemma origin_inv_building:
  "origin_base K s \<Longrightarrow> origin_build K (polls s) r \<Longrightarrow> origin_inv K (s\<lparr>main_phase := Building r\<rparr>)"
  by (simp add: origin_inv_def)

lemma begin_build_origin:
  assumes "origin_base K s" and "view_ok (planned_view p)" and "\<And>e. p = ForCounts e \<Longrightarrow> view_ok (env_view (first_env e))"
  shows "origin_inv K (begin_build p s)"
  using assms by (simp add: origin_inv_def origin_build_def begin_build_def Let_def)

lemma read_kind_origin:
  assumes "origin_base K s" and "origin_build K (polls s) r"
  shows "origin_build K (polls s) (read_kind k s r)"
proof (cases "k = Of_Pods")
  case True
  with assms show ?thesis by (auto simp: origin_build_def origin_base_def read_kind_def view_ok_def)
next
  case False
  then have "Store.Pods (copy_kind k (sys_store s) st) = Store.Pods st" for st by (cases k) simp_all
  moreover have "Of_Pods \<in> set (remove1 k (unread r)) \<longleftrightarrow> Of_Pods \<in> set (unread r)" using False by auto
  ultimately show ?thesis using assms by (auto simp: origin_build_def read_kind_def view_ok_def)
qed

lemma origin_base_agent:
  assumes "origin_base K s" and "pipeline (builder a) = pipeline (builder (sys_agent s))"
    and "latestSnapshot a = latestSnapshot (sys_agent s)
      \<or> (\<exists>snap. latestSnapshot a = Some snap \<and> (\<forall>p \<in> set (ClusterSnapshot.Pods snap). pod_reported K (polls s) p))"
  shows "origin_base K (s\<lparr>sys_agent := a\<rparr>)"
  using assms by (auto simp: origin_base_def)

lemma sent_snapshot_reported:
  assumes "origin_base K s" and "origin_build K (polls s) r" and "stage r = ReadingTimes"
    and "env_view e = view r" and "builder a = builder (build_agent s r)"
  shows "\<forall>p \<in> set (ClusterSnapshot.Pods (fst (sent_snapshot e a))). pod_reported K (polls s) p"
proof -
  let ?b = "(builder a)\<lparr>SnapshotBuilder.metrics := Some (Agent.metrics a)\<rparr>"
  obtain snap a1 where b: "agent_build (env_view e) a = (snap, a1)" by fastforce
  obtain x where "fst (sent_snapshot e a) = snap\<lparr>ClusterSnapshot.Health := x\<rparr>"
    unfolding sent_snapshot_def b Let_def prod.case using populateHealth_snapshot by blast
  moreover have "snap = fst (Build ?b (view r))"
    using b assms(4) by (simp add: agent_build_def Let_def case_prod_unfold)
  moreover have "\<forall>p \<in> set (ClusterSnapshot.Pods (fst (Build ?b (view r)))). pod_reported K (polls s) p"
    using assms by (intro build_reported) (auto simp: origin_base_def origin_build_def build_agent_def run_builder_def)
  ultimately show ?thesis by simp
qed

lemma finish_build_origin:
  assumes "origin_base K s" and "origin_build K (polls s) r" and "stage r = ReadingTimes"
  shows "origin_inv K (finish_build s r)"
proof (cases "purpose r")
  case (ForCounts e)
  let ?a = "become_ready (e\<lparr>counts_view := view r\<rparr>) (build_agent s r)"
  have "origin_base K (s\<lparr>sys_agent := ?a, sys_metrics := Agent.metrics ?a\<rparr>)"
    using origin_base_agent [OF assms(1), of ?a] by (simp add: before_loop_fields)
  moreover have "view_ok (env_view (first_env e))" using assms(2) ForCounts by (simp add: origin_build_def)
  ultimately have "origin_inv K (begin_build (ForFirst (first_env e)) (s\<lparr>sys_agent := ?a, sys_metrics := Agent.metrics ?a\<rparr>))"
    by (intro begin_build_origin) (simp_all add: planned_view_def)
  with ForCounts show ?thesis by (simp add: finish_build_def Let_def)
next
  case (ForFirst e)
  let ?e = "e\<lparr>env_view := view r\<rparr>"
  have "origin_base K (s\<lparr>sys_agent := doSnapshot ?e (build_agent s r)\<rparr>)"
    using sent_snapshot_reported [OF assms, of ?e "build_agent s r"] by (intro origin_base_agent [OF assms(1)]) (simp_all add: doSnapshot_fields)
  then show ?thesis using ForFirst by (simp add: finish_build_def Let_def origin_inv_def)
next
  case (ForTick now e)
  let ?e = "e\<lparr>env_view := view r\<rparr>" and ?a = "build_agent s r"
  have "\<forall>p \<in> set (ClusterSnapshot.Pods (fst (sent_snapshot ?e (?a\<lparr>stateMachine := sm\<rparr>)))). pod_reported K (polls s) p" for sm
    by (rule sent_snapshot_reported [OF assms]) simp_all
  then have "origin_base K (s\<lparr>sys_agent := fst (stop_collectors (loop_step (Tick now ?e) ?a))\<rparr>)"
    by (intro origin_base_agent [OF assms(1)]) (simp_all add: fst_loop_step doSnapshot_fields)
  then show ?thesis using ForTick by (simp add: finish_build_def Let_def origin_inv_def case_prod_unfold)
qed

lemma origin_build_advance:
  assumes "origin_build K es r" and "stage r \<noteq> ReadingStores \<or> unread r = []"
    and "stage r' \<in> {PodUsageRead, GpuRead, PodsMerged, ReadingTimes} \<Longrightarrow> usage_reported K es (PodMetrics_store (usage_read r'))"
    and "purpose r' = purpose r" and "read_store (view r') = read_store (view r)" and "orders (view r') = orders (view r)"
  shows "origin_build K es r'"
  using assms unfolding origin_build_def view_ok_def by auto

lemma build_next_origin:
  assumes "origin_base K s" and "origin_build K (polls s) r" and "main_phase s = Building r"
  shows "origin_inv K (build_next s r)"
proof (cases "stage r")
  case ReadingStores
  with assms show ?thesis
    by (cases "unread r") (auto simp: build_next_def origin_inv_def intro!: origin_inv_building origin_build_advance [OF assms(2)])
next
  case NodeUsageRead
  with assms show ?thesis
    by (auto simp: build_next_def origin_base_def intro!: origin_inv_building origin_build_advance [OF assms(2)])
next
  case GpuRead
  have "\<forall>p \<in> snd ` set (items (merge_back (run_builder s r) r (pod_versions s) (Store.Pods (sys_store s)))). pod_reported K (polls s) p"
    using assms GpuRead by (intro merge_back_reported) (auto simp: origin_base_def origin_build_def run_builder_def)
  moreover have "\<forall>snap. latestSnapshot (merge_shown (run_builder s r) r vs (sys_agent s)) = Some snap \<longrightarrow>
      (\<forall>p \<in> set (ClusterSnapshot.Pods snap). pod_reported K (polls s) p)" for vs
    using assms GpuRead by (intro merge_shown_reported) (auto simp: origin_base_def origin_build_def run_builder_def)
  ultimately have "origin_base K (s\<lparr>main_phase := p, sys_store := Store.Pods_update (merge_back (run_builder s r) r (pod_versions s)) (sys_store s),
      sys_agent := merge_shown (run_builder s r) r vs (sys_agent s)\<rparr>)" for p vs
    using assms(1) by (simp add: origin_base_def)
  moreover have "origin_build K (polls s) (r\<lparr>stage := PodsMerged\<rparr>)" using assms(2) GpuRead by (simp add: origin_build_def)
  ultimately show ?thesis using GpuRead by (simp add: build_next_def origin_inv_def)
next
  case ReadingTimes
  show ?thesis
  proof (cases "unread r")
    case Nil
    with ReadingTimes assms show ?thesis by (simp add: build_next_def finish_build_origin)
  next
    case (Cons k ks)
    with ReadingTimes assms show ?thesis
      by (auto simp: build_next_def origin_build_def view_ok_def intro!: origin_inv_building)
  qed
qed (use assms in \<open>auto simp: build_next_def origin_build_def view_ok_def intro!: origin_inv_building\<close>)

lemma loop_act_origin:
  assumes "origin_base K s" and "\<And>now e. ev = Tick now e \<Longrightarrow> \<not> takes_snapshot now (sys_agent s)"
  shows "origin_inv K (loop_act ev s)"
proof -
  have "fst (loop_step ev (sys_agent s)) = sys_agent s" using assms(2) by (cases ev) (simp_all add: fst_loop_step)
  then have "origin_base K (s\<lparr>sys_agent := fst (stop_collectors (loop_step ev (sys_agent s)))\<rparr>)"
    by (intro origin_base_agent [OF assms(1)]) simp_all
  then show ?thesis by (simp add: loop_act_def origin_inv_def case_prod_unfold Let_def)
qed

lemma start_act_origin:
  assumes "origin_inv K s" and "view_ok (counts_view e)" and "view_ok (env_view (first_env e))"
  shows "origin_inv K (start_act e s)"
proof -
  let ?a = "snd (start_collectors e (sys_agent s))"
  have base: "origin_base K (s\<lparr>sys_agent := ?a\<rparr>)"
    using assms(1) by (intro origin_base_agent) (simp_all add: origin_inv_def)
  then have "origin_inv K (begin_build (ForCounts e) (s\<lparr>sys_agent := ?a\<rparr>))"
    using assms(2,3) by (intro begin_build_origin) (simp_all add: planned_view_def)
  with assms(1) base show ?thesis
    using Run_all_failed [of e "sys_agent s"] by (auto simp: start_act_def origin_inv_def case_prod_unfold Let_def)
qed

lemma origin_inv_step:
  assumes inv: "origin_inv K s" and ok: "act_ok act"
  shows "origin_inv K (sys_step K act s)"
proof -
  have base: "origin_base K s" using inv by (simp add: origin_inv_def)
  show ?thesis
  proof (cases act)
    case (GpuPoller ev)
    with inv show ?thesis by (simp add: sys_step_def gpu_act_def origin_inv_def)
  next
    case (ReadsKind k)
    with inv show ?thesis by (simp add: sys_step_def origin_inv_def read_kind_origin split: main_phase.split)
  next
    case BuildNext
    have "origin_inv K (build_next s r)" if "main_phase s = Building r" for r
      using inv that by (intro build_next_origin) (simp_all add: origin_inv_def)
    with inv BuildNext show ?thesis by (auto simp: sys_step_def split: main_phase.split)
  next
    case (TickFires now e)
    with inv ok base show ?thesis
      by (auto simp: sys_step_def tick_act_def act_ok_def planned_view_def intro!: loop_act_origin begin_build_origin)
  next
    case (ContextDone err)
    with inv base show ?thesis by (auto simp: sys_step_def intro!: loop_act_origin)
  qed (use inv ok in \<open>simp_all add: sys_step_def act_ok_def informer_act_origin usage_act_origin start_act_origin\<close>)
qed

lemma origin_inv_start: "origin_inv K (main_system e caps)"
  using main_agent_latest [of e caps] main_pipeline_builder [of e caps]
  by (simp add: main_system_def origin_inv_def origin_base_def holds_listed_def new_poller_def NewMetricsCollector_def NewTypedStore_def)

interpretation origin: system_invariant K "\<lambda>s. s = main_system e caps" "origin_inv K" for K e caps
  by unfold_locales (simp_all add: origin_inv_start origin_inv_step)

lemma own_acts_polls:
  "list_all own_act acts \<Longrightarrow> polls (fold (sys_step K) (MainStarts e # acts) s) = polls s"
proof -
  have own: "polls (sys_step K act s) = polls s" if "own_act act \<or> act = MainStarts e" for act and s :: "('a, 'b) system"
    using that
    by (cases act)
      (simp_all add: own_act_def sys_step_def start_act_def build_next_def finish_build_def begin_build_def Let_def case_prod_unfold
        split: main_phase.split build_stage.split list.split build_purpose.split)
  have "list_all own_act acts \<Longrightarrow> polls (fold (sys_step K) acts s) = polls s" for s
    by (induction acts arbitrary: s) (simp_all add: own)
  moreover assume "list_all own_act acts"
  ultimately show ?thesis by (simp add: own)
qed

lemma published_pods_reported:
  assumes "reachable K (main_system env caps) s" and "latestSnapshot (sys_agent s) = Some snap"
  shows "list_all (pod_reported K (polls s)) (ClusterSnapshot.Pods snap)"
  using origin.reachable_inv [OF assms(1) refl] assms(2) by (simp add: origin_inv_def origin_base_def list_all_iff)

end
