(* ===== verification/Node_Origin.thy ===== *)
theory Node_Origin
  imports Usage_Origin
begin

text \<open>
  Where the usage figures of the nodes of a published snapshot come from. Unlike the containers of pods, nodes
  are copied out of their store, and no build writes into it: the stored nodes never have figures.
\<close>

section \<open>Figures that the metrics-server reported\<close>

definition node_reported :: "('q, 's) kube \<Rightarrow> 'q metrics_env list \<Rightarrow> NodeInfo \<Rightarrow> bool" where
  "node_reported K es n \<longleftrightarrow>
     NodeInfo.CPUUsageCores n = None \<and> NodeInfo.MemoryUsageBytes n = None
     \<or> list_ex (\<lambda>e. list_ex (\<lambda>nm. nm_Name nm = NodeInfo.Name n
          \<and> NodeInfo.CPUUsageCores n = Some (NodeMetrics.CPUUsageCores (node_usage K nm))
          \<and> NodeInfo.MemoryUsageBytes n = Some (NodeMetrics.MemoryUsageBytes (node_usage K nm)))
        (listed (NodeMetricses_List e))) es"

abbreviation nodes_listed :: "('q, 's) kube \<Rightarrow> 'q metrics_env list \<Rightarrow> NodeMetrics TypedStore \<Rightarrow> bool" where
  "nodes_listed K \<equiv> holds_listed NodeMetricses_List (node_usage K)"

lemma node_reported_more: "node_reported K es n \<Longrightarrow> node_reported K (es @ es') n"
  by (auto simp: node_reported_def)

lemma merged_nodes_reported:
  assumes "nodes_listed K es (NodeMetrics_store (SnapshotBuilder.metricsStore b))" and "view_ok v"
    and "\<forall>n \<in> set ns. node_reported K es n" and "n \<in> set (merged_nodes b v ns)"
  shows "node_reported K es n"
proof -
  let ?ms = "Store.Values (orders v 22) (NodeMetrics_store (SnapshotBuilder.metricsStore b))"
  have gpu: "node_reported K es (merge_gpu_node devs n) \<longleftrightarrow> node_reported K es n" for devs n
    by (simp add: node_reported_def merge_gpu_node_def Let_def)
  have "node_reported K es n" if "n \<in> set (mergeNodeMetrics ns ?ms)" for n
  proof (cases "\<exists>n0 \<in> set ns. \<exists>m. index_by NodeMetrics.Name ?ms (NodeInfo.Name n0) = Some m
      \<and> n = n0\<lparr>NodeInfo.CPUUsageCores := Some (NodeMetrics.CPUUsageCores m), NodeInfo.MemoryUsageBytes := Some (NodeMetrics.MemoryUsageBytes m)\<rparr>")
    case True
    then obtain n0 m where m: "index_by NodeMetrics.Name ?ms (NodeInfo.Name n0) = Some m"
      "n = n0\<lparr>NodeInfo.CPUUsageCores := Some (NodeMetrics.CPUUsageCores m), NodeInfo.MemoryUsageBytes := Some (NodeMetrics.MemoryUsageBytes m)\<rparr>"
      by blast
    from index_by_SomeD' [OF m(1)] have "m \<in> snd ` set (items (NodeMetrics_store (SnapshotBuilder.metricsStore b)))"
      "NodeMetrics.Name m = NodeInfo.Name n0"
      using assms(2) by (simp_all add: Values_set view_ok_def)
    with assms(1) obtain e nm where "e \<in> set es" "nm \<in> set (listed (NodeMetricses_List e))" "m = node_usage K nm" "nm_Name nm = NodeInfo.Name n0"
      unfolding holds_listed_def by (auto simp: node_usage_def Let_def)
    then show ?thesis by (auto simp: node_reported_def list_ex_iff m(2))
  next
    case False
    then have "n \<in> set ns" using that by (auto simp: mergeNodeMetrics_def Let_def split: if_splits option.splits)
    with assms(3) show ?thesis by blast
  qed
  with assms(4) show ?thesis
    by (auto simp: merged_nodes_def mergeGPUNodeMetrics_def Let_def gpu split: option.splits if_splits)
qed

text \<open>The nodes of a snapshot are those read first, merged, and those read again.\<close>

lemma built_nodes:
  assumes "pipeline b = Some main_pipeline" and "view_ok v"
  shows "set (ClusterSnapshot.Nodes (fst (Build b v))) \<subseteq>
     set (merged_nodes b v (Store.Values (orders v 0) (Store.Nodes (read_store v)))) \<union> set (Store.Values (orders v 24) (reread_nodes v))"
proof -
  let ?snap = "(fst (readStores v zero_ClusterSnapshot))
     \<lparr>ClusterSnapshot.Nodes := merged_nodes b v (Store.Values (orders v 0) (Store.Nodes (read_store v))),
      ClusterSnapshot.Pods := merged_pods b v (Store.Values (orders v 1) (Store.Pods (read_store v)))\<rparr>"
  have ord: "order_ok (orders v 25)" using assms(2) by (simp add: view_ok_def)
  have "ClusterSnapshot.Nodes (fst (Build b v)) = ClusterSnapshot.Nodes (fst (backfillReferencedNodes v ?snap (SnapshotBuilder.metrics b)))"
    using assms(1) build_nodes [of b v] by (simp add: build_filled_def readStores_def Let_def)
  also have "\<dots> = merged_nodes b v (Store.Values (orders v 0) (Store.Nodes (read_store v))) @
      some_of (index_by NodeInfo.Name (Store.Values (orders v 24) (reread_nodes v))) (map fst (map_range (orders v 25) (missing_nodes ?snap)))"
    by (simp add: backfill_Nodes [OF ord])
  finally have nodes: "ClusterSnapshot.Nodes (fst (Build b v)) = merged_nodes b v (Store.Values (orders v 0) (Store.Nodes (read_store v))) @
      some_of (index_by NodeInfo.Name (Store.Values (orders v 24) (reread_nodes v))) (map fst (map_range (orders v 25) (missing_nodes ?snap)))" .
  show ?thesis unfolding nodes set_append set_some_of by (auto dest: index_by_SomeD')
qed

text \<open>Stored nodes have no figures.\<close>

definition no_usage :: "NodeInfo \<Rightarrow> bool" where
  "no_usage n \<longleftrightarrow> NodeInfo.CPUUsageCores n = None \<and> NodeInfo.MemoryUsageBytes n = None"

lemma stored_nodes_plain:
  assumes "order_ok ord" and "n \<in> set (Store.Values ord (Store.Nodes (after_events K t m evs)))"
  shows "no_usage n"
proof -
  have "reflects (Store.Values ord (Store.Nodes (after_events K t m evs))) (NodeToModel K) (objects Node_of Node_okey evs)"
    by (simp add: nodes.reflects_after [OF assms(1), folded after_events_def])
  then have "n \<in># image_mset (NodeToModel K) (cluster_objects (objects Node_of Node_okey evs))"
    using assms(2) by (metis reflects_def set_mset_mset)
  then show ?thesis by (auto simp: no_usage_def NodeToModel_def zero_NodeInfo_def Let_def case_prod_unfold)
qed

section \<open>The invariant\<close>

definition node_build :: "('q, 's) kube \<Rightarrow> 'q metrics_env list \<Rightarrow> build_run \<Rightarrow> bool" where
  "node_build K es r \<longleftrightarrow> stage r \<noteq> ReadingStores \<longrightarrow> nodes_listed K es (NodeMetrics_store (usage_read r))"

definition node_part :: "('q, 's) kube \<Rightarrow> ('q, 's) system \<Rightarrow> bool" where
  "node_part K s \<longleftrightarrow>
     nodes_listed K (polls s) (NodeMetrics_store (MetricsCollector.metricsStore (coll (sys_usage s))))
     \<and> (\<forall>snap. latestSnapshot (sys_agent s) = Some snap \<longrightarrow> (\<forall>n \<in> set (ClusterSnapshot.Nodes snap). node_reported K (polls s) n))
     \<and> (\<forall>r. main_phase s = Building r \<longrightarrow> node_build K (polls s) r)"

lemma view_nodes_plain:
  assumes "view_reflects K t h i j v" and "view_ok v"
  shows "\<forall>n \<in> set (Store.Values (orders v 0) (Store.Nodes (read_store v))). no_usage n"
    and "\<forall>n \<in> set (Store.Values (orders v 24) (reread_nodes v)). no_usage n"
proof -
  have ord: "order_ok (orders v k)" for k using assms(2) by (simp add: view_ok_def)
  have "at_some_moment h i j (\<lambda>evs. same_kind Of_Nodes (plain (read_store v)) (plain (after_events K t NewMetrics evs)))"
    using assms(1) unfolding view_reflects_def by blast
  then obtain evs where "Store.Nodes (read_store v) = Store.Nodes (after_events K t NewMetrics evs)"
    by (auto simp: at_some_moment_iff)
  then show "\<forall>n \<in> set (Store.Values (orders v 0) (Store.Nodes (read_store v))). no_usage n"
    using stored_nodes_plain [OF ord] by metis
  have "at_some_moment h i j (\<lambda>evs. reread_nodes v = Store.Nodes (after_events K t NewMetrics evs))"
    using assms(1) by (simp add: view_reflects_def)
  then obtain evs where "reread_nodes v = Store.Nodes (after_events K t NewMetrics evs)" by (auto simp: at_some_moment_iff)
  then show "\<forall>n \<in> set (Store.Values (orders v 24) (reread_nodes v)). no_usage n"
    using stored_nodes_plain [OF ord] by metis
qed

lemma sent_nodes_reported:
  assumes "base_inv K t s" and "build_inv K t s r" and "node_build K (polls s) r" and "stage r = ReadingTimes"
    and "env_view e = view r" and "builder a = builder (build_agent s r)"
  shows "\<forall>n \<in> set (ClusterSnapshot.Nodes (fst (sent_snapshot e a))). node_reported K (polls s) n"
proof
  let ?b = "(builder a)\<lparr>SnapshotBuilder.metrics := Some (Agent.metrics a)\<rparr>"
  fix n assume n: "n \<in> set (ClusterSnapshot.Nodes (fst (sent_snapshot e a)))"
  obtain snap a1 where b: "agent_build (env_view e) a = (snap, a1)" by fastforce
  obtain x where "fst (sent_snapshot e a) = snap\<lparr>ClusterSnapshot.Health := x\<rparr>"
    unfolding sent_snapshot_def b Let_def prod.case using populateHealth_snapshot by blast
  moreover have "snap = fst (Build ?b (view r))"
    using b assms(5) by (simp add: agent_build_def Let_def case_prod_unfold)
  ultimately have n': "n \<in> set (ClusterSnapshot.Nodes (fst (Build ?b (view r))))" using n by simp
  have ok: "view_ok (view r)" using assms(2) by (simp add: build_inv_def)
  have p: "pipeline ?b = Some main_pipeline" using assms(1,6) by (simp add: base_inv_def)
  have listed: "nodes_listed K (polls s) (NodeMetrics_store (SnapshotBuilder.metricsStore ?b))"
    using assms(3,4,6) by (simp add: node_build_def build_agent_def run_builder_def)
  note plain = view_nodes_plain [OF view_reflects_end [OF assms(2,4)] ok]
  have reported: "node_reported K (polls s) n" if "no_usage n" for n using that by (simp add: no_usage_def node_reported_def)
  show "node_reported K (polls s) n"
    using built_nodes [OF p ok] n' merged_nodes_reported [OF listed ok _, of _ n] plain reported by blast
qed

lemma node_part_agent:
  assumes "node_part K s" and "\<forall>r. p \<noteq> Building r"
    and "latestSnapshot a = latestSnapshot (sys_agent s)
      \<or> (\<exists>snap. latestSnapshot a = Some snap \<and> (\<forall>n \<in> set (ClusterSnapshot.Nodes snap). node_reported K (polls s) n))"
  shows "node_part K (s\<lparr>sys_agent := a, sys_metrics := m, main_phase := p, shown_versions := vs, shown_from := i, shown_to := j\<rparr>)"
    and "node_part K (begin_build q (s\<lparr>sys_agent := a, sys_metrics := m\<rparr>))"
    and "node_part K (s\<lparr>sys_agent := a, main_phase := p\<rparr>)"
  using assms by (auto simp: node_part_def node_build_def begin_build_def Let_def)

lemma finish_build_nodes:
  assumes "base_inv K t s" and "build_inv K t s r" and "node_part K s" and "main_phase s = Building r" and "stage r = ReadingTimes"
  shows "node_part K (finish_build s r)"
proof -
  have sent: "\<forall>n \<in> set (ClusterSnapshot.Nodes (fst (sent_snapshot e a))). node_reported K (polls s) n"
    if "env_view e = view r" "builder a = builder (build_agent s r)" for e a
    using sent_nodes_reported [OF assms(1,2) _ assms(5) that] assms(3,4) by (simp add: node_part_def)
  show ?thesis
  proof (cases "purpose r")
    case (ForCounts e)
    then show ?thesis
      using node_part_agent(2) [OF assms(3), of Waiting "become_ready (e\<lparr>counts_view := view r\<rparr>) (build_agent s r)"]
      by (simp add: finish_build_def before_loop_fields Let_def)
  next
    case (ForFirst e)
    let ?e = "e\<lparr>env_view := view r\<rparr>"
    from ForFirst show ?thesis
      using node_part_agent(1) [OF assms(3), of Waiting "doSnapshot ?e (build_agent s r)"] sent [of ?e "build_agent s r"]
      by (simp add: finish_build_def doSnapshot_fields Let_def)
  next
    case (ForTick now e)
    let ?e = "e\<lparr>env_view := view r\<rparr>" and ?a = "build_agent s r"
    have "\<forall>n \<in> set (ClusterSnapshot.Nodes (fst (sent_snapshot ?e (?a\<lparr>stateMachine := sm\<rparr>)))). node_reported K (polls s) n" for sm
      by (rule sent) simp_all
    with ForTick show ?thesis
      using node_part_agent(1) [OF assms(3), of "main_result res" "fst (stop_collectors (loop_step (Tick now ?e) ?a))" for res]
      by (simp add: finish_build_def fst_loop_step doSnapshot_fields Let_def case_prod_unfold)
  qed
qed

lemma build_next_nodes:
  assumes "base_inv K t s" and "build_inv K t s r" and "node_part K s" and "main_phase s = Building r"
  shows "node_part K (build_next s r)"
  using assms(3,4) finish_build_nodes [OF assms]
  by (cases "stage r"; cases "unread r") (auto simp: build_next_def node_part_def node_build_def merge_shown_def)

lemma usage_act_nodes:
  assumes "node_part K s"
  shows "node_part K (usage_act K ev s)"
proof -
  let ?s = "usage_act K ev s"
  have "\<exists>es. polls ?s = polls s @ es" by (cases ev) (auto simp: usage_act_def Let_def)
  then obtain es where es: "polls ?s = polls s @ es" ..
  have poll: "nodes_listed K (es @ [e]) (NodeMetrics_store (MetricsCollector.metricsStore (Metrics_poll K e c)))"
    if "nodes_listed K es (NodeMetrics_store (MetricsCollector.metricsStore c))" for es e c
    using that holds_listed_more [OF that, of "[e]"]
    by (auto simp: metrics_poll_defs listed_def intro!: set_all_reported split: sum.splits)
  have "nodes_listed K (polls ?s) (NodeMetrics_store (MetricsCollector.metricsStore (coll (sys_usage ?s))))"
    using assms poll [of "polls s" "(coll (sys_usage s))\<lparr>mc_metrics := sys_metrics s\<rparr>"]
    by (simp add: node_part_def usage_act_def Metrics_run_def poller_step_def Let_def split: run_event.split)
  moreover have "sys_agent ?s = sys_agent s" "main_phase ?s = main_phase s" by (simp_all add: usage_act_def Let_def)
  ultimately show ?thesis
    using assms unfolding node_part_def node_build_def es by (auto intro: holds_listed_more node_reported_more)
qed

lemma node_part_step:
  assumes inv: "cluster_inv K t s" "node_part K s"
  shows "node_part K (sys_step K act s)"
proof (cases act)
  case (InformerEvent now ev)
  with inv show ?thesis by (simp add: sys_step_def informer_act_def node_part_def Let_def case_prod_unfold)
next
  case (UsagePoller ev)
  with inv show ?thesis by (simp add: sys_step_def usage_act_nodes)
next
  case (GpuPoller ev)
  with inv show ?thesis by (simp add: sys_step_def gpu_act_def node_part_def)
next
  case (MainStarts e)
  have "fst (Run e [] (sys_agent s)) = snd (start_collectors e (sys_agent s))" "\<exists>x. snd (Run e [] (sys_agent s)) = Returned x"
    if "all_failed e (sys_agent s)" using Run_all_failed [OF that] by simp_all
  with MainStarts inv(2) show ?thesis
    by (auto simp: sys_step_def start_act_def node_part_def node_build_def begin_build_def main_result_def Let_def case_prod_unfold
        split: run_result.splits)
next
  case (ReadsKind k)
  with inv show ?thesis by (auto simp: sys_step_def node_part_def node_build_def read_kind_def split: main_phase.split)
next
  case BuildNext
  have "node_part K (build_next s r)" if "main_phase s = Building r" for r
    using inv that by (intro build_next_nodes [where t = t]) (simp_all add: cluster_inv_def)
  with inv BuildNext show ?thesis by (auto simp: sys_step_def split: main_phase.split)
next
  case (TickFires now e)
  have "fst (loop_step (Tick now e) (sys_agent s)) = sys_agent s" if "\<not> takes_snapshot now (sys_agent s)"
    using that by (simp add: fst_loop_step)
  with TickFires inv(2) show ?thesis
    by (auto simp: sys_step_def tick_act_def loop_act_def node_part_def node_build_def begin_build_def Let_def case_prod_unfold)
next
  case (ContextDone err)
  with inv(2) show ?thesis
    by (auto simp: sys_step_def loop_act_def node_part_def fst_loop_step Let_def case_prod_unfold)
qed

interpretation node_origin: system_invariant K "\<lambda>s. s = main_system e caps" "\<lambda>s. cluster_inv K (time_at_start e) s \<and> node_part K s" for K e caps
proof unfold_locales
  fix s :: "('a, 'b) system" assume s: "s = main_system e caps"
  have "node_part K (main_system e caps)"
    using main_agent_latest [of e caps]
    by (simp add: node_part_def main_system_def new_poller_def NewMetricsCollector_def NewMetricsStore_def)
  with s show "cluster_inv K (time_at_start e) s \<and> node_part K s" by (simp add: cluster_inv_start)
qed (use cluster_inv_step node_part_step in blast)

section \<open>The property\<close>

text \<open>
  C6. No usage figure of a published snapshot is invented or mixed up: in every reachable state, each
  container of each pod of the latest snapshot has no figures or those that one answer of
  the metrics-server gave, in a poll that has run, for a container of its name in a pod of
  its namespace and name; and each node has no figures or those that one answer gave for the node of its name.
\<close>

theorem published_usage_was_reported:
  assumes "reachable K (main_system env caps) s" and "latestSnapshot (sys_agent s) = Some snap"
  shows "list_all (pod_reported K (polls s)) (ClusterSnapshot.Pods snap) \<and> list_all (node_reported K (polls s)) (ClusterSnapshot.Nodes snap)"
  using published_pods_reported [OF assms] node_origin.reachable_inv [OF assms(1) refl] assms(2) by (simp add: node_part_def list_all_iff)

text \<open>A program whose metrics-server has answered once before the first snapshot.\<close>

definition example_poll :: "nat metrics_env" where
  "example_poll = \<lparr>NodeMetricses_List = Inr [],
     PodMetricses_List = Inr [\<lparr>pm_Name = ''web-2'', pm_Namespace = ''prod'',
       pm_Containers = [\<lparr>cm_Name = ''app'', cm_Usage = []\<rparr>], pm_Timestamp = 0\<rparr>],
     node_clock = (\<lambda>_. 0), pod_clock = (\<lambda>_. 0), metrics_begin = 0, metrics_end = 0\<rparr>"

theorem published_usage_was_reported_witness:
  "\<exists>s snap. reachable example_kube (main_system example_main example_caps) s \<and> latestSnapshot (sys_agent s) = Some snap
     \<and> polls s = [example_poll] \<and> list_all (pod_reported example_kube [example_poll]) (ClusterSnapshot.Pods snap)"
proof -
  let ?s0 = "main_system example_main example_caps :: (nat, string) system"
  let ?before = "map (\<lambda>(now, ev). InformerEvent now ev) example_events @ [UsagePoller StartCalled, UsagePoller (PollRuns example_poll)] :: (nat, string) act list"
  let ?s1 = "fold (sys_step example_kube) ?before ?s0"
  have cs: "list_all collector_act ?before" by (simp add: example_events_def collector_act_def)
  have s1: "main_phase ?s1 = MainIdle" "sys_agent ?s1 = main_agent example_main example_caps"
    using collector_acts_leave_agent [OF cs, of example_kube ?s0] by (simp_all add: main_system_def)
  have p1: "polls ?s1 = [example_poll]"
    by (simp add: main_system_def example_events_def sys_step_def informer_act_def usage_act_def Metrics_run_def poller_step_def
        new_poller_def Let_def case_prod_unfold)
  obtain acts where acts: "list_all own_act acts"
    and published: "latestSnapshot (sys_agent (fold (sys_step example_kube) (MainStarts (example_run 200) # acts) ?s1)) \<noteq> None"
    using first_publication [OF s1(1), of "example_run 200" example_kube] s1 example_main_starts unfolding Let_def by auto
  define s where "s = fold (sys_step example_kube) (?before @ MainStarts (example_run 200) # acts) ?s0"
  have "list_all act_ok (?before @ MainStarts (example_run 200) # acts)"
    using collector_acts_ok [OF cs] own_acts_ok [OF acts] by (simp add: act_ok_def view_ok_def example_run_def example_env_def)
  then have reach: "reachable example_kube ?s0 s" unfolding s_def by (intro reachable_run reachable_start)
  obtain snap where snap: "latestSnapshot (sys_agent s) = Some snap" using published by (auto simp: s_def)
  have p: "polls s = [example_poll]" using own_acts_polls [OF acts, of example_kube _ ?s1] p1 by (simp add: s_def)
  have "list_all (pod_reported example_kube [example_poll]) (ClusterSnapshot.Pods snap)"
    using published_usage_was_reported [OF reach snap] by (simp add: p)
  with reach snap p show ?thesis by (intro exI [of _ s] exI [of _ snap] conjI)
qed

end
