(* ===== verification/Resource_Collectors.thy ===== *)
theory Resource_Collectors
  imports System
begin

text \<open>
  How the informer collectors of \<^verbatim>\<open>internal/collector/resource\<close> are made and started: the
  constructors, and \<^verbatim>\<open>Start\<close>, which asks a factory for the informer of one resource, registers the
  handlers on it and runs it. What the typed factories of client-go watch is the resource that their
  methods are named for. The handlers that \<^verbatim>\<open>main\<close> so registers are shown to be what the model of the running
  program dispatches events to, and the resources they watch are compared with the permissions
  that the documentation grants.
\<close>

section \<open>Collectors\<close>

record GroupVersionResource =
  gvr_Group :: string
  gvr_Version :: string
  gvr_Resource :: string

datatype kube_client = TypedClient | DynamicClient

text \<open>An informer as a collector has it after \<^verbatim>\<open>Start\<close>: what it watches, how often it repeats what it knows, and its handlers.\<close>

record ('q, 's) shared_informer =
  si_resource :: GroupVersionResource
  si_resync :: Duration
  si_handlers :: "Time \<Rightarrow> ('q, 's) resource_event \<Rightarrow> Store \<times> Metrics \<Rightarrow> Store \<times> Metrics"

text \<open>The structs of the 21 collectors have the same fields; the store and the metrics are those of the program.\<close>

record ('q, 's) resource_collector =
  rc_client :: kube_client
  rc_informer :: "('q, 's) shared_informer option"
  rc_goroutine :: informer
  rc_resyncPeriod :: Duration

definition new_resource_collector :: "kube_client \<Rightarrow> Duration \<Rightarrow> ('q, 's) resource_collector" where
  "new_resource_collector cl resync =
     \<lparr>rc_client = cl, rc_informer = None, rc_goroutine = new_informer, rc_resyncPeriod = resync\<rparr>"

text \<open>Handlers are called with objects of their kind only.\<close>

definition on_kind :: "(('q, 's) resource_event \<Rightarrow> 'e option) \<Rightarrow> (Time \<Rightarrow> 'e \<Rightarrow> Store \<times> Metrics \<Rightarrow> Store \<times> Metrics) \<Rightarrow>
    Time \<Rightarrow> ('q, 's) resource_event \<Rightarrow> Store \<times> Metrics \<Rightarrow> Store \<times> Metrics" where
  "on_kind proj h now ev = (case proj ev of None \<Rightarrow> (\<lambda>sm. sm) | Some e \<Rightarrow> h now e)"

text \<open>\<^verbatim>\<open>Start\<close>, given the answer of \<^verbatim>\<open>AddEventHandler\<close>.\<close>

definition start_informer :: "string \<Rightarrow> GroupVersionResource \<Rightarrow> (Time \<Rightarrow> ('q, 's) resource_event \<Rightarrow> Store \<times> Metrics \<Rightarrow> Store \<times> Metrics) \<Rightarrow>
    goerror option \<Rightarrow> ('q, 's) resource_collector \<Rightarrow> goerror option \<times> ('q, 's) resource_collector" where
  "start_informer name gvr h err c =
     (let c1 = c\<lparr>rc_informer := Some \<lparr>si_resource = gvr, si_resync = rc_resyncPeriod c, si_handlers = h\<rparr>,
                 rc_goroutine := informer_Start err (rc_goroutine c)\<rparr>
      in case err of
           Some e \<Rightarrow> (Some (Errorf (name @ '': add event handler: '' @ error_text e) (Some e)), c1)
         | None \<Rightarrow> (None, c1))"

definition NewNodeCollector :: "Duration \<Rightarrow> ('q, 's) resource_collector" where
  "NewNodeCollector = new_resource_collector TypedClient"

definition NodeCollector_Start :: "('q, 's) kube \<Rightarrow> goerror option \<Rightarrow> ('q, 's) resource_collector \<Rightarrow> goerror option \<times> ('q, 's) resource_collector" where
  "NodeCollector_Start K =
     start_informer ''nodes'' \<lparr>gvr_Group = '''', gvr_Version = ''v1'', gvr_Resource = ''nodes''\<rparr>
       (on_kind Node_of (NodeCollector_handle K))"

definition NewPodCollector :: "Duration \<Rightarrow> ('q, 's) resource_collector" where
  "NewPodCollector = new_resource_collector TypedClient"

definition PodCollector_Start :: "('q, 's) kube \<Rightarrow> goerror option \<Rightarrow> ('q, 's) resource_collector \<Rightarrow> goerror option \<times> ('q, 's) resource_collector" where
  "PodCollector_Start K =
     start_informer ''pods'' \<lparr>gvr_Group = '''', gvr_Version = ''v1'', gvr_Resource = ''pods''\<rparr>
       (on_kind Pod_of (PodCollector_handle K))"

definition NewNamespaceCollector :: "Duration \<Rightarrow> ('q, 's) resource_collector" where
  "NewNamespaceCollector = new_resource_collector TypedClient"

definition NamespaceCollector_Start :: "('q, 's) kube \<Rightarrow> goerror option \<Rightarrow> ('q, 's) resource_collector \<Rightarrow> goerror option \<times> ('q, 's) resource_collector" where
  "NamespaceCollector_Start K =
     start_informer ''namespaces'' \<lparr>gvr_Group = '''', gvr_Version = ''v1'', gvr_Resource = ''namespaces''\<rparr>
       (on_kind Namespace_of (NamespaceCollector_handle K))"

definition NewDeploymentCollector :: "Duration \<Rightarrow> ('q, 's) resource_collector" where
  "NewDeploymentCollector = new_resource_collector TypedClient"

definition DeploymentCollector_Start :: "('q, 's) kube \<Rightarrow> goerror option \<Rightarrow> ('q, 's) resource_collector \<Rightarrow> goerror option \<times> ('q, 's) resource_collector" where
  "DeploymentCollector_Start K =
     start_informer ''deployments'' \<lparr>gvr_Group = ''apps'', gvr_Version = ''v1'', gvr_Resource = ''deployments''\<rparr>
       (on_kind Deployment_of (DeploymentCollector_handle K))"

definition NewStatefulSetCollector :: "Duration \<Rightarrow> ('q, 's) resource_collector" where
  "NewStatefulSetCollector = new_resource_collector TypedClient"

definition StatefulSetCollector_Start :: "('q, 's) kube \<Rightarrow> goerror option \<Rightarrow> ('q, 's) resource_collector \<Rightarrow> goerror option \<times> ('q, 's) resource_collector" where
  "StatefulSetCollector_Start K =
     start_informer ''statefulsets'' \<lparr>gvr_Group = ''apps'', gvr_Version = ''v1'', gvr_Resource = ''statefulsets''\<rparr>
       (on_kind StatefulSet_of (StatefulSetCollector_handle K))"

definition NewDaemonSetCollector :: "Duration \<Rightarrow> ('q, 's) resource_collector" where
  "NewDaemonSetCollector = new_resource_collector TypedClient"

definition DaemonSetCollector_Start :: "('q, 's) kube \<Rightarrow> goerror option \<Rightarrow> ('q, 's) resource_collector \<Rightarrow> goerror option \<times> ('q, 's) resource_collector" where
  "DaemonSetCollector_Start K =
     start_informer ''daemonsets'' \<lparr>gvr_Group = ''apps'', gvr_Version = ''v1'', gvr_Resource = ''daemonsets''\<rparr>
       (on_kind DaemonSet_of (DaemonSetCollector_handle K))"

definition NewReplicaSetCollector :: "Duration \<Rightarrow> ('q, 's) resource_collector" where
  "NewReplicaSetCollector = new_resource_collector TypedClient"

definition ReplicaSetCollector_Start :: "('q, 's) kube \<Rightarrow> goerror option \<Rightarrow> ('q, 's) resource_collector \<Rightarrow> goerror option \<times> ('q, 's) resource_collector" where
  "ReplicaSetCollector_Start K =
     start_informer ''replicasets'' \<lparr>gvr_Group = ''apps'', gvr_Version = ''v1'', gvr_Resource = ''replicasets''\<rparr>
       (on_kind ReplicaSet_of (ReplicaSetCollector_handle K))"

definition NewJobCollector :: "Duration \<Rightarrow> ('q, 's) resource_collector" where
  "NewJobCollector = new_resource_collector TypedClient"

definition JobCollector_Start :: "('q, 's) kube \<Rightarrow> goerror option \<Rightarrow> ('q, 's) resource_collector \<Rightarrow> goerror option \<times> ('q, 's) resource_collector" where
  "JobCollector_Start K =
     start_informer ''jobs'' \<lparr>gvr_Group = ''batch'', gvr_Version = ''v1'', gvr_Resource = ''jobs''\<rparr>
       (on_kind Job_of (JobCollector_handle K))"

definition NewCronJobCollector :: "Duration \<Rightarrow> ('q, 's) resource_collector" where
  "NewCronJobCollector = new_resource_collector TypedClient"

definition CronJobCollector_Start :: "('q, 's) kube \<Rightarrow> goerror option \<Rightarrow> ('q, 's) resource_collector \<Rightarrow> goerror option \<times> ('q, 's) resource_collector" where
  "CronJobCollector_Start K =
     start_informer ''cronjobs'' \<lparr>gvr_Group = ''batch'', gvr_Version = ''v1'', gvr_Resource = ''cronjobs''\<rparr>
       (on_kind CronJob_of (CronJobCollector_handle K))"

definition NewHPACollector :: "Duration \<Rightarrow> ('q, 's) resource_collector" where
  "NewHPACollector = new_resource_collector TypedClient"

definition HPACollector_Start :: "('q, 's) kube \<Rightarrow> goerror option \<Rightarrow> ('q, 's) resource_collector \<Rightarrow> goerror option \<times> ('q, 's) resource_collector" where
  "HPACollector_Start K =
     start_informer ''hpas'' \<lparr>gvr_Group = ''autoscaling'', gvr_Version = ''v2'', gvr_Resource = ''horizontalpodautoscalers''\<rparr>
       (on_kind HPA_of (HPACollector_handle K))"

definition vpaGVR :: GroupVersionResource where
  "vpaGVR = \<lparr>gvr_Group = ''autoscaling.k8s.io'', gvr_Version = ''v1'', gvr_Resource = ''verticalpodautoscalers''\<rparr>"

definition NewVPACollector :: "Duration \<Rightarrow> ('q, 's) resource_collector" where
  "NewVPACollector = new_resource_collector DynamicClient"

definition VPACollector_Start :: "('q, 's) kube \<Rightarrow> goerror option \<Rightarrow> ('q, 's) resource_collector \<Rightarrow> goerror option \<times> ('q, 's) resource_collector" where
  "VPACollector_Start K =
     start_informer ''vpas'' vpaGVR
       (on_kind VPA_of (VPACollector_handle K))"

definition NewPDBCollector :: "Duration \<Rightarrow> ('q, 's) resource_collector" where
  "NewPDBCollector = new_resource_collector TypedClient"

definition PDBCollector_Start :: "('q, 's) kube \<Rightarrow> goerror option \<Rightarrow> ('q, 's) resource_collector \<Rightarrow> goerror option \<times> ('q, 's) resource_collector" where
  "PDBCollector_Start K =
     start_informer ''pdbs'' \<lparr>gvr_Group = ''policy'', gvr_Version = ''v1'', gvr_Resource = ''poddisruptionbudgets''\<rparr>
       (on_kind PDB_of (PDBCollector_handle K))"

definition NewServiceCollector :: "Duration \<Rightarrow> ('q, 's) resource_collector" where
  "NewServiceCollector = new_resource_collector TypedClient"

definition ServiceCollector_Start :: "('q, 's) kube \<Rightarrow> goerror option \<Rightarrow> ('q, 's) resource_collector \<Rightarrow> goerror option \<times> ('q, 's) resource_collector" where
  "ServiceCollector_Start K =
     start_informer ''services'' \<lparr>gvr_Group = '''', gvr_Version = ''v1'', gvr_Resource = ''services''\<rparr>
       (on_kind Service_of (ServiceCollector_handle K))"

definition NewIngressCollector :: "Duration \<Rightarrow> ('q, 's) resource_collector" where
  "NewIngressCollector = new_resource_collector TypedClient"

definition IngressCollector_Start :: "('q, 's) kube \<Rightarrow> goerror option \<Rightarrow> ('q, 's) resource_collector \<Rightarrow> goerror option \<times> ('q, 's) resource_collector" where
  "IngressCollector_Start K =
     start_informer ''ingresses'' \<lparr>gvr_Group = ''networking.k8s.io'', gvr_Version = ''v1'', gvr_Resource = ''ingresses''\<rparr>
       (on_kind Ingress_of (IngressCollector_handle K))"

definition NewPVCollector :: "Duration \<Rightarrow> ('q, 's) resource_collector" where
  "NewPVCollector = new_resource_collector TypedClient"

definition PVCollector_Start :: "('q, 's) kube \<Rightarrow> goerror option \<Rightarrow> ('q, 's) resource_collector \<Rightarrow> goerror option \<times> ('q, 's) resource_collector" where
  "PVCollector_Start K =
     start_informer ''pvs'' \<lparr>gvr_Group = '''', gvr_Version = ''v1'', gvr_Resource = ''persistentvolumes''\<rparr>
       (on_kind PV_of (PVCollector_handle K))"

definition NewPVCCollector :: "Duration \<Rightarrow> ('q, 's) resource_collector" where
  "NewPVCCollector = new_resource_collector TypedClient"

definition PVCCollector_Start :: "('q, 's) kube \<Rightarrow> goerror option \<Rightarrow> ('q, 's) resource_collector \<Rightarrow> goerror option \<times> ('q, 's) resource_collector" where
  "PVCCollector_Start K =
     start_informer ''pvcs'' \<lparr>gvr_Group = '''', gvr_Version = ''v1'', gvr_Resource = ''persistentvolumeclaims''\<rparr>
       (on_kind PVC_of (PVCCollector_handle K))"

definition NewStorageClassCollector :: "Duration \<Rightarrow> ('q, 's) resource_collector" where
  "NewStorageClassCollector = new_resource_collector TypedClient"

definition StorageClassCollector_Start :: "('q, 's) kube \<Rightarrow> goerror option \<Rightarrow> ('q, 's) resource_collector \<Rightarrow> goerror option \<times> ('q, 's) resource_collector" where
  "StorageClassCollector_Start K =
     start_informer ''storageclasses'' \<lparr>gvr_Group = ''storage.k8s.io'', gvr_Version = ''v1'', gvr_Resource = ''storageclasses''\<rparr>
       (on_kind StorageClass_of (StorageClassCollector_handle K))"

definition NewPriorityClassCollector :: "Duration \<Rightarrow> ('q, 's) resource_collector" where
  "NewPriorityClassCollector = new_resource_collector TypedClient"

definition PriorityClassCollector_Start :: "('q, 's) kube \<Rightarrow> goerror option \<Rightarrow> ('q, 's) resource_collector \<Rightarrow> goerror option \<times> ('q, 's) resource_collector" where
  "PriorityClassCollector_Start K =
     start_informer ''priorityclasses'' \<lparr>gvr_Group = ''scheduling.k8s.io'', gvr_Version = ''v1'', gvr_Resource = ''priorityclasses''\<rparr>
       (on_kind PriorityClass_of (PriorityClassCollector_handle K))"

definition NewLimitRangeCollector :: "Duration \<Rightarrow> ('q, 's) resource_collector" where
  "NewLimitRangeCollector = new_resource_collector TypedClient"

definition LimitRangeCollector_Start :: "('q, 's) kube \<Rightarrow> goerror option \<Rightarrow> ('q, 's) resource_collector \<Rightarrow> goerror option \<times> ('q, 's) resource_collector" where
  "LimitRangeCollector_Start K =
     start_informer ''limitranges'' \<lparr>gvr_Group = '''', gvr_Version = ''v1'', gvr_Resource = ''limitranges''\<rparr>
       (on_kind LimitRange_of (LimitRangeCollector_handle K))"

definition NewResourceQuotaCollector :: "Duration \<Rightarrow> ('q, 's) resource_collector" where
  "NewResourceQuotaCollector = new_resource_collector TypedClient"

definition ResourceQuotaCollector_Start :: "('q, 's) kube \<Rightarrow> goerror option \<Rightarrow> ('q, 's) resource_collector \<Rightarrow> goerror option \<times> ('q, 's) resource_collector" where
  "ResourceQuotaCollector_Start K =
     start_informer ''resourcequotas'' \<lparr>gvr_Group = '''', gvr_Version = ''v1'', gvr_Resource = ''resourcequotas''\<rparr>
       (on_kind ResourceQuota_of (ResourceQuotaCollector_handle K))"

definition nodePoolGVR :: GroupVersionResource where
  "nodePoolGVR = \<lparr>gvr_Group = ''karpenter.sh'', gvr_Version = ''v1'', gvr_Resource = ''nodepools''\<rparr>"

definition NewNodePoolCollector :: "Duration \<Rightarrow> ('q, 's) resource_collector" where
  "NewNodePoolCollector = new_resource_collector DynamicClient"

definition NodePoolCollector_Start :: "('q, 's) kube \<Rightarrow> goerror option \<Rightarrow> ('q, 's) resource_collector \<Rightarrow> goerror option \<times> ('q, 's) resource_collector" where
  "NodePoolCollector_Start K =
     start_informer ''nodepools'' nodePoolGVR
       (on_kind NodePool_of (NodePoolCollector_handle K))"

lemmas collector_starts =
  NodeCollector_Start_def PodCollector_Start_def NamespaceCollector_Start_def DeploymentCollector_Start_def StatefulSetCollector_Start_def DaemonSetCollector_Start_def ReplicaSetCollector_Start_def JobCollector_Start_def CronJobCollector_Start_def HPACollector_Start_def VPACollector_Start_def PDBCollector_Start_def ServiceCollector_Start_def IngressCollector_Start_def PVCollector_Start_def PVCCollector_Start_def StorageClassCollector_Start_def PriorityClassCollector_Start_def LimitRangeCollector_Start_def ResourceQuotaCollector_Start_def NodePoolCollector_Start_def

lemmas collector_news =
  NewNodeCollector_def NewPodCollector_def NewNamespaceCollector_def NewDeploymentCollector_def NewStatefulSetCollector_def NewDaemonSetCollector_def NewReplicaSetCollector_def NewJobCollector_def NewCronJobCollector_def NewHPACollector_def NewVPACollector_def NewPDBCollector_def NewServiceCollector_def NewIngressCollector_def NewPVCollector_def NewPVCCollector_def NewStorageClassCollector_def NewPriorityClassCollector_def NewLimitRangeCollector_def NewResourceQuotaCollector_def NewNodePoolCollector_def

section \<open>What main registers\<close>

type_synonym ('q, 's) registration =
  "string \<times> (goerror option \<Rightarrow> ('q, 's) resource_collector \<Rightarrow> goerror option \<times> ('q, 's) resource_collector) \<times> ('q, 's) resource_collector"

definition main_resources :: "('q, 's) kube \<Rightarrow> Capabilities \<Rightarrow> Config \<Rightarrow> ('q, 's) registration list" where
  "main_resources K caps cfg =
    (let resync = InformerResyncPeriod cfg in
     [(''nodes'', NodeCollector_Start K, NewNodeCollector resync),
      (''pods'', PodCollector_Start K, NewPodCollector resync),
      (''namespaces'', NamespaceCollector_Start K, NewNamespaceCollector resync),
      (''deployments'', DeploymentCollector_Start K, NewDeploymentCollector resync),
      (''statefulsets'', StatefulSetCollector_Start K, NewStatefulSetCollector resync),
      (''daemonsets'', DaemonSetCollector_Start K, NewDaemonSetCollector resync),
      (''replicasets'', ReplicaSetCollector_Start K, NewReplicaSetCollector resync),
      (''jobs'', JobCollector_Start K, NewJobCollector resync),
      (''cronjobs'', CronJobCollector_Start K, NewCronJobCollector resync),
      (''hpas'', HPACollector_Start K, NewHPACollector resync),
      (''pdbs'', PDBCollector_Start K, NewPDBCollector resync),
      (''services'', ServiceCollector_Start K, NewServiceCollector resync),
      (''ingresses'', IngressCollector_Start K, NewIngressCollector resync),
      (''pvs'', PVCollector_Start K, NewPVCollector resync),
      (''pvcs'', PVCCollector_Start K, NewPVCCollector resync),
      (''storageclasses'', StorageClassCollector_Start K, NewStorageClassCollector resync),
      (''priorityclasses'', PriorityClassCollector_Start K, NewPriorityClassCollector resync),
      (''limitranges'', LimitRangeCollector_Start K, NewLimitRangeCollector resync),
      (''resourcequotas'', ResourceQuotaCollector_Start K, NewResourceQuotaCollector resync)]
     @ (if cap_VPA caps then [(''vpas'', VPACollector_Start K, NewVPACollector resync)] else [])
     @ (if cap_Karpenter caps then [(''nodepools'', NodePoolCollector_Start K, NewNodePoolCollector resync)] else []))"

text \<open>The collectors after \<^verbatim>\<open>StartAll\<close>, with the answers that their informers give to the registration of handlers.\<close>

definition started_resources :: "('q, 's) kube \<Rightarrow> (string \<Rightarrow> goerror option) \<Rightarrow> Capabilities \<Rightarrow> Config \<Rightarrow> ('q, 's) resource_collector list" where
  "started_resources K errs caps cfg = map (\<lambda>(name, start, c). snd (start (errs name) c)) (main_resources K caps cfg)"

text \<open>An event of the cluster is given to the handlers of every informer that runs.\<close>

definition deliver :: "('q, 's) resource_collector list \<Rightarrow> Time \<Rightarrow> ('q, 's) resource_event \<Rightarrow> Store \<times> Metrics \<Rightarrow> Store \<times> Metrics" where
  "deliver cs now ev sm =
     foldl (\<lambda>sm c. case rc_informer c of
          Some i \<Rightarrow> if inf_phase (rc_goroutine c) = Running then si_handlers i now ev sm else sm
        | None \<Rightarrow> sm) sm cs"

definition event_kind :: "('q, 's) resource_event \<Rightarrow> string" where
  "event_kind ev =
     (case ev of
        NodeEvent e \<Rightarrow> ''nodes''
      | PodEvent e \<Rightarrow> ''pods''
      | NamespaceEvent e \<Rightarrow> ''namespaces''
      | DeploymentEvent e \<Rightarrow> ''deployments''
      | StatefulSetEvent e \<Rightarrow> ''statefulsets''
      | DaemonSetEvent e \<Rightarrow> ''daemonsets''
      | ReplicaSetEvent e \<Rightarrow> ''replicasets''
      | JobEvent e \<Rightarrow> ''jobs''
      | CronJobEvent e \<Rightarrow> ''cronjobs''
      | HPAEvent e \<Rightarrow> ''hpas''
      | VPAEvent e \<Rightarrow> ''vpas''
      | PDBEvent e \<Rightarrow> ''pdbs''
      | ServiceEvent e \<Rightarrow> ''services''
      | IngressEvent e \<Rightarrow> ''ingresses''
      | PVEvent e \<Rightarrow> ''pvs''
      | PVCEvent e \<Rightarrow> ''pvcs''
      | StorageClassEvent e \<Rightarrow> ''storageclasses''
      | PriorityClassEvent e \<Rightarrow> ''priorityclasses''
      | LimitRangeEvent e \<Rightarrow> ''limitranges''
      | ResourceQuotaEvent e \<Rightarrow> ''resourcequotas''
      | NodePoolEvent e \<Rightarrow> ''nodepools'')"

section \<open>Events\<close>

text \<open>The handlers of a collector are what an event of its kind is dispatched to, and nothing for other events.\<close>

lemma handlers_dispatch:
      "on_kind Node_of (NodeCollector_handle K) now ev = (if event_kind ev = ''nodes'' then dispatch K now ev else (\<lambda>sm. sm))"
      "on_kind Pod_of (PodCollector_handle K) now ev = (if event_kind ev = ''pods'' then dispatch K now ev else (\<lambda>sm. sm))"
      "on_kind Namespace_of (NamespaceCollector_handle K) now ev = (if event_kind ev = ''namespaces'' then dispatch K now ev else (\<lambda>sm. sm))"
      "on_kind Deployment_of (DeploymentCollector_handle K) now ev = (if event_kind ev = ''deployments'' then dispatch K now ev else (\<lambda>sm. sm))"
      "on_kind StatefulSet_of (StatefulSetCollector_handle K) now ev = (if event_kind ev = ''statefulsets'' then dispatch K now ev else (\<lambda>sm. sm))"
      "on_kind DaemonSet_of (DaemonSetCollector_handle K) now ev = (if event_kind ev = ''daemonsets'' then dispatch K now ev else (\<lambda>sm. sm))"
      "on_kind ReplicaSet_of (ReplicaSetCollector_handle K) now ev = (if event_kind ev = ''replicasets'' then dispatch K now ev else (\<lambda>sm. sm))"
      "on_kind Job_of (JobCollector_handle K) now ev = (if event_kind ev = ''jobs'' then dispatch K now ev else (\<lambda>sm. sm))"
      "on_kind CronJob_of (CronJobCollector_handle K) now ev = (if event_kind ev = ''cronjobs'' then dispatch K now ev else (\<lambda>sm. sm))"
      "on_kind HPA_of (HPACollector_handle K) now ev = (if event_kind ev = ''hpas'' then dispatch K now ev else (\<lambda>sm. sm))"
      "on_kind VPA_of (VPACollector_handle K) now ev = (if event_kind ev = ''vpas'' then dispatch K now ev else (\<lambda>sm. sm))"
      "on_kind PDB_of (PDBCollector_handle K) now ev = (if event_kind ev = ''pdbs'' then dispatch K now ev else (\<lambda>sm. sm))"
      "on_kind Service_of (ServiceCollector_handle K) now ev = (if event_kind ev = ''services'' then dispatch K now ev else (\<lambda>sm. sm))"
      "on_kind Ingress_of (IngressCollector_handle K) now ev = (if event_kind ev = ''ingresses'' then dispatch K now ev else (\<lambda>sm. sm))"
      "on_kind PV_of (PVCollector_handle K) now ev = (if event_kind ev = ''pvs'' then dispatch K now ev else (\<lambda>sm. sm))"
      "on_kind PVC_of (PVCCollector_handle K) now ev = (if event_kind ev = ''pvcs'' then dispatch K now ev else (\<lambda>sm. sm))"
      "on_kind StorageClass_of (StorageClassCollector_handle K) now ev = (if event_kind ev = ''storageclasses'' then dispatch K now ev else (\<lambda>sm. sm))"
      "on_kind PriorityClass_of (PriorityClassCollector_handle K) now ev = (if event_kind ev = ''priorityclasses'' then dispatch K now ev else (\<lambda>sm. sm))"
      "on_kind LimitRange_of (LimitRangeCollector_handle K) now ev = (if event_kind ev = ''limitranges'' then dispatch K now ev else (\<lambda>sm. sm))"
      "on_kind ResourceQuota_of (ResourceQuotaCollector_handle K) now ev = (if event_kind ev = ''resourcequotas'' then dispatch K now ev else (\<lambda>sm. sm))"
      "on_kind NodePool_of (NodePoolCollector_handle K) now ev = (if event_kind ev = ''nodepools'' then dispatch K now ev else (\<lambda>sm. sm))"
  by (cases ev; simp add: on_kind_def event_kind_def dispatch_def Node_of_def Pod_of_def Namespace_of_def
      Deployment_of_def StatefulSet_of_def DaemonSet_of_def ReplicaSet_of_def Job_of_def CronJob_of_def HPA_of_def
      VPA_of_def PDB_of_def Service_of_def Ingress_of_def PV_of_def PVC_of_def StorageClass_of_def PriorityClass_of_def
      LimitRange_of_def ResourceQuota_of_def NodePool_of_def)+

lemma deliver_simps:
  "deliver [] now ev sm = sm"
  "deliver (c # cs) now ev sm = deliver cs now ev (deliver [c] now ev sm)"
  by (simp_all add: deliver_def)

lemma deliver_started:
  "deliver [snd (start_informer n g h err (new_resource_collector cl r))] now ev sm = (if err = None then h now ev sm else sm)"
  by (cases err) (simp_all add: deliver_def start_informer_def new_resource_collector_def new_informer_def informer_Start_def)

text \<open>What one registration does with an event.\<close>

definition handles_own :: "('q, 's) kube \<Rightarrow> ('q, 's) registration \<Rightarrow> bool" where
  "handles_own K r \<longleftrightarrow> (\<forall>err now ev sm. deliver [snd (fst (snd r) err (snd (snd r)))] now ev sm =
     (if err = None \<and> event_kind ev = fst r then dispatch K now ev sm else sm))"

lemma handles_own_started:
  assumes "\<And>now ev. h now ev = (if event_kind ev = n then dispatch K now ev else (\<lambda>sm. sm))"
  shows "handles_own K (n, start_informer m g h, new_resource_collector cl r)"
  unfolding handles_own_def prod.sel deliver_started assms by (simp del: split_paired_All)

lemma main_resources_handle: "list_all (handles_own K) (main_resources K caps cfg)"
  unfolding main_resources_def Let_def collector_starts collector_news
  by (simp only: list_all_append list.pred_inject if_distrib [of "list_all (handles_own K)"] handles_own_started handlers_dispatch simp_thms if_cancel)

lemma deliver_registrations:
  assumes "list_all (handles_own K) rs" and "distinct (map fst rs)"
  shows "deliver (map (\<lambda>(n, start, c). snd (start (errs n) c)) rs) now ev sm =
    (if event_kind ev \<in> fst ` set rs \<and> errs (event_kind ev) = None then dispatch K now ev sm else sm)"
  using assms
proof (induction rs arbitrary: sm)
  case Nil
  then show ?case by (simp add: deliver_simps)
next
  case (Cons r rs)
  obtain n start c where r: "r = (n, start, c)" by (cases r)
  have one: "deliver [snd (start (errs n) c)] now ev sm = (if errs n = None \<and> event_kind ev = n then dispatch K now ev sm else sm)"
    using Cons.prems(1) by (simp add: r handles_own_def del: split_paired_All)
  have rest: "list_all (handles_own K) rs" "distinct (map fst rs)" "n \<notin> fst ` set rs"
    using Cons.prems by (simp_all add: r)
  show ?case
    using rest(3) by (auto simp: r Cons.IH [OF rest(1,2)] one deliver_simps(2) [where c = "snd (start (errs n) c)" and cs = "map f rs" for f])
qed

lemma main_resources_names:
  "map fst (main_resources K caps cfg) =
     map snd core_collectors @ (if cap_VPA caps then [''vpas''] else []) @ (if cap_Karpenter caps then [''nodepools''] else [])"
  by (simp add: main_resources_def Let_def core_collectors_def)

lemma main_resources_distinct: "distinct (map fst (main_resources K caps cfg))"
  by (simp add: main_resources_names core_collectors_def)


section \<open>What the informers watch\<close>

definition watched :: "('q, 's) resource_collector list \<Rightarrow> GroupVersionResource list" where
  "watched cs = map si_resource (List.map_filter rc_informer cs)"

text \<open>The group and the resource are what a permission is granted for, whatever the version.\<close>

definition permission :: "GroupVersionResource \<Rightarrow> string \<times> string" where
  "permission g = (gvr_Group g, gvr_Resource g)"

text \<open>The table of \<^verbatim>\<open>docs/security.md\<close>: what the ClusterRole of the agent lets it list and watch.\<close>

definition documented_role :: "(string \<times> string) list" where
  "documented_role =
     map (Pair '''') [''nodes'', ''namespaces'', ''persistentvolumes'', ''services'', ''pods'', ''persistentvolumeclaims'',
       ''resourcequotas'', ''limitranges'']
     @ map (Pair ''apps'') [''deployments'', ''replicasets'', ''statefulsets'', ''daemonsets'']
     @ map (Pair ''batch'') [''jobs'', ''cronjobs'']
     @ [(''autoscaling'', ''horizontalpodautoscalers''), (''policy'', ''poddisruptionbudgets''),
        (''networking.k8s.io'', ''ingresses''), (''networking.k8s.io'', ''networkpolicies''),
        (''storage.k8s.io'', ''storageclasses''), (''scheduling.k8s.io'', ''priorityclasses''),
        (''metrics.k8s.io'', ''pods''), (''metrics.k8s.io'', ''nodes''),
        (''autoscaling.k8s.io'', ''verticalpodautoscalers''), (''karpenter.sh'', ''nodepools''), (''karpenter.sh'', ''nodeclaims'')]"

text \<open>The permissions of the table that no informer asks for.\<close>

definition unwatched :: "(string \<times> string) list" where
  "unwatched = [(''networking.k8s.io'', ''networkpolicies''), (''metrics.k8s.io'', ''pods''), (''metrics.k8s.io'', ''nodes''),
     (''karpenter.sh'', ''nodeclaims'')]"

definition optional_groups :: "string list" where
  "optional_groups = [''autoscaling.k8s.io'', ''karpenter.sh'']"

lemma started_informer:
  "rc_informer (snd (start_informer n g h err c)) = Some \<lparr>si_resource = g, si_resync = rc_resyncPeriod c, si_handlers = h\<rparr>"
  by (cases err) (simp_all add: start_informer_def)

definition core_watch :: "GroupVersionResource list" where
  "core_watch = map (\<lambda>(g, v, r). \<lparr>gvr_Group = g, gvr_Version = v, gvr_Resource = r\<rparr>)
     [('''', ''v1'', ''nodes''), ('''', ''v1'', ''pods''), ('''', ''v1'', ''namespaces''),
      (''apps'', ''v1'', ''deployments''), (''apps'', ''v1'', ''statefulsets''), (''apps'', ''v1'', ''daemonsets''),
      (''apps'', ''v1'', ''replicasets''), (''batch'', ''v1'', ''jobs''), (''batch'', ''v1'', ''cronjobs''),
      (''autoscaling'', ''v2'', ''horizontalpodautoscalers''), (''policy'', ''v1'', ''poddisruptionbudgets''),
      ('''', ''v1'', ''services''), (''networking.k8s.io'', ''v1'', ''ingresses''), ('''', ''v1'', ''persistentvolumes''),
      ('''', ''v1'', ''persistentvolumeclaims''), (''storage.k8s.io'', ''v1'', ''storageclasses''),
      (''scheduling.k8s.io'', ''v1'', ''priorityclasses''), ('''', ''v1'', ''limitranges''), ('''', ''v1'', ''resourcequotas'')]"

lemma started_watch:
  "watched (started_resources K errs caps cfg) =
     core_watch @ (if cap_VPA caps then [vpaGVR] else []) @ (if cap_Karpenter caps then [nodePoolGVR] else [])"
  by (simp add: watched_def started_resources_def main_resources_def Let_def collector_starts started_informer
      List.map_filter_def core_watch_def)

text \<open>The comparison with the table, for a cluster with and without the two optional groups.\<close>

definition watch_as_granted :: "bool \<Rightarrow> bool \<Rightarrow> bool" where
  "watch_as_granted v k \<longleftrightarrow>
     (let ws = map permission (core_watch @ (if v then [vpaGVR] else []) @ (if k then [nodePoolGVR] else []));
          gs = filter (\<lambda>p. p \<notin> set unwatched \<and>
                 (fst p \<in> set optional_groups \<longrightarrow> (if fst p = ''karpenter.sh'' then k else v))) documented_role
      in distinct ws \<and> set ws = set gs)"

lemma all_watched_as_granted: "watch_as_granted v k"
proof -
  have "watch_as_granted True True" "watch_as_granted True False" "watch_as_granted False True" "watch_as_granted False False"
    by code_simp+
  then show ?thesis by (cases v; cases k) simp_all
qed

lemma detected_groups:
  assumes "Detect K api = Inr caps" and "ServerGroups api = Inr groups"
  shows "cap_VPA caps \<longleftrightarrow> ''autoscaling.k8s.io'' \<in> set groups" and "cap_Karpenter caps \<longleftrightarrow> ''karpenter.sh'' \<in> set groups"
  using assms by (auto simp: Detect_def Let_def split: prod.splits)

text \<open>
  C23. The agent watches what the documentation says it may watch, and no more. Whatever the answers of the
  informers, the collectors that main registers after it has detected the capabilities of the cluster watch each
  resource once and every resource that the documented ClusterRole grants, but for four grants
  (network policies, node claims, and the two of metrics-server, which is polled) and for the optional
  groups that the cluster does not serve; and they repeat what they know with the configured period.
\<close>

theorem informers_watch_documented_resources:
  assumes "Detect K api = Inr caps" and "ServerGroups api = Inr groups"
  shows "distinct (watched (started_resources K errs caps cfg))
    \<and> permission ` set (watched (started_resources K errs caps cfg)) =
      {p \<in> set documented_role. p \<notin> set unwatched \<and> (fst p \<in> set optional_groups \<longrightarrow> fst p \<in> set groups)}
    \<and> list_all (\<lambda>c. map_option si_resync (rc_informer c) = Some (InformerResyncPeriod cfg)) (started_resources K errs caps cfg)"
proof (intro conjI)
  note served = detected_groups [OF assms]
  have granted: "watch_as_granted (''autoscaling.k8s.io'' \<in> set groups) (''karpenter.sh'' \<in> set groups)"
    by (rule all_watched_as_granted)
  then show "distinct (watched (started_resources K errs caps cfg))"
    unfolding started_watch served watch_as_granted_def Let_def by (blast dest: distinct_map [THEN iffD1])
  have "fst p \<in> set optional_groups \<Longrightarrow>
      (if fst p = ''karpenter.sh'' then ''karpenter.sh'' \<in> set groups else ''autoscaling.k8s.io'' \<in> set groups) = (fst p \<in> set groups)" for p :: "string \<times> string"
    by (auto simp: optional_groups_def)
  with granted show "permission ` set (watched (started_resources K errs caps cfg)) =
      {p \<in> set documented_role. p \<notin> set unwatched \<and> (fst p \<in> set optional_groups \<longrightarrow> fst p \<in> set groups)}"
    unfolding started_watch served watch_as_granted_def Let_def set_map [symmetric] set_filter by (auto simp del: set_map)
  show "list_all (\<lambda>c. map_option si_resync (rc_informer c) = Some (InformerResyncPeriod cfg)) (started_resources K errs caps cfg)"
    by (simp add: started_resources_def main_resources_def Let_def collector_starts collector_news started_informer new_resource_collector_def)
qed

definition karpenter_cluster :: "nat cluster_api" where
  "karpenter_cluster = \<lparr>ServerGroups = Inr [''apps'', ''karpenter.sh''], ServerResourcesForGroupVersion = (\<lambda>_. Inr []),
     Nodes_List1 = Inr [], Nodes_List = Inr [], Pods_List = (\<lambda>_. Inr []), AccessReview = (\<lambda>_ _ _. Inr True)\<rparr>"

theorem informers_watch_documented_resources_witness:
  "\<exists>caps. Detect example_kube karpenter_cluster = Inr caps
     \<and> permission ` set (watched (started_resources example_kube (\<lambda>_. None) caps (Load (\<lambda>_. '''')))) =
       {p \<in> set documented_role. p \<notin> set unwatched \<and> fst p \<noteq> ''autoscaling.k8s.io''}"
proof -
  obtain caps where caps: "Detect example_kube karpenter_cluster = Inr caps"
    by (simp add: Detect_def karpenter_cluster_def case_prod_unfold Let_def)
  have groups: "ServerGroups karpenter_cluster = Inr [''apps'', ''karpenter.sh'']" by (simp add: karpenter_cluster_def)
  have "(fst p \<in> set optional_groups \<longrightarrow> fst p \<in> set [''apps'', ''karpenter.sh'']) \<longleftrightarrow> fst p \<noteq> ''autoscaling.k8s.io''"
    for p :: "string \<times> string" by (auto simp: optional_groups_def)
  then show ?thesis
    using caps informers_watch_documented_resources [OF caps groups, of "\<lambda>_. None" "Load (\<lambda>_. '''')"] by auto
qed

end
