(* ===== verification/Sharing.thy ===== *)
theory Sharing
  imports Build_Progress
begin

text \<open>
  The containers of a pod are an array that the stored pod, the pods of a build and those of the
  published snapshot share. This theory shows that the version numbers of the model tell exactly which
  of them do: whoever has the same version as the store has the same containers, whatever was
  merged into them in between.
\<close>

section \<open>Pods with the same containers\<close>

definition same_pod :: "PodInfo \<Rightarrow> PodInfo \<Rightarrow> bool" where
  "same_pod p q \<longleftrightarrow> PodInfo.Namespace p = PodInfo.Namespace q \<and> PodInfo.Name p = PodInfo.Name q
     \<and> PodInfo.Containers p = PodInfo.Containers q"

lemma same_pod_id: "same_pod p q \<Longrightarrow> pod_id p = pod_id q"
  by (simp add: same_pod_def pod_id_def)

lemma same_pod_refl [simp]: "same_pod p p"
  by (simp add: same_pod_def)

lemma same_pod_trans: "same_pod p q \<Longrightarrow> same_pod q r \<Longrightarrow> same_pod p r"
  by (simp add: same_pod_def)

lemma merge_into_fields [simp]:
  "PodInfo.Namespace (merge_into b v p) = PodInfo.Namespace p" "PodInfo.Name (merge_into b v p) = PodInfo.Name p"
  "pod_id (merge_into b v p) = pod_id p"
  by (simp_all add: merge_into_def pod_id_def)

lemma merge_into_same: "same_pod p q \<Longrightarrow> same_pod (merge_into b v p) (merge_into b v q)"
  by (simp add: same_pod_def merge_into_def merged_pods_def mergePodMetrics_map mergeGPUContainerMetrics_def merge_pod_def merge_gpu_pod_def
      pod_id_def Let_def split: option.split)

lemma merged_same: "same_pod (hd (merged_pods b v [p])) (merge_into b v p)"
  by (simp add: same_pod_def merge_into_def merged_pod_containers)

section \<open>The invariant\<close>

text \<open>The pod's containers are those of the stored pod, unless that has been stored anew.\<close>

definition shares :: "(string \<Rightarrow> nat) \<Rightarrow> ('q, 's) system \<Rightarrow> PodInfo \<Rightarrow> bool" where
  "shares vs s p \<longleftrightarrow>
     vs (pod_id p) \<le> pod_versions s (pod_id p)
     \<and> (vs (pod_id p) = pod_versions s (pod_id p) \<longrightarrow>
          (\<exists>q. Get (Store.Pods (sys_store s)) (pod_id p) = Some q \<and> same_pod q p))"

definition keyed :: "PodInfo TypedStore \<Rightarrow> bool" where
  "keyed ts \<longleftrightarrow> wf_store ts \<and> (\<forall>k p. Get ts k = Some p \<longrightarrow> k = pod_id p)"

definition share_build :: "('q, 's) system \<Rightarrow> build_run \<Rightarrow> bool" where
  "share_build s r \<longleftrightarrow> view_ok (view r)
     \<and> (case purpose r of ForCounts e \<Rightarrow> view_ok (env_view (first_env e)) | ForFirst e \<Rightarrow> True
        | ForTick now e \<Rightarrow> takes_snapshot now (sys_agent s))
     \<and> (stage r = ReadingStores \<and> Of_Pods \<in> set (unread r)
        \<or> (\<forall>p \<in> snd ` set (items (Store.Pods (read_store (view r)))).
             shares (versions_read r) s (if stage r \<in> {PodsMerged, ReadingTimes} then merge_into (run_builder s r) (view r) p else p)))"

definition share_base :: "('q, 's) system \<Rightarrow> bool" where
  "share_base s \<longleftrightarrow> keyed (Store.Pods (sys_store s)) \<and> pipeline (builder (sys_agent s)) = Some main_pipeline
     \<and> (\<forall>snap. latestSnapshot (sys_agent s) = Some snap \<longrightarrow> (\<forall>p \<in> set (ClusterSnapshot.Pods snap). shares (shown_versions s) s p))"

definition share_inv :: "('q, 's) system \<Rightarrow> bool" where
  "share_inv s \<longleftrightarrow> share_base s \<and> (\<forall>r. main_phase s = Building r \<longrightarrow> share_build s r)"

lemma shares_same: "shares vs s p \<Longrightarrow> same_pod p p' \<Longrightarrow> shares vs s p'"
  using same_pod_id same_pod_trans by (fastforce simp: shares_def)

lemma shares_cong:
  "pod_versions s' = pod_versions s \<Longrightarrow> Store.Pods (sys_store s') = Store.Pods (sys_store s) \<Longrightarrow> shares vs s' p \<longleftrightarrow> shares vs s p"
  by (simp add: shares_def)

lemma keyed_Get: "keyed ts \<Longrightarrow> (k, p) \<in> set (items ts) \<Longrightarrow> Get ts (pod_id p) = Some p"
  by (metis keyed_def wf_store_def wf_map_def Get_map_of map_of_is_SomeI)

section \<open>Steps of the informers\<close>

lemma PodToModel_id [simp]: "pod_id (PodToModel K x) = Pod_okey x" "podKey (PodInfo.Namespace (PodToModel K x)) (PodInfo.Name (PodToModel K x)) = Pod_okey x"
  by (simp_all add: pod_id_def ns_name_def Pod_okey_def podKey_def)

lemma Pod_okey_fold [simp]: "podKey (om_Namespace (pod_Meta x)) (om_Name (pod_Meta x)) = Pod_okey x"
  by (simp add: Pod_okey_def)

lemmas store_laws = typed.lookup_put typed.lookup_remove

lemma dispatch_Pods_Get:
  assumes "wf_store (Store.Pods st)" and "changed_pod ev \<noteq> Some k"
  shows "Get (Store.Pods (fst (dispatch K now ev (st, m)))) k = Get (Store.Pods st) k"
  using assms unfolding dispatch_Pods
  by (auto simp: changed_pod_def handle_event_def store_object_def store_laws Let_def
      split: option.splits informer_event.splits watched.splits)

lemma dispatch_keyed:
  assumes "keyed (Store.Pods st)"
  shows "keyed (Store.Pods (fst (dispatch K now ev (st, m))))"
proof -
  have "keyed (Set (Pod_okey x) (PodToModel K x) now (Store.Pods st))" for x
    using assms by (auto simp: keyed_def store_laws)
  moreover have "keyed (Delete k now (Store.Pods st))" for k
    using assms by (auto simp: keyed_def store_laws)
  ultimately show ?thesis
    unfolding dispatch_Pods using assms
    by (simp add: handle_event_def store_object_def Let_def split: option.split informer_event.split watched.split)
qed

lemma informer_act_shares:
  assumes "shares vs s p" and "keyed (Store.Pods (sys_store s))"
  shows "shares vs (informer_act K now ev s) p"
proof (cases "changed_pod ev = Some (pod_id p)")
  case True
  with assms(1) show ?thesis
    by (auto simp: shares_def informer_act_def new_version_def Let_def case_prod_unfold)
next
  case False
  have "new_version (changed_pod ev) vs' (pod_id p) = vs' (pod_id p)" for vs'
    using False by (auto simp: new_version_def split: option.split)
  moreover have "Get (Store.Pods (fst (dispatch K now ev (sys_store s, sys_metrics s)))) (pod_id p) = Get (Store.Pods (sys_store s)) (pod_id p)"
    using False assms(2) by (intro dispatch_Pods_Get) (simp_all add: keyed_def)
  ultimately show ?thesis
    using assms(1) by (simp add: shares_def informer_act_def Let_def case_prod_unfold)
qed

lemma informer_act_share:
  assumes "share_inv s"
  shows "share_inv (informer_act K now ev s)"
proof -
  let ?s = "informer_act K now ev s"
  have s: "sys_agent ?s = sys_agent s" "main_phase ?s = main_phase s" "shown_versions ?s = shown_versions s"
    "sys_store ?s = fst (dispatch K now ev (sys_store s, sys_metrics s))" "\<And>r. run_builder ?s r = run_builder s r"
    by (simp_all add: informer_act_def case_prod_unfold Let_def run_builder_def)
  have keyed: "keyed (Store.Pods (sys_store s))" using assms by (simp add: share_inv_def share_base_def)
  have keep: "shares vs ?s p" if "shares vs s p" for vs p using informer_act_shares [OF that keyed] .
  have "share_base ?s"
    using assms dispatch_keyed [OF keyed] keep by (auto simp: share_inv_def share_base_def s(1,3,4))
  moreover have "share_build ?s r" if "main_phase s = Building r" for r
    using assms that keep by (cases "purpose r") (auto simp: share_inv_def share_build_def s(1,5))
  ultimately show ?thesis by (simp add: share_inv_def s(2))
qed

section \<open>Steps of a build\<close>

lemma share_frame [simp]:
  "share_base (s\<lparr>main_phase := p\<rparr>) \<longleftrightarrow> share_base s"
  "share_base (s\<lparr>sys_metrics := m\<rparr>) \<longleftrightarrow> share_base s"
  "share_base (s\<lparr>begun := n\<rparr>) \<longleftrightarrow> share_base s"
  "share_base (s\<lparr>shown_from := n\<rparr>) \<longleftrightarrow> share_base s"
  "share_base (s\<lparr>shown_to := n\<rparr>) \<longleftrightarrow> share_base s"
  by (simp_all add: share_base_def shares_def)

lemma share_build_cong:
  assumes "pod_versions s' = pod_versions s" and "Store.Pods (sys_store s') = Store.Pods (sys_store s)"
    and "builder (sys_agent s') = builder (sys_agent s)" and "stateMachine (sys_agent s') = stateMachine (sys_agent s)"
  shows "share_build s' r \<longleftrightarrow> share_build s r"
  using assms(3,4)
  by (cases "purpose r") (simp_all add: share_build_def shares_cong [OF assms(1,2)] run_builder_def takes_snapshot_def)

lemma share_build_phase [simp]: "share_build (s\<lparr>main_phase := p\<rparr>) r \<longleftrightarrow> share_build s r"
  by (rule share_build_cong) simp_all

lemma share_inv_building: "share_base s \<Longrightarrow> share_build s r \<Longrightarrow> share_inv (s\<lparr>main_phase := Building r\<rparr>)"
  by (simp add: share_inv_def)

lemma begin_build_share:
  assumes "share_base s" and "view_ok (planned_view p)"
    and "case p of ForCounts e \<Rightarrow> view_ok (env_view (first_env e)) | ForFirst e \<Rightarrow> True | ForTick now e \<Rightarrow> takes_snapshot now (sys_agent s)"
  shows "share_inv (begin_build p s)"
  using assms by (cases p) (simp_all add: share_inv_def share_build_def begin_build_def all_kinds_def Let_def)

lemma read_kind_share:
  assumes "share_base s" and "share_build s r"
  shows "share_build s (read_kind k s r)"
proof (cases "k = Of_Pods")
  case True
  have "shares (pod_versions s) s p" if "p \<in> snd ` set (items (Store.Pods (sys_store s)))" for p
    using that assms(1) keyed_Get by (fastforce simp: share_base_def shares_def)
  with True assms show ?thesis by (auto simp: share_build_def read_kind_def view_ok_def)
next
  case False
  then have "Store.Pods (copy_kind k (sys_store s) st) = Store.Pods st" for st by (cases k) simp_all
  moreover have "Of_Pods \<in> set (remove1 k (unread r)) \<longleftrightarrow> Of_Pods \<in> set (unread r)" using False by auto
  ultimately show ?thesis using assms by (auto simp: share_build_def read_kind_def view_ok_def)
qed

lemma Get_merge_back:
  "Get (merge_back b r vs ts) k = map_option (\<lambda>q. if versions_read r k = vs k then merge_into b (view r) q else q) (Get ts k)"
proof -
  have "map_of (map (\<lambda>(k, p). (k, f k p)) m) k = map_option (f k) (map_of m k)" for f :: "string \<Rightarrow> PodInfo \<Rightarrow> PodInfo" and m
    by (induction m) auto
  then show ?thesis by (simp add: Get_map_of merge_back_def)
qed

lemma keyed_merge_back: "keyed ts \<Longrightarrow> keyed (merge_back b r vs ts)"
  by (auto simp: keyed_def Get_merge_back) (simp add: wf_store_def wf_map_def merge_back_def comp_def case_prod_unfold)

text \<open>The merges write into all holders of an array.\<close>

lemma merge_shares:
  assumes "shares vs s p"
  shows "shares vs (s\<lparr>main_phase := ph, sys_store := Store.Pods_update (merge_back b r (pod_versions s)) (sys_store s), sys_agent := a\<rparr>)
     (if versions_read r (pod_id p) = vs (pod_id p) then merge_into b (view r) p else p)"
  using assms merge_into_same by (auto simp: shares_def Get_merge_back)

lemma merge_step_share:
  assumes "share_base s" and "share_build s r" and "stage r = GpuRead"
  shows "share_inv (s\<lparr>main_phase := Building (r\<lparr>stage := PodsMerged\<rparr>),
     sys_store := Store.Pods_update (merge_back (run_builder s r) r (pod_versions s)) (sys_store s),
     sys_agent := merge_shown (run_builder s r) r (shown_versions s) (sys_agent s)\<rparr>)" (is "share_inv ?s")
proof -
  have b: "run_builder ?s (r\<lparr>stage := PodsMerged\<rparr>) = run_builder s r" by (simp add: run_builder_def)
  have "share_base ?s"
    using assms(1) by (auto simp: share_base_def keyed_merge_back merge_shown_def merge_shares [of _ s, simplified if_distrib])
  moreover have "share_build ?s (r\<lparr>stage := PodsMerged\<rparr>)"
  proof -
    have "shares (versions_read r) ?s (merge_into (run_builder s r) (view r) p)"
      if "p \<in> snd ` set (items (Store.Pods (read_store (view r))))" for p
    proof -
      have "shares (versions_read r) s p" using assms(2,3) that by (auto simp: share_build_def)
      from merge_shares [OF this, where r = r] show ?thesis by (simp only: if_True refl)
    qed
    with assms(2) show ?thesis by (cases "purpose r") (auto simp: share_build_def b takes_snapshot_def)
  qed
  ultimately show ?thesis by (simp add: share_inv_def)
qed

lemma merged_pods_metrics [simp]: "merged_pods (b\<lparr>SnapshotBuilder.metrics := m\<rparr>) v ps = merged_pods b v ps"
  by (simp add: merged_pods_def)

text \<open>The pods of a build are those it has read, with the figures merged and an owner set.\<close>

lemma built_pod_origin:
  assumes "pipeline b = Some main_pipeline" and "view_ok v" and "p \<in> set (ClusterSnapshot.Pods (fst (Build b v)))"
  shows "\<exists>q \<in> snd ` set (items (Store.Pods (read_store v))). same_pod (merge_into b v q) p"
proof -
  let ?read = "Store.Values (orders v 1) (Store.Pods (read_store v))"
  have "disown p \<in> disown ` set (ClusterSnapshot.Pods (fst (Build b v)))" using assms(3) by (rule imageI)
  also have "\<dots> = disown ` set (merged_pods b v ?read)"
    unfolding set_map [symmetric] using assms(1) by (subst build_pods) simp_all
  finally obtain q' where q': "q' \<in> set (merged_pods b v ?read)" "disown p = disown q'" by blast
  from q'(1) obtain q where q: "q \<in> set ?read" "q' = hd (merged_pods b v [q])"
    unfolding merged_pods_map [of b v ?read] set_map by blast
  have "same_pod p q'"
    using disown_fields(2-4) [of p] disown_fields(2-4) [of q'] q'(2) by (simp add: same_pod_def)
  moreover have "same_pod q' (merge_into b v q)" unfolding q(2) by (rule merged_same)
  ultimately have "same_pod (merge_into b v q) p" by (simp add: same_pod_def)
  moreover have "q \<in> snd ` set (items (Store.Pods (read_store v)))"
    using q(1) assms(2) Values_set [of "orders v 1" "Store.Pods (read_store v)"] by (simp add: view_ok_def)
  ultimately show ?thesis by blast
qed

lemma sent_snapshot_shares:
  assumes "share_base s" and "share_build s r" and "stage r = ReadingTimes" and "env_view e = view r" and "builder a = builder (build_agent s r)"
  shows "\<forall>p \<in> set (ClusterSnapshot.Pods (fst (sent_snapshot e a))). shares (versions_read r) s p"
proof
  let ?b = "(builder a)\<lparr>SnapshotBuilder.metrics := Some (Agent.metrics a)\<rparr>"
  fix p assume p: "p \<in> set (ClusterSnapshot.Pods (fst (sent_snapshot e a)))"
  obtain snap a1 where b: "agent_build (env_view e) a = (snap, a1)" by fastforce
  obtain x where "fst (sent_snapshot e a) = snap\<lparr>ClusterSnapshot.Health := x\<rparr>"
    unfolding sent_snapshot_def b Let_def prod.case using populateHealth_snapshot by blast
  moreover have "snap = fst (Build ?b (view r))"
    using b assms(4) by (simp add: agent_build_def Let_def case_prod_unfold)
  ultimately have "p \<in> set (ClusterSnapshot.Pods (fst (Build ?b (view r))))" using p by simp
  then obtain q where q: "q \<in> snd ` set (items (Store.Pods (read_store (view r))))" "same_pod (merge_into ?b (view r) q) p"
    using assms(1,2,5) built_pod_origin [of ?b "view r" p] by (auto simp: share_base_def share_build_def)
  have "merge_into ?b (view r) q = merge_into (run_builder s r) (view r) q"
    using assms(5) by (simp add: merge_into_def build_agent_def)
  moreover have "shares (versions_read r) s (merge_into (run_builder s r) (view r) q)"
    using assms(2,3) q(1) by (auto simp: share_build_def)
  ultimately show "shares (versions_read r) s p" using q(2) shares_same by metis
qed

lemma share_base_published:
  assumes "share_base s" and "pipeline (builder a) = pipeline (builder (sys_agent s))" and "latestSnapshot a = Some snap"
    and "\<forall>p \<in> set (ClusterSnapshot.Pods snap). shares vs s p"
  shows "share_base (s\<lparr>sys_agent := a, sys_metrics := m, main_phase := ph, shown_versions := vs, shown_from := i, shown_to := j\<rparr>)"
  using assms by (auto simp: share_base_def shares_def)

lemma share_base_agent:
  assumes "share_base s" and "pipeline (builder a) = pipeline (builder (sys_agent s))" and "latestSnapshot a = latestSnapshot (sys_agent s)"
  shows "share_base (s\<lparr>sys_agent := a\<rparr>)"
  using assms by (simp add: share_base_def shares_def)

lemma finish_build_share:
  assumes "share_base s" and "share_build s r" and "stage r = ReadingTimes"
  shows "share_inv (finish_build s r)"
proof (cases "purpose r")
  case (ForCounts e)
  let ?a = "become_ready (e\<lparr>counts_view := view r\<rparr>) (build_agent s r)"
  have "share_base (s\<lparr>sys_agent := ?a, sys_metrics := Agent.metrics ?a\<rparr>)"
    using share_base_agent [OF assms(1), of ?a] by (simp add: before_loop_fields)
  with assms(2) ForCounts show ?thesis
    by (auto simp: finish_build_def Let_def share_build_def planned_view_def intro!: begin_build_share)
next
  case (ForFirst e)
  let ?e = "e\<lparr>env_view := view r\<rparr>"
  show ?thesis
    using share_base_published [OF assms(1) _ _ sent_snapshot_shares [OF assms, of ?e "build_agent s r"],
        of "doSnapshot ?e (build_agent s r)"] ForFirst
    by (simp add: finish_build_def Let_def share_inv_def doSnapshot_fields)
next
  case (ForTick now e)
  let ?e = "e\<lparr>env_view := view r\<rparr>" and ?a = "build_agent s r"
  let ?a' = "fst (stop_collectors (loop_step (Tick now ?e) ?a))"
  have sent: "\<forall>p \<in> set (ClusterSnapshot.Pods (fst (sent_snapshot ?e (?a\<lparr>stateMachine := sm\<rparr>)))). shares (versions_read r) s p" for sm
    by (rule sent_snapshot_shares [OF assms]) simp_all
  have "takes_snapshot now ?a" using assms(2) ForTick by (simp add: share_build_def)
  then obtain sm where "fst (loop_step (Tick now ?e) ?a) = doSnapshot ?e (?a\<lparr>stateMachine := sm\<rparr>)"
    unfolding fst_loop_step by (simp only: if_True)
  then show ?thesis
    using share_base_published [OF assms(1) _ _ sent [of sm], of ?a'] ForTick
    by (simp add: finish_build_def Let_def share_inv_def doSnapshot_fields case_prod_unfold)
qed

lemma share_build_advance:
  assumes "share_build s r" and "stage r \<noteq> ReadingStores \<or> unread r = []" and "stage r' \<noteq> ReadingStores"
    and "stage r' \<in> {PodsMerged, ReadingTimes} \<longleftrightarrow> stage r \<in> {PodsMerged, ReadingTimes}"
    and "purpose r' = purpose r" and "read_store (view r') = read_store (view r)" and "orders (view r') = orders (view r)"
    and "stage r' \<in> {PodsMerged, ReadingTimes} \<Longrightarrow> usage_read r' = usage_read r \<and> gpu_read r' = gpu_read r"
    and "versions_read r' = versions_read r"
  shows "share_build s r'"
proof -
  have ord: "merge_into b (view r') p = merge_into b (view r) p" for b p
    using assms(7) by (simp add: merge_into_def merged_pods_def)
  have "run_builder s r' = run_builder s r" if "stage r' \<in> {PodsMerged, ReadingTimes}"
    using assms(8) that by (simp add: run_builder_def)
  then show ?thesis using assms(1-7,9) unfolding share_build_def view_ok_def ord by auto
qed

lemma build_next_share:
  assumes "share_base s" and "share_build s r" and "main_phase s = Building r"
  shows "share_inv (build_next s r)"
proof (cases "stage r")
  case ReadingStores
  with assms show ?thesis
    by (cases "unread r") (auto simp: build_next_def share_inv_def intro!: share_inv_building share_build_advance [OF assms(2)])
next
  case GpuRead
  with merge_step_share [OF assms(1,2)] show ?thesis by (simp add: build_next_def)
next
  case ReadingTimes
  with assms show ?thesis
    by (cases "unread r") (auto simp: build_next_def finish_build_share intro!: share_inv_building share_build_advance [OF assms(2)])
qed (use assms in \<open>auto simp: build_next_def intro!: share_inv_building share_build_advance [OF assms(2)]\<close>)

lemma loop_act_share:
  assumes "share_base s" and "\<And>now e. ev = Tick now e \<Longrightarrow> \<not> takes_snapshot now (sys_agent s)"
  shows "share_inv (loop_act ev s)"
proof -
  have "fst (loop_step ev (sys_agent s)) = sys_agent s" using assms(2) by (cases ev) (simp_all add: fst_loop_step)
  then have "share_base (s\<lparr>sys_agent := fst (stop_collectors (loop_step ev (sys_agent s)))\<rparr>)"
    by (intro share_base_agent [OF assms(1)]) simp_all
  then show ?thesis by (simp add: loop_act_def share_inv_def case_prod_unfold Let_def)
qed

lemma start_act_share:
  assumes "share_inv s" and "view_ok (counts_view e)" and "view_ok (env_view (first_env e))"
  shows "share_inv (start_act e s)"
proof -
  let ?a = "snd (start_collectors e (sys_agent s))"
  have base: "share_base (s\<lparr>sys_agent := ?a\<rparr>)"
    using assms(1) by (intro share_base_agent) (simp_all add: share_inv_def)
  then have "share_inv (begin_build (ForCounts e) (s\<lparr>sys_agent := ?a\<rparr>))"
    using assms(2,3) by (intro begin_build_share) (simp_all add: planned_view_def)
  with assms(1) base show ?thesis
    using Run_all_failed [of e "sys_agent s"] by (auto simp: start_act_def share_inv_def case_prod_unfold Let_def)
qed

lemma share_inv_cong:
  assumes "pod_versions s' = pod_versions s" and "sys_store s' = sys_store s" and "sys_agent s' = sys_agent s"
    and "shown_versions s' = shown_versions s" and "main_phase s' = main_phase s"
  shows "share_inv s' \<longleftrightarrow> share_inv s"
proof -
  have "shares vs s' p \<longleftrightarrow> shares vs s p" for vs p using assms(1,2) by (intro shares_cong) simp_all
  moreover have "share_build s' r \<longleftrightarrow> share_build s r" for r using assms(1-3) by (intro share_build_cong) simp_all
  ultimately show ?thesis by (simp add: share_inv_def share_base_def assms(2-5))
qed

lemma poll_act_share:
  assumes "share_inv s"
  shows "share_inv (usage_act K ev s)" and "share_inv (gpu_act ev' s)"
  using assms by (subst share_inv_cong [of _ s]; simp add: usage_act_def gpu_act_def Let_def)+

lemma share_inv_step:
  assumes inv: "share_inv s" and ok: "act_ok act"
  shows "share_inv (sys_step K act s)"
proof -
  have base: "share_base s" using inv by (simp add: share_inv_def)
  show ?thesis
  proof (cases act)
    case (ReadsKind k)
    with inv show ?thesis
      by (auto simp: sys_step_def share_inv_def read_kind_share split: main_phase.split)
  next
    case BuildNext
    have "share_inv (build_next s r)" if "main_phase s = Building r" for r
      using inv that by (intro build_next_share) (simp_all add: share_inv_def)
    with inv BuildNext show ?thesis by (auto simp: sys_step_def split: main_phase.split)
  next
    case (TickFires now e)
    with inv ok base show ?thesis
      by (auto simp: sys_step_def tick_act_def act_ok_def planned_view_def intro!: loop_act_share begin_build_share)
  next
    case (ContextDone err)
    with inv base show ?thesis by (auto simp: sys_step_def intro!: loop_act_share)
  qed (use inv ok in \<open>simp_all add: sys_step_def act_ok_def informer_act_share poll_act_share start_act_share\<close>)
qed

lemma share_inv_start: "share_inv (main_system e caps)"
  using main_agent_latest [of e caps] main_pipeline_builder [of e caps]
  by (simp add: main_system_def share_inv_def share_base_def keyed_def Get_map_of NewTypedStore_def wf_store_def wf_map_def)

interpretation sharing: system_invariant K "\<lambda>s. s = main_system e caps" share_inv for K e caps
  by unfold_locales (simp_all add: share_inv_start share_inv_step)

section \<open>The property\<close>

text \<open>
  C9. A published snapshot is not a copy: in every reachable state, each of its pods that has not been stored
  anew since it was read has exactly the containers of the stored pod, with every usage and GPU figure that builds have
  merged into it since.
\<close>

theorem published_pods_share_containers:
  assumes "reachable K (main_system env caps) s" and "latestSnapshot (sys_agent s) = Some snap" and "p \<in> set (ClusterSnapshot.Pods snap)"
    and "shown_versions s (pod_id p) = pod_versions s (pod_id p)"
  shows "\<exists>q. Get (Store.Pods (sys_store s)) (pod_id p) = Some q \<and> PodInfo.Containers q = PodInfo.Containers p"
  using sharing.reachable_inv [OF assms(1) refl] assms(2-4) by (fastforce simp: share_inv_def share_base_def shares_def same_pod_def)

text \<open>The next build writes into it.\<close>

lemma merges_rewrite_published:
  assumes "main_phase s = Building r" and "stage r = GpuRead" and "latestSnapshot (sys_agent s) = Some snap"
    and "p \<in> set (ClusterSnapshot.Pods snap)" and "versions_read r (pod_id p) = shown_versions s (pod_id p)"
  shows "\<exists>snap'. latestSnapshot (sys_agent (sys_step K BuildNext s)) = Some snap'
     \<and> merge_into (run_builder s r) (view r) p \<in> set (ClusterSnapshot.Pods snap')"
  using assms by (force simp: sys_step_def build_next_def merge_shown_def)

text \<open>While no informer runs, what a build has read is what is stored.\<close>

definition quiet :: "('q, 's) system \<Rightarrow> bool" where
  "quiet s \<longleftrightarrow>
     (case main_phase s of
        Building r \<Rightarrow> stage r = ReadingStores \<and> Of_Pods \<in> set (unread r) \<or> versions_read r = pod_versions s
      | _ \<Rightarrow> True)
     \<and> (latestSnapshot (sys_agent s) \<noteq> None \<longrightarrow> shown_versions s = pod_versions s)"

lemma quiet_begin: "quiet (begin_build p s) \<longleftrightarrow> latestSnapshot (sys_agent s) = None \<or> shown_versions s = pod_versions s"
  by (auto simp: quiet_def begin_build_def all_kinds_def Let_def)

lemma quiet_finish:
  assumes "quiet s" and "main_phase s = Building r" and "stage r = ReadingTimes"
  shows "quiet (finish_build s r)"
proof (cases "purpose r")
  case (ForCounts e)
  with assms show ?thesis
    by (simp add: finish_build_def quiet_begin before_loop_fields Let_def) (auto simp: quiet_def)
qed (use assms in \<open>auto simp: quiet_def finish_build_def main_result_def Let_def case_prod_unfold split: run_result.split\<close>)

lemma quiet_build_next:
  assumes "quiet s" and "main_phase s = Building r"
  shows "quiet (build_next s r)"
  using assms quiet_finish [OF assms] by (cases "stage r"; cases "unread r") (auto simp: build_next_def quiet_def)

lemma quiet_step:
  assumes "quiet s" and "own_act act \<or> act = MainStarts e"
  shows "quiet (sys_step K act s)"
proof (cases act)
  case (MainStarts e')
  with assms show ?thesis
    by (auto simp: sys_step_def start_act_def quiet_begin main_result_def Run_all_failed Let_def case_prod_unfold)
      (auto simp: quiet_def Run_all_failed split: run_result.splits)
next
  case (ReadsKind k)
  with assms show ?thesis by (auto simp: sys_step_def quiet_def read_kind_def split: main_phase.split)
next
  case BuildNext
  with assms show ?thesis by (auto simp: sys_step_def quiet_build_next split: main_phase.split)
qed (use assms in \<open>simp_all add: own_act_def\<close>)

lemma quiet_run: "quiet s \<Longrightarrow> list_all own_act acts \<Longrightarrow> quiet (fold (sys_step K) (MainStarts e # acts) s)"
proof -
  have "quiet s \<Longrightarrow> list_all own_act acts \<Longrightarrow> quiet (fold (sys_step K) acts s)" for s
    by (induction acts arbitrary: s) (simp_all add: quiet_step)
  then show "quiet s \<Longrightarrow> list_all own_act acts \<Longrightarrow> ?thesis" using quiet_step [of s "MainStarts e" e K] by simp
qed

text \<open>The first snapshot of a program that has seen the events of the example.\<close>

theorem published_pods_share_containers_witness:
  "\<exists>s snap p q. reachable example_kube (main_system example_main example_caps) s \<and> latestSnapshot (sys_agent s) = Some snap
     \<and> p \<in> set (ClusterSnapshot.Pods snap) \<and> Get (Store.Pods (sys_store s)) (pod_id p) = Some q
     \<and> PodInfo.Containers q = PodInfo.Containers p"
proof -
  let ?s0 = "main_system example_main example_caps :: (nat, string) system"
  let ?events = "map (\<lambda>(now, ev). InformerEvent now ev) example_events :: (nat, string) act list"
  define s1 where "s1 = fold (sys_step example_kube) ?events ?s0"
  have cs: "list_all collector_act ?events" by (simp add: example_events_def collector_act_def)
  have s1: "main_phase s1 = MainIdle" "sys_agent s1 = main_agent example_main example_caps" "history s1 = example_events"
    using collector_acts_leave_agent [OF cs, of example_kube ?s0]
    by (simp_all add: s1_def main_system_def example_events_def sys_step_def informer_act_def Let_def case_prod_unfold)
  have r1: "reachable example_kube ?s0 s1" unfolding s1_def by (intro reachable_run reachable_start collector_acts_ok cs)
  obtain acts where acts: "list_all own_act acts"
    and published: "let s' = fold (sys_step example_kube) (MainStarts (example_run 200) # acts) s1
      in latestSnapshot (sys_agent s') \<noteq> None \<and> history s' = example_events \<and> shown_from s' = 3 \<and> shown_to s' = 3"
    using first_publication [OF s1(1), of "example_run 200" example_kube] s1 example_main_starts
    unfolding Let_def by (auto simp: example_events_def)
  define s where "s = fold (sys_step example_kube) (MainStarts (example_run 200) # acts) s1"
  have reach: "reachable example_kube ?s0 s"
    unfolding s_def using own_acts_ok [OF acts] by (intro reachable_run r1) (simp add: act_ok_def)
  obtain snap where snap: "latestSnapshot (sys_agent s) = Some snap" using published by (auto simp: s_def Let_def)
  have "quiet s1" using s1(1,2) main_agent_latest [of example_main example_caps] by (simp add: quiet_def)
  from quiet_run [OF this acts, of example_kube "example_run 200"] snap have versions: "shown_versions s = pod_versions s" by (simp add: quiet_def s_def)
  have "snapshot_reflects example_kube example_events 3 3 snap"
    using cluster.reachable_inv [OF reach refl] published snap by (simp add: cluster_inv_def base_inv_def shown_inv_def s_def Let_def)
  then have "ClusterSnapshot.Pods snap \<noteq> []"
    by (auto simp: snapshot_reflects_def at_some_moment_iff Let_def reflects_def example_events_def example_objects [unfolded example_events_def]
        cluster_objects_def plain_kinds_def)
  then obtain p where p: "p \<in> set (ClusterSnapshot.Pods snap)" by (meson hd_in_set)
  from published_pods_share_containers [OF reach snap p] versions
  obtain q where "Get (Store.Pods (sys_store s)) (pod_id p) = Some q" "PodInfo.Containers q = PodInfo.Containers p" by auto
  with reach snap p show ?thesis by blast
qed

end
