(* ===== verification/Spec2Isabelle.thy ===== *)
theory Spec2Isabelle
  imports Fair_Runs Metric_Calls Node_Origin Resource_Collectors Sharing
begin

text \<open>
  Verification of the kubeadapt agent, a Go program that watches a Kubernetes cluster and
  sends a snapshot of it to a backend at regular intervals.

  \<^bold>\<open>The parts and how they interact.\<close> At the start the program reads its configuration, finds out
  what the cluster offers and on which cloud it runs, and registers its collectors. Informers
  call the handlers of 21 collectors, which convert the objects of the cluster and write them
  into typed stores; two more collectors poll the metrics-server and the exporters of GPU
  metrics. On every tick the agent lets the builder read the stores, merge usage and GPU data,
  enrich the result (owners, totals, targets, mounts) and compute a summary; it then fills in a
  health report and hands the snapshot to the transport client, which encodes, compresses and
  posts it with retries. Errors are kept in an error collector, the life cycle of the agent in
  a state machine. An HTTP server tells whether the agent is ready.

  \<^bold>\<open>Theories, and the code they model.\<close>
  \<^item> \<^verbatim>\<open>Go_Prelude\<close>, \<^verbatim>\<open>Float64\<close>, \<^verbatim>\<open>Go_Strings\<close>: the part of Go and of its standard library the
    program relies on. Integers are words of their width; maps are association lists whose
    iteration order is a parameter (\<open>order_ok\<close>: some permutation); times are integers of
    nanoseconds, durations 64-bit words; \<^verbatim>\<open>float64\<close> is exact IEEE rounding on rationals;
    strings are lists of bytes.
  \<^item> \<^verbatim>\<open>Model_*\<close>, \<^verbatim>\<open>Model\<close>: the structs of \<^verbatim>\<open>pkg/model\<close> as records.
  \<^item> \<^verbatim>\<open>Store\<close>: \<^verbatim>\<open>internal/store\<close>. The contract of a store is the locale \<open>kv_store\<close>; calls of
    several goroutines are interleavings of the steps before and after the lock.
  \<^item> \<^verbatim>\<open>Agent_Errors\<close>, \<^verbatim>\<open>State_Machine\<close>, \<^verbatim>\<open>Config\<close>, \<^verbatim>\<open>Observability\<close>: \<^verbatim>\<open>internal/errors\<close>,
    \<^verbatim>\<open>internal/agent/state.go\<close>, \<^verbatim>\<open>internal/config\<close>, \<^verbatim>\<open>internal/observability\<close>.
  \<^item> \<^verbatim>\<open>Kube_Types\<close>, \<^verbatim>\<open>Kube_Types_More\<close>: the fields of the Kubernetes API objects that the
    conversions read, and the library operations on quantities (record \<open>kube\<close>).
  \<^item> \<^verbatim>\<open>Convert_Core\<close>, \<^verbatim>\<open>Convert_Workload\<close>, \<^verbatim>\<open>Convert_Policy\<close>, \<^verbatim>\<open>Convert_Resources\<close>: \<^verbatim>\<open>internal/convert\<close>
    and the conversion in \<^verbatim>\<open>nodepools.go\<close>, function by function.
  \<^item> \<^verbatim>\<open>Informers\<close>: the handlers, the crash recovery and the health of
    \<^verbatim>\<open>internal/collector/resource\<close>, with the locale \<open>informer_store\<close>. \<^verbatim>\<open>Collectors\<close>: the 21
    collectors, their handlers on the stores and all of them together (\<open>dispatch\<close>), with the
    locale \<open>watched_kind\<close> that extends it, interpreted for each of them.
  \<^item> \<^verbatim>\<open>Polling\<close>: the goroutine of the polling collectors, with the locale \<open>polling\<close>;
    \<^verbatim>\<open>Metrics_Collector\<close>: \<^verbatim>\<open>internal/collector/metrics\<close>; \<^verbatim>\<open>Gpu\<close>, \<^verbatim>\<open>Gpu_Parser\<close>, \<^verbatim>\<open>Gpu_Collector\<close>:
    \<^verbatim>\<open>internal/collector/gpu\<close> (record, parser, scraper and collector).
  \<^item> \<^verbatim>\<open>Registry\<close>: \<^verbatim>\<open>internal/collector/registry.go\<close>.
  \<^item> \<^verbatim>\<open>Enrichment\<close>: \<^verbatim>\<open>internal/enrichment\<close>, with the locale \<open>enricher_contract\<close>.
  \<^item> \<^verbatim>\<open>Builder\<close>: \<^verbatim>\<open>internal/snapshot\<close>. What a build meets (the stores as each read finds them,
    iteration orders, clocks) is the record \<open>build_view\<close>.
  \<^item> \<^verbatim>\<open>Transport\<close>: \<^verbatim>\<open>internal/transport\<close>, with the locale \<open>request_decorator\<close>; JSON, zstd and
    the network are parameters.
  \<^item> \<^verbatim>\<open>Agent\<close>: \<^verbatim>\<open>internal/agent\<close>, with the locale \<open>snapshot_invariant\<close>; ticks and the end of the
    context are a list of events.
  \<^item> \<^verbatim>\<open>Cloud\<close>, \<^verbatim>\<open>Discovery\<close>, \<^verbatim>\<open>Health_Server\<close>: \<^verbatim>\<open>internal/cloud\<close>, \<^verbatim>\<open>internal/discovery\<close>,
    \<^verbatim>\<open>internal/health\<close>. \<^verbatim>\<open>Main_Program\<close>: \<^verbatim>\<open>cmd/agent/main.go\<close>.
  \<^item> \<^verbatim>\<open>System\<close>: the running program as a transition system. Its state (record \<open>system\<close>) has the
    stores, the pollers, the agent and the phase of the main goroutine, in the middle of a build
    with the reads made so far; a step is an event of an informer or a poller, the start, one
    read of one store, the rest of the builder, the end of a build, a tick or the end of the
    context, in any order. What \<^verbatim>\<open>readStores\<close> does between two reads is so left to the other
    goroutines. The fields \<open>history\<close>, \<open>polls\<close>, \<open>shown_from\<close>, \<open>shown_to\<close> and \<open>shown_versions\<close> only
    record what has happened. States are those that \<open>reachable\<close> reaches; an invariant is an
    interpretation of the locale \<open>system_invariant\<close>. A merge and the sending of a snapshot are one
    step. A build writes its figures into the containers of the pods it has read, and a slice is
    shared by its copies: the model writes them back into the stores and, where the array
    is the same, into the snapshot published before.
  \<^item> \<^verbatim>\<open>Published\<close>, \<^verbatim>\<open>Metric_Calls\<close>, \<^verbatim>\<open>Sharing\<close>, \<^verbatim>\<open>Usage_Origin\<close>, \<^verbatim>\<open>Node_Origin\<close>,
    \<^verbatim>\<open>Running_Agent\<close>: one invariant of the running program each: what the published snapshot
    shows, the calls on metrics, which pods share their containers, where the usage of
    pods and of nodes comes from, the phase of the main goroutine beside the state of the agent and the
    probes. \<^verbatim>\<open>Build_Progress\<close> and \<^verbatim>\<open>Fair_Runs\<close>: progress of one build by a measure, and of infinite
    runs in which no step of the main goroutine that can be made is put off for ever.
  \<^item> \<^verbatim>\<open>Resource_Collectors\<close>: the constructors and \<^verbatim>\<open>Start\<close> of the 21 collectors, with the resource that each
    informer watches, and the registrations of \<^verbatim>\<open>main\<close>. A run of \<open>System\<close> may have events of any kind;
    those of kinds that \<^verbatim>\<open>main\<close> does not register reach no handler, as is shown there.

  \<^bold>\<open>What is shown.\<close> The stores refine partial maps, also under concurrent calls; every store
  mirrors the objects of its kind in the cluster. In every reachable state of the program, the
  published snapshot shows the cluster as it was during the build, kind by kind; its
  usage figures were reported by the metrics-server for the containers and the nodes that carry them; it
  shares containers with a stored pod as long as no event has replaced that pod; every call on a metric has
  the kind and number of labels of its registration; the probes tell in which phase the agent is.
  A build ends, whatever runs in between, the first snapshot is published, and in a fair run
  ever newer snapshots are. An event of the cluster reaches the one collector registered for it, and
  the informers watch what the documented permissions grant. The summary, the workload totals, the targets and the GPU figures equal
  reference definitions. The parser of the exposition text inverts a printer. The transport
  client classifies every response and bounds its requests. The agent counts every snapshot
  once and sends one per tick; it never leaves its running state. Start, stop and readiness
  are related to which collectors come up. Where the code does not do what it means to, a
  theorem states what it does.

  \<^bold>\<open>Bounds and fuel.\<close> No definition uses fuel where the code has none: loops over lists are
  structural, the loops of the parsers terminate by the length of the text, the walk to an owner is bounded by
  ten in the code itself. The retry loops are bounded by the configuration. Goroutines that
  run for ever are folds over lists of events of any length.

  \<^bold>\<open>Not modelled.\<close> Logging; the exposition of the Prometheus metrics (their
  registration and the calls made on them are modelled); the Kubernetes clients, the informers' own caches, JSON and zstd encoding and the HTTP
  round trip, which are libraries and appear as parameters; \<^verbatim>\<open>tests/e2e\<close>, which is no part of
  the program. What \<^verbatim>\<open>float64\<close> to \<^verbatim>\<open>int64\<close> conversion gives outside the range of
  \<^verbatim>\<open>int64\<close> is left open by Go and is a parameter.

  This theory holds the properties that span the collectors, the stores, the builder and the
  registry: in every reachable state, the stores are those that the events leave, and the
  published snapshot shows the cluster.
\<close>

section \<open>The running program\<close>

text \<open>
  C10. In every state the program can reach, whatever the interleaving of informers, pollers and
  builds, the stores are those that the events so far leave, up to the usage figures that
  builds have written into the containers of pods: no build changes, adds or loses an object.
\<close>

theorem running_stores_refine_events:
  assumes "reachable K (main_system env caps) s"
  shows "plain (sys_store s) = plain (after_events K (time_at_start env) NewMetrics (history s))"
  using cluster.reachable_inv [OF assms refl] by (simp add: cluster_inv_def base_inv_def)

text \<open>The program after the events of the example, the start of the agent and the first reads of its first build.\<close>

definition example_acts :: "(nat, string) act list" where
  "example_acts = map (\<lambda>(now, ev). InformerEvent now ev) example_events @ [MainStarts (example_run 200), ReadsKind Of_Pods, ReadsKind Of_Nodes]"

lemma example_reachable:
  "reachable example_kube (main_system example_main example_caps)
     (fold (sys_step example_kube) example_acts (main_system example_main example_caps))"
  by (intro reachable_run reachable_start) (simp add: example_acts_def example_events_def act_ok_def)

lemma example_history:
  "history (fold (sys_step example_kube) example_acts (main_system example_main example_caps)) = example_events"
proof -
  have "history (sys_step K (ReadsKind k) s) = history s" "history (sys_step K (MainStarts e) s) = history s" for K k e and s :: "(nat, string) system"
    by (simp_all add: sys_step_def start_act_def begin_build_def Let_def case_prod_unfold split: main_phase.split)
  moreover have "history (sys_step K (InformerEvent now ev) s) = history s @ [(now, ev)]" for K now ev and s :: "(nat, string) system"
    by (simp add: sys_step_def informer_act_def Let_def case_prod_unfold)
  ultimately show ?thesis by (simp add: example_acts_def example_events_def main_system_def)
qed

theorem running_stores_refine_events_witness:
  "let s = fold (sys_step example_kube) example_acts (main_system example_main example_caps)
   in items (bare_pods (Store.Pods (sys_store s))) = [(''prod/web-2'', PodToModel example_kube (example_pod ''web-2'' ''node-a''))]"
proof -
  let ?s = "fold (sys_step example_kube) example_acts (main_system example_main example_caps)"
  have "plain (sys_store ?s) = plain (after_events example_kube 0 NewMetrics example_events)"
    using running_stores_refine_events [OF example_reachable] unfolding example_history by (simp add: example_main_def)
  then have eq: "bare_pods (Store.Pods (sys_store ?s)) = bare_pods (Store.Pods (after_events example_kube 0 NewMetrics example_events))"
    by (metis plain_fields(1))
  have "items (Store.Pods (after_events example_kube 0 NewMetrics example_events)) =
      [(''prod/web-2'', PodToModel example_kube (example_pod ''web-2'' ''node-a''))]"
    by (simp add: after_events_def example_events_def dispatch_def collector_handles handle_event_def store_object_def Let_def
        case_prod_unfold Set_def set_items_def Delete_def delete_items_def stamp_def NewTypedStore_def map_set_def map_del_def
        Pod_okey_def podKey_def example_pod_def)
  then show ?thesis unfolding Let_def eq by (simp add: bare_pods_def)
qed

text \<open>
  C2. A snapshot that the program has published shows the cluster as it was during its build,
  in every reachable state and whatever ran in between: for each of 18 kinds, and for
  the pods up to owner and usage, it holds exactly the conversions of the objects that the
  cluster had at some moment between the beginning and the end of the build; its nodes are
  all those of one such moment, and each of them was there at some such moment.
\<close>

theorem published_snapshot_shows_cluster:
  assumes "reachable K (main_system env caps) s" and "latestSnapshot (sys_agent s) = Some snap"
  shows "shown_from s \<le> shown_to s \<and> shown_to s \<le> length (history s)
       \<and> snapshot_reflects K (history s) (shown_from s) (shown_to s) snap"
  using cluster.reachable_inv [OF assms(1) refl] assms(2) by (simp add: cluster_inv_def base_inv_def shown_inv_def)

text \<open>After the events of the example the agent starts and publishes its first snapshot: it has the one pod that is left.\<close>

theorem published_snapshot_shows_cluster_witness:
  "\<exists>s snap. reachable example_kube (main_system example_main example_caps) s \<and> latestSnapshot (sys_agent s) = Some snap
     \<and> map PodInfo.Name (ClusterSnapshot.Pods snap) = [''web-2'']"
proof -
  let ?s0 = "main_system example_main example_caps :: (nat, string) system"
  let ?events = "map (\<lambda>(now, ev). InformerEvent now ev) example_events :: (nat, string) act list"
  let ?s1 = "fold (sys_step example_kube) ?events ?s0"
  have cs: "list_all collector_act ?events" by (simp add: example_events_def collector_act_def)
  have s1: "main_phase ?s1 = MainIdle" "sys_agent ?s1 = main_agent example_main example_caps" "history ?s1 = example_events"
    using collector_acts_leave_agent [OF cs, of example_kube ?s0]
    by (simp_all add: main_system_def example_events_def sys_step_def informer_act_def Let_def case_prod_unfold)
  obtain acts where acts: "list_all own_act acts" and published: "let s' = fold (sys_step example_kube) (MainStarts (example_run 200) # acts) ?s1
      in latestSnapshot (sys_agent s') \<noteq> None \<and> history s' = example_events \<and> shown_from s' = 3 \<and> shown_to s' = 3"
    using first_publication [OF s1(1), of "example_run 200" example_kube] s1 example_main_starts
    unfolding Let_def by (auto simp: example_events_def)
  define s where "s = fold (sys_step example_kube) (?events @ MainStarts (example_run 200) # acts) ?s0"
  have "list_all act_ok (?events @ MainStarts (example_run 200) # acts)"
    using collector_acts_ok [OF cs] own_acts_ok [OF acts] by (simp add: act_ok_def)
  then have reach: "reachable example_kube ?s0 s" unfolding s_def by (intro reachable_run reachable_start)
  obtain snap where snap: "latestSnapshot (sys_agent s) = Some snap" using published by (auto simp: s_def Let_def)
  have "snapshot_reflects example_kube example_events 3 3 snap"
    using published_snapshot_shows_cluster [OF reach snap] published by (simp add: s_def Let_def)
  then have "reflects (map bare (ClusterSnapshot.Pods (plain_kinds snap))) (disown \<circ> PodToModel example_kube) (objects Pod_of Pod_okey (take 3 example_events))"
    by (auto simp: snapshot_reflects_def at_some_moment_iff Let_def)
  moreover have "take 3 example_events = example_events" by (simp add: example_events_def)
  ultimately have "mset (map bare (map disown (ClusterSnapshot.Pods snap))) = {#disown (PodToModel example_kube (example_pod ''web-2'' ''node-a''))#}"
    by (simp add: reflects_def example_objects cluster_objects_def plain_kinds_def)
  then have "map bare (map disown (ClusterSnapshot.Pods snap)) = [disown (PodToModel example_kube (example_pod ''web-2'' ''node-a''))]"
    by (simp only: mset_single_iff)
  then have "map PodInfo.Name (map bare (map disown (ClusterSnapshot.Pods snap))) = [''web-2'']" by (simp add: example_pod_def)
  moreover have "map PodInfo.Name (map bare (map disown ps)) = map PodInfo.Name ps" for ps by (simp add: bare_def)
  ultimately have "map PodInfo.Name (ClusterSnapshot.Pods snap) = [''web-2'']" by (simp only:)
  with reach snap show ?thesis by (intro exI [of _ s] exI [of _ snap] conjI)
qed

section \<open>Stopping after a partial start\<close>

text \<open>
  C26. When some collectors fail to start, the agent goes on with the others; but when its
  context is done, \<^verbatim>\<open>StopAll\<close> also stops the informer collectors that did not start, and that
  call never returns, whatever happens after: \<^verbatim>\<open>Stop\<close> waits for a goroutine that was never
  started.
\<close>

theorem partial_start_blocks_shutdown:
  assumes "c = informer_Collector name (Some err) cache i" and "c \<in> set (collectors r)"
  shows "c \<in> set (fst (StopAll (snd (StartAll ord r))))
       \<and> \<not> informer_Stop_returns (fold informer_step (InfStart (Start c) # as @ [InfStop] @ as') new_informer)"
proof
  have "started (snd (StartAll ord r)) \<and> collectors (snd (StartAll ord r)) = collectors r"
    by (simp add: StartAll_def Let_def)
  with assms(2) show "c \<in> set (fst (StopAll (snd (StartAll ord r))))" by (simp add: StopAll_def)
  obtain e where e: "Start c = Some e" using assms(1) by (simp add: informer_Collector_def)
  show "\<not> informer_Stop_returns (fold informer_step (InfStart (Start c) # as @ [InfStop] @ as') new_informer)"
    unfolding e by (rule failed_start_never_done)
qed

theorem partial_start_blocks_shutdown_witness:
  "let c = PodCollector (Some (Errorf ''informer was stopped'' None)) False new_informer;
       r = Register c (Register (NodeCollector None True new_informer) NewRegistry)
   in c \<in> set (fst (StopAll (snd (StartAll (\<lambda>n. [0..<n]) r))))
    \<and> \<not> informer_Stop_returns (fold informer_step (InfStart (Start c) # [] @ [InfStop] @ [RunReturns, SleepOver]) new_informer)"
  unfolding Let_def
  by (rule partial_start_blocks_shutdown [of _ "''pods''" "Errorf ''informer was stopped'' None" False new_informer])
    (simp_all add: PodCollector_def Register_def NewRegistry_def)

section \<open>A store that nobody fills\<close>

lemma custom_workloads_untouched:
  "Store.CustomWorkloads (fst (dispatch K now e sm)) = Store.CustomWorkloads (fst sm)"
  by (cases e; cases sm) (simp_all add: dispatch_def collector_handles case_prod_unfold Let_def)

text \<open>
  No collector writes the store of custom workloads: whatever happens in the cluster it stays
  as it was made, empty and with the time stamp of the start.
\<close>

theorem custom_workloads_never_filled:
  "Store.CustomWorkloads (after_events K t m evs) = NewTypedStore t"
proof -
  have "Store.CustomWorkloads (fst (fold (\<lambda>(now, e). dispatch K now e) evs sm)) = Store.CustomWorkloads (fst sm)" for sm
    by (induction evs arbitrary: sm) (auto simp: custom_workloads_untouched)
  from this [of "(NewStore t, m)"] show ?thesis by (simp add: after_events_def NewStore_def)
qed

end
